(* ===== verification/Prelude.thy ===== *)
theory Prelude
  imports Main "HOL-Library.AList" "HOL-Library.Multiset"
begin

text \<open>
  Shared vocabulary of the development: the effect type of a Go function (state passing,
  early return with an error, run-time panic or process exit, and loops that may never end),
  the reasoning rules for it, and Go maps as association lists with their interface locale.

  A Go function that may touch the host, the driver's global variables or fail is a value of
  type \<open>('s, 'e, 'a) go\<close>: from the state before it gives the outcome and the state after, or
  \<open>None\<close> when it does not return. \<open>Done\<close> is a normal return, \<open>Fail\<close> a return whose
  \<open>error\<close> result is not nil, \<open>Crash\<close> a run-time panic or \<open>glog.Fatal\<close>: the process is gone.
\<close>

section \<open>Outcomes and sequencing\<close>

datatype ('e, 'a) outcome = Done 'a | Fail 'e | Crash string

type_synonym ('s, 'e, 'a) go = "'s \<Rightarrow> (('e, 'a) outcome \<times> 's) option"

definition ret :: "'a \<Rightarrow> ('s, 'e, 'a) go" where
  "ret a s = Some (Done a, s)"

definition throw :: "'e \<Rightarrow> ('s, 'e, 'a) go" where
  "throw e s = Some (Fail e, s)"

definition panic :: "string \<Rightarrow> ('s, 'e, 'a) go" where
  "panic m s = Some (Crash m, s)"

definition gets :: "('s \<Rightarrow> 'a) \<Rightarrow> ('s, 'e, 'a) go" where
  "gets f s = Some (Done (f s), s)"

definition modify :: "('s \<Rightarrow> 's) \<Rightarrow> ('s, 'e, unit) go" where
  "modify f s = Some (Done (), f s)"

definition bnd :: "('s, 'e, 'a) go \<Rightarrow> ('a \<Rightarrow> ('s, 'e, 'b) go) \<Rightarrow> ('s, 'e, 'b) go" where
  "bnd m f s = Option.bind (m s) (\<lambda>(r, s').
     case r of Done a \<Rightarrow> f a s' | Fail e \<Rightarrow> Some (Fail e, s') | Crash p \<Rightarrow> Some (Crash p, s'))"

text \<open>
  \<open>v, err := f()\<close> followed by an inspection of \<open>err\<close>: the error becomes a value.
\<close>

definition attempt :: "('s, 'e, 'a) go \<Rightarrow> ('s, 'e, 'e + 'a) go" where
  "attempt m s = Option.bind (m s) (\<lambda>(r, s').
     case r of Done a \<Rightarrow> Some (Done (Inr a), s') | Fail e \<Rightarrow> Some (Done (Inl e), s')
     | Crash p \<Rightarrow> Some (Crash p, s'))"

text \<open>\<open>if c { return nil, e }\<close>\<close>

definition failIf :: "bool \<Rightarrow> 'e \<Rightarrow> ('s, 'e, unit) go" where
  "failIf c e = (if c then throw e else ret ())"

text \<open>\<open>for _, x := range xs { f(x) }\<close>\<close>

fun forEach :: "'x list \<Rightarrow> ('x \<Rightarrow> ('s, 'e, unit) go) \<Rightarrow> ('s, 'e, unit) go" where
  "forEach [] f = ret ()"
| "forEach (x # xs) f = bnd (f x) (\<lambda>_. forEach xs f)"

lemma bnd_mono [partial_function_mono]:
  assumes "\<And>s. mono_option (\<lambda>f. m f s)" and "\<And>a s. mono_option (\<lambda>f. g f a s)"
  shows "mono_option (\<lambda>f. bnd (m f) (g f) s)"
  unfolding bnd_def
proof (rule bind_mono [OF assms(1)], goal_cases)
  case (1 y)
  then show ?case
    by (cases y; cases "fst y") (auto intro: assms(2) option.const_mono)
qed

text \<open>
  \<open>for { body }\<close>: the body says with \<open>Some v\<close> that the loop is left with \<open>v\<close>; a loop that is
  never left has the value \<open>None\<close>.
\<close>

partial_function (option) loopG :: "('s, 'e, 'v option) go \<Rightarrow> 's \<Rightarrow> (('e, 'v) outcome \<times> 's) option" where
  "loopG body s = bnd body (\<lambda>r. case r of Some v \<Rightarrow> ret v | None \<Rightarrow> loopG body) s"

declare loopG.simps [code]

section \<open>Evaluation of the combinators\<close>

named_theorems go_simps \<open>one step of a Go function\<close>

lemma ret_apply [go_simps]: "ret a s = Some (Done a, s)"
  by (simp add: ret_def)

lemma throw_apply [go_simps]: "throw e s = Some (Fail e, s)"
  by (simp add: throw_def)

lemma panic_apply [go_simps]: "panic m s = Some (Crash m, s)"
  by (simp add: panic_def)

lemma gets_apply [go_simps]: "gets f s = Some (Done (f s), s)"
  by (simp add: gets_def)

lemma modify_apply [go_simps]: "modify f s = Some (Done (), f s)"
  by (simp add: modify_def)

lemma bnd_apply [go_simps]:
  "bnd m f s = (case m s of None \<Rightarrow> None
     | Some (r, s') \<Rightarrow> (case r of Done a \<Rightarrow> f a s' | Fail e \<Rightarrow> Some (Fail e, s')
                        | Crash p \<Rightarrow> Some (Crash p, s')))"
  by (auto simp: bnd_def split: option.splits prod.splits)

lemma attempt_apply [go_simps]:
  "attempt m s = (case m s of None \<Rightarrow> None
     | Some (r, s') \<Rightarrow> (case r of Done a \<Rightarrow> Some (Done (Inr a), s')
                        | Fail e \<Rightarrow> Some (Done (Inl e), s') | Crash p \<Rightarrow> Some (Crash p, s')))"
  by (auto simp: attempt_def split: option.splits prod.splits)

lemma failIf_apply [go_simps]:
  "failIf c e s = (if c then Some (Fail e, s) else Some (Done (), s))"
  by (simp add: failIf_def go_simps)

text \<open>The sequencing laws: a function body may be cut at any statement.\<close>

lemma bnd_ret_left [simp]: "bnd (ret a) f = f a"
  by (rule ext) (simp add: go_simps)

lemma bnd_throw_left [simp]: "bnd (throw e) f = throw e"
  by (rule ext) (simp add: go_simps)

lemma bnd_panic_left [simp]: "bnd (panic m) f = panic m"
  by (rule ext) (simp add: go_simps)

lemma bnd_ret_right [simp]: "bnd m ret = m"
  by (rule ext) (auto simp: go_simps split: option.splits outcome.splits)

lemma bnd_assoc: "bnd (bnd m f) g = bnd m (\<lambda>a. bnd (f a) g)"
  by (rule ext) (auto simp: go_simps split: option.splits outcome.splits)

lemma failIf_True [simp]: "failIf True e = throw e"
  and failIf_False [simp]: "failIf False e = ret ()"
  by (simp_all add: failIf_def)

lemma bnd_eq_SomeE:
  assumes "bnd m f s = Some (r, s')"
  obtains (Done) a t where "m s = Some (Done a, t)" "f a t = Some (r, s')"
    | (Fail) e where "m s = Some (Fail e, s')" "r = Fail e"
    | (Crash) p where "m s = Some (Crash p, s')" "r = Crash p"
  using assms by (auto simp: go_simps split: option.splits outcome.splits)

lemma bnd_eq_DoneE:
  assumes "bnd m f s = Some (Done b, s')"
  obtains a t where "m s = Some (Done a, t)" "f a t = Some (Done b, s')"
  using assms by (auto simp: go_simps split: option.splits outcome.splits)

section \<open>Loops\<close>

text \<open>
  \<open>iterG body n s\<close>: the state after \<open>n\<close> rounds none of which leaves the loop.
\<close>

definition goesOn :: "('s, 'e, 'v option) go \<Rightarrow> 's \<Rightarrow> 's option" where
  "goesOn body s = (case body s of Some (Done None, s') \<Rightarrow> Some s' | _ \<Rightarrow> None)"

fun iterG :: "('s, 'e, 'v option) go \<Rightarrow> nat \<Rightarrow> 's \<Rightarrow> 's option" where
  "iterG body 0 s = Some s"
| "iterG body (Suc n) s = Option.bind (goesOn body s) (\<lambda>t. iterG body n t)"

lemma goesOn_eq_Some: "goesOn body s = Some t \<longleftrightarrow> body s = Some (Done None, t)"
  by (auto simp: goesOn_def split: option.splits outcome.splits prod.splits)

lemma loopG_stop:
  "body s = Some (Done (Some v), s') \<Longrightarrow> loopG body s = Some (Done v, s')"
  by (simp add: loopG.simps [of body s] go_simps)

lemma loopG_again:
  "body s = Some (Done None, s') \<Longrightarrow> loopG body s = loopG body s'"
  by (simp add: loopG.simps [of body s] go_simps)

lemma loopG_iterG:
  "iterG body n s = Some s' \<Longrightarrow> loopG body s = loopG body s'"
  by (induction n arbitrary: s) (auto simp: loopG_again goesOn_eq_Some bind_eq_Some_conv)

text \<open>How a round that leaves the loop ends it; \<open>None\<close> for a round that goes on.\<close>

fun leaves :: "('e, 'v option) outcome \<Rightarrow> ('e, 'v) outcome option" where
  "leaves (Done None) = None"
| "leaves (Done (Some v)) = Some (Done v)"
| "leaves (Fail e) = Some (Fail e)"
| "leaves (Crash p) = Some (Crash p)"

lemma loopG_leaves:
  "body s = Some (r, s') \<Longrightarrow> leaves r = Some r' \<Longrightarrow> loopG body s = Some (r', s')"
  by (cases r rule: leaves.cases) (auto simp: loopG.simps [of body s] go_simps)

lemma iterG_Suc_end: "iterG body (Suc n) s = Option.bind (iterG body n s) (goesOn body)"
proof (induction n arbitrary: s)
  case 0
  show ?case by (cases "goesOn body s") simp_all
next
  case (Suc n)
  show ?case by (cases "goesOn body s") (use Suc in simp_all)
qed

text \<open>A loop returns exactly when, after some rounds that go on, a round leaves it.\<close>

lemma loopG_returns:
  assumes "iterG body n s = Some t" and "body t = Some (r, s')" and "leaves r = Some r'"
  shows "loopG body s = Some (r', s')"
  using loopG_iterG [OF assms(1)] loopG_leaves [of body t r s' r'] assms(2,3) by simp

lemma loopG_SomeD:
  assumes "loopG body s = Some (r, s')"
  shows "\<exists>n t r'. iterG body n s = Some t \<and> body t = Some (r', s') \<and> leaves r' = Some r"
proof -
  let ?P = "\<lambda>body s x. \<exists>n t r'. iterG body n s = Some t \<and> body t = Some (r', snd x)
              \<and> leaves r' = Some (fst x)"
  have "?P body s (r, s')"
  proof (rule loopG.raw_induct [where P = ?P, OF _ assms])
    fix loop body s y
    assume IH: "\<And>body s y. loop body s = Some y \<Longrightarrow> ?P body s y"
      and eq: "bnd body (\<lambda>r. case r of None \<Rightarrow> loop body | Some v \<Rightarrow> ret v) s = Some y"
    obtain r s' where y: "y = (r, s')" by force
    from eq [unfolded y] have "?P body s (r, s')"
    proof (cases rule: bnd_eq_SomeE)
      case (Done a t)
      show "?P body s (r, s')"
      proof (cases a)
        case None
        with Done(2) have "?P body t (r, s')" by (intro IH) simp
        then obtain n u r' where u: "iterG body n t = Some u"
          "body u = Some (r', s')" "leaves r' = Some r" by auto
        from None Done(1) u(1) have "iterG body (Suc n) s = Some u"
          by (simp add: goesOn_def)
        with u(2,3) show ?thesis by (metis fst_conv snd_conv)
      next
        case (Some v)
        with Done show ?thesis by (intro exI [of _ 0]) (auto simp: go_simps)
      qed
    next
      case (Fail e)
      then show "?P body s (r, s')" by (intro exI [of _ 0]) auto
    next
      case (Crash p)
      then show "?P body s (r, s')" by (intro exI [of _ 0]) auto
    qed
    then show "?P body s y" by (simp only: y)
  qed
  then show ?thesis by simp
qed

lemma loopG_diverges:
  assumes "\<And>n. \<exists>t. iterG body n s = Some t"
  shows "loopG body s = None"
proof (rule ccontr)
  assume "loopG body s \<noteq> None"
  then obtain r s' where "loopG body s = Some (r, s')" by auto
  from loopG_SomeD [OF this] obtain n t r' where
    n: "iterG body n s = Some t" and t: "body t = Some (r', s')" "leaves r' = Some r"
    by blast
  obtain u where "iterG body (Suc n) s = Some u" using assms by blast
  with n t show False
    by (cases r' rule: leaves.cases) (auto simp: iterG_Suc_end goesOn_eq_Some simp del: iterG.simps)
qed

section \<open>What a function leaves alone, and how it can end\<close>

text \<open>
  \<open>frame f m\<close>: whatever \<open>m\<close> does, the part \<open>f\<close> of the state is afterwards what it was before.
  \<open>ends P m\<close>: every outcome of \<open>m\<close> satisfies \<open>P\<close>. Both pass through sequencing, so a
  function body is settled by the rules below, one per statement.
\<close>

named_theorems frame_rules \<open>introduction rules for frame\<close>
named_theorems ends_rules \<open>introduction rules for ends\<close>

definition frame :: "('s \<Rightarrow> 'b) \<Rightarrow> ('s, 'e, 'a) go \<Rightarrow> bool" where
  "frame f m \<longleftrightarrow> (\<forall>s r s'. m s = Some (r, s') \<longrightarrow> f s' = f s)"

definition ends :: "(('e, 'a) outcome \<Rightarrow> bool) \<Rightarrow> ('s, 'e, 'a) go \<Rightarrow> bool" where
  "ends P m \<longleftrightarrow> (\<forall>s r s'. m s = Some (r, s') \<longrightarrow> P r)"

lemma frameI: "(\<And>s r s'. m s = Some (r, s') \<Longrightarrow> f s' = f s) \<Longrightarrow> frame f m"
  by (auto simp: frame_def)

lemma frameD: "frame f m \<Longrightarrow> m s = Some (r, s') \<Longrightarrow> f s' = f s"
  by (auto simp: frame_def)

lemma endsI: "(\<And>s r s'. m s = Some (r, s') \<Longrightarrow> P r) \<Longrightarrow> ends P m"
  by (auto simp: ends_def)

lemma endsD: "ends P m \<Longrightarrow> m s = Some (r, s') \<Longrightarrow> P r"
  by (auto simp: ends_def)

lemma ends_mono: "ends P m \<Longrightarrow> (\<And>r. P r \<Longrightarrow> Q r) \<Longrightarrow> ends Q m"
  by (auto simp: ends_def)

lemma frame_ret [frame_rules]: "frame f (ret a)"
  and frame_throw [frame_rules]: "frame f (throw e)"
  and frame_panic [frame_rules]: "frame f (panic p)"
  and frame_gets [frame_rules]: "frame f (gets g)"
  and frame_failIf [frame_rules]: "frame f (failIf c e)"
  by (auto simp: frame_def go_simps split: if_splits)

lemma frame_modify: "(\<And>s. f (g s) = f s) \<Longrightarrow> frame f (modify g)"
  by (auto simp: frame_def go_simps)

lemma frame_bnd [frame_rules]:
  assumes m: "frame f m" and g: "\<And>a. frame f (g a)"
  shows "frame f (bnd m g)"
proof (rule frameI)
  fix s r s'
  assume "bnd m g s = Some (r, s')"
  then show "f s' = f s"
  proof (cases rule: bnd_eq_SomeE)
    case (Done a t)
    from frameD [OF g Done(2)] frameD [OF m Done(1)] show ?thesis by (rule trans)
  qed (auto dest: frameD [OF m])
qed

lemma frame_attempt [frame_rules]: "frame f m \<Longrightarrow> frame f (attempt m)"
  by (rule frameI)
     (auto simp: go_simps dest: frameD split: option.splits outcome.splits)

lemma frame_forEach [frame_rules]: "(\<And>x. frame f (g x)) \<Longrightarrow> frame f (forEach xs g)"
  by (induction xs) (auto intro: frame_rules)

lemma frame_if [frame_rules]:
  "(c \<Longrightarrow> frame f m) \<Longrightarrow> (\<not> c \<Longrightarrow> frame f n) \<Longrightarrow> frame f (if c then m else n)"
  by simp

lemma frame_option [frame_rules]:
  "(x = None \<Longrightarrow> frame f m) \<Longrightarrow> (\<And>y. x = Some y \<Longrightarrow> frame f (g y)) \<Longrightarrow>
   frame f (case x of None \<Rightarrow> m | Some y \<Rightarrow> g y)"
  by (cases x) auto

lemma frame_sum [frame_rules]:
  "(\<And>e. x = Inl e \<Longrightarrow> frame f (g e)) \<Longrightarrow> (\<And>y. x = Inr y \<Longrightarrow> frame f (h y)) \<Longrightarrow>
   frame f (case x of Inl e \<Rightarrow> g e | Inr y \<Rightarrow> h y)"
  by (cases x) auto

lemma frame_prod [frame_rules]:
  "(\<And>a b. frame f (g a b)) \<Longrightarrow> frame f (case p of (a, b) \<Rightarrow> g a b)"
  by (cases p) auto

lemma frame_Let [frame_rules]: "(\<And>x. frame f (g x)) \<Longrightarrow> frame f (Let t g)"
  by (simp add: Let_def)

lemma frame_iterG:
  assumes "frame f body" and "iterG body n s = Some t"
  shows "f t = f s"
  using assms(2)
proof (induction n arbitrary: s)
  case (Suc n)
  then obtain u where "body s = Some (Done None, u)" "iterG body n u = Some t"
    by (auto simp: bind_eq_Some_conv goesOn_eq_Some)
  with Suc.IH frameD [OF assms(1)] show ?case by metis
qed simp

lemma frame_loopG [frame_rules]: "frame f body \<Longrightarrow> frame f (loopG body)"
proof (rule frameI)
  fix s r s'
  assume body: "frame f body" and "loopG body s = Some (r, s')"
  from loopG_SomeD [OF this(2)] obtain n t r' where
    "iterG body n s = Some t" "body t = Some (r', s')" by blast
  with frame_iterG [OF body] frameD [OF body] show "f s' = f s" by metis
qed

abbreviation isDone :: "('e, 'a) outcome \<Rightarrow> bool" where
  "isDone r \<equiv> (\<exists>a. r = Done a)"

text \<open>\<open>noFail m\<close>: the \<open>error\<close> result of \<open>m\<close> is always nil.\<close>

abbreviation noFail :: "('s, 'e, 'a) go \<Rightarrow> bool" where
  "noFail m \<equiv> ends (\<lambda>r. \<forall>e. r \<noteq> Fail e) m"

lemma noFail_ret [ends_rules]: "noFail (ret a)"
  and noFail_panic [ends_rules]: "noFail (panic p)"
  and noFail_gets [ends_rules]: "noFail (gets g)"
  and noFail_modify [ends_rules]: "noFail (modify h)"
  and noFail_attempt [ends_rules]: "noFail (attempt m)"
  by (auto simp: ends_def go_simps split: option.splits outcome.splits)

lemma noFail_bnd [ends_rules]: "noFail m \<Longrightarrow> (\<And>a. noFail (g a)) \<Longrightarrow> noFail (bnd m g)"
  by (rule endsI) (auto elim!: bnd_eq_SomeE dest: endsD)

lemma noFail_forEach [ends_rules]: "(\<And>x. noFail (g x)) \<Longrightarrow> noFail (forEach xs g)"
  by (induction xs) (auto intro: ends_rules)

lemma ends_if [ends_rules]:
  "(c \<Longrightarrow> ends P m) \<Longrightarrow> (\<not> c \<Longrightarrow> ends P n) \<Longrightarrow> ends P (if c then m else n)"
  by simp

lemma ends_option [ends_rules]:
  "(x = None \<Longrightarrow> ends P m) \<Longrightarrow> (\<And>y. x = Some y \<Longrightarrow> ends P (g y)) \<Longrightarrow>
   ends P (case x of None \<Rightarrow> m | Some y \<Rightarrow> g y)"
  by (cases x) auto

lemma ends_sum [ends_rules]:
  "(\<And>e. x = Inl e \<Longrightarrow> ends P (g e)) \<Longrightarrow> (\<And>y. x = Inr y \<Longrightarrow> ends P (h y)) \<Longrightarrow>
   ends P (case x of Inl e \<Rightarrow> g e | Inr y \<Rightarrow> h y)"
  by (cases x) auto

lemma ends_prod [ends_rules]:
  "(\<And>a b. ends P (g a b)) \<Longrightarrow> ends P (case p of (a, b) \<Rightarrow> g a b)"
  by (cases p) auto

lemma ends_Let [ends_rules]: "(\<And>x. ends P (g x)) \<Longrightarrow> ends P (Let t g)"
  by (simp add: Let_def)

lemma noFail_loopG [ends_rules]: "noFail body \<Longrightarrow> noFail (loopG body)"
proof (rule endsI)
  fix s r s'
  assume body: "noFail body" and "loopG body s = Some (r, s')"
  from loopG_SomeD [OF this(2)] obtain t r' where
    "body t = Some (r', s')" "leaves r' = Some r" by blast
  with endsD [OF body] show "\<forall>e. r \<noteq> Fail e" by (cases r' rule: leaves.cases) auto
qed

section \<open>Invariants\<close>

text \<open>\<open>keeps I m\<close>: \<open>I\<close> holds after \<open>m\<close>, however it ends, if it held before.\<close>

named_theorems keeps_rules \<open>introduction rules for keeps\<close>

definition keeps :: "('s \<Rightarrow> bool) \<Rightarrow> ('s, 'e, 'a) go \<Rightarrow> bool" where
  "keeps I m \<longleftrightarrow> (\<forall>s r s'. I s \<longrightarrow> m s = Some (r, s') \<longrightarrow> I s')"

lemma keepsI: "(\<And>s r s'. I s \<Longrightarrow> m s = Some (r, s') \<Longrightarrow> I s') \<Longrightarrow> keeps I m"
  by (auto simp: keeps_def)

lemma keepsD: "keeps I m \<Longrightarrow> m s = Some (r, s') \<Longrightarrow> I s \<Longrightarrow> I s'"
  by (auto simp: keeps_def)

lemma keeps_frame: "frame f m \<Longrightarrow> (\<And>s t. f s = f t \<Longrightarrow> I s \<longleftrightarrow> I t) \<Longrightarrow> keeps I m"
  by (rule keepsI) (metis frameD)

lemma keeps_ret [keeps_rules]: "keeps I (ret a)"
  and keeps_throw [keeps_rules]: "keeps I (throw e)"
  and keeps_panic [keeps_rules]: "keeps I (panic p)"
  and keeps_gets [keeps_rules]: "keeps I (gets g)"
  and keeps_failIf [keeps_rules]: "keeps I (failIf c e)"
  by (auto simp: keeps_def go_simps split: if_splits)

lemma keeps_bnd:
  assumes "keeps I m" and "\<And>a. keeps I (g a)"
  shows "keeps I (bnd m g)"
proof (rule keepsI)
  fix s r s'
  assume "I s" and "bnd m g s = Some (r, s')"
  from this(2) show "I s'"
    by (cases rule: bnd_eq_SomeE) (use \<open>I s\<close> assms in \<open>auto dest: keepsD\<close>)
qed

text \<open>After a passed check its condition is known.\<close>

lemma keeps_bnd_failIf: "(\<not> c \<Longrightarrow> keeps I (g ())) \<Longrightarrow> keeps I (bnd (failIf c e) g)"
  by (cases c) (auto intro: keeps_rules)

lemma keeps_attempt [keeps_rules]: "keeps I m \<Longrightarrow> keeps I (attempt m)"
  by (auto simp: keeps_def go_simps split: option.splits outcome.splits)

lemma keeps_if [keeps_rules]:
  "(c \<Longrightarrow> keeps I m) \<Longrightarrow> (\<not> c \<Longrightarrow> keeps I n) \<Longrightarrow> keeps I (if c then m else n)"
  by simp

lemma keeps_option [keeps_rules]:
  "(x = None \<Longrightarrow> keeps I m) \<Longrightarrow> (\<And>y. x = Some y \<Longrightarrow> keeps I (g y)) \<Longrightarrow>
   keeps I (case x of None \<Rightarrow> m | Some y \<Rightarrow> g y)"
  by (cases x) auto

lemma keeps_sum [keeps_rules]:
  "(\<And>e. x = Inl e \<Longrightarrow> keeps I (g e)) \<Longrightarrow> (\<And>y. x = Inr y \<Longrightarrow> keeps I (h y)) \<Longrightarrow>
   keeps I (case x of Inl e \<Rightarrow> g e | Inr y \<Rightarrow> h y)"
  by (cases x) auto

lemma keeps_prod [keeps_rules]:
  "(\<And>a b. keeps I (g a b)) \<Longrightarrow> keeps I (case p of (a, b) \<Rightarrow> g a b)"
  by (cases p) auto

lemma keeps_Let [keeps_rules]: "(\<And>x. x = t \<Longrightarrow> keeps I (g x)) \<Longrightarrow> keeps I (Let t g)"
  by (simp add: Let_def)

lemmas keeps_seq = keeps_bnd_failIf keeps_bnd

end
