(* ===== verification/GoStrings.thy ===== *)
theory GoStrings
  imports Prelude "HOL-Library.Word"
begin

text \<open>
  The part of Go's standard library the driver computes with: packages strings, strconv,
  path/filepath, regexp, encoding/hex and net/url, as executable functions on byte strings
  (\<open>string\<close>: one \<open>char\<close> per byte), with the facts the components use. Integers are \<open>int\<close>;
  where Go's 64-bit \<open>int\<close> wraps, \<open>wrap64\<close> says so.
\<close>

section \<open>Package strings\<close>

definition hasPrefix :: "string \<Rightarrow> string \<Rightarrow> bool" where
  "hasPrefix s p \<longleftrightarrow> take (length p) s = p"

definition hasSuffix :: "string \<Rightarrow> string \<Rightarrow> bool" where
  "hasSuffix s p \<longleftrightarrow> length p \<le> length s \<and> drop (length s - length p) s = p"

definition trimSuffix :: "string \<Rightarrow> string \<Rightarrow> string" where
  "trimSuffix s p = (if hasSuffix s p then take (length s - length p) s else s)"

fun indexFrom :: "nat \<Rightarrow> string \<Rightarrow> string \<Rightarrow> nat option" where
  "indexFrom i [] sub = (if sub = [] then Some i else None)"
| "indexFrom i (c # s) sub = (if hasPrefix (c # s) sub then Some i else indexFrom (Suc i) s sub)"

text \<open>\<open>strings.Index\<close>; \<open>None\<close> is the result -1.\<close>

definition index :: "string \<Rightarrow> string \<Rightarrow> nat option" where
  "index s sub = indexFrom 0 s sub"

fun lastIndexFrom :: "nat \<Rightarrow> string \<Rightarrow> string \<Rightarrow> nat option" where
  "lastIndexFrom i [] sub = (if sub = [] then Some i else None)"
| "lastIndexFrom i (c # s) sub =
     (case lastIndexFrom (Suc i) s sub of Some j \<Rightarrow> Some j
      | None \<Rightarrow> if hasPrefix (c # s) sub then Some i else None)"

definition lastIndex :: "string \<Rightarrow> string \<Rightarrow> nat option" where
  "lastIndex s sub = lastIndexFrom 0 s sub"

definition contains :: "string \<Rightarrow> string \<Rightarrow> bool" where
  "contains s sub \<longleftrightarrow> index s sub \<noteq> None"

text \<open>\<open>s[strings.LastIndex(s, "/")+1:]\<close>\<close>

definition afterLastSlash :: "string \<Rightarrow> string" where
  "afterLastSlash s = (case lastIndex s ''/'' of None \<Rightarrow> s | Some i \<Rightarrow> drop (Suc i) s)"

text \<open>\<open>strings.Split\<close> at a one-byte separator: never the empty list.\<close>

fun splitAt :: "char \<Rightarrow> string \<Rightarrow> string list" where
  "splitAt c [] = [[]]"
| "splitAt c (x # s) =
     (if x = c then [] # splitAt c s
      else (case splitAt c s of [] \<Rightarrow> [[x]] | w # ws \<Rightarrow> (x # w) # ws))"

lemma splitAt_none: "c \<notin> set s \<Longrightarrow> splitAt c s = [s]"
  by (induction s) auto

text \<open>\<open>strings.SplitN(s, sep, 2)\<close>\<close>

definition splitN2 :: "string \<Rightarrow> string \<Rightarrow> string list" where
  "splitN2 s sep = (case index s sep of None \<Rightarrow> [s] | Some i \<Rightarrow> [take i s, drop (i + length sep) s])"

fun joinWith :: "char \<Rightarrow> string list \<Rightarrow> string" where
  "joinWith c [] = []"
| "joinWith c [w] = w"
| "joinWith c (w # v # ws) = w @ c # joinWith c (v # ws)"

text \<open>
  \<open>strings.TrimSpace\<close>: the bytes of every code point for which \<open>unicode.IsSpace\<close> holds.
\<close>

definition spaces :: "string list" where
  "spaces = [[CHR 0x09], [CHR 0x0A], [CHR 0x0B], [CHR 0x0C], [CHR 0x0D], [CHR 0x20],
     [CHR 0xC2, CHR 0x85], [CHR 0xC2, CHR 0xA0], [CHR 0xE1, CHR 0x9A, CHR 0x80],
     [CHR 0xE2, CHR 0x80, CHR 0x80], [CHR 0xE2, CHR 0x80, CHR 0x81], [CHR 0xE2, CHR 0x80, CHR 0x82],
     [CHR 0xE2, CHR 0x80, CHR 0x83], [CHR 0xE2, CHR 0x80, CHR 0x84], [CHR 0xE2, CHR 0x80, CHR 0x85],
     [CHR 0xE2, CHR 0x80, CHR 0x86], [CHR 0xE2, CHR 0x80, CHR 0x87], [CHR 0xE2, CHR 0x80, CHR 0x88],
     [CHR 0xE2, CHR 0x80, CHR 0x89], [CHR 0xE2, CHR 0x80, CHR 0x8A], [CHR 0xE2, CHR 0x80, CHR 0xA8],
     [CHR 0xE2, CHR 0x80, CHR 0xA9], [CHR 0xE2, CHR 0x80, CHR 0xAF], [CHR 0xE2, CHR 0x81, CHR 0x9F],
     [CHR 0xE3, CHR 0x80, CHR 0x80]]"

text \<open>How many bytes of white space, as listed in \<open>sps\<close>, the string starts with.\<close>

fun spaceLen :: "string list \<Rightarrow> string \<Rightarrow> nat" where
  "spaceLen [] s = 0"
| "spaceLen (p # ps) s = (if p \<noteq> [] \<and> hasPrefix s p then length p else spaceLen ps s)"

lemma hasPrefix_length: "hasPrefix s p \<Longrightarrow> length p \<le> length s"
  by (metis hasPrefix_def length_take min.cobounded1)

function trimLeft :: "string list \<Rightarrow> string \<Rightarrow> string" where
  "trimLeft sps s = (case spaceLen sps s of 0 \<Rightarrow> s | Suc n \<Rightarrow> trimLeft sps (drop (Suc n) s))"
  by pat_completeness auto
termination
proof (relation "measure (\<lambda>(sps, s). length s)", goal_cases)
  case (2 sps s n)
  have "spaceLen sps s \<le> length s"
    by (induction sps) (auto dest: hasPrefix_length)
  with 2 show ?case by simp
qed simp

declare trimLeft.simps [simp del]

definition trimSpace :: "string \<Rightarrow> string" where
  "trimSpace s = rev (trimLeft (map rev spaces) (rev (trimLeft spaces s)))"

text \<open>
  \<open>strings.ToLower\<close> as far as an ASCII prefix of the result depends on it: ASCII letters, and
  the two other code points (U+0130 and U+212A) whose lower case is an ASCII letter. Other
  code points stay outside ASCII.
\<close>

definition lowerChar :: "char \<Rightarrow> char" where
  "lowerChar c = (let n = (of_char c :: nat) in if 65 \<le> n \<and> n \<le> 90 then char_of (n + 32) else c)"

fun toLower :: "string \<Rightarrow> string" where
  "toLower [] = []"
| "toLower (c # s) =
     (if hasPrefix (c # s) [CHR 0xC4, CHR 0xB0] then CHR ''i'' # toLower (drop 1 s)
      else if hasPrefix (c # s) [CHR 0xE2, CHR 0x84, CHR 0xAA] then CHR ''k'' # toLower (drop 2 s)
      else lowerChar c # toLower s)"

section \<open>Package strconv and the verb d of fmt\<close>

definition wrap64 :: "int \<Rightarrow> int" where
  "wrap64 i = sint (word_of_int i :: 64 word)"

definition isDigit :: "char \<Rightarrow> bool" where
  "isDigit c \<longleftrightarrow> (48::nat) \<le> of_char c \<and> (of_char c :: nat) \<le> 57"

definition digitVal :: "char \<Rightarrow> int" where
  "digitVal c = of_char c - 48"

text \<open>The decimal digits of a number that is not negative.\<close>

function digits :: "int \<Rightarrow> string" where
  "digits n = (if n < 10 then [char_of (48 + n)] else digits (n div 10) @ [char_of (48 + n mod 10)])"
  by pat_completeness auto
termination by (relation "measure nat") auto

declare digits.simps [simp del]

definition itoa :: "int \<Rightarrow> string" where
  "itoa i = (if i < 0 then CHR ''-'' # digits (- i) else digits i)"

definition digitsVal :: "string \<Rightarrow> int" where
  "digitsVal s = foldl (\<lambda>n c. 10 * n + digitVal c) 0 s"

text \<open>
  The value result of \<open>strconv.Atoi\<close>, its error dropped as the driver drops it: 0 for a
  malformed string, the nearest 64-bit integer for one out of range.
\<close>

definition atoi :: "string \<Rightarrow> int" where
  "atoi s =
     (let (neg, d) = (case s of [] \<Rightarrow> (False, []) | c # cs \<Rightarrow>
                        if c = CHR ''-'' then (True, cs) else if c = CHR ''+'' then (False, cs) else (False, s))
      in if d = [] \<or> \<not> list_all isDigit d then 0
         else let n = digitsVal d in
           if neg then max (- (2 ^ 63)) (- n) else min (2 ^ 63 - 1) n)"

text \<open>\<open>strconv.ParseUint(s, 10, 32)\<close>; \<open>None\<close> is an error.\<close>

definition parseUint32 :: "string \<Rightarrow> int option" where
  "parseUint32 s =
     (if s = [] \<or> \<not> list_all isDigit s \<or> 2 ^ 32 \<le> digitsVal s then None else Some (digitsVal s))"

text \<open>Integer division of Go: towards zero.\<close>

definition goDiv :: "int \<Rightarrow> int \<Rightarrow> int" where
  "goDiv a b = (if (a < 0) = (b < 0) then \<bar>a\<bar> div \<bar>b\<bar> else - (\<bar>a\<bar> div \<bar>b\<bar>))"

section \<open>Package path/filepath (Unix)\<close>

text \<open>
  \<open>Clean\<close> works on the elements between slashes; the ones kept so far are a stack. In a
  rooted path \<open>..\<close> at the root disappears, in a relative one a leading \<open>..\<close> stays.
\<close>

fun cleanStep :: "bool \<Rightarrow> string list \<Rightarrow> string \<Rightarrow> string list" where
  "cleanStep rooted st w =
     (if w = [] \<or> w = ''.'' then st
      else if w = ''..'' then
        (case st of [] \<Rightarrow> if rooted then [] else [w]
         | t # ts \<Rightarrow> if t = ''..'' then w # st else ts)
      else w # st)"

definition clean :: "string \<Rightarrow> string" where
  "clean p =
     (if p = [] then ''.''
      else let rooted = (hd p = CHR ''/'');
               ws = rev (foldl (cleanStep rooted) [] (splitAt (CHR ''/'') p))
           in if rooted then CHR ''/'' # joinWith (CHR ''/'') ws
              else if ws = [] then ''.'' else joinWith (CHR ''/'') ws)"

text \<open>\<open>filepath.Join(a, b)\<close> with a non-empty \<open>a\<close>.\<close>

definition join2 :: "string \<Rightarrow> string \<Rightarrow> string" where
  "join2 a b = clean (a @ CHR ''/'' # b)"

text \<open>\<open>filepath.Ext\<close>: from the last dot of the last element, empty when it has none.\<close>

fun extRev :: "string \<Rightarrow> string \<Rightarrow> string" where
  "extRev [] acc = []"
| "extRev (c # s) acc =
     (if c = CHR ''/'' then [] else if c = CHR ''.'' then c # acc else extRev s (c # acc))"

definition ext :: "string \<Rightarrow> string" where
  "ext p = extRev (rev p) []"

section \<open>Package unicode/utf8\<close>

definition inRange :: "nat \<Rightarrow> nat \<Rightarrow> char \<Rightarrow> bool" where
  "inRange lo hi c \<longleftrightarrow> lo \<le> of_char c \<and> of_char c \<le> hi"

text \<open>
  The length of the UTF-8 sequence of a code point beyond ASCII that the string starts with;
  0 when there is none (\<open>utf8.DecodeRune\<close> then gives RuneError of width 1).
\<close>

fun utf8Len :: "string \<Rightarrow> nat" where
  "utf8Len (a # b # s) =
     (if inRange 0xC2 0xDF a \<and> inRange 0x80 0xBF b then 2
      else case s of [] \<Rightarrow> 0
      | c # s' \<Rightarrow>
        if (inRange 0xE0 0xE0 a \<and> inRange 0xA0 0xBF b \<or> inRange 0xE1 0xEC a \<and> inRange 0x80 0xBF b
            \<or> inRange 0xED 0xED a \<and> inRange 0x80 0x9F b \<or> inRange 0xEE 0xEF a \<and> inRange 0x80 0xBF b)
           \<and> inRange 0x80 0xBF c then 3
        else case s' of [] \<Rightarrow> 0
        | d # _ \<Rightarrow>
          if (inRange 0xF0 0xF0 a \<and> inRange 0x90 0xBF b \<or> inRange 0xF1 0xF3 a \<and> inRange 0x80 0xBF b
              \<or> inRange 0xF4 0xF4 a \<and> inRange 0x80 0x8F b)
             \<and> inRange 0x80 0xBF c \<and> inRange 0x80 0xBF d then 4 else 0)"
| "utf8Len _ = 0"

text \<open>Valid UTF-8.\<close>

function validUtf8 :: "string \<Rightarrow> bool" where
  "validUtf8 s = (case s of [] \<Rightarrow> True
     | c # t \<Rightarrow> if (of_char c :: nat) < 128 then validUtf8 t
               else if utf8Len s = 0 then False else validUtf8 (drop (utf8Len s) s))"
  by pat_completeness auto
termination by (relation "measure length") auto

declare validUtf8.simps [simp del]

text \<open>
  The code points of a string as Go decodes it, each as its bytes: a byte that starts no
  well-formed sequence counts as one (it is read as U+FFFD).
\<close>

definition runeLen :: "string \<Rightarrow> nat" where
  "runeLen s = max 1 (utf8Len s)"

function runes :: "string \<Rightarrow> string list" where
  "runes s = (if s = [] then [] else take (runeLen s) s # runes (drop (runeLen s) s))"
  by pat_completeness auto
termination by (relation "measure length") (auto simp: runeLen_def)

declare runes.simps [simp del]

definition replacementChar :: string where
  "replacementChar = [CHR 0xEF, CHR 0xBF, CHR 0xBD]"

section \<open>Package regexp: the patterns the driver builds\<close>

text \<open>
  A pattern is matched code point by code point: literals, byte by byte (a well-formed code point
  is read exactly where its bytes are); the wild card \<open>.\<close>, any code point but a newline; the
  literal U+FFFD, which a byte that cannot be decoded matches too; and \<open>[\d]+\<close>, which takes all
  the digits it can: in the driver's patterns a colon follows it, so no other choice matches.
  All these patterns start with an ASCII letter, which only stands at the start of a code point.
\<close>

datatype atom = Lit char | AnyChar | BadRune | Digits

definition badByte :: "string \<Rightarrow> bool" where
  "badByte s \<longleftrightarrow> s \<noteq> [] \<and> (128::nat) \<le> of_char (hd s) \<and> utf8Len s = 0"

fun matchAtoms :: "atom list \<Rightarrow> string \<Rightarrow> string option" where
  "matchAtoms [] s = Some []"
| "matchAtoms (Digits # as) s =
     (let d = takeWhile isDigit s in
      if d = [] then None else map_option ((@) d) (matchAtoms as (dropWhile isDigit s)))"
| "matchAtoms (Lit c # as) [] = None"
| "matchAtoms (Lit c # as) (x # s) = (if x = c then map_option ((#) x) (matchAtoms as s) else None)"
| "matchAtoms (AnyChar # as) s =
     (if s \<noteq> [] \<and> hd s \<noteq> CHR 0x0A
      then map_option ((@) (take (runeLen s) s)) (matchAtoms as (drop (runeLen s) s)) else None)"
| "matchAtoms (BadRune # as) s =
     (if hasPrefix s replacementChar \<or> badByte s
      then map_option ((@) (take (runeLen s) s)) (matchAtoms as (drop (runeLen s) s)) else None)"

text \<open>\<open>FindString\<close>: the leftmost match, the empty string when there is none.\<close>

fun findString :: "atom list \<Rightarrow> string \<Rightarrow> string" where
  "findString as [] = (case matchAtoms as [] of Some m \<Rightarrow> m | None \<Rightarrow> [])"
| "findString as (c # s) = (case matchAtoms as (c # s) of Some m \<Rightarrow> m | None \<Rightarrow> findString as s)"

text \<open>Bytes that mean something other than themselves in a pattern, the wild card apart.\<close>

definition reMeta :: "string" where
  "reMeta = [CHR 0x5C, CHR ''+'', CHR ''*'', CHR ''?'', CHR ''('', CHR '')'', CHR ''|'',
     CHR ''['', CHR '']'', CHR ''{'', CHR ''}'', CHR ''^'', CHR ''$'']"

text \<open>A well-formed pattern without other operators than the wild card.\<close>

fun reAtoms :: "string \<Rightarrow> atom list" where
  "reAtoms [] = []"
| "reAtoms (c # s) =
     (if hasPrefix (c # s) replacementChar then BadRune # reAtoms (drop 2 s)
      else if c = CHR ''.'' then AnyChar # reAtoms s else Lit c # reAtoms s)"

section \<open>Packages encoding/hex and net/url\<close>

definition hexDigit :: "nat \<Rightarrow> char" where
  "hexDigit n = (if n < 10 then char_of (48 + n) else char_of (87 + n))"

definition hexUpper :: "nat \<Rightarrow> char" where
  "hexUpper n = (if n < 10 then char_of (48 + n) else char_of (55 + n))"

definition hexEncode :: "string \<Rightarrow> string" where
  "hexEncode s = concat (map (\<lambda>c. let n = of_char c in [hexDigit (n div 16), hexDigit (n mod 16)]) s)"

definition unreserved :: "char \<Rightarrow> bool" where
  "unreserved c \<longleftrightarrow> (let n = (of_char c :: nat) in
     65 \<le> n \<and> n \<le> 90 \<or> 97 \<le> n \<and> n \<le> 122 \<or> isDigit c \<or> c \<in> set ''-_.~'')"

definition queryEscape :: "string \<Rightarrow> string" where
  "queryEscape s = concat (map (\<lambda>c.
     if unreserved c then [c] else if c = CHR '' '' then ''+''
     else let n = of_char c in [CHR ''%'', hexUpper (n div 16), hexUpper (n mod 16)]) s)"

end
