(* ===== verification/GoMap.thy ===== *)
theory GoMap
  imports Prelude
begin

text \<open>
  Go maps with string keys. A map is an association list with distinct keys; the order of
  the list is not observable, since every \<open>range\<close> over a map in the driver goes through an order
  that the run-time chooses anew each time (\<open>rangeOrder\<close> of the environment). The interface
  \<open>go_map\<close> states what the driver relies on; its clients' lemmas are proved once, inside it.
\<close>

type_synonym 'v gomap = "(string \<times> 'v) list"

definition mget :: "'v gomap \<Rightarrow> string \<Rightarrow> 'v option" where
  "mget m k = map_of m k"

definition mput :: "string \<Rightarrow> 'v \<Rightarrow> 'v gomap \<Rightarrow> 'v gomap" where
  "mput k v m = AList.update k v m"

definition mdel :: "string \<Rightarrow> 'v gomap \<Rightarrow> 'v gomap" where
  "mdel k m = AList.delete k m"

definition mkeys :: "'v gomap \<Rightarrow> string list" where
  "mkeys m = map fst m"

definition mwf :: "'v gomap \<Rightarrow> bool" where
  "mwf m \<longleftrightarrow> distinct (map fst m)"

text \<open>\<open>m[k]\<close> for a map of strings: the zero value \<open>""\<close> when the key is absent.\<close>

definition mstr :: "string gomap \<Rightarrow> string \<Rightarrow> string" where
  "mstr m k = (case mget m k of Some v \<Rightarrow> v | None \<Rightarrow> [])"

text \<open>
  \<open>for _, v := range m { if P(v) { return v } }\<close>, the keys visited in the order \<open>ks\<close>.
\<close>

fun firstMatch :: "('k \<Rightarrow> 'v option) \<Rightarrow> ('v \<Rightarrow> bool) \<Rightarrow> 'k list \<Rightarrow> 'v option" where
  "firstMatch g P [] = None"
| "firstMatch g P (k # ks) =
     (case g k of Some v \<Rightarrow> if P v then Some v else firstMatch g P ks | None \<Rightarrow> firstMatch g P ks)"

text \<open>
  The run-time's choice of an order: any permutation of the keys. A proposal that is not a
  permutation is replaced by the keys as they stand, so that every value of this function is
  an order the language allows and every such order is a value.
\<close>

definition permOf :: "string list \<Rightarrow> string list \<Rightarrow> string list" where
  "permOf proposal ks = (if mset proposal = mset ks then proposal else ks)"

lemma mset_permOf: "mset (permOf p ks) = mset ks"
  by (simp add: permOf_def)

lemma set_permOf [simp]: "set (permOf p ks) = set ks"
  using mset_permOf by (metis set_mset_mset)

lemma permOf_surj: "mset p = mset ks \<Longrightarrow> permOf p ks = p"
  by (simp add: permOf_def)

section \<open>The interface\<close>

locale go_map =
  fixes empty :: "'m"
    and get :: "'m \<Rightarrow> 'k \<Rightarrow> 'v option"
    and put :: "'k \<Rightarrow> 'v \<Rightarrow> 'm \<Rightarrow> 'm"
    and del :: "'k \<Rightarrow> 'm \<Rightarrow> 'm"
    and keys :: "'m \<Rightarrow> 'k list"
    and wf :: "'m \<Rightarrow> bool"
  assumes get_empty: "get empty k = None"
    and get_put: "get (put k v m) k' = (if k' = k then Some v else get m k')"
    and get_del: "wf m \<Longrightarrow> get (del k m) k' = (if k' = k then None else get m k')"
    and keys_get: "k \<in> set (keys m) \<longleftrightarrow> get m k \<noteq> None"
    and distinct_keys: "wf m \<Longrightarrow> distinct (keys m)"
    and wf_empty: "wf empty"
    and wf_put: "wf m \<Longrightarrow> wf (put k v m)"
    and wf_del: "wf m \<Longrightarrow> wf (del k m)"
begin

lemma get_put_same: "get (put k v m) k = Some v"
  by (simp add: get_put)

lemma get_del_same: "wf m \<Longrightarrow> get (del k m) k = None"
  by (simp add: get_del)

lemma put_del_get: "wf m \<Longrightarrow> get m k = None \<Longrightarrow> get (del k (put k v m)) = get m"
  by (rule ext) (simp add: get_del get_put wf_put)

lemma firstMatch_Some:
  "firstMatch (get m) P ks = Some v \<Longrightarrow> \<exists>k \<in> set ks. get m k = Some v \<and> P v"
  by (induction ks) (auto split: option.splits if_splits)

lemma firstMatch_None:
  "firstMatch (get m) P ks = None \<longleftrightarrow> (\<forall>k \<in> set ks. \<forall>v. get m k = Some v \<longrightarrow> \<not> P v)"
  by (induction ks) (auto split: option.splits if_splits)

text \<open>Over all the keys a search misses nothing, in whatever order they come.\<close>

lemma firstMatch_all_None:
  assumes "set ks = set (keys m)"
  shows "firstMatch (get m) P ks = None \<longleftrightarrow> (\<forall>k v. get m k = Some v \<longrightarrow> \<not> P v)"
  using assms keys_get by (auto simp: firstMatch_None)

text \<open>When one value at most satisfies \<open>P\<close>, the order does not matter.\<close>

lemma firstMatch_unique:
  assumes "set ks = set (keys m)" and "get m k = Some v" and "P v"
    and "\<And>k' v'. get m k' = Some v' \<Longrightarrow> P v' \<Longrightarrow> v' = v"
  shows "firstMatch (get m) P ks = Some v"
proof (cases "firstMatch (get m) P ks")
  case None
  with assms(1-3) show ?thesis by (auto simp: firstMatch_all_None)
next
  case (Some v')
  with assms(4) firstMatch_Some show ?thesis by blast
qed

end

interpretation gm: go_map "[]" mget mput mdel mkeys mwf
proof (unfold_locales, goal_cases)
  case (4 k m)
  then show ?case by (auto simp: mkeys_def mget_def map_of_eq_None_iff)
qed (auto simp: mget_def mput_def mdel_def mkeys_def mwf_def map_of_eq_None_iff
       AList.update_conv' delete_conv' distinct_update distinct_delete)

end
