(* ===== verification/Json.thy ===== *)
theory Json
  imports GoStrings GoMap "HOL-Library.List_Lexorder" "HOL-Library.Char_ord"
begin

text \<open>
  Package encoding/json as the driver uses it: the syntax of a document, the text
  \<open>Encoder.Encode\<close> writes, the scanner behind \<open>Unmarshal\<close> and \<open>Decoder.Decode\<close>, and the way a
  decoded object fills the fields of a struct. Strings are byte strings; a byte that is no part
  of a UTF-8 sequence becomes U+FFFD on both ways, as in the library.
\<close>

datatype json =
    JNull
  | JBool bool
  | JNum string  \<comment> \<open>the literal as written\<close>
  | JStr string
  | JArr "json list"
  | JObj "(string \<times> json) list"

section \<open>Code points\<close>

definition encodeRune :: "nat \<Rightarrow> string" where
  "encodeRune r =
     (if r < 0x80 then [char_of r]
      else if r < 0x800 then [char_of (0xC0 + r div 64), char_of (0x80 + r mod 64)]
      else if 0xD800 \<le> r \<and> r < 0xE000 \<or> 0x110000 \<le> r then [CHR 0xEF, CHR 0xBF, CHR 0xBD]
      else if r < 0x10000 then
        [char_of (0xE0 + r div 4096), char_of (0x80 + r div 64 mod 64), char_of (0x80 + r mod 64)]
      else [char_of (0xF0 + r div 262144), char_of (0x80 + r div 4096 mod 64),
            char_of (0x80 + r div 64 mod 64), char_of (0x80 + r mod 64)])"

section \<open>Writing\<close>

text \<open>
  The escape of an ASCII byte inside a string: quotation mark, backslash, the control bytes and
  the three bytes that HTML escaping (on by default) protects.
\<close>

definition u00 :: "nat \<Rightarrow> string" where
  "u00 n = [CHR 0x5C, CHR ''u'', CHR ''0'', CHR ''0'', hexDigit (n div 16), hexDigit (n mod 16)]"

definition escByte :: "char \<Rightarrow> string" where
  "escByte c =
     (if c = CHR 0x22 \<or> c = CHR 0x5C then [CHR 0x5C, c]
      else if c = CHR 0x0A then [CHR 0x5C, CHR ''n'']
      else if c = CHR 0x0D then [CHR 0x5C, CHR ''r'']
      else if c = CHR 0x09 then [CHR 0x5C, CHR ''t'']
      else if (of_char c :: nat) < 32 \<or> c = CHR ''<'' \<or> c = CHR ''>'' \<or> c = CHR ''&'' then u00 (of_char c)
      else [c])"

function escStr :: "string \<Rightarrow> string" where
  "escStr s = (case s of [] \<Rightarrow> []
     | c # t \<Rightarrow>
       if (of_char c :: nat) < 128 then escByte c @ escStr t
       else if utf8Len s = 0 then CHR 0x5C # ''ufffd'' @ escStr t
       else if hasPrefix s [CHR 0xE2, CHR 0x80, CHR 0xA8] then CHR 0x5C # ''u2028'' @ escStr (drop 3 s)
       else if hasPrefix s [CHR 0xE2, CHR 0x80, CHR 0xA9] then CHR 0x5C # ''u2029'' @ escStr (drop 3 s)
       else take (utf8Len s) s @ escStr (drop (utf8Len s) s))"
  by pat_completeness auto
termination by (relation "measure length") auto

declare escStr.simps [simp del]

definition encStr :: "string \<Rightarrow> string" where
  "encStr s = CHR 0x22 # escStr s @ [CHR 0x22]"

text \<open>The compact text of a document.\<close>

fun render :: "json \<Rightarrow> string"
  and renderElems :: "json list \<Rightarrow> string"
  and renderMembers :: "(string \<times> json) list \<Rightarrow> string" where
  "render JNull = ''null''"
| "render (JBool b) = (if b then ''true'' else ''false'')"
| "render (JNum n) = n"
| "render (JStr s) = encStr s"
| "render (JArr vs) = CHR ''['' # renderElems vs @ '']''"
| "render (JObj ms) = CHR ''{'' # renderMembers ms @ ''}''"
| "renderElems [] = []"
| "renderElems (v # vs) = render v @ (if vs = [] then [] else CHR '','' # renderElems vs)"
| "renderMembers [] = []"
| "renderMembers ((k, v) # ms) =
     encStr k @ CHR '':'' # render v @ (if ms = [] then [] else CHR '','' # renderMembers ms)"

section \<open>Reading\<close>

fun skipWs :: "string \<Rightarrow> string" where
  "skipWs [] = []"
| "skipWs (c # s) =
     (if c = CHR 0x20 \<or> c = CHR 0x09 \<or> c = CHR 0x0A \<or> c = CHR 0x0D then skipWs s else c # s)"

definition hexVal :: "char \<Rightarrow> nat option" where
  "hexVal c = (let n = (of_char c :: nat) in
     if isDigit c then Some (n - 48) else if 97 \<le> n \<and> n \<le> 102 then Some (n - 87)
     else if 65 \<le> n \<and> n \<le> 70 then Some (n - 55) else None)"

fun hex4 :: "string \<Rightarrow> nat option" where
  "hex4 (a # b # c # d # s) =
     (case (hexVal a, hexVal b, hexVal c, hexVal d) of
        (Some w, Some x, Some y, Some z) \<Rightarrow> Some (4096 * w + 256 * x + 16 * y + z)
      | _ \<Rightarrow> None)"
| "hex4 _ = None"

definition simpleEsc :: "char \<Rightarrow> char option" where
  "simpleEsc e =
     (if e = CHR 0x22 \<or> e = CHR 0x5C \<or> e = CHR ''/'' then Some e
      else if e = CHR ''b'' then Some (CHR 0x08) else if e = CHR ''f'' then Some (CHR 0x0C)
      else if e = CHR ''n'' then Some (CHR 0x0A) else if e = CHR ''r'' then Some (CHR 0x0D)
      else if e = CHR ''t'' then Some (CHR 0x09) else None)"

text \<open>
  A code unit \<open>r\<close> read from an escape, with the text after it: a surrogate needs its other
  half in a second escape, and is U+FFFD without it. The result is the bytes and how much of
  the text the second escape took.
\<close>

definition unitBytes :: "nat \<Rightarrow> string \<Rightarrow> string \<times> nat" where
  "unitBytes r s =
     (if 0xD800 \<le> r \<and> r < 0xDC00 \<and> hasPrefix s [CHR 0x5C, CHR ''u''] then
        (case hex4 (drop 2 s) of
           Some r2 \<Rightarrow> if 0xDC00 \<le> r2 \<and> r2 < 0xE000
                      then (encodeRune ((r - 0xD800) * 1024 + (r2 - 0xDC00) + 0x10000), 6)
                      else (encodeRune r, 0)
         | None \<Rightarrow> (encodeRune r, 0))
      else (encodeRune r, 0))"

text \<open>The rest of a string literal after its opening quotation mark.\<close>

function readStr :: "string \<Rightarrow> (string \<times> string) option" where
  "readStr s = (case s of [] \<Rightarrow> None
     | c # t \<Rightarrow>
       if c = CHR 0x22 then Some ([], t)
       else if c = CHR 0x5C then
         (case t of [] \<Rightarrow> None
          | e # u \<Rightarrow>
            if e = CHR ''u'' then
              (case hex4 u of None \<Rightarrow> None
               | Some r \<Rightarrow> map_option (\<lambda>(w, rest). (fst (unitBytes r (drop 4 u)) @ w, rest))
                            (readStr (drop (4 + snd (unitBytes r (drop 4 u))) u)))
            else (case simpleEsc e of None \<Rightarrow> None
                  | Some b \<Rightarrow> map_option (\<lambda>(w, rest). (b # w, rest)) (readStr u)))
       else if (of_char c :: nat) < 32 then None
       else if (of_char c :: nat) < 128 then map_option (\<lambda>(w, rest). (c # w, rest)) (readStr t)
       else if utf8Len s = 0
         then map_option (\<lambda>(w, rest). ([CHR 0xEF, CHR 0xBF, CHR 0xBD] @ w, rest)) (readStr t)
       else map_option (\<lambda>(w, rest). (take (utf8Len s) s @ w, rest)) (readStr (drop (utf8Len s) s)))"
  by pat_completeness auto
termination by (relation "measure length") auto

declare readStr.simps [simp del]

text \<open>A number literal: sign, integer part without leading zeros, fraction, exponent.\<close>

definition readFrac :: "string \<Rightarrow> (string \<times> string) option" where
  "readFrac s = (case s of c # t \<Rightarrow>
       if c = CHR ''.'' then
         (if takeWhile isDigit t = [] then None else Some (c # takeWhile isDigit t, dropWhile isDigit t))
       else Some ([], s)
     | [] \<Rightarrow> Some ([], []))"

definition readExp :: "string \<Rightarrow> (string \<times> string) option" where
  "readExp s = (case s of c # t \<Rightarrow>
       if c = CHR ''e'' \<or> c = CHR ''E'' then
         (let (sg, u) = (case t of d # u \<Rightarrow> if d = CHR ''+'' \<or> d = CHR ''-'' then ([d], u) else ([], t)
                         | [] \<Rightarrow> ([], []))
          in if takeWhile isDigit u = [] then None
             else Some (c # sg @ takeWhile isDigit u, dropWhile isDigit u))
       else Some ([], s)
     | [] \<Rightarrow> Some ([], []))"

definition readNum :: "string \<Rightarrow> (string \<times> string) option" where
  "readNum s =
     (let (sg, t) = (case s of c # t \<Rightarrow> if c = CHR ''-'' then ([c], t) else ([], s) | [] \<Rightarrow> ([], []));
          d = (case t of c # _ \<Rightarrow> if c = CHR ''0'' then [c] else takeWhile isDigit t | [] \<Rightarrow> []);
          u = drop (length d) t
      in if d = [] then None
         else case readFrac u of None \<Rightarrow> None
              | Some (f, v) \<Rightarrow> map_option (\<lambda>(e, w). (sg @ d @ f @ e, w)) (readExp v))"

text \<open>
  The scanner. The fuel bounds the number of nested and repeated values; every one of them
  takes at least a byte, so twice the length of the text is enough (\<open>readValue_fuel\<close>).
\<close>

fun readValue :: "nat \<Rightarrow> string \<Rightarrow> (json \<times> string) option"
  and readElems :: "nat \<Rightarrow> string \<Rightarrow> (json list \<times> string) option"
  and readMembers :: "nat \<Rightarrow> string \<Rightarrow> ((string \<times> json) list \<times> string) option" where
  "readValue 0 s = None"
| "readValue (Suc n) s =
     (case skipWs s of [] \<Rightarrow> None
      | c # t \<Rightarrow>
        if c = CHR 0x22 then map_option (\<lambda>(w, rest). (JStr w, rest)) (readStr t)
        else if c = CHR ''['' then
          (case skipWs t of
             d # u \<Rightarrow> if d = CHR '']'' then Some (JArr [], u)
                      else map_option (\<lambda>(vs, rest). (JArr vs, rest)) (readElems n t)
           | [] \<Rightarrow> None)
        else if c = CHR ''{'' then
          (case skipWs t of
             d # u \<Rightarrow> if d = CHR ''}'' then Some (JObj [], u)
                      else map_option (\<lambda>(ms, rest). (JObj ms, rest)) (readMembers n t)
           | [] \<Rightarrow> None)
        else if hasPrefix (c # t) ''true'' then Some (JBool True, drop 4 (c # t))
        else if hasPrefix (c # t) ''false'' then Some (JBool False, drop 5 (c # t))
        else if hasPrefix (c # t) ''null'' then Some (JNull, drop 4 (c # t))
        else map_option (\<lambda>(l, rest). (JNum l, rest)) (readNum (c # t)))"
| "readElems 0 s = None"
| "readElems (Suc n) s =
     (case readValue n s of None \<Rightarrow> None
      | Some (v, t) \<Rightarrow>
        (case skipWs t of [] \<Rightarrow> None
         | c # u \<Rightarrow>
           if c = CHR '']'' then Some ([v], u)
           else if c = CHR '','' then map_option (\<lambda>(vs, rest). (v # vs, rest)) (readElems n u)
           else None))"
| "readMembers 0 s = None"
| "readMembers (Suc n) s =
     (case skipWs s of [] \<Rightarrow> None
      | q # t \<Rightarrow>
        if q \<noteq> CHR 0x22 then None
        else case readStr t of None \<Rightarrow> None
        | Some (k, u) \<Rightarrow>
          (case skipWs u of [] \<Rightarrow> None
           | p # w \<Rightarrow>
             if p \<noteq> CHR '':'' then None
             else case readValue n w of None \<Rightarrow> None
             | Some (v, x) \<Rightarrow>
               (case skipWs x of [] \<Rightarrow> None
                | c # y \<Rightarrow>
                  if c = CHR ''}'' then Some ([(k, v)], y)
                  else if c = CHR '','' then
                    map_option (\<lambda>(ms, rest). ((k, v) # ms, rest)) (readMembers n y)
                  else None)))"

text \<open>
  \<open>Decoder.Decode\<close> takes one document from the front of the text; \<open>json.Unmarshal\<close> insists
  that nothing but white space follows.
\<close>

definition decodeDoc :: "string \<Rightarrow> json option" where
  "decodeDoc s = map_option fst (readValue (2 * length s + 2) s)"

definition unmarshal :: "string \<Rightarrow> json option" where
  "unmarshal s = (case readValue (2 * length s + 2) s of
     Some (v, rest) \<Rightarrow> if skipWs rest = [] then Some v else None | None \<Rightarrow> None)"

section \<open>Filling a struct\<close>

text \<open>
  The key of a member selects a field by name, letter case ignored (and, as the library folds,
  U+017F and U+212A taken for s and k). Every matching member is stored in turn; one of the wrong
  type, and null, leave the field as it is. An absent field keeps its zero value.
\<close>

fun foldKey :: "string \<Rightarrow> string" where
  "foldKey [] = []"
| "foldKey (c # s) =
     (if hasPrefix (c # s) [CHR 0xC5, CHR 0xBF] then CHR ''s'' # foldKey (drop 1 s)
      else if hasPrefix (c # s) [CHR 0xE2, CHR 0x84, CHR 0xAA] then CHR ''k'' # foldKey (drop 2 s)
      else lowerChar c # foldKey s)"

definition field :: "string \<Rightarrow> (json \<Rightarrow> 'a option) \<Rightarrow> 'a \<Rightarrow> (string \<times> json) list \<Rightarrow> 'a" where
  "field name get zero ms = foldl (\<lambda>acc (k, v).
     if foldKey k = foldKey name then (case get v of Some x \<Rightarrow> x | None \<Rightarrow> acc) else acc) zero ms"

definition asStr :: "json \<Rightarrow> string option" where
  "asStr v = (case v of JStr s \<Rightarrow> Some s | _ \<Rightarrow> None)"

definition asBool :: "json \<Rightarrow> bool option" where
  "asBool v = (case v of JBool b \<Rightarrow> Some b | _ \<Rightarrow> None)"

text \<open>A number goes into a 64-bit integer field when it is an integer literal in range.\<close>

definition asInt :: "json \<Rightarrow> int option" where
  "asInt v = (case v of JNum l \<Rightarrow>
       (let (neg, d) = (case l of c # cs \<Rightarrow> if c = CHR ''-'' then (True, cs) else (False, l) | [] \<Rightarrow> (False, []));
            i = (if neg then - digitsVal d else digitsVal d)
        in if d = [] \<or> \<not> list_all isDigit d \<or> i < - (2 ^ 63) \<or> 2 ^ 63 \<le> i then None else Some i)
     | _ \<Rightarrow> None)"

definition members :: "json \<Rightarrow> (string \<times> json) list" where
  "members v = (case v of JObj ms \<Rightarrow> ms | _ \<Rightarrow> [])"

text \<open>
  The field \<open>Params []T\<close> of every answer of the management server; \<open>el\<close> decodes an element,
  which starts as the zero struct and stays so when the element is not an object.
\<close>

definition params :: "((string \<times> json) list \<Rightarrow> 't) \<Rightarrow> string \<Rightarrow> 't list" where
  "params el body = (case unmarshal body of
       Some (JObj ms) \<Rightarrow> field ''params'' (\<lambda>v. case v of JArr vs \<Rightarrow> Some (map (el \<circ> members) vs)
                                              | JNull \<Rightarrow> Some [] | _ \<Rightarrow> None) [] ms
     | _ \<Rightarrow> [])"

end
