(* ===== verification/Json_Roundtrip.thy ===== *)
theory Json_Roundtrip
  imports Json
begin

text \<open>
  Reading back what was written: for documents whose strings are valid UTF-8 and whose numbers
  are decimal integers, the scanner returns the document the text was made from, and stops
  right behind it. The fuel of the scanner never matters: twice the length of the text is
  enough for every text.
\<close>

section \<open>Decimal numbers\<close>

lemma digit_char: "0 \<le> d \<Longrightarrow> d < 10 \<Longrightarrow> isDigit (char_of (48 + d :: int)) \<and> digitVal (char_of (48 + d)) = d"
proof -
  assume "0 \<le> d" "d < 10"
  then have "d = 0 \<or> d = 1 \<or> d = 2 \<or> d = 3 \<or> d = 4 \<or> d = 5 \<or> d = 6 \<or> d = 7 \<or> d = 8 \<or> d = 9" by arith
  then show ?thesis by (elim disjE) (simp_all, code_simp+)
qed

lemma digitsVal_snoc: "digitsVal (s @ [c]) = 10 * digitsVal s + digitVal c"
  by (simp add: digitsVal_def)

lemma digits_ok:
  "0 \<le> n \<Longrightarrow> list_all isDigit (digits n) \<and> digits n \<noteq> [] \<and> digitsVal (digits n) = n"
proof (induction n rule: digits.induct)
  case (1 n)
  show ?case
  proof (cases "n < 10")
    case True
    with 1 digit_char [of n] show ?thesis by (simp add: digits.simps [of n] digitsVal_def)
  next
    case False
    with 1 digit_char [of "n mod 10"] show ?thesis
      by (simp add: digits.simps [of n] digitsVal_snoc)
  qed
qed

lemma digits_head: "0 < n \<Longrightarrow> hd (digits n) \<noteq> CHR ''0''"
proof (induction n rule: digits.induct)
  case (1 n)
  show ?case
  proof (cases "n < 10")
    case True
    with 1 have "n = 1 \<or> n = 2 \<or> n = 3 \<or> n = 4 \<or> n = 5 \<or> n = 6 \<or> n = 7 \<or> n = 8 \<or> n = 9" by arith
    then show ?thesis by (elim disjE) (simp_all, code_simp+)
  next
    case False
    with 1 digits_ok [of "n div 10"] show ?thesis by (simp add: digits.simps [of n])
  qed
qed

text \<open>What may follow a number in a document.\<close>

definition numEnd :: "string \<Rightarrow> bool" where
  "numEnd s = (case s of [] \<Rightarrow> True
     | c # _ \<Rightarrow> \<not> isDigit c \<and> c \<noteq> CHR ''.'' \<and> c \<noteq> CHR ''e'' \<and> c \<noteq> CHR ''E'')"

lemma takeWhile_digits:
  assumes "list_all isDigit d" and "numEnd rest"
  shows "takeWhile isDigit (d @ rest) = d"
  using assms by (induction d) (auto simp: numEnd_def split: list.splits)

lemma readFrac_numEnd: "numEnd rest \<Longrightarrow> readFrac rest = Some ([], rest)"
  and readExp_numEnd: "numEnd rest \<Longrightarrow> readExp rest = Some ([], rest)"
  by (auto simp: numEnd_def readFrac_def readExp_def split: list.splits)

lemma readNum_digits:
  assumes n: "0 \<le> n" and rest: "numEnd rest"
  shows "readNum (digits n @ rest) = Some (digits n, rest)"
    and "readNum (CHR ''-'' # digits n @ rest) = Some (CHR ''-'' # digits n, rest)"
proof -
  from digits_ok [OF n] obtain c cs where c: "digits n = c # cs" by (cases "digits n") auto
  have minus: "c \<noteq> CHR ''-''" using digits_ok [OF n] by (auto simp: c isDigit_def)
  have "(if c = CHR ''0'' then [c] else takeWhile isDigit (digits n @ rest)) = digits n"
  proof (cases "n = 0")
    case True
    have "digits 0 = ''0''" by code_simp
    with True show ?thesis using c by simp
  next
    case False
    with n digits_head [of n] have "c \<noteq> CHR ''0''" by (simp add: c)
    moreover have "takeWhile isDigit (digits n @ rest) = digits n"
      using digits_ok [OF n] rest by (intro takeWhile_digits) auto
    ultimately show ?thesis by simp
  qed
  then have d: "(if c = CHR ''0'' then [c] else takeWhile isDigit (c # cs @ rest)) = c # cs"
    by (simp only: c append.simps)
  show "readNum (digits n @ rest) = Some (digits n, rest)"
    and "readNum (CHR ''-'' # digits n @ rest) = Some (CHR ''-'' # digits n, rest)"
    using minus by (simp_all add: readNum_def c d readFrac_numEnd [OF rest] readExp_numEnd [OF rest]
      del: takeWhile.simps)
qed

lemma readNum_itoa: "numEnd rest \<Longrightarrow> readNum (itoa i @ rest) = Some (itoa i, rest)"
  by (simp add: itoa_def readNum_digits)

lemma itoa_head:
  obtains c cs where "itoa i = c # cs" "isDigit c \<or> c = CHR ''-''"
  using digits_ok [of i] digits_ok [of "- i"]
  by (cases "digits i"; cases "digits (- i)"; cases "i < 0") (auto simp: itoa_def)

lemma asInt_itoa:
  assumes "- (2 ^ 63) \<le> i" and "i < 2 ^ 63"
  shows "asInt (JNum (itoa i)) = Some i"
proof (cases "i < 0")
  case True
  with assms digits_ok [of "- i"] show ?thesis by (simp add: asInt_def itoa_def)
next
  case False
  with digits_ok [of i] obtain c cs where c: "digits i = c # cs" by (cases "digits i") auto
  moreover have "c \<noteq> CHR ''-''" using False digits_ok [of i] c by (auto simp: isDigit_def)
  ultimately show ?thesis using False assms digits_ok [of i] by (simp add: asInt_def itoa_def)
qed

section \<open>Strings\<close>

lemma hexVal_hexDigit: "n < 16 \<Longrightarrow> hexVal (hexDigit n) = Some n"
  by (auto simp: hexVal_def hexDigit_def isDigit_def Let_def)

lemma readStr_u00:
  assumes "of_char c = n" and "n < 128"
  shows "readStr (u00 n @ x) = map_option (\<lambda>(w, rest). (c # w, rest)) (readStr x)"
proof -
  have "hexVal (CHR ''0'') = Some 0" by code_simp
  with assms have "hex4 (CHR ''0'' # CHR ''0'' # hexDigit (n div 16) # hexDigit (n mod 16) # x) = Some n"
    by (simp add: hexVal_hexDigit)
  moreover have "unitBytes n x = ([c], 0)"
    using assms by (auto simp: unitBytes_def encodeRune_def)
  ultimately show ?thesis
    unfolding u00_def by (simp add: readStr.simps [of "CHR 0x5C # _"] del: hex4.simps)
qed

lemma readStr_escByte:
  assumes "of_char c < (128 :: nat)"
  shows "readStr (escByte c @ x) = map_option (\<lambda>(w, rest). (c # w, rest)) (readStr x)"
proof (cases "(of_char c :: nat) < 32 \<or> c = CHR ''<'' \<or> c = CHR ''>'' \<or> c = CHR ''&''")
  case False
  with assms show ?thesis
    by (auto simp: escByte_def readStr.simps [of "_ # _"] simpleEsc_def)
next
  case True
  with assms readStr_u00 [of c _ x] show ?thesis
    by (auto simp: escByte_def readStr.simps [of "CHR 0x5C # _"] simpleEsc_def)
qed

text \<open>How much a code point takes does not depend on what follows it.\<close>

lemma utf8Len_take:
  "utf8Len s \<noteq> 0 \<Longrightarrow> utf8Len (take (utf8Len s) s @ x) = utf8Len s \<and> utf8Len s \<le> length s"
  by (cases s rule: utf8Len.cases) (auto split: list.splits if_splits)

lemma readStr_multibyte:
  assumes "\<not> (of_char c :: nat) < 128" and "utf8Len (c # t) \<noteq> 0"
  shows "readStr (take (utf8Len (c # t)) (c # t) @ x) =
    map_option (\<lambda>(w, rest). (take (utf8Len (c # t)) (c # t) @ w, rest)) (readStr x)"
proof -
  let ?n = "utf8Len (c # t)"
  obtain u where u: "take ?n (c # t) = c # u" using assms(2) by (cases ?n) auto
  from utf8Len_take [OF assms(2), of x] have "utf8Len (take ?n (c # t) @ x) = ?n" "?n \<le> length (c # t)"
    by (rule conjunct1, rule conjunct2)
  from this(1) have len: "utf8Len (c # u @ x) = ?n" by (simp only: u append.simps)
  from \<open>?n \<le> length (c # t)\<close> have "length (take ?n (c # t)) = ?n" by (simp only: length_take min_absorb2)
  then have le: "?n = length (c # u)" by (simp only: u)
  have "c \<noteq> CHR 0x22" "c \<noteq> CHR 0x5C" using assms(1) by auto
  then have "readStr (c # u @ x) = map_option (\<lambda>(w, rest). (take ?n (c # u @ x) @ w, rest))
      (readStr (drop ?n (c # u @ x)))"
    using assms by (simp add: readStr.simps [of "c # u @ x"] len del: utf8Len.simps take.simps drop.simps)
  then show ?thesis
    unfolding u by (simp add: le del: utf8Len.simps)
qed

text \<open>The line separators U+2028 and U+2029 are escaped although they need not be.\<close>

lemma readStr_separator:
  assumes "b = CHR 0xA8 \<and> d = CHR ''8'' \<or> b = CHR 0xA9 \<and> d = CHR ''9''"
  shows "readStr (CHR 0x5C # CHR ''u'' # CHR ''2'' # CHR ''0'' # CHR ''2'' # d # x) =
    map_option (\<lambda>(w, rest). ([CHR 0xE2, CHR 0x80, b] @ w, rest)) (readStr x)"
proof -
  have h: "hexVal (CHR ''0'') = Some 0" "hexVal (CHR ''2'') = Some 2" "hexVal (CHR ''8'') = Some 8"
    "hexVal (CHR ''9'') = Some 9" by code_simp+
  have r: "encodeRune 8232 = [CHR 0xE2, CHR 0x80, CHR 0xA8]" "encodeRune 8233 = [CHR 0xE2, CHR 0x80, CHR 0xA9]"
    unfolding encodeRune_def by (simp_all, code_simp+)
  from assms show ?thesis
    by (elim disjE) (simp_all add: readStr.simps [of "CHR 0x5C # _"] h unitBytes_def r)
qed

lemma escStr_separator:
  "escStr (CHR 0xE2 # CHR 0x80 # CHR 0xA8 # u) = CHR 0x5C # ''u2028'' @ escStr u"
  "escStr (CHR 0xE2 # CHR 0x80 # CHR 0xA9 # u) = CHR 0x5C # ''u2029'' @ escStr u"
  by (simp_all add: escStr.simps [of "CHR 0xE2 # _"] hasPrefix_def inRange_def)

lemma hasPrefix_append: "hasPrefix s p \<Longrightarrow> s = p @ drop (length p) s"
  by (metis append_take_drop_id hasPrefix_def)

lemma readStr_escStr:
  "validUtf8 s \<Longrightarrow> readStr (escStr s @ CHR 0x22 # rest) = Some (s, rest)"
proof (induction s rule: escStr.induct)
  case (1 s)
  show ?case
  proof (cases s)
    case Nil
    then show ?thesis by (simp add: escStr.simps [of "[]"] readStr.simps [of "CHR 0x22 # _"])
  next
    case (Cons c t)
    let ?n = "utf8Len (c # t)"
    show ?thesis
    proof (cases "(of_char c :: nat) < 128")
      case True
      with 1 Cons show ?thesis
        by (simp add: escStr.simps [of "c # t"] validUtf8.simps [of "c # t"] readStr_escByte)
    next
      case False
      with 1(6) Cons have n: "?n \<noteq> 0" and v: "validUtf8 (drop ?n (c # t))"
        by (auto simp: validUtf8.simps [of "c # t"] split: if_splits)
      consider (a8) "hasPrefix (c # t) [CHR 0xE2, CHR 0x80, CHR 0xA8]"
        | (a9) "hasPrefix (c # t) [CHR 0xE2, CHR 0x80, CHR 0xA9]"
        | (other) "\<not> hasPrefix (c # t) [CHR 0xE2, CHR 0x80, CHR 0xA8]"
            "\<not> hasPrefix (c # t) [CHR 0xE2, CHR 0x80, CHR 0xA9]"
        by blast
      then show ?thesis
      proof cases
        case other
        with 1(5) n False v Cons have "readStr (escStr (drop ?n s) @ CHR 0x22 # rest) = Some (drop ?n s, rest)"
          by simp
        with other n False Cons show ?thesis
          by (simp add: escStr.simps [of "c # t"] readStr_multibyte del: utf8Len.simps take.simps drop.simps)
      next
        case a8
        then obtain u where u: "c # t = CHR 0xE2 # CHR 0x80 # CHR 0xA8 # u"
          using hasPrefix_append by fastforce
        then have "?n = 3" by (simp add: inRange_def)
        with 1(3) a8 n False v Cons u have "readStr (escStr u @ CHR 0x22 # rest) = Some (u, rest)"
          by (simp add: hasPrefix_def)
        with Cons u show ?thesis by (simp add: escStr_separator readStr_separator [of "CHR 0xA8"])
      next
        case a9
        then obtain u where u: "c # t = CHR 0xE2 # CHR 0x80 # CHR 0xA9 # u"
          using hasPrefix_append by fastforce
        then have "?n = 3" by (simp add: inRange_def)
        with 1(4) a9 n False v Cons u have "readStr (escStr u @ CHR 0x22 # rest) = Some (u, rest)"
          by (simp add: hasPrefix_def)
        with Cons u show ?thesis by (simp add: escStr_separator readStr_separator [of "CHR 0xA9"])
      qed
    qed
  qed
qed

section \<open>Documents\<close>

text \<open>The documents the driver writes: valid strings, integer numbers.\<close>

definition isInt :: "string \<Rightarrow> bool" where
  "isInt l = (case l of c # d \<Rightarrow> l = itoa (if c = CHR ''-'' then - digitsVal d else digitsVal l) | [] \<Rightarrow> False)"

lemma isInt_itoa: "isInt (itoa i)"
proof (cases "i < 0")
  case True
  with digits_ok [of "- i"] show ?thesis by (simp add: isInt_def itoa_def)
next
  case False
  with digits_ok [of i] obtain c cs where c: "digits i = c # cs" by (cases "digits i") auto
  moreover have "c \<noteq> CHR ''-''" using False digits_ok [of i] c by (auto simp: isDigit_def)
  ultimately show ?thesis using False digits_ok [of i] by (simp add: isInt_def itoa_def)
qed

lemma isInt_obtain:
  assumes "isInt l" obtains i where "l = itoa i"
  using assms unfolding isInt_def by (auto split: list.splits)

fun plain :: "json \<Rightarrow> bool"
  and plainElems :: "json list \<Rightarrow> bool"
  and plainMembers :: "(string \<times> json) list \<Rightarrow> bool" where
  "plain JNull = True"
| "plain (JBool b) = True"
| "plain (JNum l) = isInt l"
| "plain (JStr s) = validUtf8 s"
| "plain (JArr vs) = plainElems vs"
| "plain (JObj ms) = plainMembers ms"
| "plainElems [] = True"
| "plainElems (v # vs) \<longleftrightarrow> plain v \<and> plainElems vs"
| "plainMembers [] = True"
| "plainMembers ((k, v) # ms) \<longleftrightarrow> validUtf8 k \<and> plain v \<and> plainMembers ms"

text \<open>The first byte of a document, which tells the scanner what comes.\<close>

definition starts :: "char \<Rightarrow> bool" where
  "starts c \<longleftrightarrow> c \<notin> {CHR 0x20, CHR 0x09, CHR 0x0A, CHR 0x0D, CHR '']'', CHR ''}'', CHR '','', CHR '':''}"

lemma starts_num: "isDigit c \<or> c = CHR ''-'' \<Longrightarrow> starts c"
  by (auto simp: starts_def isDigit_def)

lemma render_head:
  assumes "plain v" obtains c cs where "render v = c # cs" "starts c"
proof (cases v)
  case (JNum l)
  with assms obtain i where "l = itoa i" by (auto elim: isInt_obtain)
  moreover obtain c cs where "itoa i = c # cs" "isDigit c \<or> c = CHR ''-''" by (rule itoa_head)
  ultimately show ?thesis using that JNum by (auto intro: starts_num)
next
  case (JBool b)
  then show ?thesis using that by (cases b) (auto simp: starts_def)
qed (use that in \<open>auto simp: starts_def encStr_def\<close>)

lemma skipWs_starts: "starts c \<Longrightarrow> skipWs (c # s) = c # s"
  by (auto simp: starts_def)

lemma skipWs_render: "plain v \<Longrightarrow> skipWs (render v @ s) = render v @ s"
  by (erule render_head) (simp add: skipWs_starts del: skipWs.simps)

lemma readValue_num:
  assumes "numEnd rest"
  shows "readValue (Suc n) (itoa i @ rest) = Some (JNum (itoa i), rest)"
proof -
  obtain c cs where c: "itoa i = c # cs" and d: "isDigit c \<or> c = CHR ''-''" by (rule itoa_head)
  then have "starts c" by (auto intro: starts_num)
  moreover have "c \<noteq> CHR 0x22" "c \<noteq> CHR ''[''" "c \<noteq> CHR ''{''" "c \<noteq> CHR ''t''" "c \<noteq> CHR ''f''" "c \<noteq> CHR ''n''"
    using d by (auto simp: isDigit_def)
  ultimately show ?thesis using readNum_itoa [OF assms, of i]
    by (simp add: c skipWs_starts hasPrefix_def del: skipWs.simps)
qed

lemma readMembers_cons:
  assumes "validUtf8 k" and "readValue n (render v @ y) = Some (v, y)" and "plain v"
  shows "readMembers (Suc n) (encStr k @ CHR '':'' # render v @ y) =
    (case skipWs y of [] \<Rightarrow> None
     | c # z \<Rightarrow> if c = CHR ''}'' then Some ([(k, v)], z)
       else if c = CHR '','' then map_option (\<lambda>(ms, rest). ((k, v) # ms, rest)) (readMembers n z)
       else None)"
  using assms by (simp add: encStr_def readStr_escStr)

lemma numEnd_closing [simp]:
  "numEnd (CHR '','' # s)" "numEnd (CHR '']'' # s)" "numEnd (CHR ''}'' # s)"
  by (simp_all add: numEnd_def isDigit_def)

lemma read_render:
  "plain v \<Longrightarrow> numEnd rest \<Longrightarrow> length (render v) \<le> n \<Longrightarrow> readValue n (render v @ rest) = Some (v, rest)"
  "plainElems vs \<Longrightarrow> vs \<noteq> [] \<Longrightarrow> length (renderElems vs) < n \<Longrightarrow>
     readElems n (renderElems vs @ CHR '']'' # rest) = Some (vs, rest)"
  "plainMembers ms \<Longrightarrow> ms \<noteq> [] \<Longrightarrow> length (renderMembers ms) < n \<Longrightarrow>
     readMembers n (renderMembers ms @ CHR ''}'' # rest) = Some (ms, rest)"
proof (induction v and vs and ms arbitrary: n rest and n rest and n rest
    rule: render_renderElems_renderMembers.induct)
  case (1 n)
  then show ?case by (cases n) (auto simp: hasPrefix_def)
next
  case (2 b n)
  then show ?case by (cases n) (auto simp: hasPrefix_def split: if_splits)
next
  case (3 l n)
  then obtain i where "l = itoa i" by (auto elim: isInt_obtain)
  moreover obtain c cs where "itoa i = c # cs" by (rule itoa_head)
  ultimately obtain m where "n = Suc m" using 3 by (cases n) auto
  with 3 \<open>l = itoa i\<close> readValue_num show ?case by simp
next
  case (4 s n)
  then show ?case by (cases n) (auto simp: encStr_def readStr_escStr)
next
  case (5 vs n)
  then obtain m where m: "n = Suc m" by (cases n) auto
  show ?case
  proof (cases vs)
    case Nil
    then show ?thesis by (simp add: m)
  next
    case (Cons v us)
    with 5 have "plain v" by simp
    then obtain c cs where c: "render v = c # cs" "starts c" by (rule render_head)
    with 5 Cons m have "readElems m (renderElems vs @ CHR '']'' # rest) = Some (vs, rest)"
      by simp
    with c Cons show ?thesis by (cases "us = []") (auto simp: m starts_def)
  qed
next
  case (6 ms n)
  then obtain m where m: "n = Suc m" by (cases n) auto
  show ?case
  proof (cases ms)
    case Nil
    then show ?thesis by (simp add: m)
  next
    case (Cons kv us)
    obtain k v where kv: "kv = (k, v)" by force
    from 6 Cons m have "readMembers m (renderMembers ms @ CHR ''}'' # rest) = Some (ms, rest)"
      by simp
    with Cons kv show ?thesis by (simp add: m encStr_def)
  qed
next
  case 7
  then show ?case by simp
next
  case (8 v vs n)
  then obtain m where m: "n = Suc m" by (cases n) auto
  with 8 have v: "readValue m (render v @ y) = Some (v, y)" if "numEnd y" for y
    using that by simp
  show ?case
  proof (cases vs)
    case Nil
    with v show ?thesis by (simp add: m)
  next
    case (Cons w ws)
    with 8 m have "readElems m (renderElems vs @ CHR '']'' # rest) = Some (vs, rest)" by simp
    moreover have "renderElems (v # vs) = render v @ CHR '','' # renderElems vs" by (simp add: Cons)
    ultimately show ?thesis using v by (simp add: m del: renderElems.simps)
  qed
next
  case 9
  then show ?case by simp
next
  case (10 k v ms n)
  then obtain m where m: "n = Suc m" by (cases n) auto
  with 10 have v: "readValue m (render v @ y) = Some (v, y)" if "numEnd y" for y
    using that by simp
  have k: "validUtf8 k" "plain v" using 10 by simp_all
  show ?case
  proof (cases ms)
    case Nil
    with v [of "CHR ''}'' # rest"] k show ?thesis
      by (simp add: m readMembers_cons del: readMembers.simps)
  next
    case (Cons w ws)
    with 10 m have "readMembers m (renderMembers ms @ CHR ''}'' # rest) = Some (ms, rest)" by simp
    moreover have "renderMembers ((k, v) # ms) = encStr k @ CHR '':'' # render v @ CHR '','' # renderMembers ms"
      by (simp add: Cons)
    ultimately show ?thesis using v [of "CHR '','' # renderMembers ms @ CHR ''}'' # rest"] k
      by (simp add: m readMembers_cons del: readMembers.simps renderMembers.simps)
  qed
qed

lemma decodeDoc_render:
  assumes "plain v" and "numEnd rest"
  shows "decodeDoc (render v @ rest) = Some v"
proof -
  have "length (render v) \<le> 2 * length (render v @ rest) + 2" by simp
  from read_render(1) [OF assms this] show ?thesis by (simp add: decodeDoc_def)
qed

section \<open>The fuel is enough\<close>

lemma skipWs_length: "length (skipWs s) \<le> length s"
  by (induction s) auto

lemma readStr_length: "readStr s = Some (w, t) \<Longrightarrow> length t < length s"
proof (induction "length s" arbitrary: s w t rule: less_induct)
  case less
  have IH: "readStr s' = Some (w', t) \<Longrightarrow> length s' < length s \<Longrightarrow> length t < length s" for s' w'
    using less.hyps [of s' w' t] by simp
  from less.prems show ?case
    by (subst (asm) readStr.simps)
       (auto simp del: utf8Len.simps hex4.simps split: list.splits if_splits option.splits,
        (drule IH, simp, simp)+)
qed

lemma readFrac_length: "readFrac s = Some (l, t) \<Longrightarrow> length t \<le> length s"
  and readExp_length: "readExp s = Some (l, t) \<Longrightarrow> length t \<le> length s"
  using length_dropWhile_le [of isDigit]
  by (auto simp: readFrac_def readExp_def Let_def le_SucI split: list.splits if_splits)

lemma readNum_length:
  assumes "readNum s = Some (l, t)"
  shows "length t < length s"
  using assms
  by (auto simp: readNum_def Let_def split: list.splits if_splits option.splits prod.splits
        dest!: readFrac_length readExp_length)

lemma skipWs_eq_length: "skipWs s = c # t \<Longrightarrow> length t < length s"
  using skipWs_length [of s] by simp

lemma read_length:
  "readValue n s = Some (v, t) \<Longrightarrow> length t < length s"
  "readElems n s = Some (vs, t) \<Longrightarrow> length t < length s"
  "readMembers n s = Some (ms, t) \<Longrightarrow> length t < length s"
proof (induction n arbitrary: s v t vs ms)
  case (Suc n)
  note ih = Suc.IH [THEN less_trans]
  {
    case 1
    then show ?case
      by (auto simp del: skipWs.simps split: list.splits if_splits
          dest!: readStr_length readNum_length skipWs_eq_length Suc.IH)
  next
    case 2
    then show ?case
      by (auto simp del: skipWs.simps split: list.splits if_splits option.splits prod.splits
          dest!: skipWs_eq_length Suc.IH)
  next
    case 3
    then show ?case
      by (auto simp del: skipWs.simps split: list.splits if_splits option.splits prod.splits
          dest!: skipWs_eq_length readStr_length Suc.IH)
  }
qed simp_all

text \<open>
  From twice the length of the text on, more fuel changes nothing: the model of the scanner
  never gives up because of its bound.
\<close>

lemma read_fuel:
  "2 * length s < n \<Longrightarrow> readValue (n + k) s = readValue n s"
  "2 * length s + 1 < n \<Longrightarrow> readElems (n + k) s = readElems n s"
  "2 * length s + 1 < n \<Longrightarrow> readMembers (n + k) s = readMembers n s"
proof (induction n arbitrary: s)
  case (Suc n)
  {
    case 1
    have "readElems (n + k) u = readElems n u" "readMembers (n + k) u = readMembers n u"
      if "skipWs s = c # u" for c u
      using 1 skipWs_eq_length [OF that] by (auto intro!: Suc.IH)
    then show ?case by (auto simp del: skipWs.simps split: list.split)
  next
    case 2
    have v: "readValue (n + k) s = readValue n s" using 2 by (intro Suc.IH) simp
    have "readElems (n + k) u = readElems n u"
      if "readValue n s = Some (w, t)" "skipWs t = c # u" for w t c u
      using 2 read_length(1) [OF that(1)] skipWs_eq_length [OF that(2)] by (intro Suc.IH) simp
    with v show ?case by (auto simp del: skipWs.simps split: list.split option.split)
  next
    case 3
    have len: "length w < length s"
      if "skipWs s = q # t" "readStr t = Some (f, u)" "skipWs u = p # w" for q t f u p w
      using that(1,3) [THEN skipWs_eq_length] readStr_length [OF that(2)] by simp
    have v: "readValue (n + k) w = readValue n w"
      if "skipWs s = q # t" "readStr t = Some (f, u)" "skipWs u = p # w" for q t f u p w
      using 3 len [OF that] by (intro Suc.IH) simp
    have m: "readMembers (n + k) y = readMembers n y"
      if "skipWs s = q # t" "readStr t = Some (f, u)" "skipWs u = p # w"
        "readValue n w = Some (j, x)" "skipWs x = c # y" for q t f u p w j x c y
      using 3 len [OF that(1-3)] read_length(1) [OF that(4)] skipWs_eq_length [OF that(5)]
      by (intro Suc.IH) simp
    show ?case
      by (auto simp: v m simp del: skipWs.simps split: list.split option.split)
  }
qed simp_all

lemma readValue_fuel:
  "2 * length s < n \<Longrightarrow> readValue n s = readValue (2 * length s + 1) s"
  using read_fuel(1) [of s "2 * length s + 1" "n - (2 * length s + 1)"] by simp

end
