(* ===== verification/Driver_State.thy ===== *)
theory Driver_State
  imports Json
begin

text \<open>
  The data of the driver (\<open>flexblock.go\<close>): volumes, snapshots, the global maps, Go errors with
  their gRPC status codes, and the host the driver runs on. The host is a parameter: a record
  of operations on a world \<open>'w\<close> about which nothing is assumed. External commands (xioadm,
  tgtadm, iscsiadm, mkfs, ...), the file system, the mount library, the management server
  behind HTTP, the MD5 digest, the order in which the run-time visits a map and the parser of
  request URLs are such operations.
\<close>

section \<open>Errors\<close>

datatype code = InvalidArgument | NotFound | AlreadyExists | OutOfRange | Internal
  | Unimplemented | Unavailable | Aborted

fun codeName :: "code \<Rightarrow> string" where
  "codeName InvalidArgument = ''InvalidArgument''"
| "codeName NotFound = ''NotFound''"
| "codeName AlreadyExists = ''AlreadyExists''"
| "codeName OutOfRange = ''OutOfRange''"
| "codeName Internal = ''Internal''"
| "codeName Unimplemented = ''Unimplemented''"
| "codeName Unavailable = ''Unavailable''"
| "codeName Aborted = ''Aborted''"

text \<open>
  What \<open>os.IsExist\<close> and \<open>os.IsNotExist\<close> can tell about an error of the operating system, the
  status errors of gRPC, and errors that are only a text.
\<close>

datatype oskind = EExist | ENotExist | EOther

datatype goerr = Status code string | OsErr oskind string | Plain string

text \<open>\<open>err.Error()\<close>, which is also what the verb v of fmt prints.\<close>

fun errText :: "goerr \<Rightarrow> string" where
  "errText (Status c m) = ''rpc error: code = '' @ codeName c @ '' desc = '' @ m"
| "errText (OsErr k m) = m"
| "errText (Plain m) = m"

fun errTextOpt :: "goerr option \<Rightarrow> string" where
  "errTextOpt None = ''<nil>''"
| "errTextOpt (Some e) = errText e"

definition isExist :: "goerr \<Rightarrow> bool" where
  "isExist e = (case e of OsErr k _ \<Rightarrow> k = EExist | _ \<Rightarrow> False)"

definition isNotExist :: "goerr \<Rightarrow> bool" where
  "isNotExist e = (case e of OsErr k _ \<Rightarrow> k = ENotExist | _ \<Rightarrow> False)"

section \<open>Volumes and snapshots\<close>

definition kib :: int where "kib = 1024"
definition mib :: int where "mib = kib * 1024"
definition gib :: int where "gib = mib * 1024"
definition tib :: int where "tib = gib * 1024"

definition maxStorageCapacity :: int where "maxStorageCapacity = tib"

type_synonym accessType = int

definition mountAccess :: accessType where "mountAccess = 0"
definition blockAccess :: accessType where "blockAccess = 1"

record flexBlockVolume =
  VolName :: string
  VolID :: string
  VolSize :: int
  VolPath :: string
  VolAccessType :: accessType
  ParentVolID :: string
  ParentSnapID :: string
  Ephemeral :: bool

text \<open>The creation time is a protobuf time stamp (seconds and nanoseconds), absent (nil) for a discovered snapshot.\<close>

record flexBlockSnapshot =
  SnapName :: string
  SnapId :: string
  SnapVolID :: string
  SnapPath :: string
  CreationTime :: "(int \<times> int) option"
  SizeBytes :: int
  ReadyToUse :: bool

definition dataRoot :: string where "dataRoot = ''/csi-flexblock-data-dir''"
definition snapshotExt :: string where "snapshotExt = ''.snap''"
definition csijsonfile :: string where "csijsonfile = ''/etc/neucli/flexblock_csi_info.json''"

section \<open>The host\<close>

record httpReq =
  reqMethod :: string
  reqUrl :: string
  reqHeaders :: "(string \<times> string) list"
  reqBody :: string

text \<open>The answer of the server; \<open>respToken\<close> is its header X\_auth\_token, empty when absent.\<close>

record httpResp =
  statusCode :: int
  respToken :: string
  respBody :: string

datatype fileMode = ModeDir | ModeDevice | ModeOther

datatype readdir1 = DirEOF | DirEntry | DirErr goerr

record 'w env =
  command :: "string list \<Rightarrow> 'w \<Rightarrow> (string \<times> goerr option) \<times> 'w"  \<comment> \<open>CombinedOutput\<close>
  sleep :: "nat \<Rightarrow> 'w \<Rightarrow> 'w"  \<comment> \<open>seconds\<close>
  newRequestOk :: "string \<Rightarrow> string \<Rightarrow> bool"  \<comment> \<open>does http.NewRequest accept method and URL\<close>
  doHTTP :: "httpReq \<Rightarrow> 'w \<Rightarrow> httpResp option \<times> 'w"  \<comment> \<open>None: client.Do gives an error\<close>
  md5Sum :: "string \<Rightarrow> string"
  readFile :: "string \<Rightarrow> 'w \<Rightarrow> (goerr + string) \<times> 'w"  \<comment> \<open>os.Open and the bytes up to the end\<close>
  openTrunc :: "string \<Rightarrow> 'w \<Rightarrow> goerr option \<times> 'w"  \<comment> \<open>os.OpenFile with O\_CREAT, O\_TRUNC\<close>
  writeFile :: "string \<Rightarrow> string \<Rightarrow> 'w \<Rightarrow> goerr option \<times> 'w"
  closeFile :: "string \<Rightarrow> 'w \<Rightarrow> goerr option \<times> 'w"
  createFile :: "string \<Rightarrow> 'w \<Rightarrow> goerr option \<times> 'w"  \<comment> \<open>os.OpenFile with O\_CREATE\<close>
  mkdirAll :: "string \<Rightarrow> 'w \<Rightarrow> goerr option \<times> 'w"
  remove :: "string \<Rightarrow> 'w \<Rightarrow> goerr option \<times> 'w"
  removeAll :: "string \<Rightarrow> 'w \<Rightarrow> goerr option \<times> 'w"
  lstat :: "string \<Rightarrow> 'w \<Rightarrow> goerr option \<times> 'w"
  stat :: "string \<Rightarrow> 'w \<Rightarrow> (goerr + fileMode) \<times> 'w"
  readlink :: "string \<Rightarrow> 'w \<Rightarrow> (goerr + string) \<times> 'w"
  readDir :: "string \<Rightarrow> 'w \<Rightarrow> (goerr + string list) \<times> 'w"
  openDir :: "string \<Rightarrow> 'w \<Rightarrow> goerr option \<times> 'w"
  readDir1 :: "string \<Rightarrow> 'w \<Rightarrow> readdir1 \<times> 'w"
  isNotMountPoint :: "string \<Rightarrow> 'w \<Rightarrow> (bool \<times> goerr option) \<times> 'w"
  mount :: "string \<Rightarrow> string \<Rightarrow> string \<Rightarrow> string list \<Rightarrow> 'w \<Rightarrow> goerr option \<times> 'w"
  unmount :: "string \<Rightarrow> 'w \<Rightarrow> goerr option \<times> 'w"
  listen :: "string \<Rightarrow> string \<Rightarrow> 'w \<Rightarrow> goerr option \<times> 'w"
  getpid :: "'w \<Rightarrow> nat \<times> 'w"
  rangeOrder :: "string list \<Rightarrow> 'w \<Rightarrow> string list \<times> 'w"
  regexpFind :: "string \<Rightarrow> string \<Rightarrow> string option"  \<comment> \<open>patterns with operators; None: MustCompile panics\<close>

section \<open>The driver's state\<close>

record 'w drv =
  flexBlockVolumes :: "flexBlockVolume gomap"
  volumesNull :: bool
  flexBlockVolumeSnapshots :: "flexBlockSnapshot gomap"
  confinfo :: "string gomap"
  vendorVersion :: string
  world :: 'w

text \<open>
  The map of volumes is nil after \<open>null\<close> was decoded into it (\<open>volumesNull\<close>). A nil map is empty, and
  reading and deleting treat it as the empty map; nothing that is not empty is nil.
\<close>

definition nilVolumes :: "'w drv \<Rightarrow> bool" where
  "nilVolumes s \<longleftrightarrow> volumesNull s \<and> flexBlockVolumes s = []"

type_synonym ('w, 'a) drvM = "('w drv, goerr, 'a) go"

text \<open>An operation of the host inside the driver.\<close>

definition io :: "('w \<Rightarrow> 'a \<times> 'w) \<Rightarrow> ('w, 'a) drvM" where
  "io f s = (let (a, w) = f (world s) in Some (Done a, s\<lparr>world := w\<rparr>))"

text \<open>An operation of the host that returns an error, as the code that passes it on sees it.\<close>

definition ioErr :: "('w \<Rightarrow> goerr option \<times> 'w) \<Rightarrow> ('w, unit) drvM" where
  "ioErr f = bnd (io f) (\<lambda>e. case e of None \<Rightarrow> ret () | Some x \<Rightarrow> throw x)"

definition sleepFor :: "'w env \<Rightarrow> nat \<Rightarrow> ('w, unit) drvM" where
  "sleepFor E n = io (\<lambda>w. ((), sleep E n w))"

text \<open>\<open>confinfo[k]\<close>\<close>

definition conf :: "string \<Rightarrow> ('w, string) drvM" where
  "conf k = gets (\<lambda>s. mstr (confinfo s) k)"

text \<open>
  Run a command and, when it fails, return the status error \<open>mk err out\<close>: the shape of almost
  every command in the driver.
\<close>

definition mustRun :: "'w env \<Rightarrow> string list \<Rightarrow> (goerr \<Rightarrow> string \<Rightarrow> goerr) \<Rightarrow> ('w, string) drvM" where
  "mustRun E cmd mk = bnd (io (command E cmd)) (\<lambda>(out, err).
     case err of None \<Rightarrow> ret out | Some e \<Rightarrow> throw (mk e out))"

text \<open>\<open>status.Errorf(codes.Internal, msg + " %v: %v", err, out)\<close>\<close>

definition internal2 :: "string \<Rightarrow> goerr \<Rightarrow> string \<Rightarrow> goerr" where
  "internal2 msg e out = Status Internal (msg @ '' '' @ errText e @ '': '' @ out)"

section \<open>Reasoning about host operations\<close>

lemma io_apply [go_simps]:
  "io f s = Some (Done (fst (f (world s))), s\<lparr>world := snd (f (world s))\<rparr>)"
  by (simp add: io_def split_beta)

lemma ioErr_apply [go_simps]:
  "ioErr f s = Some (case fst (f (world s)) of None \<Rightarrow> Done () | Some e \<Rightarrow> Fail e,
                     s\<lparr>world := snd (f (world s))\<rparr>)"
  by (simp add: ioErr_def go_simps split: option.splits)

lemma sleepFor_apply [go_simps]:
  "sleepFor E n s = Some (Done (), s\<lparr>world := sleep E n (world s)\<rparr>)"
  by (simp add: sleepFor_def go_simps)

lemma conf_apply [go_simps]: "conf k s = Some (Done (mstr (confinfo s) k), s)"
  by (simp add: conf_def go_simps)

lemma mustRun_apply [go_simps]:
  "mustRun E cmd mk s =
     Some (case snd (fst (command E cmd (world s))) of
             None \<Rightarrow> Done (fst (fst (command E cmd (world s))))
           | Some e \<Rightarrow> Fail (mk e (fst (fst (command E cmd (world s))))),
           s\<lparr>world := snd (command E cmd (world s))\<rparr>)"
  by (simp add: mustRun_def go_simps split_beta split: option.splits)

text \<open>
  The registry: the two global maps that the RPC handlers keep. Everything below the handlers
  leaves it alone except the functions that say otherwise.
\<close>

abbreviation registry :: "'w drv \<Rightarrow> flexBlockVolume gomap \<times> flexBlockSnapshot gomap" where
  "registry s \<equiv> (flexBlockVolumes s, flexBlockVolumeSnapshots s)"

abbreviation idle :: "('w, 'a) drvM \<Rightarrow> bool" where
  "idle m \<equiv> frame registry m"

lemma idle_io [frame_rules]: "idle (io f)"
  and idle_ioErr [frame_rules]: "idle (ioErr g)"
  and idle_sleepFor [frame_rules]: "idle (sleepFor E n)"
  and idle_conf [frame_rules]: "idle (conf k)"
  and idle_mustRun [frame_rules]: "idle (mustRun E cmd mk)"
  by (auto simp: frame_def go_simps)

lemma noFail_io [ends_rules]: "noFail (io f)"
  and noFail_sleepFor [ends_rules]: "noFail (sleepFor E n)"
  and noFail_conf [ends_rules]: "noFail (conf k)"
  by (auto simp: ends_def go_simps)

lemma idle_modify_conf [frame_rules]: "idle (modify (confinfo_update f))"
  by (simp add: frame_def go_simps)

text \<open>A function body that starts with something idle: it goes on, or it is left with the registry untouched.\<close>

lemma idle_bndE [consumes 2, case_names go stop]:
  assumes m: "idle m" and eq: "bnd m f s = Some (r, s')"
    and go: "\<And>a t. m s = Some (Done a, t) \<Longrightarrow> registry t = registry s \<Longrightarrow> f a t = Some (r, s') \<Longrightarrow> P"
    and stop: "registry s' = registry s \<Longrightarrow> \<not> isDone r \<Longrightarrow> P"
  shows P
  using eq
proof (cases rule: bnd_eq_SomeE)
  case (Done a t)
  then show ?thesis using frameD [OF m Done(1)] by (intro go)
next
  case (Fail e)
  then show ?thesis using frameD [OF m Fail(1)] by (intro stop) auto
next
  case (Crash p)
  then show ?thesis using frameD [OF m Crash(1)] by (intro stop) auto
qed

end
