(* ===== verification/Config.thy ===== *)
theory Config
  imports Driver_State
begin

text \<open>
  Configuration files: the plugin's key=value file read by \<open>init\<close> in \<open>flexblock.go\<close>, and the
  list of nodes read by \<open>CreateVolume\<close> in \<open>controllerserver.go\<close>.
\<close>

definition conffile :: string where "conffile = ''/etc/neucli/flexblock_plugin.cfg''"
definition nodelistfile :: string where "nodelistfile = ''/etc/neucli/flexblock_plugin_node_list''"
definition TopologyKeyNode :: string where "TopologyKeyNode = ''topology.flexblock.csi/node''"

abbreviation NL :: char where "NL \<equiv> CHR 0x0A"

text \<open>One line of the plugin's file: trimmed, and cut at the first equals sign if that is not in front.\<close>

definition confLine :: "string gomap \<Rightarrow> string \<Rightarrow> string gomap" where
  "confLine m raw =
     (let line = trimSpace raw in
      case index line ''='' of
        None \<Rightarrow> m
      | Some i \<Rightarrow> if i > 0 then mput (take i line) (drop (Suc i) line) m else m)"

text \<open>
  \<open>ReadString\<close> gives an error together with a last line that has no newline, and the loop of
  \<open>init\<close> leaves before it looks at that line: only terminated lines count.
\<close>

definition parseConf :: "string gomap \<Rightarrow> string \<Rightarrow> string gomap" where
  "parseConf m content = foldl confLine m (butlast (splitAt NL content))"

text \<open>The state when the package is loaded, and the package's \<open>init\<close>.\<close>

definition initVars :: "'w \<Rightarrow> 'w drv" where
  "initVars w = \<lparr>flexBlockVolumes = [], volumesNull = False, flexBlockVolumeSnapshots = [], confinfo = [],
     vendorVersion = ''dev'', world = w\<rparr>"

definition init :: "'w env \<Rightarrow> ('w, unit) drvM" where
  "init E = bnd (io (readFile E conffile)) (\<lambda>r. case r of
     Inl e \<Rightarrow> ret ()
   | Inr content \<Rightarrow> modify (confinfo_update (\<lambda>m. parseConf m content)))"

text \<open>
  The topologies of a new volume. Here the line without a newline at the end counts too.
\<close>

type_synonym topology = "string gomap"

definition nodeTopology :: "string \<Rightarrow> topology" where
  "nodeTopology n = [(TopologyKeyNode, n)]"

definition parseNodeList :: "string \<Rightarrow> topology list" where
  "parseNodeList content =
     map nodeTopology (filter (\<lambda>l. length l \<noteq> 0) (map trimSpace (splitAt NL content)))"

definition readTopologies :: "'w env \<Rightarrow> string \<Rightarrow> ('w, topology list) drvM" where
  "readTopologies E nodeID = bnd (io (readFile E nodelistfile)) (\<lambda>r. case r of
     Inl e \<Rightarrow> ret [nodeTopology nodeID]
   | Inr content \<Rightarrow> ret (parseNodeList content))"

end
