(* ===== verification/Mgmt_Client.thy ===== *)
theory Mgmt_Client
  imports Config
begin

text \<open>
  The client of the storage management server (\<open>flexblock.go\<close>: \<open>createTarget\<close>, \<open>createVol\<close>,
  \<open>getAndesVol\<close>, \<open>updateVol\<close>, \<open>deleteVol\<close>, \<open>getClusterID\<close>). Of every answer the model
  decodes the fields the code reads. Each of these Go functions has an error result that is
  always nil; the model leaves it out and \<open>noFail\<close> lemmas say that nothing is lost.
\<close>

section \<open>Answers of the server\<close>

record tidinfo =
  tiId :: int
  tiClusterId :: int
  tiAccessFlag :: string
  tiSerClusterName :: string

record luninfo =
  liVolumeId :: int
  liVolumeName :: string
  liOperatingStatus :: string

record volinfo =
  viVolumeId :: int
  viClusterId :: int
  viVolumeName :: string
  viPoolId :: int
  viTargetId :: int

record clusterinfo =
  ciClusterId :: int

record poolinfo =
  piBlockPoolId :: int
  piPoolName :: string

record serclusterinfo =
  siSerClusterId :: int
  siClusterName :: string

definition tidinfoOf :: "(string \<times> json) list \<Rightarrow> tidinfo" where
  "tidinfoOf ms = \<lparr>tiId = field ''id'' asInt 0 ms, tiClusterId = field ''clusterId'' asInt 0 ms,
     tiAccessFlag = field ''accessFlag'' asStr [] ms,
     tiSerClusterName = field ''serClusterName'' asStr [] ms\<rparr>"

definition luninfoOf :: "(string \<times> json) list \<Rightarrow> luninfo" where
  "luninfoOf ms = \<lparr>liVolumeId = field ''volumeId'' asInt 0 ms,
     liVolumeName = field ''volumeName'' asStr [] ms,
     liOperatingStatus = field ''operatingStatus'' asStr [] ms\<rparr>"

definition volinfoOf :: "(string \<times> json) list \<Rightarrow> volinfo" where
  "volinfoOf ms = \<lparr>viVolumeId = field ''volumeId'' asInt 0 ms,
     viClusterId = field ''clusterId'' asInt 0 ms, viVolumeName = field ''volumeName'' asStr [] ms,
     viPoolId = field ''poolId'' asInt 0 ms, viTargetId = field ''targetId'' asInt 0 ms\<rparr>"

definition clusterinfoOf :: "(string \<times> json) list \<Rightarrow> clusterinfo" where
  "clusterinfoOf ms = \<lparr>ciClusterId = field ''clusterId'' asInt 0 ms\<rparr>"

definition poolinfoOf :: "(string \<times> json) list \<Rightarrow> poolinfo" where
  "poolinfoOf ms = \<lparr>piBlockPoolId = field ''blockPoolId'' asInt 0 ms,
     piPoolName = field ''poolName'' asStr [] ms\<rparr>"

definition serclusterinfoOf :: "(string \<times> json) list \<Rightarrow> serclusterinfo" where
  "serclusterinfoOf ms = \<lparr>siSerClusterId = field ''id'' asInt 0 ms,
     siClusterName = field ''clusterName'' asStr [] ms\<rparr>"

section \<open>Requests\<close>

definition endpoint :: "('w, string) drvM" where
  "endpoint = bnd (conf ''storagemngip'') (\<lambda>ip. bnd (conf ''storagemngport'') (\<lambda>port.
     ret (''http://'' @ ip @ '':'' @ port)))"

definition jsonHdr :: "string \<Rightarrow> (string \<times> string) list" where
  "jsonHdr tok = [(''X_auth_token'', tok), (''Content-Type'', ''application/json'')]"

definition formHdr :: "string \<Rightarrow> (string \<times> string) list" where
  "formHdr tok = [(''X_auth_token'', tok), (''Content-Type'', ''application/x-www-form-urlencoded'')]"

text \<open>
  \<open>http.NewRequest\<close> and \<open>client.Do\<close>: \<open>None\<close> when either gives an error, without a request
  on the wire when it is the first.
\<close>

definition httpCall :: "'w env \<Rightarrow> string \<Rightarrow> string \<Rightarrow> (string \<times> string) list \<Rightarrow> string \<Rightarrow>
    ('w, httpResp option) drvM" where
  "httpCall E meth url hdrs body =
     (if newRequestOk E meth url
      then io (doHTTP E \<lparr>reqMethod = meth, reqUrl = url, reqHeaders = hdrs, reqBody = body\<rparr>)
      else ret None)"

text \<open>A GET whose answer must have status 200; its body.\<close>

definition httpGet200 :: "'w env \<Rightarrow> string \<Rightarrow> (string \<times> string) list \<Rightarrow> ('w, string option) drvM" where
  "httpGet200 E url hdrs = bnd (httpCall E ''GET'' url hdrs []) (\<lambda>r. case r of
     None \<Rightarrow> ret None
   | Some resp \<Rightarrow> ret (if statusCode resp \<noteq> 200 then None else Some (respBody resp)))"

section \<open>createTarget\<close>

definition createTargetJson :: "string \<Rightarrow> int \<Rightarrow> int \<Rightarrow> string" where
  \<open>createTargetJson volumename sercluseterid storclusterid =
     ''{"serviceName":"'' @ volumename @ ''","description":"","accessFlag":"'' @ volumename
     @ ''","serClusterIdList":['' @ itoa sercluseterid @ ''],"clusterId":'' @ itoa storclusterid @ ''}''\<close>

text \<open>The target of the volume in the list of all targets; 0 when it is not there.\<close>

definition findTid :: "int \<Rightarrow> string \<Rightarrow> string \<Rightarrow> tidinfo list \<Rightarrow> int" where
  "findTid storclusterid sercluster volumename infos =
     (case find (\<lambda>t. storclusterid = tiClusterId t \<and> sercluster = tiSerClusterName t
                     \<and> volumename = tiAccessFlag t) infos of
        Some t \<Rightarrow> tiId t | None \<Rightarrow> 0)"

definition findLun :: "string \<Rightarrow> luninfo list \<Rightarrow> int" where
  "findLun volumename infos =
     (case find (\<lambda>l. volumename = liVolumeName l \<and> liOperatingStatus l = ''TargetNewOK'') infos of
        Some l \<Rightarrow> liVolumeId l | None \<Rightarrow> 0)"

text \<open>
  One round of the wait for the LUN: sleep, ask, look. \<open>Some None\<close> leaves the function with
  -1, 0; \<open>Some (Some lunid)\<close> leaves the loop; \<open>None\<close> goes round again.
\<close>

definition pollLun :: "'w env \<Rightarrow> string \<Rightarrow> string \<Rightarrow> int \<Rightarrow> string \<Rightarrow> ('w, int option option) drvM" where
  "pollLun E ep tok tid volumename =
     bnd (sleepFor E 10) (\<lambda>_.
     bnd (httpGet200 E (ep @ ''/mng/serTarget/'' @ itoa tid @ ''/bindVol'') (jsonHdr tok)) (\<lambda>r. case r of
       None \<Rightarrow> ret (Some None)
     | Some body \<Rightarrow>
         (let lunid = findLun volumename (params luninfoOf body)
          in ret (if lunid \<noteq> 0 then Some (Some lunid) else None))))"

definition createTarget :: "'w env \<Rightarrow> int \<Rightarrow> int \<Rightarrow> string \<Rightarrow> int \<Rightarrow> ('w, int \<times> int) drvM" where
  "createTarget E storclusterid sercluseterid volumename vid =
     bnd endpoint (\<lambda>ep.
     bnd (conf ''mngtoken'') (\<lambda>tok.
     bnd (httpCall E ''POST'' (ep @ ''/mng/serTarget'') (jsonHdr tok)
            (createTargetJson volumename sercluseterid storclusterid)) (\<lambda>r. case r of
       None \<Rightarrow> ret (-1, 0)
     | Some _ \<Rightarrow>
     bnd (httpGet200 E (ep @ ''/mng/volume/iscsiService/serviceGroup?options=%7B%22serviceProto%22:%22iscsi%22%7D'')
            (formHdr tok)) (\<lambda>r. case r of
       None \<Rightarrow> ret (-1, 0)
     | Some body \<Rightarrow>
     bnd (conf ''storagemngsercluster'') (\<lambda>sercluster.
     let tid = findTid storclusterid sercluster volumename (params tidinfoOf body) in
     bnd (httpCall E ''POST'' (ep @ ''/mng/serTarget/'' @ itoa tid @ ''/bind?serviceProto=iscsi'')
            (jsonHdr tok) (''['' @ itoa vid @ '']'')) (\<lambda>r. case r of
       None \<Rightarrow> ret (-1, 0)
     | Some _ \<Rightarrow>
     bnd (loopG (pollLun E ep tok tid volumename)) (\<lambda>lun. case lun of
       None \<Rightarrow> ret (-1, 0)
     | Some lunid \<Rightarrow>
     bnd (httpCall E ''POST'' (ep @ ''/mng/volume/iscsiService/'' @ itoa tid @ ''/service'') (jsonHdr tok)
            ''{formerAcl:false,formerIp:[],formerName:[],laterAcl:true,laterIp:[],laterName:[],readonly:0,timeout:6}'')
       (\<lambda>r. case r of None \<Rightarrow> ret (-1, 0) | Some _ \<Rightarrow> ret (tid, lunid)))))))))"

section \<open>createVol, getAndesVol, updateVol, deleteVol\<close>

definition isVol :: "int \<Rightarrow> int \<Rightarrow> string \<Rightarrow> volinfo \<Rightarrow> bool" where
  "isVol clusterid poolid volumename v \<longleftrightarrow>
     clusterid = viClusterId v \<and> poolid = viPoolId v \<and> volumename = viVolumeName v"

definition createVolJson :: "int \<Rightarrow> int \<Rightarrow> string \<Rightarrow> int \<Rightarrow> string" where
  \<open>createVolJson clusterid poolid volumename volsize =
     ''{"clusterId":'' @ itoa clusterid @ '',"poolId":'' @ itoa poolid @ '',"volumeName":"'' @ volumename
     @ ''","blockThin":1,"capacityTotal":'' @ itoa volsize @ '',"redMode":"duplication","duplicationNum":2}''\<close>

definition createVol :: "'w env \<Rightarrow> int \<Rightarrow> int \<Rightarrow> string \<Rightarrow> int \<Rightarrow> ('w, int \<times> int) drvM" where
  "createVol E clusterid poolid volumename volsize =
     bnd endpoint (\<lambda>ep.
     bnd (conf ''mngtoken'') (\<lambda>tok.
     bnd (httpCall E ''POST'' (ep @ ''/mng/blockVolume'') (jsonHdr tok)
            (createVolJson clusterid poolid volumename volsize)) (\<lambda>r. case r of
       None \<Rightarrow> ret (-1, 0)
     | Some _ \<Rightarrow>
     bnd (httpGet200 E (ep @ ''/mng/blockVolume'') (formHdr tok)) (\<lambda>r. case r of
       None \<Rightarrow> ret (-1, 0)
     | Some body \<Rightarrow>
         ret (case find (isVol clusterid poolid volumename) (params volinfoOf body) of
                Some v \<Rightarrow> (viVolumeId v, viTargetId v) | None \<Rightarrow> (-1, 0))))))"

text \<open>\<open>getAndesVol\<close> runs through the whole list, so the last match counts, and 0, 0 means none.\<close>

definition getAndesVol :: "'w env \<Rightarrow> int \<Rightarrow> int \<Rightarrow> string \<Rightarrow> ('w, int \<times> int) drvM" where
  "getAndesVol E clusterid poolid volumename =
     bnd endpoint (\<lambda>ep.
     bnd (conf ''mngtoken'') (\<lambda>tok.
     bnd (httpGet200 E (ep @ ''/mng/blockVolume'') (formHdr tok)) (\<lambda>r. case r of
       None \<Rightarrow> ret (-1, 0)
     | Some body \<Rightarrow>
         ret (foldl (\<lambda>acc v. if isVol clusterid poolid volumename v then (viVolumeId v, viTargetId v) else acc)
                (0, 0) (params volinfoOf body)))))"

definition updateVolJson :: "int \<Rightarrow> int \<Rightarrow> string" where
  \<open>updateVolJson vid volsize =
     ''{"volumeId":'' @ itoa vid @ '',"snapshot":0,"alertPercent":0,"description": "","capacityTotal":''
     @ itoa volsize @ '',"redMode":"duplication","duplicationNum":2,"unitSelect":"2","blockThin":1}''\<close>

text \<open>
  The error of \<open>http.NewRequest\<close> is dropped: when there is one the request is nil and the next
  line dereferences it. The answer, error or not, is ignored.
\<close>

definition updateVol :: "'w env \<Rightarrow> int \<Rightarrow> int \<Rightarrow> string \<Rightarrow> int \<Rightarrow> ('w, int \<times> int) drvM" where
  "updateVol E clusterid poolid volumename volsize =
     bnd (getAndesVol E clusterid poolid volumename) (\<lambda>(vid, targetid).
     bnd endpoint (\<lambda>ep.
     bnd (conf ''mngtoken'') (\<lambda>tok.
     if newRequestOk E ''PUT'' (ep @ ''/mng/blockVolume/'' @ itoa vid)
     then bnd (httpCall E ''PUT'' (ep @ ''/mng/blockVolume/'' @ itoa vid) (jsonHdr tok)
                 (updateVolJson vid volsize)) (\<lambda>_. ret (vid, targetid))
     else panic ''invalid memory address or nil pointer dereference'')))"

definition deleteVol :: "'w env \<Rightarrow> int \<Rightarrow> int \<Rightarrow> string \<Rightarrow> ('w, unit) drvM" where
  "deleteVol E clusterid poolid volumename =
     bnd (getAndesVol E clusterid poolid volumename) (\<lambda>(vid, targetid).
     bnd endpoint (\<lambda>ep.
     bnd (conf ''mngtoken'') (\<lambda>tok.
     bnd (httpCall E ''DELETE'' (ep @ ''/mng/serTarget/'' @ itoa targetid @ ''/unbind/'' @ itoa vid)
            (jsonHdr tok) []) (\<lambda>r. case r of
       None \<Rightarrow> ret ()
     | Some _ \<Rightarrow>
     bnd (httpCall E ''DELETE'' (ep @ ''/mng/serTarget/'' @ itoa targetid) (jsonHdr tok) []) (\<lambda>r. case r of
       None \<Rightarrow> ret ()
     | Some _ \<Rightarrow>
     bnd (httpCall E ''DELETE'' (ep @ ''/mng/blockVolume/'' @ itoa vid) (jsonHdr tok) [])
       (\<lambda>_. ret ()))))))"

section \<open>getClusterID\<close>

text \<open>\<open>None\<close>: leave the function with -1, -1, -1.\<close>

fun searchPools :: "'w env \<Rightarrow> string \<Rightarrow> string \<Rightarrow> string \<Rightarrow> clusterinfo list \<Rightarrow>
    ('w, (int \<times> int) option) drvM" where
  "searchPools E ep tok poolname [] = ret (Some (-1, -1))"
| "searchPools E ep tok poolname (c # cs) =
     bnd (httpGet200 E (ep @ ''/mng/neuStorCluster/'' @ itoa (ciClusterId c) @ ''/blockPool?infoType=list'')
            (formHdr tok)) (\<lambda>r. case r of
       None \<Rightarrow> ret None
     | Some body \<Rightarrow>
         (case find (\<lambda>p. piPoolName p = poolname) (params poolinfoOf body) of
            Some p \<Rightarrow> ret (Some (ciClusterId c, piBlockPoolId p))
          | None \<Rightarrow> searchPools E ep tok poolname cs))"

fun searchSerClusters :: "'w env \<Rightarrow> string \<Rightarrow> string \<Rightarrow> string \<Rightarrow> clusterinfo list \<Rightarrow>
    ('w, int option) drvM" where
  "searchSerClusters E ep tok sername [] = ret (Some (-1))"
| "searchSerClusters E ep tok sername (c # cs) =
     bnd (httpGet200 E (ep @ ''/mng/sercluster?infoType=list&clusterType=2&storClusterId='' @ itoa (ciClusterId c))
            (formHdr tok)) (\<lambda>r. case r of
       None \<Rightarrow> ret None
     | Some body \<Rightarrow>
         (case find (\<lambda>i. siClusterName i = sername) (params serclusterinfoOf body) of
            Some i \<Rightarrow> ret (Some (siSerClusterId i))
          | None \<Rightarrow> searchSerClusters E ep tok sername cs))"

text \<open>The body of the login form; the password is digested twice.\<close>

definition loginBody :: "'w env \<Rightarrow> string \<Rightarrow> string \<Rightarrow> string" where
  "loginBody E username password =
     ''password='' @ queryEscape (hexEncode (md5Sum E (hexEncode (md5Sum E password))))
     @ ''&username='' @ queryEscape username"

definition getClusterID :: "'w env \<Rightarrow> ('w, int \<times> int \<times> int) drvM" where
  "getClusterID E =
     bnd (conf ''csimod'') (\<lambda>csimod.
     if csimod = [] \<or> csimod = ''local'' then ret (0, 0, 0)
     else
     bnd endpoint (\<lambda>ep.
     bnd (conf ''storagemngusername'') (\<lambda>username.
     bnd (conf ''storagemngpassword'') (\<lambda>password.
     bnd (conf ''storagemngpoolname'') (\<lambda>poolname.
     bnd (conf ''storagemngsercluster'') (\<lambda>serclustername.
     bnd (httpCall E ''POST'' (ep @ ''/mng/j_spring_security_check_kxapi'')
            [(''Content-Type'', ''application/x-www-form-urlencoded'')] (loginBody E username password)) (\<lambda>r. case r of
       None \<Rightarrow> ret (-1, -1, -1)
     | Some resp \<Rightarrow>
     let tok = respToken resp in
     bnd (modify (confinfo_update (mput ''mngtoken'' tok))) (\<lambda>_.
     bnd (httpGet200 E (ep @ ''/mng/neuStorCluster?infoType=list&serClusterId=0'') (formHdr tok)) (\<lambda>r. case r of
       None \<Rightarrow> ret (-1, -1, -1)
     | Some body \<Rightarrow>
     let cs = params clusterinfoOf body in
     bnd (searchPools E ep tok poolname cs) (\<lambda>pool. case pool of
       None \<Rightarrow> ret (-1, -1, -1)
     | Some (storageclusterid, storagepoolid) \<Rightarrow>
     bnd (searchSerClusters E ep tok serclustername cs) (\<lambda>ser. case ser of
       None \<Rightarrow> ret (-1, -1, -1)
     | Some serviceclusterid \<Rightarrow> ret (storageclusterid, storagepoolid, serviceclusterid))))))))))))"

section \<open>The client leaves the registry alone and its error result is always nil\<close>

lemma idle_endpoint [frame_rules]: "idle endpoint"
  and noFail_endpoint [ends_rules]: "noFail endpoint"
  unfolding endpoint_def by (intro frame_rules ends_rules)+

lemma idle_httpCall [frame_rules]: "idle (httpCall E meth url hdrs body)"
  and noFail_httpCall [ends_rules]: "noFail (httpCall E meth url hdrs body)"
  unfolding httpCall_def by (intro frame_rules ends_rules)+

lemma idle_httpGet200 [frame_rules]: "idle (httpGet200 E url hdrs)"
  and noFail_httpGet200 [ends_rules]: "noFail (httpGet200 E url hdrs)"
  unfolding httpGet200_def by (intro frame_rules ends_rules)+

lemma idle_pollLun [frame_rules]: "idle (pollLun E ep tok tid v)"
  and noFail_pollLun [ends_rules]: "noFail (pollLun E ep tok tid v)"
  unfolding pollLun_def by (intro frame_rules ends_rules)+

lemma idle_createTarget [frame_rules]: "idle (createTarget E sc se v vid)"
  and noFail_createTarget [ends_rules]: "noFail (createTarget E sc se v vid)"
  unfolding createTarget_def by (intro frame_rules ends_rules)+

lemma idle_createVol [frame_rules]: "idle (createVol E c p v z)"
  and noFail_createVol [ends_rules]: "noFail (createVol E c p v z)"
  unfolding createVol_def by (intro frame_rules ends_rules)+

lemma idle_getAndesVol [frame_rules]: "idle (getAndesVol E c p v)"
  and noFail_getAndesVol [ends_rules]: "noFail (getAndesVol E c p v)"
  unfolding getAndesVol_def by (intro frame_rules ends_rules)+

lemma idle_updateVol [frame_rules]: "idle (updateVol E c p v z)"
  and noFail_updateVol [ends_rules]: "noFail (updateVol E c p v z)"
  unfolding updateVol_def by (intro frame_rules ends_rules)+

lemma idle_deleteVol [frame_rules]: "idle (deleteVol E c p v)"
  and noFail_deleteVol [ends_rules]: "noFail (deleteVol E c p v)"
  unfolding deleteVol_def by (intro frame_rules ends_rules)+

lemma idle_searchPools [frame_rules]: "idle (searchPools E ep tok pn cs)"
  and noFail_searchPools [ends_rules]: "noFail (searchPools E ep tok pn cs)"
  by (induction cs) (auto intro!: frame_rules ends_rules)

lemma idle_searchSerClusters [frame_rules]: "idle (searchSerClusters E ep tok sn cs)"
  and noFail_searchSerClusters [ends_rules]: "noFail (searchSerClusters E ep tok sn cs)"
  by (induction cs) (auto intro!: frame_rules ends_rules)

lemma idle_getClusterID [frame_rules]: "idle (getClusterID E)"
  and noFail_getClusterID [ends_rules]: "noFail (getClusterID E)"
  unfolding getClusterID_def by (intro frame_rules ends_rules)+

end
