(* ===== verification/Volumes.thy ===== *)
theory Volumes
  imports Mgmt_Client
begin

text \<open>
  The volume and snapshot tables of \<open>flexblock.go\<close>: look-ups, paths, the JSON file the volumes
  are kept in between runs, and the discovery of volumes and snapshots at start.
\<close>

section \<open>Paths and snapshot file names\<close>

definition getVolumePath :: "string \<Rightarrow> string" where
  "getVolumePath volID = join2 dataRoot volID"

definition getSnapshotPath :: "string \<Rightarrow> string" where
  "getSnapshotPath snapshotID = join2 dataRoot (snapshotID @ snapshotExt)"

definition getSnapshotID :: "string \<Rightarrow> bool \<times> string" where
  "getSnapshotID file =
     (if ext file = snapshotExt then (True, trimSuffix file snapshotExt) else (False, []))"

section \<open>Look-ups\<close>

definition getVolumeByID :: "string \<Rightarrow> ('w, flexBlockVolume) drvM" where
  "getVolumeByID volumeID = bnd (gets flexBlockVolumes) (\<lambda>m. case mget m volumeID of
     Some v \<Rightarrow> ret v
   | None \<Rightarrow> throw (Plain (''volume id '' @ volumeID @ '' does not exist in the volumes list'')))"

text \<open>The keys of a map in the order this \<open>range\<close> visits them.\<close>

definition rangeKeys :: "'w env \<Rightarrow> string list \<Rightarrow> ('w, string list) drvM" where
  "rangeKeys E ks = bnd (io (rangeOrder E ks)) (\<lambda>p. ret (permOf p ks))"

definition getVolumeByName :: "'w env \<Rightarrow> string \<Rightarrow> ('w, flexBlockVolume) drvM" where
  "getVolumeByName E volName = bnd (gets flexBlockVolumes) (\<lambda>m.
     bnd (rangeKeys E (mkeys m)) (\<lambda>ks.
     case firstMatch (mget m) (\<lambda>v. VolName v = volName) ks of
       Some v \<Rightarrow> ret v
     | None \<Rightarrow> throw (Plain (''volume name '' @ volName @ '' does not exist in the volumes list''))))"

text \<open>
  \<open>getSnapshotByName\<close> is called only from the unreachable part of \<open>CreateSnapshot\<close>.
\<close>

definition getSnapshotByName :: "'w env \<Rightarrow> string \<Rightarrow> ('w, flexBlockSnapshot) drvM" where
  "getSnapshotByName E nm = bnd (gets flexBlockVolumeSnapshots) (\<lambda>m.
     bnd (rangeKeys E (mkeys m)) (\<lambda>ks.
     case firstMatch (mget m) (\<lambda>v. SnapName v = nm) ks of
       Some v \<Rightarrow> ret v
     | None \<Rightarrow> throw (Plain (''snapshot name '' @ nm @ '' does not exist in the snapshots list''))))"

section \<open>The volumes file\<close>

text \<open>The struct tags of \<open>flexBlockVolume\<close>: two fields are left out when empty.\<close>

definition volJson :: "flexBlockVolume \<Rightarrow> json" where
  "volJson v = JObj
     ([(''volName'', JStr (VolName v)), (''volID'', JStr (VolID v)), (''volSize'', JNum (itoa (VolSize v))),
       (''volPath'', JStr (VolPath v)), (''volAccessType'', JNum (itoa (VolAccessType v)))]
      @ (if ParentVolID v = [] then [] else [(''parentVolID'', JStr (ParentVolID v))])
      @ (if ParentSnapID v = [] then [] else [(''parentSnapID'', JStr (ParentSnapID v))])
      @ [(''ephemeral'', JBool (Ephemeral v))])"

definition volOf :: "(string \<times> json) list \<Rightarrow> flexBlockVolume" where
  "volOf ms = \<lparr>VolName = field ''volName'' asStr [] ms, VolID = field ''volID'' asStr [] ms,
     VolSize = field ''volSize'' asInt 0 ms, VolPath = field ''volPath'' asStr [] ms,
     VolAccessType = field ''volAccessType'' asInt 0 ms,
     ParentVolID = field ''parentVolID'' asStr [] ms, ParentSnapID = field ''parentSnapID'' asStr [] ms,
     Ephemeral = field ''ephemeral'' asBool False ms\<rparr>"

text \<open>\<open>Encode\<close> writes the members of a map sorted by key, and a newline.\<close>

definition volumesJson :: "flexBlockVolume gomap \<Rightarrow> json" where
  "volumesJson m = JObj (map (\<lambda>k. (k, volJson (the (mget m k)))) (sort (mkeys m)))"

definition encodeVolumes :: "flexBlockVolume gomap \<Rightarrow> string" where
  "encodeVolumes m = render (volumesJson m) @ [NL]"

text \<open>
  \<open>Decode(&flexBlockVolumes)\<close>: every member of an object is stored into the map (which is made
  when it is nil), \<open>null\<close> sets the map to nil, and any other document leaves it as it is.
\<close>

definition decodeVolumes :: "flexBlockVolume gomap \<Rightarrow> string \<Rightarrow> flexBlockVolume gomap" where
  "decodeVolumes m text = (case decodeDoc text of
     Some (JObj ms) \<Rightarrow> foldl (\<lambda>m (k, v). mput k (volOf (members v)) m) m ms
   | Some JNull \<Rightarrow> []
   | _ \<Rightarrow> m)"

definition decodedNull :: "bool \<Rightarrow> string \<Rightarrow> bool" where
  "decodedNull isNil text = (case decodeDoc text of Some (JObj ms) \<Rightarrow> False | Some JNull \<Rightarrow> True | _ \<Rightarrow> isNil)"

definition discoverExistingVol :: "'w env \<Rightarrow> ('w, unit) drvM" where
  "discoverExistingVol E =
     bnd (io (lstat E csijsonfile)) (\<lambda>ferr.
     if (case ferr of Some e \<Rightarrow> isNotExist e | None \<Rightarrow> False) then ret ()
     else bnd (io (readFile E csijsonfile)) (\<lambda>r. case r of
       Inl e \<Rightarrow> ret ()
     | Inr text \<Rightarrow> modify (\<lambda>s. s\<lparr>flexBlockVolumes := decodeVolumes (flexBlockVolumes s) text,
         volumesNull := decodedNull (volumesNull s) text\<rparr>)))"

definition saveExistingVol :: "'w env \<Rightarrow> ('w, unit) drvM" where
  "saveExistingVol E =
     bnd (io (mkdirAll E ''/etc/neucli'')) (\<lambda>ferr. case ferr of Some e \<Rightarrow> ret () | None \<Rightarrow>
     bnd (io (openTrunc E csijsonfile)) (\<lambda>fileerr. case fileerr of Some e \<Rightarrow> ret () | None \<Rightarrow>
     bnd (gets (\<lambda>s. if nilVolumes s then ''null'' @ [NL] else encodeVolumes (flexBlockVolumes s))) (\<lambda>text.
     bnd (io (writeFile E csijsonfile text)) (\<lambda>_.
     bnd (io (closeFile E csijsonfile)) (\<lambda>_. ret ())))))"

section \<open>Discovery of snapshots\<close>

definition foundSnapshot :: "string \<Rightarrow> flexBlockSnapshot" where
  "foundSnapshot snapshotID = \<lparr>SnapName = [], SnapId = snapshotID, SnapVolID = [],
     SnapPath = getSnapshotPath snapshotID, CreationTime = None, SizeBytes = 0, ReadyToUse = True\<rparr>"

definition addSnapshotFile :: "flexBlockSnapshot gomap \<Rightarrow> string \<Rightarrow> flexBlockSnapshot gomap" where
  "addSnapshotFile m file =
     (let (isSnapshot, snapshotID) = getSnapshotID file
      in if isSnapshot then mput snapshotID (foundSnapshot snapshotID) m else m)"

definition discoverExistingSnapshots :: "'w env \<Rightarrow> ('w, unit) drvM" where
  "discoverExistingSnapshots E = bnd (io (readDir E dataRoot)) (\<lambda>r.
     modify (\<lambda>s. s\<lparr>flexBlockVolumeSnapshots :=
       foldl addSnapshotFile (flexBlockVolumeSnapshots s) (case r of Inl e \<Rightarrow> [] | Inr files \<Rightarrow> files)\<rparr>))"

lemma idle_saveExistingVol [frame_rules]: "idle (saveExistingVol E)"
  and noFail_saveExistingVol [ends_rules]: "noFail (saveExistingVol E)"
  unfolding saveExistingVol_def by (intro frame_rules ends_rules)+

lemma idle_rangeKeys [frame_rules]: "idle (rangeKeys E ks)"
  unfolding rangeKeys_def by (intro frame_rules)

lemma idle_getVolumeByID [frame_rules]: "idle (getVolumeByID i)"
  unfolding getVolumeByID_def by (intro frame_rules)

lemma idle_getVolumeByName [frame_rules]: "idle (getVolumeByName E n)"
  unfolding getVolumeByName_def by (intro frame_rules)

lemma getVolumeByID_apply [go_simps]:
  "getVolumeByID i s = Some (case mget (flexBlockVolumes s) i of Some v \<Rightarrow> Done v
     | None \<Rightarrow> Fail (Plain (''volume id '' @ i @ '' does not exist in the volumes list'')), s)"
  by (simp add: getVolumeByID_def go_simps split: option.splits)

text \<open>Saving never fails and never panics, and touches the host only.\<close>

lemma saveExistingVol_returns: "\<exists>w. saveExistingVol E s = Some (Done (), s\<lparr>world := w\<rparr>)"
  by (auto simp: saveExistingVol_def go_simps split: option.splits)

end
