(* ===== verification/Lifecycle.thy ===== *)
theory Lifecycle
  imports Volumes
begin

text \<open>
  Creation, growth and deletion of a volume (\<open>flexblock.go\<close>: \<open>createFlexblockVolume\<close>,
  \<open>updateFlexblockVolume\<close>, \<open>deleteFlexblockVolume\<close>). Each has two back ends: the local one
  drives xioadm and tgtadm on the node, the remote one the management server and iSCSI.
\<close>

section \<open>Names and target numbers\<close>

definition localIqn :: "string \<Rightarrow> string" where
  "localIqn volID = ''iqn.2017-10-30.kx.flexcsi-'' @ volID"

definition remoteIqn :: "string \<Rightarrow> string" where
  "remoteIqn volID = ''iqn.2017-10-30.kx.flex-'' @ volID"

definition localDisk :: "string \<Rightarrow> string" where
  "localDisk iqnname = ''/dev/disk/by-path/ip-127.0.0.1:3260-iscsi-'' @ iqnname @ ''-lun-1''"

text \<open>\<open>s[lo:hi]\<close>; \<open>None\<close> is the run-time panic.\<close>

definition slice :: "string \<Rightarrow> int \<Rightarrow> int \<Rightarrow> string option" where
  "slice s lo hi = (if 0 \<le> lo \<and> lo \<le> hi \<and> hi \<le> int (length s)
     then Some (take (nat (hi - lo)) (drop (nat lo) s)) else None)"

definition sliceM :: "string \<Rightarrow> int \<Rightarrow> int \<Rightarrow> ('w, string) drvM" where
  "sliceM s lo hi = (case slice s lo hi of Some t \<Rightarrow> ret t
     | None \<Rightarrow> panic ''slice bounds out of range'')"

text \<open>The pattern \<open>Target [\d]+:\<close>\<close>

definition reTarget :: "atom list" where
  "reTarget = map Lit ''Target '' @ [Digits, Lit (CHR '':'')]"

text \<open>
  The highest target number in use: the one of the last target that \<open>tgtadm --op show\<close> lists,
  0 when it lists none.
\<close>

definition lastTid :: "string \<Rightarrow> ('w, int) drvM" where
  "lastTid out = (case lastIndex out ''Target '' of
     None \<Rightarrow> ret 0
   | Some i \<Rightarrow>
       (let MEId1 = findString reTarget (drop i out); l3 = int (length MEId1)
        in bnd (sliceM MEId1 7 (l3 - 1)) (\<lambda>d. ret (atoi d))))"

text \<open>
  \<open>FindString\<close> with the pattern \<open>Target [\d]+:\<close>, a blank and the name: the name's dots are wild
  cards, a name with an operator of the pattern language is the environment's matter, and one
  that is not valid UTF-8 makes \<open>MustCompile\<close> panic.
\<close>

definition findTarget :: "'w env \<Rightarrow> string \<Rightarrow> string \<Rightarrow> ('w, string) drvM" where
  "findTarget E iqnname out =
     (if \<not> validUtf8 iqnname then panic ''regexp: Compile''
      else if list_ex (\<lambda>c. c \<in> set reMeta) iqnname then
        (case regexpFind E (''Target ['' @ [CHR 0x5C] @ ''d]+: '' @ iqnname) out of
           None \<Rightarrow> panic ''regexp: Compile'' | Some m \<Rightarrow> ret m)
      else ret (findString (reTarget @ Lit (CHR '' '') # reAtoms iqnname) out))"

text \<open>The number of the target with a given name, as \<open>deleteFlexblockVolume\<close> finds it.\<close>

definition targetTid :: "'w env \<Rightarrow> string \<Rightarrow> string \<Rightarrow> ('w, int) drvM" where
  "targetTid E iqnname out =
     bnd (findTarget E iqnname out) (\<lambda>MEId.
     let MEId1 = findString reTarget MEId; l3 = int (length MEId1) in
     case lastIndex MEId MEId1 of
       None \<Rightarrow> ret 0
     | Some i \<Rightarrow> bnd (sliceM MEId1 (int i + 7) (l3 - 1)) (\<lambda>d. ret (atoi d)))"

section \<open>Finding the block device of a remote volume\<close>

text \<open>
  The by-path link of the volume's LUN through the first portal, \<open>dflt\<close> when there is none,
  and the device mapper devices on top of the disk it points to.
\<close>

definition resolveDisk :: "'w env \<Rightarrow> string \<Rightarrow> string \<Rightarrow> string \<Rightarrow> ('w, string \<times> string list) drvM" where
  "resolveDisk E iqnname ip0 dflt =
     bnd (io (readDir E ''/dev/disk/by-path/'')) (\<lambda>r.
     let iscsifiles = (case r of Inl e \<Rightarrow> [] | Inr fs \<Rightarrow> fs);
         iscsipathpre = ''ip-'' @ ip0 @ '':3260-iscsi-'' @ iqnname @ ''-lun-'';
         diskpath = (case find (\<lambda>f. hasPrefix f iscsipathpre) iscsifiles of
                       Some f \<Rightarrow> ''/dev/disk/by-path/'' @ f | None \<Rightarrow> dflt) in
     bnd (io (readlink E diskpath)) (\<lambda>l.
     let diskname = afterLastSlash (case l of Inl e \<Rightarrow> [] | Inr t \<Rightarrow> t) in
     bnd (io (readDir E (''/sys/block/'' @ diskname @ ''/holders/''))) (\<lambda>h.
     ret (diskpath, case h of Inl e \<Rightarrow> [] | Inr hs \<Rightarrow> hs))))"

section \<open>createFlexblockVolume\<close>

definition createLocal :: "'w env \<Rightarrow> string \<Rightarrow> int \<Rightarrow> ('w, string) drvM" where
  "createLocal E volID cap =
     (let sz = itoa (goDiv cap mib) @ ''M''; iqnname = localIqn volID in
     bnd (io (command E [''xioadm'', ''vdi'', ''create'', volID, sz])) (\<lambda>(out, err).
     bnd (case err of
            Some e \<Rightarrow> failIf (\<not> contains out ''VDI exists already'') (internal2 ''failed createflexblockvol'' e out)
          | None \<Rightarrow> ret ()) (\<lambda>_.
     bnd (mustRun E [''tgtadm'', ''-m'', ''target'', ''-o'', ''show'']
            (internal2 ''failed createflexblockvol for andes error'')) (\<lambda>out.
     bnd (failIf (contains out iqnname)
            (Status Internal (''failed createflexblockvol find '' @ volID @ '' in target ''))) (\<lambda>_.
     bnd (lastTid out) (\<lambda>lasttid.
     let tidstr = itoa (wrap64 (lasttid + 1)) in
     bnd (mustRun E [''tgtadm'', ''-L'', ''iscsi'', ''-m'', ''target'', ''-o'', ''new'', ''-t'', tidstr, ''-T'', iqnname]
            (internal2 ''failed createflexblockvol for target error'')) (\<lambda>_.
     bnd (mustRun E [''tgtadm'', ''-m'', ''lu'', ''-o'', ''new'', ''-t'', tidstr, ''-l'', ''1'', ''-E'', ''flexblock'', ''-b'',
                     ''unix:///var/lib/flex/7000/sock:'' @ volID]
            (internal2 ''failed createflexblockvol for lun error'')) (\<lambda>_.
     bnd (mustRun E [''tgtadm'', ''-L'', ''iscsi'', ''-o'', ''bind'', ''-m'', ''target'', ''-t'', tidstr, ''-I'', ''127.0.0.1'']
            (internal2 ''failed createflexblockvol for target bind localhost error'')) (\<lambda>_.
     bnd (mustRun E [''nc3kxtarget'', ''--dump'']
            (internal2 ''failed createflexblockvol for dump target error'')) (\<lambda>_.
     bnd (mustRun E [''iscsiadm'', ''-m'', ''discovery'', ''-t'', ''st'', ''-p'', ''127.0.0.1'']
            (internal2 ''failed createflexblockvol for discovery target error'')) (\<lambda>_.
     bnd (mustRun E [''iscsiadm'', ''-m'', ''node'', ''-T'', iqnname, ''-p'', ''127.0.0.1'', ''-l'']
            (internal2 ''failed createflexblockvol for login target error'')) (\<lambda>_.
     ret (localDisk iqnname)))))))))))))"

definition loginPortal :: "'w env \<Rightarrow> string \<Rightarrow> string \<Rightarrow> ('w, unit) drvM" where
  "loginPortal E iqnname ip =
     bnd (mustRun E [''iscsiadm'', ''-m'', ''discovery'', ''-t'', ''st'', ''-p'', ip]
            (internal2 ''failed createflexblockvol for discovery target error'')) (\<lambda>_.
     bnd (mustRun E [''iscsiadm'', ''-m'', ''node'', ''-T'', iqnname, ''-p'', ip, ''-l'']
            (internal2 ''failed createflexblockvol for login target error'')) (\<lambda>_. ret ()))"

definition createRemote :: "'w env \<Rightarrow> string \<Rightarrow> int \<Rightarrow> int \<times> int \<times> int \<Rightarrow> ('w, string) drvM" where
  "createRemote E volID cap ids = (case ids of (storclusterid, storpoolid, sercluseterid) \<Rightarrow>
     let iqnname = remoteIqn volID in
     bnd (createVol E storclusterid storpoolid volID cap) (\<lambda>(vid, targetid).
     bnd (if targetid = 0 then bnd (createTarget E storclusterid sercluseterid volID vid) (\<lambda>_. ret ())
          else ret ()) (\<lambda>_.
     bnd (conf ''storageiscsiips'') (\<lambda>ips.
     let storiplist = splitAt (CHR '','') ips in
     bnd (forEach storiplist (loginPortal E iqnname)) (\<lambda>_.
     bnd (resolveDisk E iqnname (hd storiplist) ''/dev'') (\<lambda>(diskpath, holderfiles).
     bnd (failIf (holderfiles = [] \<and> length storiplist > 1)
            (Status Internal ''failed createflexblockvol for get pool '')) (\<lambda>_.
     ret (case holderfiles of h # _ \<Rightarrow> ''/dev/'' @ h | [] \<Rightarrow> diskpath))))))))"

text \<open>
  The file system of a mount volume. The messages of the two commands print \<open>err\<close>, which is nil
  here, where they mean the error of the command.
\<close>

definition prepareAccess :: "'w env \<Rightarrow> string \<Rightarrow> string \<Rightarrow> accessType \<Rightarrow> ('w, string) drvM" where
  "prepareAccess E path diskpath volAccessType =
     (if volAccessType = mountAccess then
        bnd (ioErr (mkdirAll E path)) (\<lambda>_.
        bnd (sleepFor E 5) (\<lambda>_.
        bnd (mustRun E [''mkfs.ext4'', diskpath, ''-F''] (\<lambda>cmderr out.
               Status Internal (''failed createflexblockvol for mkfs ext4 error '' @ errTextOpt None @ '': '' @ out))) (\<lambda>_.
        bnd (mustRun E [''mount'', ''-t'', ''ext4'', diskpath, path] (\<lambda>cmderr out.
               Status Internal (''failed createflexblockvol for mount target error '' @ errTextOpt None @ '': '' @ out))) (\<lambda>_.
        ret path))))
      else if volAccessType = blockAccess then ret diskpath
      else throw (Plain (''unsupported access type '' @ itoa volAccessType)))"

definition newVolume :: "string \<Rightarrow> string \<Rightarrow> int \<Rightarrow> string \<Rightarrow> accessType \<Rightarrow> bool \<Rightarrow> flexBlockVolume" where
  "newVolume volID nm cap path volAccessType eph =
     \<lparr>VolName = nm, VolID = volID, VolSize = cap, VolPath = path, VolAccessType = volAccessType,
      ParentVolID = [], ParentSnapID = [], Ephemeral = eph\<rparr>"

text \<open>A store into a nil map panics.\<close>

definition storeVolume :: "'w env \<Rightarrow> string \<Rightarrow> flexBlockVolume \<Rightarrow> ('w, unit) drvM" where
  "storeVolume E volID v =
     bnd (gets nilVolumes) (\<lambda>isNil.
     if isNil then panic ''assignment to entry in nil map''
     else bnd (modify (\<lambda>s. s\<lparr>flexBlockVolumes := mput volID v (flexBlockVolumes s)\<rparr>)) (\<lambda>_. saveExistingVol E))"

definition createFlexblockVolume :: "'w env \<Rightarrow> string \<Rightarrow> string \<Rightarrow> int \<Rightarrow> accessType \<Rightarrow> bool \<Rightarrow>
    ('w, flexBlockVolume) drvM" where
  "createFlexblockVolume E volID nm cap volAccessType eph =
     bnd (getClusterID E) (\<lambda>ids.
     bnd (if fst ids = 0 then createLocal E volID cap else createRemote E volID cap ids) (\<lambda>diskpath.
     bnd (prepareAccess E (getVolumePath volID) diskpath volAccessType) (\<lambda>path.
     let v = newVolume volID nm cap path volAccessType eph in
     bnd (storeVolume E volID v) (\<lambda>_. ret v))))"

section \<open>updateFlexblockVolume\<close>

definition updateLocal :: "'w env \<Rightarrow> string \<Rightarrow> string \<Rightarrow> ('w, string) drvM" where
  "updateLocal E volID sz =
     bnd (mustRun E [''xioadm'', ''vdi'', ''resize'', volID, sz] (internal2 ''failed updateflexblockvol'')) (\<lambda>_.
     bnd (mustRun E [''iscsiadm'', ''-m'', ''node'', ''-T'', localIqn volID, ''-R'']
            (internal2 ''failed updateflexblockvol update target'')) (\<lambda>_.
     ret (localDisk (localIqn volID))))"

definition updateRemote :: "'w env \<Rightarrow> string \<Rightarrow> int \<Rightarrow> int \<times> int \<times> int \<Rightarrow> ('w, string) drvM" where
  "updateRemote E volID volsize ids = (case ids of (storclusterid, storpoolid, sercluseterid) \<Rightarrow>
     let iqnname = remoteIqn volID in
     bnd (updateVol E storclusterid storpoolid volID volsize) (\<lambda>_.
     bnd (mustRun E [''iscsiadm'', ''-m'', ''node'', ''-T'', iqnname, ''-R'']
            (internal2 ''failed updateflexblockvol update target'')) (\<lambda>_.
     bnd (conf ''storageiscsiips'') (\<lambda>ips.
     let storiplist = splitAt (CHR '','') ips in
     bnd (resolveDisk E iqnname (hd storiplist) ''/dev/'') (\<lambda>(diskpath, holderfiles).
     bnd (failIf (holderfiles = [] \<and> length storiplist > 1)
            (Status Internal ''failed createflexblockvol for get pool '')) (\<lambda>_.
     case holderfiles of
       [] \<Rightarrow> ret diskpath
     | h # _ \<Rightarrow> bnd (io (command E [''multipath'', ''-r'', ''/dev/'' @ h])) (\<lambda>_. ret (''/dev/'' @ h))))))))"

definition updateFlexblockVolume :: "'w env \<Rightarrow> string \<Rightarrow> flexBlockVolume \<Rightarrow> ('w, unit) drvM" where
  "updateFlexblockVolume E volID volume =
     bnd (attempt (getVolumeByID volID)) (\<lambda>r. case r of
       Inl e \<Rightarrow> ret ()
     | Inr vol \<Rightarrow>
     let sz = itoa (goDiv (VolSize volume) mib) @ ''M'' in
     bnd (getClusterID E) (\<lambda>ids.
     bnd (if fst ids = 0 then updateLocal E volID sz
          else updateRemote E volID (VolSize volume) ids) (\<lambda>diskpath.
     bnd (if VolAccessType vol = mountAccess
          then bnd (mustRun E [''resize2fs'', diskpath] (internal2 ''failed updateflexblockvol resize fs target'')) (\<lambda>_. ret ())
          else ret ()) (\<lambda>_.
     storeVolume E volID volume))))"

section \<open>deleteFlexblockVolume\<close>

definition deleteLocal :: "'w env \<Rightarrow> string \<Rightarrow> ('w, unit) drvM" where
  "deleteLocal E volID =
     (let iqnname = localIqn volID in
     bnd (mustRun E [''iscsiadm'', ''-m'', ''node'', ''-T'', iqnname, ''-u'']
            (internal2 ''failed deleteflexblockvol for logout target error'')) (\<lambda>_.
     bnd (mustRun E [''iscsiadm'', ''-m'', ''discoverydb'', ''-n'', iqnname, ''-o'', ''delete'', ''-t'', ''st'', ''-p'', ''127.0.0.1'']
            (internal2 ''failed deleteflexblockvol for discoverydb delete target error'')) (\<lambda>_.
     bnd (mustRun E [''tgtadm'', ''-m'', ''target'', ''-o'', ''show'']
            (internal2 ''failed deleteflexblockvol for andes error'')) (\<lambda>out.
     bnd (failIf (\<not> contains out iqnname)
            (Status Internal (''failed deleteflexblockvol find '' @ volID @ '' in target ''))) (\<lambda>_.
     bnd (targetTid E iqnname out) (\<lambda>lasttid.
     bnd (mustRun E [''tgtadm'', ''-L'', ''iscsi'', ''-m'', ''target'', ''-o'', ''delete'', ''-t'', itoa lasttid]
            (internal2 ''failed deleteflexblockvol for delete target error'')) (\<lambda>_.
     bnd (mustRun E [''nc3kxtarget'', ''--dump'']
            (internal2 ''failed deleteflexblockvol for dump target error'')) (\<lambda>_.
     bnd (mustRun E [''xioadm'', ''vdi'', ''delete'', volID]
            (internal2 ''failed deleteflexblockvol'')) (\<lambda>_. ret ())))))))))"

text \<open>Take the multipath device away: every mapper link that leads to the first holder.\<close>

definition dropMapper :: "'w env \<Rightarrow> string \<Rightarrow> string \<Rightarrow> ('w, unit) drvM" where
  "dropMapper E dmname mapperfile =
     bnd (io (readlink E (''/dev/mapper/'' @ mapperfile))) (\<lambda>l. case l of
       Inl e \<Rightarrow> ret ()
     | Inr mdmname \<Rightarrow>
         if dmname = afterLastSlash mdmname
         then bnd (io (command E [''dmsetup'', ''remove'', mapperfile, ''--force''])) (\<lambda>_. ret ())
         else ret ())"

definition deleteRemote :: "'w env \<Rightarrow> string \<Rightarrow> int \<times> int \<times> int \<Rightarrow> ('w, unit) drvM" where
  "deleteRemote E volID ids = (case ids of (storclusterid, storpoolid, sercluseterid) \<Rightarrow>
     let iqnname = remoteIqn volID in
     bnd (conf ''storageiscsiips'') (\<lambda>ips.
     let storiplist = splitAt (CHR '','') ips in
     bnd (resolveDisk E iqnname (hd storiplist) ''/dev/'') (\<lambda>(diskpath, holderfiles).
     bnd (case holderfiles of
            [] \<Rightarrow> ret ()
          | dmname # _ \<Rightarrow>
              bnd (io (readDir E ''/dev/mapper/'')) (\<lambda>r.
              forEach (case r of Inl e \<Rightarrow> [] | Inr fs \<Rightarrow> fs) (dropMapper E dmname))) (\<lambda>_.
     bnd (io (command E [''iscsiadm'', ''-m'', ''node'', ''-T'', iqnname, ''-u''])) (\<lambda>_.
     bnd (forEach storiplist (\<lambda>ip.
            bnd (io (command E [''iscsiadm'', ''-m'', ''discoverydb'', ''-n'', iqnname, ''-o'', ''delete'', ''-t'', ''st'', ''-p'', ip]))
              (\<lambda>_. ret ()))) (\<lambda>_.
     deleteVol E storclusterid storpoolid volID))))))"

definition deleteFlexblockVolume :: "'w env \<Rightarrow> string \<Rightarrow> ('w, unit) drvM" where
  "deleteFlexblockVolume E volID =
     bnd (attempt (getVolumeByID volID)) (\<lambda>r. case r of
       Inl e \<Rightarrow> ret ()
     | Inr vol \<Rightarrow>
     let path = getVolumePath volID in
     bnd (if VolAccessType vol = mountAccess
          then bnd (mustRun E [''umount'', path] (\<lambda>errumount out.
                 Status Internal (''failed deleteflexblockvol for umount target error '' @ errTextOpt None @ '': '' @ out)))
                 (\<lambda>_. ret ())
          else ret ()) (\<lambda>_.
     bnd (getClusterID E) (\<lambda>ids.
     bnd (if fst ids = 0 then deleteLocal E volID else deleteRemote E volID ids) (\<lambda>_.
     bnd (io (removeAll E path)) (\<lambda>err.
     bnd (case err of Some e \<Rightarrow> failIf (\<not> isNotExist e) e | None \<Rightarrow> ret ()) (\<lambda>_.
     bnd (modify (\<lambda>s. s\<lparr>flexBlockVolumes := mdel volID (flexBlockVolumes s)\<rparr>)) (\<lambda>_.
     saveExistingVol E)))))))"

section \<open>What the parts leave alone\<close>

lemma idle_sliceM [frame_rules]: "idle (sliceM t lo hi)"
  unfolding sliceM_def by (intro frame_rules)

lemma idle_lastTid [frame_rules]: "idle (lastTid out)"
  unfolding lastTid_def by (intro frame_rules)

lemma idle_findTarget [frame_rules]: "idle (findTarget E iqn out)"
  unfolding findTarget_def by (intro frame_rules)

lemma idle_targetTid [frame_rules]: "idle (targetTid E iqn out)"
  unfolding targetTid_def by (intro frame_rules)

lemma idle_resolveDisk [frame_rules]: "idle (resolveDisk E iqn ip d)"
  unfolding resolveDisk_def by (intro frame_rules)

lemma idle_createLocal [frame_rules]: "idle (createLocal E i c)"
  unfolding createLocal_def by (intro frame_rules)

lemma idle_loginPortal [frame_rules]: "idle (loginPortal E iqn ip)"
  unfolding loginPortal_def by (intro frame_rules)

lemma idle_createRemote [frame_rules]: "idle (createRemote E i c ids)"
  unfolding createRemote_def by (intro frame_rules)

lemma idle_prepareAccess [frame_rules]: "idle (prepareAccess E p d a)"
  unfolding prepareAccess_def by (intro frame_rules)

lemma idle_updateLocal [frame_rules]: "idle (updateLocal E i sz)"
  unfolding updateLocal_def by (intro frame_rules)

lemma frame_list [frame_rules]:
  "frame f a \<Longrightarrow> (\<And>y ys. frame f (b y ys)) \<Longrightarrow> frame f (case xs of [] \<Rightarrow> a | y # ys \<Rightarrow> b y ys)"
  by (cases xs) auto

lemma idle_updateRemote [frame_rules]: "idle (updateRemote E i z ids)"
  unfolding updateRemote_def by (intro frame_rules)

lemma idle_deleteLocal [frame_rules]: "idle (deleteLocal E i)"
  unfolding deleteLocal_def by (intro frame_rules)

lemma idle_dropMapper [frame_rules]: "idle (dropMapper E d m)"
  unfolding dropMapper_def by (intro frame_rules)

lemma idle_deleteRemote [frame_rules]: "idle (deleteRemote E i ids)"
  unfolding deleteRemote_def by (intro frame_rules)

section \<open>Contracts of the three operations\<close>

lemma storeVolume_cases:
  obtains "nilVolumes s" "storeVolume E i v s = Some (Crash ''assignment to entry in nil map'', s)"
    | w where "\<not> nilVolumes s" "storeVolume E i v s =
        Some (Done (), s\<lparr>flexBlockVolumes := mput i v (flexBlockVolumes s), world := w\<rparr>)"
  using saveExistingVol_returns [of E "s\<lparr>flexBlockVolumes := mput i v (flexBlockVolumes s)\<rparr>"]
  by (cases "nilVolumes s") (auto simp: storeVolume_def go_simps)

lemma prepareAccess_Done:
  "prepareAccess E p d a s = Some (Done q, s') \<Longrightarrow>
     a = mountAccess \<and> q = p \<or> a = blockAccess \<and> q = d"
  by (auto simp: prepareAccess_def go_simps split: if_splits option.splits outcome.splits)

lemma create_contract:
  assumes "createFlexblockVolume E i n c a e s = Some (r, s')"
  shows "(\<exists>p. r = Done (newVolume i n c p a e) \<and> (a = mountAccess \<and> p = getVolumePath i \<or> a = blockAccess) \<and>
            registry s' = (mput i (newVolume i n c p a e) (flexBlockVolumes s), flexBlockVolumeSnapshots s))
         \<or> \<not> isDone r \<and> registry s' = registry s"
  using idle_getClusterID assms [unfolded createFlexblockVolume_def]
proof (cases rule: idle_bndE)
  case (go ids t)
  note t = go(2)
  have "idle (if fst ids = 0 then createLocal E i c else createRemote E i c ids)"
    by (intro frame_rules)
  from this go(3) show ?thesis
  proof (cases rule: idle_bndE)
    case (go d u)
    note u = go(2)
    from idle_prepareAccess go(3) show ?thesis
    proof (cases rule: idle_bndE)
      case (go q v)
      show ?thesis
        using go(2,3) t u prepareAccess_Done [OF go(1)]
        by (cases rule: storeVolume_cases [of v E i "newVolume i n c q a e"]) (auto simp: go_simps Let_def)
    qed (use t u in auto)
  qed (use t in auto)
qed auto

lemma update_missing:
  "mget (flexBlockVolumes s) i = None \<Longrightarrow> updateFlexblockVolume E i v s = Some (Done (), s)"
  by (simp add: updateFlexblockVolume_def go_simps)

lemma update_contract:
  assumes "updateFlexblockVolume E i v s = Some (r, s')" and "mget (flexBlockVolumes s) i = Some old"
  shows "r = Done () \<and> registry s' = (mput i v (flexBlockVolumes s), flexBlockVolumeSnapshots s)
         \<or> \<not> isDone r \<and> registry s' = registry s"
proof -
  let ?resize = "\<lambda>d. if VolAccessType old = mountAccess
      then bnd (mustRun E [''resize2fs'', d] (internal2 ''failed updateflexblockvol resize fs target'')) (\<lambda>_. ret ())
      else ret ()"
  let ?disk = "\<lambda>ids. if fst ids = 0 then updateLocal E i (itoa (goDiv (VolSize v) mib) @ ''M'')
      else updateRemote E i (VolSize v) ids"
  have idle: "idle (bnd (getClusterID E) (\<lambda>ids. bnd (?disk ids) ?resize))"
    by (intro frame_rules)
  from assms have "bnd (bnd (getClusterID E) (\<lambda>ids. bnd (?disk ids) ?resize)) (\<lambda>_. storeVolume E i v) s = Some (r, s')"
    by (simp add: updateFlexblockVolume_def bnd_apply [of "attempt (getVolumeByID i)"] attempt_apply
          getVolumeByID_apply bnd_assoc Let_def)
  with idle show ?thesis
  proof (cases rule: idle_bndE)
    case (go a t)
    then show ?thesis by (cases rule: storeVolume_cases [of t E i v]) auto
  qed auto
qed

lemma delete_missing:
  "mget (flexBlockVolumes s) i = None \<Longrightarrow> deleteFlexblockVolume E i s = Some (Done (), s)"
  by (simp add: deleteFlexblockVolume_def go_simps)

lemma delete_contract:
  assumes "deleteFlexblockVolume E i s = Some (r, s')" and "mget (flexBlockVolumes s) i = Some old"
  shows "r = Done () \<and> registry s' = (mdel i (flexBlockVolumes s), flexBlockVolumeSnapshots s)
         \<or> \<not> isDone r \<and> registry s' = registry s"
proof -
  let ?umount = "if VolAccessType old = mountAccess
      then bnd (mustRun E [''umount'', getVolumePath i] (\<lambda>errumount out.
             Status Internal (''failed deleteflexblockvol for umount target error '' @ errTextOpt None @ '': '' @ out)))
             (\<lambda>_. ret ())
      else ret ()"
  let ?host = "bnd ?umount (\<lambda>_. bnd (getClusterID E) (\<lambda>ids.
      bnd (if fst ids = 0 then deleteLocal E i else deleteRemote E i ids) (\<lambda>_.
      bnd (io (removeAll E (getVolumePath i))) (\<lambda>err.
      case err of Some e \<Rightarrow> failIf (\<not> isNotExist e) e | None \<Rightarrow> ret ()))))"
  let ?commit = "bnd (modify (\<lambda>s. s\<lparr>flexBlockVolumes := mdel i (flexBlockVolumes s)\<rparr>)) (\<lambda>_. saveExistingVol E)"
  have idle: "idle ?host" by (intro frame_rules)
  from assms have "bnd ?host (\<lambda>_. ?commit) s = Some (r, s')"
    by (simp add: deleteFlexblockVolume_def bnd_apply [of "attempt (getVolumeByID i)"] attempt_apply
          getVolumeByID_apply bnd_assoc Let_def)
  with idle show ?thesis
  proof (cases rule: idle_bndE)
    case (go a t)
    with saveExistingVol_returns [of E "t\<lparr>flexBlockVolumes := mdel i (flexBlockVolumes t)\<rparr>"]
    show ?thesis by (auto simp: go_simps)
  qed auto
qed

end
