(* ===== verification/Backend.thy ===== *)
theory Backend
  imports Lifecycle
begin

text \<open>
  What the RPC handlers rely on when they create, grow and delete volumes, as an interface
  \<open>volume_backend\<close>, and the well-formedness of the two tables. The three functions of
  \<open>flexblock.go\<close> provide the interface for every host.
\<close>

section \<open>Well-formed tables\<close>

text \<open>
  A volume under key \<open>i\<close>: its identifier is the key; a volume made by \<open>CreateVolume\<close> has a name
  that is four bytes and then the key, and less than the maximal size; an ephemeral one is named
  after its key, has the maximal size and a file system; a file system is mounted under the
  data directory; the parent fields are empty.
\<close>

definition volOK :: "string \<Rightarrow> flexBlockVolume \<Rightarrow> bool" where
  "volOK i v \<longleftrightarrow> VolID v = i
     \<and> (VolAccessType v = mountAccess \<and> VolPath v = getVolumePath i \<or> VolAccessType v = blockAccess)
     \<and> (if Ephemeral v
        then VolName v = ''ephemeral-'' @ i \<and> VolSize v = maxStorageCapacity \<and> VolAccessType v = mountAccess
        else 4 \<le> length (VolName v) \<and> drop 4 (VolName v) = i \<and> VolSize v < maxStorageCapacity)
     \<and> ParentVolID v = [] \<and> ParentSnapID v = []"

definition volsOK :: "flexBlockVolume gomap \<Rightarrow> bool" where
  "volsOK m \<longleftrightarrow> mwf m \<and> list_all (\<lambda>(k, v). volOK k v) m"

text \<open>Every snapshot the driver knows is a file it found when it started.\<close>

definition snapsOK :: "flexBlockSnapshot gomap \<Rightarrow> bool" where
  "snapsOK m \<longleftrightarrow> mwf m \<and> list_all (\<lambda>(k, v). v = foundSnapshot k) m"

lemma list_all_gomap:
  "mwf m \<Longrightarrow> list_all (\<lambda>(k, v). P k v) m \<longleftrightarrow> (\<forall>k v. mget m k = Some v \<longrightarrow> P k v)"
  by (auto simp: mwf_def mget_def list_all_iff map_of_eq_Some_iff)

lemma volsOK_iff: "volsOK m \<longleftrightarrow> mwf m \<and> (\<forall>k v. mget m k = Some v \<longrightarrow> volOK k v)"
  by (auto simp: volsOK_def list_all_gomap)

lemma snapsOK_iff: "snapsOK m \<longleftrightarrow> mwf m \<and> (\<forall>k v. mget m k = Some v \<longrightarrow> v = foundSnapshot k)"
  by (auto simp: snapsOK_def list_all_gomap)

lemma volsOK_empty: "volsOK []"
  by (simp add: volsOK_def mwf_def)

lemma volsOK_put: "volsOK m \<Longrightarrow> volOK i v \<Longrightarrow> volsOK (mput i v m)"
  by (auto simp: volsOK_iff gm.wf_put gm.get_put split: if_splits)

lemma volsOK_del: "volsOK m \<Longrightarrow> volsOK (mdel i m)"
  by (auto simp: volsOK_iff gm.wf_del gm.get_del split: if_splits)

lemma snapsOK_del: "snapsOK m \<Longrightarrow> snapsOK (mdel i m)"
  by (auto simp: snapsOK_iff gm.wf_del gm.get_del split: if_splits)

lemma volsOK_get: "volsOK m \<Longrightarrow> mget m i = Some v \<Longrightarrow> volOK i v"
  by (simp add: volsOK_iff)

text \<open>Growing a volume below the limit keeps it well-formed.\<close>

lemma volOK_grow:
  "volOK i v \<Longrightarrow> VolSize v < c \<Longrightarrow> c < maxStorageCapacity \<Longrightarrow> volOK i (v\<lparr>VolSize := c\<rparr>)"
  by (auto simp: volOK_def split: if_splits)

text \<open>Two volumes of \<open>CreateVolume\<close> with the same name are the same volume.\<close>

lemma volsOK_name_unique:
  assumes "volsOK m" "mget m i = Some v" "mget m j = Some w"
    and "VolName v = VolName w" "\<not> Ephemeral v" "\<not> Ephemeral w"
  shows "i = j \<and> v = w"
proof -
  from assms volsOK_get have "volOK i v" "volOK j w" by blast+
  with assms(4-6) have "i = j" by (auto simp: volOK_def)
  with assms(2,3) show ?thesis by simp
qed

section \<open>The interface\<close>

locale volume_backend =
  fixes create :: "string \<Rightarrow> string \<Rightarrow> int \<Rightarrow> accessType \<Rightarrow> bool \<Rightarrow> ('w, flexBlockVolume) drvM"
    and update :: "string \<Rightarrow> flexBlockVolume \<Rightarrow> ('w, unit) drvM"
    and delete :: "string \<Rightarrow> ('w, unit) drvM"
  assumes create_spec:
      "create i n c a e s = Some (rc, s') \<Longrightarrow>
        (\<exists>p. rc = Done (newVolume i n c p a e) \<and> (a = mountAccess \<and> p = getVolumePath i \<or> a = blockAccess) \<and>
           registry s' = (mput i (newVolume i n c p a e) (flexBlockVolumes s), flexBlockVolumeSnapshots s))
        \<or> \<not> isDone rc \<and> registry s' = registry s"
    and update_spec:
      "update i v s = Some (r, s') \<Longrightarrow> mget (flexBlockVolumes s) i = Some old \<Longrightarrow>
        r = Done () \<and> registry s' = (mput i v (flexBlockVolumes s), flexBlockVolumeSnapshots s)
        \<or> \<not> isDone r \<and> registry s' = registry s"
    and update_absent: "mget (flexBlockVolumes s) i = None \<Longrightarrow> update i v s = Some (Done (), s)"
    and delete_spec:
      "delete i s = Some (r, s') \<Longrightarrow> mget (flexBlockVolumes s) i = Some old \<Longrightarrow>
        r = Done () \<and> registry s' = (mdel i (flexBlockVolumes s), flexBlockVolumeSnapshots s)
        \<or> \<not> isDone r \<and> registry s' = registry s"
    and delete_absent: "mget (flexBlockVolumes s) i = None \<Longrightarrow> delete i s = Some (Done (), s)"
begin

lemma create_Done:
  assumes "create i n c a e s = Some (Done v, s')"
  shows "mget (flexBlockVolumes s') i = Some v" and "VolID v = i" and "VolName v = n"
    and "VolSize v = c" and "VolAccessType v = a" and "Ephemeral v = e"
    and "flexBlockVolumes s' = mput i v (flexBlockVolumes s)"
  using create_spec [OF assms] by (auto simp: newVolume_def gm.get_put_same)

lemma create_keeps_snapshots:
  "create i n c a e s = Some (r, s') \<Longrightarrow> flexBlockVolumeSnapshots s' = flexBlockVolumeSnapshots s"
  using create_spec [of i n c a e s r s'] by auto

lemma create_other:
  "create i n c a e s = Some (r, s') \<Longrightarrow> j \<noteq> i \<Longrightarrow>
   mget (flexBlockVolumes s') j = mget (flexBlockVolumes s) j"
  using create_spec [of i n c a e s r s'] by (auto simp: gm.get_put)

lemma create_volsOK:
  assumes "create i n c a e s = Some (r, s')" and "volsOK (flexBlockVolumes s)"
    and "if e then n = ''ephemeral-'' @ i \<and> c = maxStorageCapacity \<and> a = mountAccess
         else 4 \<le> length n \<and> drop 4 n = i \<and> c < maxStorageCapacity"
  shows "volsOK (flexBlockVolumes s')"
proof -
  have "volOK i (newVolume i n c p a e)"
    if "a = mountAccess \<and> p = getVolumePath i \<or> a = blockAccess" for p
    using that assms(3) by (auto simp: volOK_def newVolume_def split: if_splits)
  with create_spec [OF assms(1)] assms(2) show ?thesis by (auto intro!: volsOK_put)
qed

lemma update_volsOK:
  assumes "update i v s = Some (r, s')" and "volsOK (flexBlockVolumes s)" and "volOK i v"
  shows "volsOK (flexBlockVolumes s')"
proof (cases "mget (flexBlockVolumes s) i")
  case None
  from update_absent [OF None, of v] assms show ?thesis by simp
next
  case (Some old)
  from update_spec [OF assms(1) Some] assms(2,3) show ?thesis by (auto intro: volsOK_put)
qed

lemma update_keeps_snapshots:
  assumes "update i v s = Some (r, s')"
  shows "flexBlockVolumeSnapshots s' = flexBlockVolumeSnapshots s"
proof (cases "mget (flexBlockVolumes s) i")
  case None
  from update_absent [OF None, of v] assms show ?thesis by simp
next
  case (Some old)
  from update_spec [OF assms Some] show ?thesis by auto
qed

lemma delete_registry:
  assumes "delete i s = Some (r, s')"
  shows "registry s' = (mdel i (flexBlockVolumes s), flexBlockVolumeSnapshots s) \<and> r = Done ()
         \<or> registry s' = registry s \<and> (r = Done () \<longrightarrow> mget (flexBlockVolumes s) i = None)"
proof (cases "mget (flexBlockVolumes s) i")
  case None
  from delete_absent [OF None] assms None show ?thesis by simp
next
  case (Some old)
  from delete_spec [OF assms Some] show ?thesis by auto
qed

lemma delete_volsOK:
  "delete i s = Some (r, s') \<Longrightarrow> volsOK (flexBlockVolumes s) \<Longrightarrow> volsOK (flexBlockVolumes s')"
  using delete_registry [of i s r s'] by (auto intro: volsOK_del)

lemma delete_keeps_snapshots:
  "delete i s = Some (r, s') \<Longrightarrow> flexBlockVolumeSnapshots s' = flexBlockVolumeSnapshots s"
  using delete_registry [of i s r s'] by auto

lemma delete_gone:
  assumes "delete i s = Some (Done (), s')" and "volsOK (flexBlockVolumes s)"
  shows "mget (flexBlockVolumes s') i = None"
  using delete_registry [OF assms(1)] assms(2) by (auto simp: gm.get_del_same volsOK_iff)

lemma delete_other:
  assumes "delete i s = Some (r, s')" and "volsOK (flexBlockVolumes s)" and "j \<noteq> i"
  shows "mget (flexBlockVolumes s') j = mget (flexBlockVolumes s) j"
  using delete_registry [OF assms(1)] assms(2,3) by (auto simp: gm.get_del volsOK_iff)

text \<open>A deletion that is repeated does nothing, not even to the host.\<close>

lemma delete_again:
  assumes "delete i s = Some (Done (), s')" and "volsOK (flexBlockVolumes s)"
  shows "delete i s' = Some (Done (), s')"
  using delete_gone [OF assms] by (rule delete_absent)

text \<open>Creating a volume and deleting it leaves the table as it was.\<close>

lemma create_delete:
  assumes "create i n c a e s = Some (Done v, t)" and "delete i t = Some (Done (), u)"
    and "volsOK (flexBlockVolumes s)" and "mget (flexBlockVolumes s) i = None"
  shows "mget (flexBlockVolumes u) = mget (flexBlockVolumes s)"
proof -
  from create_Done(7) [OF assms(1)] have t: "flexBlockVolumes t = mput i v (flexBlockVolumes s)" .
  from create_Done(1) [OF assms(1)] delete_spec [OF assms(2)] have
    "flexBlockVolumes u = mdel i (flexBlockVolumes t)" by auto
  with t assms(3,4) show ?thesis by (simp add: gm.put_del_get volsOK_iff)
qed

end

interpretation fb: volume_backend "createFlexblockVolume E" "updateFlexblockVolume E" "deleteFlexblockVolume E"
  for E :: "'w env"
proof (unfold_locales, goal_cases)
  case (1 i n c a e s r s')
  then show ?case by (rule create_contract)
next
  case (2 i v s r s' old)
  then show ?case by (rule update_contract)
next
  case (3 s i v)
  then show ?case by (rule update_missing)
next
  case (4 i s r s' old)
  then show ?case by (rule delete_contract)
next
  case (5 s i)
  then show ?case by (rule delete_missing)
qed

end
