(* ===== verification/Populate.thy ===== *)
theory Populate
  imports Backend
begin

text \<open>
  Filling a new volume from a snapshot or from another volume (\<open>flexblock.go\<close>:
  \<open>loadFromSnapshot\<close>, \<open>loadFromVolume\<close> and their helpers).
\<close>

definition flexBlockIsEmpty :: "'w env \<Rightarrow> string \<Rightarrow> ('w, bool) drvM" where
  "flexBlockIsEmpty E p =
     bnd (io (openDir E p)) (\<lambda>err. case err of
       Some e \<Rightarrow> throw (Plain (''unable to open flexblock volume, error: '' @ errText e))
     | None \<Rightarrow>
     bnd (io (readDir1 E p)) (\<lambda>r. case r of
       DirEOF \<Rightarrow> ret True | DirEntry \<Rightarrow> ret False | DirErr e \<Rightarrow> throw e))"

definition loadFromSnapshot :: "'w env \<Rightarrow> int \<Rightarrow> string \<Rightarrow> string \<Rightarrow> accessType \<Rightarrow> ('w, unit) drvM" where
  "loadFromSnapshot E sz snapshotId destPath mode =
     bnd (gets flexBlockVolumeSnapshots) (\<lambda>m. case mget m snapshotId of
       None \<Rightarrow> throw (Status NotFound (''cannot find snapshot '' @ snapshotId))
     | Some snapshot \<Rightarrow>
     bnd (failIf (\<not> ReadyToUse snapshot)
            (Status Internal (''snapshot '' @ snapshotId @ '' is not yet ready to use.''))) (\<lambda>_.
     bnd (failIf (SizeBytes snapshot > sz)
            (Status InvalidArgument (''snapshot '' @ snapshotId @ '' size '' @ itoa (SizeBytes snapshot)
               @ '' is greater than requested volume size '' @ itoa sz))) (\<lambda>_.
     let snapshotPath = SnapPath snapshot;
         failed = (\<lambda>e out. Status Internal (''failed pre-populate data from snapshot '' @ snapshotId
                    @ '': '' @ errText e @ '': '' @ out)) in
     if mode = mountAccess then
       bnd (mustRun E [''tar'', ''zxvf'', snapshotPath, ''-C'', destPath] failed) (\<lambda>_. ret ())
     else if mode = blockAccess then
       bnd (mustRun E [''dd'', ''if='' @ snapshotPath, ''of='' @ destPath] failed) (\<lambda>_. ret ())
     else throw (Status InvalidArgument (''unknown accessType: '' @ itoa mode)))))"

definition populateFailed :: "flexBlockVolume \<Rightarrow> goerr \<Rightarrow> string \<Rightarrow> goerr" where
  "populateFailed v e out = Status Internal (''failed pre-populate data from volume '' @ VolID v
     @ '': '' @ errText e @ '': '' @ out)"

definition loadFromFilesystemVolume :: "'w env \<Rightarrow> flexBlockVolume \<Rightarrow> string \<Rightarrow> ('w, unit) drvM" where
  "loadFromFilesystemVolume E v destPath =
     (let srcPath = VolPath v in
     bnd (attempt (flexBlockIsEmpty E srcPath)) (\<lambda>r. case r of
       Inl e \<Rightarrow> throw (Status Internal (''failed verification check of source flexblock volume ''
                         @ VolID v @ '': '' @ errText e))
     | Inr isEmpty \<Rightarrow>
         if \<not> isEmpty then
           bnd (mustRun E [''cp'', ''-a'', srcPath @ ''/.'', destPath @ ''/''] (populateFailed v)) (\<lambda>_. ret ())
         else ret ()))"

definition loadFromBlockVolume :: "'w env \<Rightarrow> flexBlockVolume \<Rightarrow> string \<Rightarrow> ('w, unit) drvM" where
  "loadFromBlockVolume E v destPath =
     bnd (mustRun E [''dd'', ''if='' @ VolPath v, ''of='' @ destPath] (populateFailed v)) (\<lambda>_. ret ())"

definition loadFromVolume :: "'w env \<Rightarrow> int \<Rightarrow> string \<Rightarrow> string \<Rightarrow> accessType \<Rightarrow> ('w, unit) drvM" where
  "loadFromVolume E sz srcVolumeId destPath mode =
     bnd (gets flexBlockVolumes) (\<lambda>m. case mget m srcVolumeId of
       None \<Rightarrow> throw (Status NotFound
         ''source volumeId does not exist, are source/destination in the same storage class?'')
     | Some v \<Rightarrow>
     bnd (failIf (VolSize v > sz)
            (Status InvalidArgument (''volume '' @ srcVolumeId @ '' size '' @ itoa (VolSize v)
               @ '' is greater than requested volume size '' @ itoa sz))) (\<lambda>_.
     bnd (failIf (mode \<noteq> VolAccessType v)
            (Status InvalidArgument (''volume '' @ srcVolumeId @ '' mode is not compatible with requested mode''))) (\<lambda>_.
     if mode = mountAccess then loadFromFilesystemVolume E v destPath
     else if mode = blockAccess then loadFromBlockVolume E v destPath
     else throw (Status InvalidArgument (''unknown accessType: '' @ itoa mode)))))"

lemma frame_readdir1 [frame_rules]:
  "frame f a \<Longrightarrow> frame f b \<Longrightarrow> (\<And>e. frame f (c e)) \<Longrightarrow>
   frame f (case r of DirEOF \<Rightarrow> a | DirEntry \<Rightarrow> b | DirErr e \<Rightarrow> c e)"
  by (cases r) auto

lemma idle_flexBlockIsEmpty [frame_rules]: "idle (flexBlockIsEmpty E p)"
  unfolding flexBlockIsEmpty_def by (intro frame_rules)

lemma idle_loadFromSnapshot [frame_rules]: "idle (loadFromSnapshot E sz i p m)"
  unfolding loadFromSnapshot_def by (intro frame_rules)

lemma idle_loadFromFilesystemVolume [frame_rules]: "idle (loadFromFilesystemVolume E v p)"
  unfolding loadFromFilesystemVolume_def by (intro frame_rules)

lemma idle_loadFromBlockVolume [frame_rules]: "idle (loadFromBlockVolume E v p)"
  unfolding loadFromBlockVolume_def by (intro frame_rules)

lemma idle_loadFromVolume [frame_rules]: "idle (loadFromVolume E sz i p m)"
  unfolding loadFromVolume_def by (intro frame_rules)

end
