(* ===== verification/Controller.thy ===== *)
theory Controller
  imports Populate
begin

text \<open>
  The controller service (\<open>controllerserver.go\<close>): one definition per RPC, over requests and
  responses with the fields the handlers read and fill.
\<close>

section \<open>Requests and responses\<close>

datatype rpcType = RPC_UNKNOWN | RPC_CREATE_DELETE_VOLUME | RPC_PUBLISH_UNPUBLISH_VOLUME
  | RPC_LIST_VOLUMES | RPC_GET_CAPACITY | RPC_CREATE_DELETE_SNAPSHOT | RPC_LIST_SNAPSHOTS
  | RPC_CLONE_VOLUME | RPC_PUBLISH_READONLY | RPC_EXPAND_VOLUME | RPC_LIST_VOLUMES_PUBLISHED_NODES
  | RPC_VOLUME_CONDITION | RPC_GET_VOLUME

fun rpcName :: "rpcType \<Rightarrow> string" where
  "rpcName RPC_UNKNOWN = ''UNKNOWN''"
| "rpcName RPC_CREATE_DELETE_VOLUME = ''CREATE_DELETE_VOLUME''"
| "rpcName RPC_PUBLISH_UNPUBLISH_VOLUME = ''PUBLISH_UNPUBLISH_VOLUME''"
| "rpcName RPC_LIST_VOLUMES = ''LIST_VOLUMES''"
| "rpcName RPC_GET_CAPACITY = ''GET_CAPACITY''"
| "rpcName RPC_CREATE_DELETE_SNAPSHOT = ''CREATE_DELETE_SNAPSHOT''"
| "rpcName RPC_LIST_SNAPSHOTS = ''LIST_SNAPSHOTS''"
| "rpcName RPC_CLONE_VOLUME = ''CLONE_VOLUME''"
| "rpcName RPC_PUBLISH_READONLY = ''PUBLISH_READONLY''"
| "rpcName RPC_EXPAND_VOLUME = ''EXPAND_VOLUME''"
| "rpcName RPC_LIST_VOLUMES_PUBLISHED_NODES = ''LIST_VOLUMES_PUBLISHED_NODES''"
| "rpcName RPC_VOLUME_CONDITION = ''VOLUME_CONDITION''"
| "rpcName RPC_GET_VOLUME = ''GET_VOLUME''"

text \<open>The access type of a volume capability is a oneof: block, mount (type and flags) or unset.\<close>

datatype volumeCapability = CapUnset | CapBlock | CapMount string "string list"

definition getBlock :: "volumeCapability \<Rightarrow> bool" where
  "getBlock c = (c = CapBlock)"

definition getMount :: "volumeCapability \<Rightarrow> bool" where
  "getMount c = (case c of CapMount _ _ \<Rightarrow> True | _ \<Rightarrow> False)"

text \<open>A oneof too; inside a set alternative the message may be nil.\<close>

datatype contentSource = SrcUnset | SrcSnapshot "string option" | SrcVolume "string option"

text \<open>\<open>GetCapacityRange().GetRequiredBytes()\<close>: 0 when there is no range.\<close>

record capacityRange =
  RequiredBytes :: int
  LimitBytes :: int

definition getRequiredBytes :: "capacityRange option \<Rightarrow> int" where
  "getRequiredBytes r = (case r of None \<Rightarrow> 0 | Some c \<Rightarrow> RequiredBytes c)"

record createVolumeRequest =
  cvName :: string
  cvCapacityRange :: "capacityRange option"
  cvCapabilities :: "volumeCapability list option"
  cvParameters :: "string gomap"
  cvSource :: "contentSource option"

record csiVolume =
  VolumeId :: string
  CapacityBytes :: int
  VolumeContext :: "string gomap"
  ContentSource :: "contentSource option"
  AccessibleTopology :: "topology list"

record csiSnapshot =
  sSnapshotId :: string
  sSourceVolumeId :: string
  sCreationTime :: "(int \<times> int) option"
  sSizeBytes :: int
  sReadyToUse :: bool

record validateRequest =
  vvVolumeId :: string
  vvContext :: "string gomap"
  vvCapabilities :: "volumeCapability list"
  vvParameters :: "string gomap"

record confirmed =
  cfContext :: "string gomap"
  cfCapabilities :: "volumeCapability list"
  cfParameters :: "string gomap"

record listSnapshotsRequest =
  lsMaxEntries :: "32 word"
  lsStartingToken :: string
  lsSourceVolumeId :: string
  lsSnapshotId :: string

record listSnapshotsResponse =
  Entries :: "csiSnapshot list"
  NextToken :: string

section \<open>The server\<close>

record controllerServer =
  caps :: "rpcType list"
  csNodeID :: string

definition NewControllerServer :: "bool \<Rightarrow> string \<Rightarrow> controllerServer" where
  "NewControllerServer eph nodeID =
     (if eph then \<lparr>caps = [], csNodeID = nodeID\<rparr>
      else \<lparr>caps = [RPC_CREATE_DELETE_VOLUME, RPC_GET_CAPACITY, RPC_CREATE_DELETE_SNAPSHOT,
                    RPC_LIST_SNAPSHOTS, RPC_CLONE_VOLUME, RPC_EXPAND_VOLUME],
            csNodeID = nodeID\<rparr>)"

definition validateControllerServiceRequest :: "controllerServer \<Rightarrow> rpcType \<Rightarrow> ('w, unit) drvM" where
  "validateControllerServiceRequest cs c =
     (if c = RPC_UNKNOWN then ret ()
      else if list_ex (\<lambda>cap. c = cap) (caps cs) then ret ()
      else throw (Status InvalidArgument (''unsupported capability '' @ rpcName c)))"

section \<open>CreateVolume\<close>

text \<open>The volume of that name exists: compare it with the request.\<close>

definition existingVolume :: "createVolumeRequest \<Rightarrow> int \<Rightarrow> topology list \<Rightarrow> flexBlockVolume \<Rightarrow>
    ('w, csiVolume) drvM" where
  "existingVolume req capacity topologies exVol =
     bnd (failIf (VolSize exVol < capacity)
            (Status AlreadyExists (''Volume with the same name: '' @ cvName req
               @ '' but with different size already exist''))) (\<lambda>_.
     bnd (case cvSource req of
            None \<Rightarrow> ret ()
          | Some (SrcSnapshot sn) \<Rightarrow>
              failIf (case sn of Some i \<Rightarrow> ParentSnapID exVol \<noteq> [] \<and> ParentSnapID exVol \<noteq> i | None \<Rightarrow> False)
                (Status AlreadyExists ''existing volume source snapshot id not matching'')
          | Some (SrcVolume sv) \<Rightarrow>
              failIf (case sv of Some i \<Rightarrow> ParentVolID exVol \<noteq> i | None \<Rightarrow> False)
                (Status AlreadyExists ''existing volume source volume id not matching'')
          | Some SrcUnset \<Rightarrow> throw (Status InvalidArgument '' not a proper volume source'')) (\<lambda>_.
     ret \<lparr>VolumeId = VolID exVol, CapacityBytes = VolSize exVol, VolumeContext = cvParameters req,
          ContentSource = cvSource req, AccessibleTopology = topologies\<rparr>))"

text \<open>
  Fill the new volume. The handler also sets \<open>ParentSnapID\<close> or \<open>ParentVolID\<close>, but in its own copy
  of the struct, which nobody reads afterwards.
\<close>

definition populateVolume :: "'w env \<Rightarrow> int \<Rightarrow> string \<Rightarrow> accessType \<Rightarrow> contentSource \<Rightarrow> ('w, unit) drvM" where
  "populateVolume E capacity path requestedAccessType src = (case src of
       SrcSnapshot (Some i) \<Rightarrow> loadFromSnapshot E capacity i path requestedAccessType
     | SrcSnapshot None \<Rightarrow> ret ()
     | SrcVolume (Some i) \<Rightarrow> loadFromVolume E capacity i path requestedAccessType
     | SrcVolume None \<Rightarrow> ret ()
     | SrcUnset \<Rightarrow> throw (Status InvalidArgument '' not a proper volume source''))"

definition createNewVolume :: "'w env \<Rightarrow> createVolumeRequest \<Rightarrow> int \<Rightarrow> accessType \<Rightarrow> topology list \<Rightarrow>
    ('w, csiVolume) drvM" where
  "createNewVolume E req capacity requestedAccessType topologies =
     bnd (sliceM (cvName req) 4 (int (length (cvName req)))) (\<lambda>volumeID.
     bnd (attempt (createFlexblockVolume E volumeID (cvName req) capacity requestedAccessType False)) (\<lambda>r. case r of
       Inl err \<Rightarrow> throw (Status Internal (''failed to create volume '' @ volumeID @ '': '' @ errText err))
     | Inr vol \<Rightarrow>
     bnd (case cvSource req of
            None \<Rightarrow> ret ()
          | Some src \<Rightarrow>
              bnd (attempt (populateVolume E capacity (getVolumePath volumeID) requestedAccessType src)) (\<lambda>r. case r of
                Inl err \<Rightarrow> bnd (attempt (deleteFlexblockVolume E volumeID)) (\<lambda>_. throw err)
              | Inr _ \<Rightarrow> ret ())) (\<lambda>_.
     ret \<lparr>VolumeId = volumeID, CapacityBytes = getRequiredBytes (cvCapacityRange req),
          VolumeContext = cvParameters req, ContentSource = cvSource req,
          AccessibleTopology = topologies\<rparr>)))"

definition CreateVolume :: "'w env \<Rightarrow> controllerServer \<Rightarrow> createVolumeRequest \<Rightarrow> ('w, csiVolume) drvM" where
  "CreateVolume E cs req =
     bnd (validateControllerServiceRequest cs RPC_CREATE_DELETE_VOLUME) (\<lambda>_.
     bnd (failIf (length (cvName req) = 0) (Status InvalidArgument ''Name missing in request'')) (\<lambda>_.
     case cvCapabilities req of
       None \<Rightarrow> throw (Status InvalidArgument ''Volume Capabilities missing in request'')
     | Some vcaps \<Rightarrow>
     let accessTypeBlock = list_ex getBlock vcaps;
         accessTypeMount = list_ex getMount vcaps;
         requestedAccessType = (if accessTypeBlock then blockAccess else mountAccess);
         capacity = getRequiredBytes (cvCapacityRange req) in
     bnd (failIf (accessTypeBlock \<and> accessTypeMount)
            (Status InvalidArgument ''cannot have both block and mount access type'')) (\<lambda>_.
     bnd (failIf (capacity \<ge> maxStorageCapacity)
            (Status OutOfRange (''Requested capacity '' @ itoa capacity @ '' exceeds maximum allowed ''
               @ itoa maxStorageCapacity))) (\<lambda>_.
     bnd (readTopologies E (csNodeID cs)) (\<lambda>topologies.
     bnd (attempt (getVolumeByName E (cvName req))) (\<lambda>r. case r of
       Inr exVol \<Rightarrow> existingVolume req capacity topologies exVol
     | Inl _ \<Rightarrow> createNewVolume E req capacity requestedAccessType topologies))))))"

section \<open>DeleteVolume and the capability calls\<close>

definition DeleteVolume :: "'w env \<Rightarrow> controllerServer \<Rightarrow> string \<Rightarrow> ('w, unit) drvM" where
  "DeleteVolume E cs volId =
     bnd (failIf (length volId = 0) (Status InvalidArgument ''Volume ID missing in request'')) (\<lambda>_.
     bnd (validateControllerServiceRequest cs RPC_CREATE_DELETE_VOLUME) (\<lambda>_.
     bnd (attempt (deleteFlexblockVolume E volId)) (\<lambda>r. case r of
       Inl err \<Rightarrow> throw (Status Internal (''failed to delete volume '' @ volId @ '': '' @ errText err))
     | Inr _ \<Rightarrow> ret ())))"

definition ControllerGetCapabilities :: "controllerServer \<Rightarrow> ('w, rpcType list) drvM" where
  "ControllerGetCapabilities cs = ret (caps cs)"

definition ValidateVolumeCapabilities :: "validateRequest \<Rightarrow> ('w, confirmed) drvM" where
  "ValidateVolumeCapabilities req =
     bnd (failIf (length (vvVolumeId req) = 0) (Status InvalidArgument ''Volume ID cannot be empty'')) (\<lambda>_.
     bnd (failIf (length (vvCapabilities req) = 0) (Status InvalidArgument (vvVolumeId req))) (\<lambda>_.
     bnd (attempt (getVolumeByID (vvVolumeId req))) (\<lambda>r. case r of
       Inl e \<Rightarrow> throw (Status NotFound (vvVolumeId req))
     | Inr _ \<Rightarrow>
     bnd (forEach (vvCapabilities req) (\<lambda>cap.
            failIf (\<not> getMount cap \<and> \<not> getBlock cap)
              (Status InvalidArgument ''cannot have both mount and block access type be undefined''))) (\<lambda>_.
     ret \<lparr>cfContext = vvContext req, cfCapabilities = vvCapabilities req, cfParameters = vvParameters req\<rparr>))))"

text \<open>The calls the driver does not offer.\<close>

definition ControllerPublishVolume :: "('w, unit) drvM" where
  "ControllerPublishVolume = throw (Status Unimplemented [])"

definition ControllerUnpublishVolume :: "('w, unit) drvM" where
  "ControllerUnpublishVolume = throw (Status Unimplemented [])"

definition GetCapacity :: "('w, unit) drvM" where
  "GetCapacity = throw (Status Unimplemented [])"

definition ListVolumes :: "('w, unit) drvM" where
  "ListVolumes = throw (Status Unimplemented [])"

definition ControllerGetVolume :: "('w, unit) drvM" where
  "ControllerGetVolume = throw (Status Unimplemented [])"

section \<open>Snapshots\<close>

text \<open>
  \<open>CreateSnapshot\<close> returns Unimplemented right after the capability check; the statements below
  that return are never reached.
\<close>

definition CreateSnapshot :: "controllerServer \<Rightarrow> ('w, csiSnapshot) drvM" where
  "CreateSnapshot cs =
     bnd (validateControllerServiceRequest cs RPC_CREATE_DELETE_SNAPSHOT) (\<lambda>_.
     throw (Status Unimplemented []))"

definition DeleteSnapshot :: "'w env \<Rightarrow> controllerServer \<Rightarrow> string \<Rightarrow> ('w, unit) drvM" where
  "DeleteSnapshot E cs snapshotID =
     bnd (failIf (length snapshotID = 0) (Status InvalidArgument ''Snapshot ID missing in request'')) (\<lambda>_.
     bnd (validateControllerServiceRequest cs RPC_CREATE_DELETE_SNAPSHOT) (\<lambda>_.
     bnd (io (removeAll E (getSnapshotPath snapshotID))) (\<lambda>_.
     bnd (modify (\<lambda>s. s\<lparr>flexBlockVolumeSnapshots := mdel snapshotID (flexBlockVolumeSnapshots s)\<rparr>)) (\<lambda>_. ret ()))))"

definition toCsi :: "flexBlockSnapshot \<Rightarrow> csiSnapshot" where
  "toCsi snap = \<lparr>sSnapshotId = SnapId snap, sSourceVolumeId = SnapVolID snap,
     sCreationTime = CreationTime snap, sSizeBytes = SizeBytes snap, sReadyToUse = ReadyToUse snap\<rparr>"

definition convertSnapshot :: "flexBlockSnapshot \<Rightarrow> listSnapshotsResponse" where
  "convertSnapshot snap = \<lparr>Entries = [toCsi snap], NextToken = []\<rparr>"

text \<open>
  \<open>entries[i] = &snapshots[j]; j++\<close> for \<open>n\<close> entries; \<open>j\<close> is an \<open>int32\<close>, and an index outside
  the slice panics.
\<close>

fun fillEntries :: "csiSnapshot list \<Rightarrow> 32 word \<Rightarrow> nat \<Rightarrow> ('w, csiSnapshot list \<times> 32 word) drvM" where
  "fillEntries snaps j 0 = ret ([], j)"
| "fillEntries snaps j (Suc n) =
     (if sint j < 0 \<or> int (length snaps) \<le> sint j then panic ''index out of range''
      else bnd (fillEntries snaps (j + 1) n) (\<lambda>(es, j'). ret (snaps ! nat (sint j) # es, j')))"

text \<open>The page of the sorted snapshots that token and entry limit ask for.\<close>

definition pageSnapshots :: "csiSnapshot list \<Rightarrow> string \<Rightarrow> 32 word \<Rightarrow> ('w, listSnapshotsResponse) drvM" where
  "pageSnapshots snaps token maxEntries =
     (let ulenSnapshots = (of_nat (length snaps) :: 32 word) in
     bnd (if token = [] then ret 0
          else case parseUint32 token of
            None \<Rightarrow> throw (Status Aborted ''startingToken=0 !< int32=4294967295'')
          | Some i \<Rightarrow> ret (word_of_int i)) (\<lambda>startingToken :: 32 word.
     bnd (failIf (ulenSnapshots <s startingToken)
            (Status Aborted (''startingToken='' @ itoa (sint startingToken) @ '' > len(snapshots)=''
               @ itoa (sint ulenSnapshots)))) (\<lambda>_.
     let rem = ulenSnapshots - startingToken;
         count = (if maxEntries = 0 \<or> rem <s maxEntries then rem else maxEntries) in
     if sint count < 0 then panic ''makeslice: len out of range''
     else bnd (fillEntries snaps startingToken (nat (sint count))) (\<lambda>(entries, j).
       ret \<lparr>Entries = entries, NextToken = (if j <s ulenSnapshots then itoa (sint j) else [])\<rparr>))))"

definition allSnapshots :: "flexBlockSnapshot gomap \<Rightarrow> csiSnapshot list" where
  "allSnapshots m = map (\<lambda>k. toCsi (the (mget m k))) (sort (mkeys m))"

definition ListSnapshots :: "'w env \<Rightarrow> controllerServer \<Rightarrow> listSnapshotsRequest \<Rightarrow> ('w, listSnapshotsResponse) drvM" where
  "ListSnapshots E cs req =
     bnd (validateControllerServiceRequest cs RPC_LIST_SNAPSHOTS) (\<lambda>_.
     bnd (gets flexBlockVolumeSnapshots) (\<lambda>m.
     case (if length (lsSnapshotId req) \<noteq> 0 then mget m (lsSnapshotId req) else None) of
       Some snapshot \<Rightarrow> ret (convertSnapshot snapshot)
     | None \<Rightarrow>
     bnd (if length (lsSourceVolumeId req) \<noteq> 0
          then bnd (rangeKeys E (mkeys m)) (\<lambda>ks.
                 ret (firstMatch (mget m) (\<lambda>sn. SnapVolID sn = lsSourceVolumeId req) ks))
          else ret None) (\<lambda>bySource. case bySource of
       Some snapshot \<Rightarrow> ret (convertSnapshot snapshot)
     | None \<Rightarrow> pageSnapshots (allSnapshots m) (lsStartingToken req) (lsMaxEntries req))))"

section \<open>ControllerExpandVolume\<close>

record expandResponse =
  exCapacityBytes :: int
  NodeExpansionRequired :: bool

definition ControllerExpandVolume :: "'w env \<Rightarrow> string \<Rightarrow> capacityRange option \<Rightarrow> ('w, expandResponse) drvM" where
  "ControllerExpandVolume E volID capRange =
     bnd (failIf (length volID = 0) (Status InvalidArgument ''Volume ID missing in request'')) (\<lambda>_.
     case capRange of
       None \<Rightarrow> throw (Status InvalidArgument ''Capacity range not provided'')
     | Some cr \<Rightarrow>
     let capacity = RequiredBytes cr in
     bnd (failIf (capacity \<ge> maxStorageCapacity)
            (Status OutOfRange (''Requested capacity '' @ itoa capacity @ '' exceeds maximum allowed ''
               @ itoa maxStorageCapacity))) (\<lambda>_.
     bnd (attempt (getVolumeByID volID)) (\<lambda>r. case r of
       Inl err \<Rightarrow> throw (Status NotFound (''Could not get volume '' @ volID @ '': '' @ errText err))
     | Inr exVol \<Rightarrow>
         if VolSize exVol < capacity then
           bnd (attempt (updateFlexblockVolume E volID (exVol\<lparr>VolSize := capacity\<rparr>))) (\<lambda>r. case r of
             Inl err \<Rightarrow> throw (Status Internal (''Could not update volume '' @ volID @ '': '' @ errText err))
           | Inr _ \<Rightarrow> ret \<lparr>exCapacityBytes = capacity, NodeExpansionRequired = True\<rparr>)
         else ret \<lparr>exCapacityBytes = VolSize exVol, NodeExpansionRequired = True\<rparr>)))"

end
