(* ===== verification/Node.thy ===== *)
theory Node
  imports Controller
begin

text \<open>
  The node service (\<open>nodeserver.go\<close>): publishing a volume under a target path, taking it back,
  and the capability and information calls.
\<close>

record nodeServer =
  nsNodeID :: string
  nsEphemeral :: bool
  maxVolumesPerNode :: int

definition NewNodeServer :: "string \<Rightarrow> bool \<Rightarrow> int \<Rightarrow> nodeServer" where
  "NewNodeServer nodeId eph maxVolumes =
     \<lparr>nsNodeID = nodeId, nsEphemeral = eph, maxVolumesPerNode = maxVolumes\<rparr>"

record publishRequest =
  npVolumeId :: string
  npTargetPath :: string
  npCapability :: "volumeCapability option"
  npReadonly :: bool
  npVolumeContext :: "string gomap"

section \<open>NodePublishVolume\<close>

definition makeFile :: "'w env \<Rightarrow> string \<Rightarrow> ('w, unit) drvM" where
  "makeFile E pathname = bnd (io (createFile E pathname)) (\<lambda>err. case err of
     Some e \<Rightarrow> failIf (\<not> isExist e) e | None \<Rightarrow> ret ())"

text \<open>
  An ephemeral volume is created here. When the error of \<open>createFlexblockVolume\<close> satisfies
  \<open>os.IsExist\<close> the handler goes on, with a nil volume, to \<open>vol.VolPath\<close>.
\<close>

definition publishEphemeral :: "'w env \<Rightarrow> string \<Rightarrow> ('w, unit) drvM" where
  "publishEphemeral E volID =
     bnd (attempt (createFlexblockVolume E volID (''ephemeral-'' @ volID) maxStorageCapacity mountAccess True)) (\<lambda>r. case r of
       Inl err \<Rightarrow> if \<not> isExist err then throw (Status Internal (errText err))
                  else panic ''invalid memory address or nil pointer dereference''
     | Inr vol \<Rightarrow> ret ())"

definition publishBlock :: "'w env \<Rightarrow> string \<Rightarrow> flexBlockVolume \<Rightarrow> ('w, unit) drvM" where
  "publishBlock E targetPath vol =
     bnd (failIf (VolAccessType vol \<noteq> blockAccess)
            (Status InvalidArgument ''cannot publish a non-block volume as block volume'')) (\<lambda>_.
     let loopDevice = VolPath vol in
     bnd (io (lstat E targetPath)) (\<lambda>err.
     bnd (case err of
            None \<Rightarrow> ret ()
          | Some e \<Rightarrow>
              if isNotExist e then
                bnd (attempt (makeFile E targetPath)) (\<lambda>r. case r of
                  Inl e' \<Rightarrow> throw (Status Internal (''failed to create target path: '' @ targetPath @ '': '' @ errText e'))
                | Inr _ \<Rightarrow> ret ())
              else throw (Status Internal (''failed to check if the target block file exists: '' @ errText e))) (\<lambda>_.
     bnd (io (isNotMountPoint E targetPath)) (\<lambda>(nm, err).
     bnd (case err of
            Some e \<Rightarrow> if \<not> isNotExist e
                      then throw (Status Internal (''error checking path '' @ targetPath @ '' for mount: '' @ errText e))
                      else ret True
          | None \<Rightarrow> ret nm) (\<lambda>notMount.
     if \<not> notMount then ret ()
     else bnd (io (mount E loopDevice targetPath [] [''bind''])) (\<lambda>err. case err of
            Some e \<Rightarrow> throw (Status Internal (''failed to mount block device: '' @ loopDevice @ '' at '' @ targetPath
                               @ '': '' @ errText e))
          | None \<Rightarrow> ret ()))))))"

text \<open>The volume is not mounted under the data directory: attach the local target and mount it at once.\<close>

definition publishAttach :: "'w env \<Rightarrow> string \<Rightarrow> string \<Rightarrow> ('w, unit) drvM" where
  "publishAttach E volumeId targetPath =
     (let iqnname = localIqn volumeId in
     bnd (mustRun E [''iscsiadm'', ''-m'', ''discovery'', ''-t'', ''st'', ''-p'', ''127.0.0.1'']
            (internal2 ''failed publishVolume for discovery target error'')) (\<lambda>_.
     bnd (mustRun E [''iscsiadm'', ''-m'', ''node'', ''-T'', iqnname, ''-p'', ''127.0.0.1'', ''-l'']
            (internal2 ''failed publishVolume for login target error'')) (\<lambda>_.
     bnd (mustRun E [''iscsiadm'', ''-m'', ''node'', ''-T'', iqnname, ''-p'', ''127.0.0.1'', ''-R'']
            (internal2 ''failed publishVolume for rescan target error'')) (\<lambda>_.
     bnd (sleepFor E 5) (\<lambda>_.
     bnd (mustRun E [''mount'', ''-t'', ''ext4'', localDisk iqnname, targetPath]
            (internal2 ''failed publishflexblockvol for mount target error'')) (\<lambda>_. ret ()))))))"

text \<open>The volume is mounted under the data directory: bind it to the target path.\<close>

definition publishBind :: "'w env \<Rightarrow> string \<Rightarrow> string \<Rightarrow> bool \<Rightarrow> flexBlockVolume \<Rightarrow> ('w, unit) drvM" where
  "publishBind E path targetPath readOnly vol =
     bnd (io (mount E path targetPath [] (''bind'' # (if readOnly then [''ro''] else [])))) (\<lambda>err. case err of
       None \<Rightarrow> ret ()
     | Some e \<Rightarrow>
     bnd (if Ephemeral vol then
            bnd (io (removeAll E path)) (\<lambda>rm. ret (case rm of
              Some rmErr \<Rightarrow> if \<not> isNotExist rmErr then '' :'' @ errText rmErr else []
            | None \<Rightarrow> []))
          else ret []) (\<lambda>more.
     throw (Status Internal (''failed to mount device: '' @ path @ '' at '' @ targetPath @ '': '' @ errText e @ more))))"

text \<open>
  The first check leaves \<open>err\<close> nil (an error that is not handled returns, and a successful
  \<open>MkdirAll\<close> overwrites it). The second one looks at \<open>err\<close> where it means \<open>patherr\<close>.
\<close>

definition publishMount :: "'w env \<Rightarrow> publishRequest \<Rightarrow> flexBlockVolume \<Rightarrow> ('w, unit) drvM" where
  "publishMount E req vol =
     (let targetPath = npTargetPath req; path = getVolumePath (npVolumeId req) in
     bnd (failIf (VolAccessType vol \<noteq> mountAccess)
            (Status InvalidArgument ''cannot publish a non-mount volume as mount volume'')) (\<lambda>_.
     bnd (io (isNotMountPoint E targetPath)) (\<lambda>(nm, err).
     bnd (case err of
            None \<Rightarrow> ret (nm, None)
          | Some e \<Rightarrow>
              if isNotExist e then
                bnd (io (mkdirAll E targetPath)) (\<lambda>mk. case mk of
                  Some e' \<Rightarrow> throw (Status Internal (errText e')) | None \<Rightarrow> ret (True, mk))
              else throw (Status Internal (errText e))) (\<lambda>(notMnt, err).
     if \<not> notMnt then ret ()
     else
     bnd (io (isNotMountPoint E path)) (\<lambda>(pm, patherr).
     bnd (if patherr \<noteq> None \<and> (case err of Some e \<Rightarrow> isNotExist e | None \<Rightarrow> False)
          then bnd (io (mkdirAll E targetPath)) (\<lambda>mk. case mk of
                 Some e' \<Rightarrow> throw (Status Internal (errText e')) | None \<Rightarrow> ret True)
          else ret pm) (\<lambda>pathnotMnt.
     if pathnotMnt then publishAttach E (npVolumeId req) targetPath
     else publishBind E path targetPath (npReadonly req) vol))))))"

definition ephemeralKey :: string where "ephemeralKey = ''csi.storage.k8s.io/ephemeral''"

definition wantsEphemeral :: "nodeServer \<Rightarrow> publishRequest \<Rightarrow> bool" where
  "wantsEphemeral ns req \<longleftrightarrow>
     mstr (npVolumeContext req) ephemeralKey = ''true''
     \<or> mstr (npVolumeContext req) ephemeralKey = [] \<and> nsEphemeral ns"

definition NodePublishVolume :: "'w env \<Rightarrow> nodeServer \<Rightarrow> publishRequest \<Rightarrow> ('w, unit) drvM" where
  "NodePublishVolume E ns req = (case npCapability req of
       None \<Rightarrow> throw (Status InvalidArgument ''Volume capability missing in request'')
     | Some cap \<Rightarrow>
     bnd (failIf (length (npVolumeId req) = 0) (Status InvalidArgument ''Volume ID missing in request'')) (\<lambda>_.
     bnd (failIf (length (npTargetPath req) = 0) (Status InvalidArgument ''Target path missing in request'')) (\<lambda>_.
     bnd (failIf (getBlock cap \<and> getMount cap)
            (Status InvalidArgument ''cannot have both block and mount access type'')) (\<lambda>_.
     bnd (if wantsEphemeral ns req then publishEphemeral E (npVolumeId req) else ret ()) (\<lambda>_.
     bnd (attempt (getVolumeByID (npVolumeId req))) (\<lambda>r. case r of
       Inl err \<Rightarrow> throw (Status NotFound (errText err))
     | Inr vol \<Rightarrow>
         if getBlock cap then publishBlock E (npTargetPath req) vol
         else if getMount cap then publishMount E req vol
         else ret ()))))))"

section \<open>NodeUnpublishVolume\<close>

definition NodeUnpublishVolume :: "'w env \<Rightarrow> string \<Rightarrow> string \<Rightarrow> ('w, unit) drvM" where
  "NodeUnpublishVolume E volumeID targetPath =
     bnd (failIf (length volumeID = 0) (Status InvalidArgument ''Volume ID missing in request'')) (\<lambda>_.
     bnd (failIf (length targetPath = 0) (Status InvalidArgument ''Target path missing in request'')) (\<lambda>_.
     bnd (attempt (getVolumeByID volumeID)) (\<lambda>r. case r of
       Inl err \<Rightarrow> throw (Status NotFound (errText err))
     | Inr vol \<Rightarrow>
     bnd (io (isNotMountPoint E targetPath)) (\<lambda>(notMnt, err).
     bnd (case err of
            Some e \<Rightarrow> failIf (\<not> isNotExist e) (Status Internal (errText e))
          | None \<Rightarrow>
              if \<not> notMnt then
                bnd (io (unmount E targetPath)) (\<lambda>u. case u of
                  Some e \<Rightarrow> throw (Status Internal (errText e)) | None \<Rightarrow> ret ())
              else ret ()) (\<lambda>_.
     bnd (io (removeAll E targetPath)) (\<lambda>rm.
     bnd (case rm of Some e \<Rightarrow> throw (Status Internal (errText e)) | None \<Rightarrow> ret ()) (\<lambda>_.
     if Ephemeral vol then
       bnd (attempt (deleteFlexblockVolume E volumeID)) (\<lambda>d. case d of
         Inl e \<Rightarrow> failIf (\<not> isNotExist e) (Status Internal (''failed to delete volume: '' @ errText e))
       | Inr _ \<Rightarrow> ret ())
     else ret ())))))))"

section \<open>Staging and information\<close>

definition NodeStageVolume :: "string \<Rightarrow> string \<Rightarrow> volumeCapability option \<Rightarrow> ('w, unit) drvM" where
  "NodeStageVolume volumeId stagingTargetPath cap =
     bnd (failIf (length volumeId = 0) (Status InvalidArgument ''Volume ID missing in request'')) (\<lambda>_.
     bnd (failIf (length stagingTargetPath = 0) (Status InvalidArgument ''Target path missing in request'')) (\<lambda>_.
     failIf (cap = None) (Status InvalidArgument ''Volume Capability missing in request'')))"

definition NodeUnstageVolume :: "string \<Rightarrow> string \<Rightarrow> ('w, unit) drvM" where
  "NodeUnstageVolume volumeId stagingTargetPath =
     bnd (failIf (length volumeId = 0) (Status InvalidArgument ''Volume ID missing in request'')) (\<lambda>_.
     failIf (length stagingTargetPath = 0) (Status InvalidArgument ''Target path missing in request''))"

record nodeInfo =
  niNodeId :: string
  niMaxVolumes :: int
  niTopology :: topology

definition NodeGetInfo :: "nodeServer \<Rightarrow> ('w, nodeInfo) drvM" where
  "NodeGetInfo ns = ret \<lparr>niNodeId = nsNodeID ns, niMaxVolumes = maxVolumesPerNode ns,
     niTopology = nodeTopology (nsNodeID ns)\<rparr>"

datatype nodeRpcType = NODE_STAGE_UNSTAGE_VOLUME | NODE_EXPAND_VOLUME

definition NodeGetCapabilities :: "('w, nodeRpcType list) drvM" where
  "NodeGetCapabilities = ret [NODE_STAGE_UNSTAGE_VOLUME, NODE_EXPAND_VOLUME]"

definition NodeGetVolumeStats :: "('w, unit) drvM" where
  "NodeGetVolumeStats = throw (Status Unimplemented [])"

section \<open>NodeExpandVolume\<close>

definition NodeExpandVolume :: "'w env \<Rightarrow> string \<Rightarrow> string \<Rightarrow> capacityRange option \<Rightarrow> ('w, unit) drvM" where
  "NodeExpandVolume E volID volPath capRange =
     bnd (failIf (length volID = 0) (Status InvalidArgument ''Volume ID not provided'')) (\<lambda>_.
     bnd (attempt (getVolumeByID volID)) (\<lambda>r. case r of
       Inl err \<Rightarrow> throw (Status NotFound (''Could not get volume '' @ volID @ '': '' @ errText err))
     | Inr vol \<Rightarrow>
     bnd (failIf (length volPath = 0) (Status InvalidArgument ''Volume path not provided'')) (\<lambda>_.
     case capRange of
       None \<Rightarrow> throw (Status InvalidArgument ''Capacity range not provided'')
     | Some cr \<Rightarrow>
     let capacity = RequiredBytes cr in
     bnd (failIf (capacity \<ge> maxStorageCapacity)
            (Status OutOfRange (''Requested capacity '' @ itoa capacity @ '' exceeds maximum allowed ''
               @ itoa maxStorageCapacity))) (\<lambda>_.
     bnd (io (stat E volPath)) (\<lambda>info. case info of
       Inl e \<Rightarrow> throw (Status InvalidArgument (''Could not get file information from '' @ volPath @ '': '' @ errText e))
     | Inr m \<Rightarrow>
     bnd (case m of
            ModeDir \<Rightarrow> failIf (VolAccessType vol \<noteq> mountAccess)
                        (Status InvalidArgument (''Volume '' @ volID @ '' is not a directory''))
          | ModeDevice \<Rightarrow> failIf (VolAccessType vol \<noteq> blockAccess)
                        (Status InvalidArgument (''Volume '' @ volID @ '' is not a block device''))
          | ModeOther \<Rightarrow> throw (Status InvalidArgument (''Volume '' @ volID @ '' is invalid''))) (\<lambda>_.
     if VolSize vol < capacity then
       bnd (attempt (updateFlexblockVolume E volID (vol\<lparr>VolSize := capacity\<rparr>))) (\<lambda>u. case u of
         Inl err \<Rightarrow> throw (Status Internal (''Could not update volume '' @ volID @ '': '' @ errText err))
       | Inr _ \<Rightarrow> ret ())
     else ret ()))))))"

end
