(* ===== verification/Identity.thy ===== *)
theory Identity
  imports Driver_State
begin

text \<open>The identity service (\<open>identityserver.go\<close>).\<close>

record identityServer =
  idsName :: string
  idsVersion :: string

record pluginInfo =
  piName :: string
  piVendorVersion :: string

datatype pluginCapability = CONTROLLER_SERVICE | VOLUME_ACCESSIBILITY_CONSTRAINTS

definition NewIdentityServer :: "string \<Rightarrow> string \<Rightarrow> identityServer" where
  "NewIdentityServer nm version = \<lparr>idsName = nm, idsVersion = version\<rparr>"

definition GetPluginInfo :: "identityServer \<Rightarrow> ('w, pluginInfo) drvM" where
  "GetPluginInfo ids =
     bnd (failIf (idsName ids = []) (Status Unavailable ''Driver name not configured'')) (\<lambda>_.
     bnd (failIf (idsVersion ids = []) (Status Unavailable ''Driver is missing version'')) (\<lambda>_.
     ret \<lparr>piName = idsName ids, piVendorVersion = idsVersion ids\<rparr>))"

definition Probe :: "('w, unit) drvM" where
  "Probe = ret ()"

definition GetPluginCapabilities :: "('w, pluginCapability list) drvM" where
  "GetPluginCapabilities = ret [CONTROLLER_SERVICE, VOLUME_ACCESSIBILITY_CONSTRAINTS]"

end
