(* ===== verification/Server.thy ===== *)
theory Server
  imports Node Identity
begin

text \<open>
  Start of the process: the endpoint and the gRPC listener (\<open>server.go\<close>), the driver object
  (\<open>NewFlexBlockDriver\<close> and \<open>Run\<close> in \<open>flexblock.go\<close>) and \<open>main.go\<close>. \<open>glog.Fatal\<close> is a \<open>Crash\<close>.
  What gRPC does with the connections it accepts is the step relation of the root theory.
\<close>

section \<open>server.go\<close>

definition parseEndpoint :: "string \<Rightarrow> goerr + string \<times> string" where
  "parseEndpoint ep =
     (if hasPrefix (toLower ep) ''unix://'' \<or> hasPrefix (toLower ep) ''tcp://'' then
        (case splitN2 ep ''://'' of
           [proto, addr] \<Rightarrow> if addr \<noteq> [] then Inr (proto, addr) else Inl (Plain (''Invalid endpoint: '' @ ep))
         | _ \<Rightarrow> Inl (Plain (''Invalid endpoint: '' @ ep)))
      else Inl (Plain (''Invalid endpoint: '' @ ep)))"

text \<open>\<open>serve\<close> up to the point where it accepts connections; the result is what it listens on.\<close>

definition serve :: "'w env \<Rightarrow> string \<Rightarrow> ('w, string \<times> string) drvM" where
  "serve E ep = (case parseEndpoint ep of
       Inl e \<Rightarrow> panic (errText e)
     | Inr (proto, addr0) \<Rightarrow>
     let addr = (if proto = ''unix'' then CHR ''/'' # addr0 else addr0) in
     bnd (if proto = ''unix'' then
            bnd (io (remove E addr)) (\<lambda>err. case err of
              Some e \<Rightarrow> if \<not> isNotExist e then panic (''Failed to remove '' @ addr @ '', error: '' @ errText e) else ret ()
            | None \<Rightarrow> ret ())
          else ret ()) (\<lambda>_.
     bnd (io (listen E proto addr)) (\<lambda>err. case err of
       Some e \<Rightarrow> panic (''Failed to listen: '' @ errText e)
     | None \<Rightarrow> ret (proto, addr))))"

text \<open>The interceptor logs and passes on what the handler gives.\<close>

definition logGRPC :: "string \<Rightarrow> ('w, 'a) drvM \<Rightarrow> ('w, 'a) drvM" where
  "logGRPC fullMethod handler =
     (if fullMethod = ''/csi.v1.Identity/Probe'' then handler
      else bnd (attempt handler) (\<lambda>r. case r of Inl err \<Rightarrow> throw err | Inr resp \<Rightarrow> ret resp))"

section \<open>The driver object\<close>

record flexBlock =
  fbName :: string
  fbNodeID :: string
  fbVersion :: string
  fbEndpoint :: string
  fbEphemeral :: bool
  fbMaxVolumesPerNode :: int

definition NewFlexBlockDriver :: "'w env \<Rightarrow> string \<Rightarrow> string \<Rightarrow> string \<Rightarrow> bool \<Rightarrow> int \<Rightarrow> string \<Rightarrow>
    ('w, flexBlock) drvM" where
  "NewFlexBlockDriver E driverName nodeID ep eph maxVolumes version =
     bnd (failIf (driverName = []) (Plain ''no driver name provided'')) (\<lambda>_.
     bnd (failIf (nodeID = []) (Plain ''no node id provided'')) (\<lambda>_.
     bnd (failIf (ep = []) (Plain ''no driver endpoint provided'')) (\<lambda>_.
     bnd (if version \<noteq> [] then modify (vendorVersion_update (\<lambda>_. version)) else ret ()) (\<lambda>_.
     bnd (io (mkdirAll E dataRoot)) (\<lambda>err. case err of
       Some e \<Rightarrow> throw (Plain (''failed to create dataRoot: '' @ errText e))
     | None \<Rightarrow>
     bnd (gets vendorVersion) (\<lambda>v.
     ret \<lparr>fbName = driverName, fbNodeID = nodeID, fbVersion = v, fbEndpoint = ep,
          fbEphemeral = eph, fbMaxVolumesPerNode = maxVolumes\<rparr>))))))"

text \<open>
  The three servers of a driver, and \<open>Run\<close> up to the accepting listener. \<open>Wait\<close> then blocks:
  nothing calls \<open>Done\<close> on the wait group.
\<close>

record servers =
  svIds :: identityServer
  svCs :: controllerServer
  svNs :: nodeServer

definition newServers :: "flexBlock \<Rightarrow> servers" where
  "newServers hp = \<lparr>svIds = NewIdentityServer (fbName hp) (fbVersion hp),
     svCs = NewControllerServer (fbEphemeral hp) (fbNodeID hp),
     svNs = NewNodeServer (fbNodeID hp) (fbEphemeral hp) (fbMaxVolumesPerNode hp)\<rparr>"

definition Run :: "'w env \<Rightarrow> flexBlock \<Rightarrow> ('w, servers \<times> string \<times> string) drvM" where
  "Run E hp =
     bnd (discoverExistingVol E) (\<lambda>_.
     bnd (discoverExistingSnapshots E) (\<lambda>_.
     bnd (serve E (fbEndpoint hp)) (\<lambda>at.
     ret (newServers hp, at))))"

section \<open>main.go\<close>

record flags =
  flEndpoint :: string
  flDriverName :: string
  flNodeID :: string
  flEphemeral :: bool
  flMaxVolumes :: int
  flShowVersion :: bool

definition defaultFlags :: flags where
  "defaultFlags = \<lparr>flEndpoint = ''unix://tmp/csi.sock'', flDriverName = ''flexblock.csi.k8s.io'',
     flNodeID = [], flEphemeral = False, flMaxVolumes = 0, flShowVersion = False\<rparr>"

datatype mainEnd = Returned | ExitCode int | Serving servers string string

definition handle :: "'w env \<Rightarrow> flags \<Rightarrow> string \<Rightarrow> ('w, mainEnd) drvM" where
  "handle E fl version =
     bnd (attempt (NewFlexBlockDriver E (flDriverName fl) (flNodeID fl) (flEndpoint fl) (flEphemeral fl)
                     (flMaxVolumes fl) version)) (\<lambda>r. case r of
       Inl err \<Rightarrow> ret (ExitCode 1)
     | Inr driver \<Rightarrow> bnd (Run E driver) (\<lambda>(sv, proto, addr). ret (Serving sv proto addr)))"

definition pidfile :: string where "pidfile = ''/var/run/flexblockplugin.pid''"

text \<open>A return from \<open>main\<close> after the file was opened: the deferred \<open>file.Close()\<close> runs.\<close>

definition returnClosing :: "'w env \<Rightarrow> ('w, mainEnd) drvM" where
  "returnClosing E = bnd (io (closeFile E pidfile)) (\<lambda>_. ret Returned)"

definition mainG :: "'w env \<Rightarrow> flags \<Rightarrow> string \<Rightarrow> ('w, mainEnd) drvM" where
  "mainG E fl version =
     bnd (io (mkdirAll E ''/var/run'')) (\<lambda>err. if err \<noteq> None then ret Returned else
     bnd (io (openTrunc E pidfile)) (\<lambda>err. if err \<noteq> None then ret Returned else
     bnd (io (getpid E)) (\<lambda>pid.
     bnd (io (writeFile E pidfile (itoa (int pid)))) (\<lambda>err. if err \<noteq> None then returnClosing E else
     bnd (io (closeFile E pidfile)) (\<lambda>err. if err \<noteq> None then returnClosing E else
     if flShowVersion fl then returnClosing E
     else handle E fl version)))))"

end
