(* ===== verification/Handlers.thy ===== *)
theory Handlers
  imports Server
begin

text \<open>
  All RPC handlers together: what a request can ask for, which handler answers it, and the
  proof that every handler keeps the two tables well-formed.
\<close>

section \<open>Dispatch\<close>

datatype request =
    ReqCreateVolume createVolumeRequest
  | ReqDeleteVolume string
  | ReqControllerGetCapabilities
  | ReqValidateVolumeCapabilities validateRequest
  | ReqControllerPublishVolume
  | ReqControllerUnpublishVolume
  | ReqGetCapacity
  | ReqListVolumes
  | ReqControllerGetVolume
  | ReqCreateSnapshot
  | ReqDeleteSnapshot string
  | ReqListSnapshots listSnapshotsRequest
  | ReqControllerExpandVolume string "capacityRange option"
  | ReqNodePublishVolume publishRequest
  | ReqNodeUnpublishVolume string string
  | ReqNodeStageVolume string string "volumeCapability option"
  | ReqNodeUnstageVolume string string
  | ReqNodeGetInfo
  | ReqNodeGetCapabilities
  | ReqNodeGetVolumeStats
  | ReqNodeExpandVolume string string "capacityRange option"
  | ReqGetPluginInfo
  | ReqProbe
  | ReqGetPluginCapabilities

datatype response =
    RespEmpty
  | RespVolume csiVolume
  | RespControllerCaps "rpcType list"
  | RespConfirmed confirmed
  | RespSnapshot csiSnapshot
  | RespSnapshots listSnapshotsResponse
  | RespExpand expandResponse
  | RespNodeInfo nodeInfo
  | RespNodeCaps "nodeRpcType list"
  | RespPluginInfo pluginInfo
  | RespPluginCaps "pluginCapability list"

definition answer :: "('a \<Rightarrow> response) \<Rightarrow> ('w, 'a) drvM \<Rightarrow> ('w, response) drvM" where
  "answer f m = bnd m (\<lambda>a. ret (f a))"

fun dispatch :: "'w env \<Rightarrow> servers \<Rightarrow> request \<Rightarrow> ('w, response) drvM" where
  "dispatch E sv (ReqCreateVolume q) = answer RespVolume (CreateVolume E (svCs sv) q)"
| "dispatch E sv (ReqDeleteVolume i) = answer (\<lambda>_. RespEmpty) (DeleteVolume E (svCs sv) i)"
| "dispatch E sv ReqControllerGetCapabilities = answer RespControllerCaps (ControllerGetCapabilities (svCs sv))"
| "dispatch E sv (ReqValidateVolumeCapabilities q) = answer RespConfirmed (ValidateVolumeCapabilities q)"
| "dispatch E sv ReqControllerPublishVolume = answer (\<lambda>_. RespEmpty) ControllerPublishVolume"
| "dispatch E sv ReqControllerUnpublishVolume = answer (\<lambda>_. RespEmpty) ControllerUnpublishVolume"
| "dispatch E sv ReqGetCapacity = answer (\<lambda>_. RespEmpty) GetCapacity"
| "dispatch E sv ReqListVolumes = answer (\<lambda>_. RespEmpty) ListVolumes"
| "dispatch E sv ReqControllerGetVolume = answer (\<lambda>_. RespEmpty) ControllerGetVolume"
| "dispatch E sv ReqCreateSnapshot = answer RespSnapshot (CreateSnapshot (svCs sv))"
| "dispatch E sv (ReqDeleteSnapshot i) = answer (\<lambda>_. RespEmpty) (DeleteSnapshot E (svCs sv) i)"
| "dispatch E sv (ReqListSnapshots q) = answer RespSnapshots (ListSnapshots E (svCs sv) q)"
| "dispatch E sv (ReqControllerExpandVolume i c) = answer RespExpand (ControllerExpandVolume E i c)"
| "dispatch E sv (ReqNodePublishVolume q) = answer (\<lambda>_. RespEmpty) (NodePublishVolume E (svNs sv) q)"
| "dispatch E sv (ReqNodeUnpublishVolume i p) = answer (\<lambda>_. RespEmpty) (NodeUnpublishVolume E i p)"
| "dispatch E sv (ReqNodeStageVolume i p c) = answer (\<lambda>_. RespEmpty) (NodeStageVolume i p c)"
| "dispatch E sv (ReqNodeUnstageVolume i p) = answer (\<lambda>_. RespEmpty) (NodeUnstageVolume i p)"
| "dispatch E sv ReqNodeGetInfo = answer RespNodeInfo (NodeGetInfo (svNs sv))"
| "dispatch E sv ReqNodeGetCapabilities = answer RespNodeCaps NodeGetCapabilities"
| "dispatch E sv ReqNodeGetVolumeStats = answer (\<lambda>_. RespEmpty) NodeGetVolumeStats"
| "dispatch E sv (ReqNodeExpandVolume i p c) = answer (\<lambda>_. RespEmpty) (NodeExpandVolume E i p c)"
| "dispatch E sv ReqGetPluginInfo = answer RespPluginInfo (GetPluginInfo (svIds sv))"
| "dispatch E sv ReqProbe = answer (\<lambda>_. RespEmpty) Probe"
| "dispatch E sv ReqGetPluginCapabilities = answer RespPluginCaps GetPluginCapabilities"

section \<open>Well-formed states are kept\<close>

definition regOK :: "'w drv \<Rightarrow> bool" where
  "regOK s \<longleftrightarrow> volsOK (flexBlockVolumes s) \<and> snapsOK (flexBlockVolumeSnapshots s)"

lemma regOK_frame: "frame registry m \<Longrightarrow> keeps regOK m"
  by (erule keeps_frame) (simp add: regOK_def)

lemma regOK_io [keeps_rules]: "keeps regOK (io f)"
  by (intro regOK_frame frame_rules)

lemma regOK_mustRun [keeps_rules]: "keeps regOK (mustRun E cmd mk)"
  by (intro regOK_frame frame_rules)

lemma regOK_delete [keeps_rules]: "keeps regOK (deleteFlexblockVolume E i)"
  by (rule keepsI) (auto simp: regOK_def dest: fb.delete_keeps_snapshots intro: fb.delete_volsOK)

lemma regOK_create:
  assumes "if e then n = ''ephemeral-'' @ i \<and> c = maxStorageCapacity \<and> a = mountAccess
           else 4 \<le> length n \<and> drop 4 n = i \<and> c < maxStorageCapacity"
  shows "keeps regOK (createFlexblockVolume E i n c a e)"
  by (rule keepsI)
     (use assms in \<open>auto simp: regOK_def dest: fb.create_keeps_snapshots intro: fb.create_volsOK\<close>)

lemma slice_from4: "slice n 4 (int (length n)) = Some i \<longleftrightarrow> 4 \<le> length n \<and> i = drop 4 n"
  by (auto simp: slice_def)

lemma keeps_bnd_sliceM:
  "(\<And>i. slice t lo hi = Some i \<Longrightarrow> keeps I (g i)) \<Longrightarrow> keeps I (bnd (sliceM t lo hi) g)"
  by (auto simp: sliceM_def intro: keeps_rules split: option.splits)

lemma idle_populateVolume: "idle (populateVolume E c p a src)"
  unfolding populateVolume_def
  by (auto intro: frame_rules split: contentSource.splits option.splits)

lemma regOK_createNewVolume:
  assumes "c < maxStorageCapacity"
  shows "keeps regOK (createNewVolume E req c a tops)"
  unfolding createNewVolume_def
proof (rule keeps_bnd_sliceM)
  fix i
  assume "slice (cvName req) 4 (int (length (cvName req))) = Some i"
  with assms have "keeps regOK (createFlexblockVolume E i (cvName req) c a False)"
    by (intro regOK_create) (simp add: slice_from4)
  then show "keeps regOK (bnd (attempt (createFlexblockVolume E i (cvName req) c a False)) (\<lambda>r. case r of
       Inl err \<Rightarrow> throw (Status Internal (''failed to create volume '' @ i @ '': '' @ errText err))
     | Inr vol \<Rightarrow>
     bnd (case cvSource req of
            None \<Rightarrow> ret ()
          | Some src \<Rightarrow>
              bnd (attempt (populateVolume E c (getVolumePath i) a src)) (\<lambda>r. case r of
                Inl err \<Rightarrow> bnd (attempt (deleteFlexblockVolume E i)) (\<lambda>_. throw err)
              | Inr _ \<Rightarrow> ret ())) (\<lambda>_.
     ret \<lparr>VolumeId = i, CapacityBytes = getRequiredBytes (cvCapacityRange req),
          VolumeContext = cvParameters req, ContentSource = cvSource req,
          AccessibleTopology = tops\<rparr>)))"
    by (intro keeps_seq keeps_rules regOK_frame [OF idle_populateVolume])
qed

lemma idle_validate [frame_rules]: "idle (validateControllerServiceRequest cs c)"
  unfolding validateControllerServiceRequest_def by (intro frame_rules)

lemma idle_readTopologies [frame_rules]: "idle (readTopologies E n)"
  unfolding readTopologies_def by (intro frame_rules)

lemma idle_existingVolume [frame_rules]: "idle (existingVolume req c tops v)"
  unfolding existingVolume_def
  by (intro frame_rules) (auto intro: frame_rules split: contentSource.splits)

lemma regOK_CreateVolume: "keeps regOK (CreateVolume E cs req)"
  unfolding CreateVolume_def
  by (intro keeps_seq keeps_rules regOK_createNewVolume regOK_frame [OF idle_validate]
        regOK_frame [OF idle_readTopologies] regOK_frame [OF idle_getVolumeByName]
        regOK_frame [OF idle_existingVolume]) simp_all

lemma regOK_DeleteVolume: "keeps regOK (DeleteVolume E cs i)"
  unfolding DeleteVolume_def
  by (intro keeps_seq keeps_rules regOK_frame [OF idle_validate])

lemma regOK_DeleteSnapshot: "keeps regOK (DeleteSnapshot E cs i)"
  unfolding DeleteSnapshot_def
  by (intro keeps_seq keeps_rules regOK_frame [OF idle_validate])
     (auto simp: keeps_def go_simps regOK_def snapsOK_del)

lemma regOK_update:
  assumes "updateFlexblockVolume E i (v\<lparr>VolSize := c\<rparr>) (s\<lparr>world := w\<rparr>) = Some (r, s')"
    and "regOK s" and "mget (flexBlockVolumes s) i = Some v" "VolSize v < c" "\<not> maxStorageCapacity \<le> c"
  shows "regOK s'"
proof -
  from assms(2-) have "volOK i (v\<lparr>VolSize := c\<rparr>)"
    by (intro volOK_grow) (auto simp: regOK_def volsOK_get)
  with assms(2) fb.update_volsOK [OF assms(1)] fb.update_keeps_snapshots [OF assms(1)] show ?thesis
    by (simp add: regOK_def)
qed

lemmas expand_splits = if_splits option.splits outcome.splits sum.splits fileMode.splits

lemma regOK_ControllerExpandVolume: "keeps regOK (ControllerExpandVolume E i cr)"
proof (rule keepsI)
  fix s r s'
  assume I: "regOK s" and "ControllerExpandVolume E i cr s = Some (r, s')"
  then show "regOK s'"
    by (auto simp: ControllerExpandVolume_def go_simps Let_def split: expand_splits)
       (metis regOK_update [where s = s and w = "world s", simplified])+
qed

lemma regOK_publishEphemeral: "keeps regOK (publishEphemeral E i)"
  unfolding publishEphemeral_def
  by (intro keeps_seq keeps_rules regOK_create) simp

lemma idle_makeFile [frame_rules]: "idle (makeFile E p)"
  unfolding makeFile_def by (intro frame_rules)

lemma idle_publishBlock [frame_rules]: "idle (publishBlock E p v)"
  unfolding publishBlock_def by (intro frame_rules)

lemma idle_publishAttach [frame_rules]: "idle (publishAttach E i p)"
  unfolding publishAttach_def by (intro frame_rules)

lemma idle_publishBind [frame_rules]: "idle (publishBind E p t ro v)"
  unfolding publishBind_def by (intro frame_rules)

lemma idle_publishMount [frame_rules]: "idle (publishMount E req v)"
  unfolding publishMount_def by (intro frame_rules)

lemma regOK_NodePublishVolume: "keeps regOK (NodePublishVolume E ns req)"
  unfolding NodePublishVolume_def
  by (intro keeps_seq keeps_rules regOK_publishEphemeral regOK_frame [OF idle_getVolumeByID]
        regOK_frame [OF idle_publishBlock] regOK_frame [OF idle_publishMount])

lemma regOK_NodeUnpublishVolume: "keeps regOK (NodeUnpublishVolume E i p)"
  unfolding NodeUnpublishVolume_def
  by (intro keeps_seq keeps_rules regOK_frame [OF idle_getVolumeByID])

lemma regOK_NodeExpandVolume: "keeps regOK (NodeExpandVolume E i p cr)"
proof (rule keepsI)
  fix s r s'
  assume I: "regOK s" and "NodeExpandVolume E i p cr s = Some (r, s')"
  moreover have "regOK (s\<lparr>world := w\<rparr>)" for w
    using I by (simp add: regOK_def)
  ultimately show "regOK s'"
    by (auto simp: NodeExpandVolume_def go_simps Let_def split: expand_splits)
       (metis regOK_update)+
qed

lemma regOK_answer [keeps_rules]: "keeps regOK m \<Longrightarrow> keeps regOK (answer f m)"
  unfolding answer_def by (intro keeps_bnd keeps_rules)

lemma idle_ListSnapshots: "idle (ListSnapshots E cs q)"
proof -
  have "idle (fillEntries snaps j n)" for snaps j n
    by (induction n arbitrary: j) (auto intro: frame_rules)
  then have "idle (pageSnapshots snaps t n)" for snaps t n
    unfolding pageSnapshots_def by (intro frame_rules)
  then show ?thesis unfolding ListSnapshots_def by (intro frame_rules)
qed

lemma regOK_readonly:
  shows "keeps regOK (ControllerGetCapabilities cs)"
    and "keeps regOK (ValidateVolumeCapabilities q)"
    and "keeps regOK (CreateSnapshot cs)"
    and "keeps regOK (ListSnapshots E cs l)"
    and "keeps regOK (NodeStageVolume i p c)"
    and "keeps regOK (NodeUnstageVolume i p)"
    and "keeps regOK (NodeGetInfo ns)"
    and "keeps regOK (GetPluginInfo ids)"
  unfolding ControllerGetCapabilities_def ValidateVolumeCapabilities_def CreateSnapshot_def
    NodeStageVolume_def NodeUnstageVolume_def NodeGetInfo_def GetPluginInfo_def
  by (intro regOK_frame idle_ListSnapshots frame_rules)+

lemma regOK_dispatch: "keeps regOK (dispatch E sv q)"
  by (cases q)
     (auto simp: ControllerPublishVolume_def ControllerUnpublishVolume_def GetCapacity_def ListVolumes_def ControllerGetVolume_def NodeGetCapabilities_def NodeGetVolumeStats_def Probe_def
        GetPluginCapabilities_def
        intro!: keeps_rules regOK_readonly regOK_CreateVolume regOK_DeleteVolume regOK_DeleteSnapshot
          regOK_ControllerExpandVolume regOK_NodePublishVolume regOK_NodeUnpublishVolume
          regOK_NodeExpandVolume)

end
