(* ===== verification/Sim_Host.thy ===== *)
theory Sim_Host
  imports Handlers
begin

text \<open>
  A small concrete host, to run the model on. Its world keeps files, mount points, a log of the
  commands that were run, the commands that fail, the listing that tgtadm shows, and the
  answers the management server will give, the first one next. Theorems hold for every host;
  the simulated one shows that their hypotheses can be met.
\<close>

record simw =
  simFiles :: "string gomap"
  simMounts :: "string list"
  simLog :: "string list list"
  simBroken :: "string list"  \<comment> \<open>programs that exit with an error\<close>
  simTargets :: string
  simAnswers :: "httpResp option list"
  simDirs :: "(string \<times> string list) list"

definition simCommand :: "string list \<Rightarrow> simw \<Rightarrow> (string \<times> goerr option) \<times> simw" where
  "simCommand c w =
     ((if c = [''tgtadm'', ''-m'', ''target'', ''-o'', ''show''] then simTargets w else [],
       if hd c \<in> set (simBroken w) then Some (Plain ''exit status 1'') else None),
      w\<lparr>simLog := simLog w @ [c]\<rparr>)"

definition simRead :: "string \<Rightarrow> simw \<Rightarrow> (goerr + string) \<times> simw" where
  "simRead p w = (case mget (simFiles w) p of
     Some c \<Rightarrow> (Inr c, w) | None \<Rightarrow> (Inl (OsErr ENotExist ''no such file or directory''), w))"

definition simHost :: "simw env" where
  "simHost = \<lparr>command = simCommand,
     sleep = (\<lambda>n w. w),
     newRequestOk = (\<lambda>m u. True),
     doHTTP = (\<lambda>q w. case simAnswers w of [] \<Rightarrow> (None, w) | a # as \<Rightarrow> (a, w\<lparr>simAnswers := as\<rparr>)),
     md5Sum = (\<lambda>x. x),
     readFile = simRead,
     openTrunc = (\<lambda>p w. (None, w\<lparr>simFiles := mput p [] (simFiles w)\<rparr>)),
     writeFile = (\<lambda>p c w. (None, w\<lparr>simFiles := mput p c (simFiles w)\<rparr>)),
     closeFile = (\<lambda>p w. (None, w)),
     createFile = (\<lambda>p w. (None, w\<lparr>simFiles := mput p [] (simFiles w)\<rparr>)),
     mkdirAll = (\<lambda>p w. (None, w)),
     remove = (\<lambda>p w. (None, w\<lparr>simFiles := mdel p (simFiles w)\<rparr>)),
     removeAll = (\<lambda>p w. (None, w\<lparr>simFiles := mdel p (simFiles w)\<rparr>)),
     lstat = (\<lambda>p w. (case mget (simFiles w) p of Some _ \<Rightarrow> None
                      | None \<Rightarrow> Some (OsErr ENotExist ''no such file or directory''), w)),
     stat = (\<lambda>p w. (Inr ModeDir, w)),
     readlink = (\<lambda>p w. (Inl (OsErr EOther ''invalid argument''), w)),
     readDir = (\<lambda>p w. (case map_of (simDirs w) p of Some fs \<Rightarrow> Inr fs
                        | None \<Rightarrow> Inl (OsErr ENotExist ''no such file or directory''), w)),
     openDir = (\<lambda>p w. (None, w)),
     readDir1 = (\<lambda>p w. (DirEntry, w)),
     isNotMountPoint = (\<lambda>p w. ((p \<notin> set (simMounts w), None), w)),
     mount = (\<lambda>src tgt fs opts w. (None, w\<lparr>simMounts := tgt # simMounts w\<rparr>)),
     unmount = (\<lambda>tgt w. (None, w\<lparr>simMounts := filter (\<lambda>m. m \<noteq> tgt) (simMounts w)\<rparr>)),
     listen = (\<lambda>proto addr w. (if proto \<in> {''tcp'', ''unix''} then None else Some (Plain ''unknown network''), w)),
     getpid = (\<lambda>w. (4711, w)),
     rangeOrder = (\<lambda>ks w. (rev ks, w)),
     regexpFind = (\<lambda>pat s. None)\<rparr>"

definition simWorld :: simw where
  "simWorld = \<lparr>simFiles = [], simMounts = [], simLog = [], simBroken = [], simTargets = [],
     simAnswers = [], simDirs = []\<rparr>"

definition simState :: "simw drv" where
  "simState = initVars simWorld"

definition simServers :: servers where
  "simServers = newServers \<lparr>fbName = ''flexblock.csi.k8s.io'', fbNodeID = ''node1'', fbVersion = ''dev'',
     fbEndpoint = ''unix://tmp/csi.sock'', fbEphemeral = False, fbMaxVolumesPerNode = 0\<rparr>"

text \<open>The driver with one volume.\<close>

definition simBase :: "simw drv" where
  "simBase = simState\<lparr>flexBlockVolumes := [(''a1'',
     newVolume ''a1'' ''pvc-a1'' 1073741824 ''/csi-flexblock-data-dir/a1'' mountAccess False)]\<rparr>"

text \<open>How a run ended, as a test.\<close>

definition returned :: "(('e, 'a) outcome \<times> 's) option \<Rightarrow> bool" where
  "returned x = (case x of Some (Done _, _) \<Rightarrow> True | _ \<Rightarrow> False)"

definition failed :: "(('e, 'a) outcome \<times> 's) option \<Rightarrow> bool" where
  "failed x = (case x of Some (Fail _, _) \<Rightarrow> True | _ \<Rightarrow> False)"

definition after :: "(('e, 'a) outcome \<times> 's) option \<Rightarrow> 's" where
  "after x = snd (the x)"

lemma returnedE:
  assumes "returned x"
  obtains a s where "x = Some (Done a, s)"
  using assms by (auto simp: returned_def split: option.splits prod.splits outcome.splits)

lemma failedE:
  assumes "failed x"
  obtains e s where "x = Some (Fail e, s)"
  using assms by (auto simp: failed_def split: option.splits prod.splits outcome.splits)

lemma after_Some [simp]: "after (Some (r, s)) = s"
  by (simp add: after_def)

definition simReq :: "string \<Rightarrow> createVolumeRequest" where
  "simReq nm = \<lparr>cvName = nm, cvCapacityRange = Some \<lparr>RequiredBytes = 1073741824, LimitBytes = 0\<rparr>,
     cvCapabilities = Some [CapMount ''ext4'' []], cvParameters = [], cvSource = None\<rparr>"

end
