(* ===== verification/Volumes_Props.thy ===== *)
theory Volumes_Props
  imports Json_Roundtrip Sim_Host
begin

text \<open>
  Properties of the tables: the look-up by name does not depend on the order of the map, the
  volumes file gives back the table it was written from, a restart recovers the table, snapshot
  names and paths.
\<close>

section \<open>The volumes file\<close>

text \<open>A volume whose fields JSON can carry: valid UTF-8 and 64-bit integers.\<close>

definition storable :: "flexBlockVolume \<Rightarrow> bool" where
  "storable v \<longleftrightarrow> list_all validUtf8 [VolName v, VolID v, VolPath v, ParentVolID v, ParentSnapID v]
     \<and> - (2 ^ 63) \<le> VolSize v \<and> VolSize v < 2 ^ 63
     \<and> - (2 ^ 63) \<le> VolAccessType v \<and> VolAccessType v < 2 ^ 63"

lemma foldKeys:
  "foldKey ''volName'' = ''volname''" "foldKey ''volID'' = ''volid''" "foldKey ''volSize'' = ''volsize''"
  "foldKey ''volPath'' = ''volpath''" "foldKey ''volAccessType'' = ''volaccesstype''"
  "foldKey ''parentVolID'' = ''parentvolid''" "foldKey ''parentSnapID'' = ''parentsnapid''"
  "foldKey ''ephemeral'' = ''ephemeral''"
  by code_simp+

lemma field_Cons:
  "field nm g z ((k, v) # ms) =
     field nm g (if foldKey k = foldKey nm then (case g v of Some x \<Rightarrow> x | None \<Rightarrow> z) else z) ms"
  by (simp add: field_def)

lemma field_Nil: "field nm g z [] = z"
  by (simp add: field_def)

lemma volOf_volJson:
  assumes "storable v"
  shows "volOf (members (volJson v)) = v"
proof -
  have i: "asInt (JNum (itoa (VolSize v))) = Some (VolSize v)"
    "asInt (JNum (itoa (VolAccessType v))) = Some (VolAccessType v)"
    using assms by (simp_all add: storable_def asInt_itoa)
  note ev = volOf_def volJson_def members_def field_Cons field_Nil foldKeys asStr_def asBool_def i
  show ?thesis
    by (cases "ParentVolID v = []"; cases "ParentSnapID v = []") (simp_all add: ev del: foldKey.simps)
qed

lemma validUtf8_tags:
  "list_all validUtf8 [''volName'', ''volID'', ''volSize'', ''volPath'', ''volAccessType'',
     ''parentVolID'', ''parentSnapID'', ''ephemeral'']"
  by code_simp

lemma plain_volJson: "storable v \<Longrightarrow> plain (volJson v)"
  using validUtf8_tags by (simp add: storable_def volJson_def isInt_itoa)

lemma plainMembers_map:
  "list_all (\<lambda>k. validUtf8 k \<and> plain (g k)) ks \<Longrightarrow> plainMembers (map (\<lambda>k. (k, g k)) ks)"
  by (induction ks) auto

lemma mget_foldl_mput:
  "distinct (map fst ms) \<Longrightarrow> mget (foldl (\<lambda>m (k, v). mput k (f v) m) m ms) k =
     (case map_of ms k of Some v \<Rightarrow> Some (f v) | None \<Rightarrow> mget m k)"
  by (induction ms arbitrary: m) (auto simp: gm.get_put map_of_eq_None_iff rev_image_eqI split: option.split)

lemma mwf_foldl_mput: "mwf m \<Longrightarrow> mwf (foldl (\<lambda>m (k, v). mput k (f v) m) m ms)"
  by (induction ms arbitrary: m) (auto intro: gm.wf_put)

lemma plain_volumesJson:
  assumes "mwf m" and "list_all (\<lambda>(k, v). validUtf8 k \<and> storable v) m"
  shows "plain (volumesJson m)"
proof -
  have "validUtf8 k \<and> plain (volJson (the (mget m k)))" if "k \<in> set (mkeys m)" for k
  proof -
    from that gm.keys_get [of k m] obtain v where v: "mget m k = Some v" by auto
    with assms(2) have "validUtf8 k \<and> storable v" by (simp add: list_all_gomap [OF assms(1)])
    with v plain_volJson show ?thesis by simp
  qed
  then show ?thesis unfolding volumesJson_def
    by (simp add: plainMembers_map list_all_iff)
qed

lemma decode_encode:
  assumes "mwf m" and "list_all (\<lambda>(k, v). validUtf8 k \<and> storable v) m"
  shows "mget (decodeVolumes [] (encodeVolumes m)) = mget m \<and> mwf (decodeVolumes [] (encodeVolumes m))"
proof -
  let ?ks = "sort (mkeys m)"
  let ?ms = "map (\<lambda>k. (k, volJson (the (mget m k)))) ?ks"
  have "numEnd [NL]" by (simp add: numEnd_def isDigit_def)
  from decodeDoc_render [OF plain_volumesJson [OF assms] this]
  have dec: "decodeVolumes [] (encodeVolumes m) = foldl (\<lambda>m (k, v). mput k (volOf (members v)) m) [] ?ms"
    by (simp add: decodeVolumes_def encodeVolumes_def volumesJson_def)
  have "distinct (map fst ?ms)"
    using gm.distinct_keys [OF assms(1)] by (simp add: o_def)
  moreover have "(case map_of ?ms k of Some v \<Rightarrow> Some (volOf (members v)) | None \<Rightarrow> mget [] k) = mget m k" for k
  proof (cases "mget m k")
    case None
    then have "k \<notin> set ?ks" using gm.keys_get [of k m] by simp
    then have "map_of ?ms k = None" by (auto simp: map_of_eq_None_iff)
    then show ?thesis using None by (simp add: gm.get_empty)
  next
    case (Some v)
    then have "k \<in> set ?ks" using gm.keys_get [of k m] by simp
    moreover from Some assms(2) have "storable v" by (simp add: list_all_gomap [OF assms(1)])
    moreover have "map_of ?ms k = Some (volJson (the (mget m k)))"
      using \<open>k \<in> set ?ks\<close> by (simp add: map_of_map_restrict)
    ultimately show ?thesis using Some by (simp add: volOf_volJson)
  qed
  ultimately have "mget (decodeVolumes [] (encodeVolumes m)) k = mget m k" for k
    unfolding dec by (simp only: mget_foldl_mput)
  moreover have "mwf (decodeVolumes [] (encodeVolumes m))"
    unfolding dec by (rule mwf_foldl_mput [OF gm.wf_empty])
  ultimately show ?thesis by (auto intro: ext)
qed

text \<open>
  C9. What \<open>saveExistingVol\<close> writes, \<open>discoverExistingVol\<close> reads back: for every table with
  unique keys whose volumes hold valid UTF-8 and 64-bit integers, decoding the encoded table
  into an empty one gives a table with unique keys and the same entries.
\<close>

theorem volumes_file_roundtrip:
  assumes "mwf m" and "list_all (\<lambda>(k, v). validUtf8 k \<and> storable v) m"
  shows "mget (decodeVolumes [] (encodeVolumes m)) = mget m \<and> mwf (decodeVolumes [] (encodeVolumes m))"
  using assms by (rule decode_encode)

definition exVolumes :: "flexBlockVolume gomap" where
  "exVolumes = [(''b2'', newVolume ''b2'' ''pvc-b2'' 1048576 ''/csi-flexblock-data-dir/b2'' mountAccess False),
     (''a1'', newVolume ''a1'' [CHR ''p'', CHR ''v'', CHR 0x22, CHR 0xC3, CHR 0xA4, CHR ''<'', CHR ''a'', CHR ''1'']
        (- 5) ''/dev/dm-0'' blockAccess True)]"

lemma exVolumes_ok: "mwf exVolumes" "list_all (\<lambda>(k, v). validUtf8 k \<and> storable v) exVolumes"
  by code_simp+

theorem volumes_file_roundtrip_witness:
  "mget (decodeVolumes [] (encodeVolumes exVolumes)) = mget exVolumes \<and> mget exVolumes ''a1'' \<noteq> None"
proof -
  have "mget exVolumes ''a1'' \<noteq> None" by code_simp
  with volumes_file_roundtrip [OF exVolumes_ok] show ?thesis by simp
qed

text \<open>
  What a file system promises about one file: it can be made, and what was written and closed
  is there and is what a later read returns.
\<close>

definition keepsFile :: "'w env \<Rightarrow> string \<Rightarrow> bool" where
  "keepsFile E p \<longleftrightarrow>
     (\<forall>w. fst (mkdirAll E ''/etc/neucli'' w) = None) \<and> (\<forall>w. fst (openTrunc E p w) = None)
     \<and> (\<forall>c w. fst (lstat E p (snd (closeFile E p (snd (writeFile E p c w))))) = None)
     \<and> (\<forall>c w. fst (readFile E p (snd (lstat E p (snd (closeFile E p (snd (writeFile E p c w))))))) = Inr c)"

lemma decode_null: "decodeVolumes [] [CHR ''n'', CHR ''u'', CHR ''l'', CHR ''l'', NL] = []"
  by code_simp

text \<open>
  C6. A restart loses no volume: when the host keeps the volumes file, a process that starts
  with an empty table in the world the last save left finds every volume of the saved table,
  with all its fields, and no other. (The table must have unique keys, valid UTF-8 in its texts
  and 64-bit integers in its numbers; an empty one may also be the nil map.)
\<close>

theorem restart_recovers:
  assumes keep: "keepsFile E csijsonfile"
    and m: "mwf (flexBlockVolumes s)" "list_all (\<lambda>(k, v). validUtf8 k \<and> storable v) (flexBlockVolumes s)"
    and save: "saveExistingVol E s = Some (r, s')"
    and t: "world t = world s'" "flexBlockVolumes t = []"
  shows "\<exists>t'. discoverExistingVol E t = Some (Done (), t') \<and>
    mget (flexBlockVolumes t') = mget (flexBlockVolumes s)"
  using save keep t decode_encode [OF m]
  by (auto simp: saveExistingVol_def discoverExistingVol_def go_simps keepsFile_def isNotExist_def
      nilVolumes_def decode_null)

lemma simHost_keepsFile: "keepsFile simHost csijsonfile"
  by (simp add: keepsFile_def simHost_def simRead_def gm.get_put)

definition exState :: "simw drv" where
  "exState = simState\<lparr>flexBlockVolumes := exVolumes\<rparr>"

theorem restart_recovers_witness:
  "\<exists>t'. discoverExistingVol simHost (simState\<lparr>world := world (after (saveExistingVol simHost exState))\<rparr>)
      = Some (Done (), t') \<and> mget (flexBlockVolumes t') = mget exVolumes"
proof -
  from saveExistingVol_returns [of simHost exState] obtain w where
    w: "saveExistingVol simHost exState = Some (Done (), exState\<lparr>world := w\<rparr>)" ..
  have e: "flexBlockVolumes exState = exVolumes" by (simp add: exState_def)
  have "\<exists>t'. discoverExistingVol simHost (simState\<lparr>world := w\<rparr>) = Some (Done (), t') \<and>
      mget (flexBlockVolumes t') = mget (flexBlockVolumes exState)"
    by (rule restart_recovers [OF simHost_keepsFile _ _ w])
       (simp_all add: e exVolumes_ok simState_def initVars_def)
  moreover have "world (after (saveExistingVol simHost exState)) = w" by (simp add: w)
  ultimately show ?thesis by (simp only: e)
qed

section \<open>Look-up by name\<close>

lemma volOK_name:
  assumes "volOK i v" and "\<not> hasPrefix (VolName v) ''ephemeral-''"
  shows "i = drop 4 (VolName v)"
  using assms by (auto simp: volOK_def hasPrefix_def split: if_splits)

lemma firstMatch_name:
  assumes m: "volsOK m" and n: "\<not> hasPrefix n ''ephemeral-''" and ks: "set ks = set (mkeys m)"
  shows "firstMatch (mget m) (\<lambda>v. VolName v = n) ks =
    (case mget m (drop 4 n) of Some v \<Rightarrow> if VolName v = n then Some v else None | None \<Rightarrow> None)"
proof -
  have only: "k = drop 4 n" if "mget m k = Some v" "VolName v = n" for k v
    using volOK_name [OF volsOK_get [OF m that(1)]] that(2) n by simp
  show ?thesis
  proof (cases "\<exists>v. mget m (drop 4 n) = Some v \<and> VolName v = n")
    case True
    then obtain v where v: "mget m (drop 4 n) = Some v" "VolName v = n" by blast
    have "firstMatch (mget m) (\<lambda>v. VolName v = n) ks = Some v"
      by (rule gm.firstMatch_unique [OF ks v(1), of "\<lambda>v. VolName v = n"]) (use v only in auto)
    with v show ?thesis by simp
  next
    case False
    with only have "firstMatch (mget m) (\<lambda>v. VolName v = n) ks = None"
      by (auto simp: gm.firstMatch_all_None [OF ks])
    with False show ?thesis by (auto split: option.split)
  qed
qed

lemma getVolumeByName_eq:
  assumes "volsOK (flexBlockVolumes s)" and "\<not> hasPrefix n ''ephemeral-''"
  shows "getVolumeByName E n s = Some
    (case mget (flexBlockVolumes s) (drop 4 n) of
       Some v \<Rightarrow> if VolName v = n then Done v
                 else Fail (Plain (''volume name '' @ n @ '' does not exist in the volumes list''))
     | None \<Rightarrow> Fail (Plain (''volume name '' @ n @ '' does not exist in the volumes list'')),
     s\<lparr>world := snd (rangeOrder E (mkeys (flexBlockVolumes s)) (world s))\<rparr>)"
  using firstMatch_name [OF assms]
  by (simp add: getVolumeByName_def rangeKeys_def go_simps split: option.split)

text \<open>
  C19. For a name that does not start with \<open>ephemeral-\<close>, the look-up by name finds the volume it
  should, whatever order the run-time visits the map in: in a well-formed table it is the
  look-up of the identifier that is the name's tail, and the volume found there must bear the
  name. The state, the host's choice of the order apart, is as before. (A name that starts with
  \<open>ephemeral-\<close> can belong to two volumes of a well-formed table, see \<open>lookup_ambiguous\<close>.)
\<close>

theorem getVolumeByName_order_independent:
  assumes "volsOK (flexBlockVolumes s)" and "\<not> hasPrefix n ''ephemeral-''"
  shows "getVolumeByName E n s = Some
    (case mget (flexBlockVolumes s) (drop 4 n) of
       Some v \<Rightarrow> if VolName v = n then Done v
                 else Fail (Plain (''volume name '' @ n @ '' does not exist in the volumes list''))
     | None \<Rightarrow> Fail (Plain (''volume name '' @ n @ '' does not exist in the volumes list'')),
     s\<lparr>world := snd (rangeOrder E (mkeys (flexBlockVolumes s)) (world s))\<rparr>)"
  using assms by (rule getVolumeByName_eq)

definition exTable :: "flexBlockVolume gomap" where
  "exTable = [(''b2'', newVolume ''b2'' ''pvc-b2'' 1048576 ''/csi-flexblock-data-dir/b2'' mountAccess False),
     (''a1'', newVolume ''a1'' ''pvc-a1'' 2048 ''/dev/dm-0'' blockAccess False)]"

lemma exTable_ok: "volsOK exTable"
  by code_simp

theorem getVolumeByName_order_independent_witness:
  "\<exists>s'. getVolumeByName simHost ''pvc-a1'' (simState\<lparr>flexBlockVolumes := exTable\<rparr>)
     = Some (Done (newVolume ''a1'' ''pvc-a1'' 2048 ''/dev/dm-0'' blockAccess False), s')"
proof -
  have "\<not> hasPrefix ''pvc-a1'' ''ephemeral-''" "mget exTable (drop 4 ''pvc-a1'') =
      Some (newVolume ''a1'' ''pvc-a1'' 2048 ''/dev/dm-0'' blockAccess False)"
    by code_simp+
  with getVolumeByName_order_independent [of "simState\<lparr>flexBlockVolumes := exTable\<rparr>" "''pvc-a1''" simHost]
    exTable_ok show ?thesis by (simp add: newVolume_def)
qed


text \<open>
  The exception: a volume created under the name \<open>ephemeral-abc\<close> and the ephemeral volume \<open>abc\<close> have
  the same name, and the order of the map decides which one a look-up gives.
\<close>

definition exTwins :: "flexBlockVolume gomap" where
  "exTwins = [(''abc'', newVolume ''abc'' ''ephemeral-abc'' maxStorageCapacity (getVolumePath ''abc'') mountAccess True),
     (''meral-abc'', newVolume ''meral-abc'' ''ephemeral-abc'' 2048 ''/dev/sdb'' blockAccess False)]"

lemma lookup_ambiguous:
  "volsOK exTwins
   \<and> firstMatch (mget exTwins) (\<lambda>v. VolName v = ''ephemeral-abc'') (mkeys exTwins)
     \<noteq> firstMatch (mget exTwins) (\<lambda>v. VolName v = ''ephemeral-abc'') (rev (mkeys exTwins))"
  by code_simp
section \<open>Snapshot files\<close>

lemma ext_snap: "ext (i @ snapshotExt) = snapshotExt"
  by (simp add: ext_def snapshotExt_def)

lemma extRev_suffix: "extRev s acc = e \<Longrightarrow> e \<noteq> [] \<Longrightarrow> \<exists>p. rev s @ acc = p @ e"
  by (induction s acc rule: extRev.induct) (auto split: if_splits)

lemma getSnapshotID_iff: "getSnapshotID f = (True, i) \<longleftrightarrow> f = i @ snapshotExt"
proof
  assume "getSnapshotID f = (True, i)"
  then have e: "ext f = snapshotExt" and i: "i = trimSuffix f snapshotExt"
    by (auto simp: getSnapshotID_def split: if_splits)
  from e extRev_suffix [of "rev f" "[]"] obtain p where "f = p @ snapshotExt"
    by (auto simp: ext_def snapshotExt_def)
  with i show "f = i @ snapshotExt" by (simp add: trimSuffix_def hasSuffix_def)
next
  assume "f = i @ snapshotExt"
  then show "getSnapshotID f = (True, i)"
    by (simp add: getSnapshotID_def ext_snap trimSuffix_def hasSuffix_def)
qed

text \<open>
  C29. A file name is taken for a snapshot exactly when it is an identifier followed by
  \<open>.snap\<close>, and then that identifier is returned, dots and inner \<open>.snap\<close> included; every other
  name is refused with the empty identifier. The four cases of the repository's test follow.
\<close>

theorem getSnapshotID_correct:
  "(getSnapshotID f = (True, i) \<longleftrightarrow> f = i @ snapshotExt)
   \<and> (getSnapshotID f = (False, []) \<longleftrightarrow> (\<nexists>j. f = j @ snapshotExt))
   \<and> getSnapshotID ''foo.snap'' = (True, ''foo'') \<and> getSnapshotID ''baz.tar.gz'' = (False, [])
   \<and> getSnapshotID ''baz.tar.snap'' = (True, ''baz.tar'')
   \<and> getSnapshotID ''baz.tar.snap.snap'' = (True, ''baz.tar.snap'')"
proof -
  have no: "getSnapshotID f = (False, []) \<longleftrightarrow> (\<nexists>j. f = j @ snapshotExt)"
    unfolding getSnapshotID_iff [symmetric] by (simp add: getSnapshotID_def)
  have tests: "getSnapshotID ''foo.snap'' = (True, ''foo'')" "getSnapshotID ''baz.tar.gz'' = (False, [])"
    "getSnapshotID ''baz.tar.snap'' = (True, ''baz.tar'')"
    "getSnapshotID ''baz.tar.snap.snap'' = (True, ''baz.tar.snap'')"
    by code_simp+
  show ?thesis by (intro conjI getSnapshotID_iff no tests)
qed

lemma addSnapshotFile_get:
  "mget (addSnapshotFile m f) i = (if f = i @ snapshotExt then Some (foundSnapshot i) else mget m i)"
proof (cases "getSnapshotID f")
  case (Pair b j)
  then show ?thesis unfolding getSnapshotID_iff [symmetric]
    by (simp add: addSnapshotFile_def gm.get_put)
qed

lemma foldl_addSnapshotFile_get:
  "mget (foldl addSnapshotFile m fs) i =
     (if i @ snapshotExt \<in> set fs then Some (foundSnapshot i) else mget m i)"
  by (induction fs arbitrary: m) (auto simp: addSnapshotFile_get)

text \<open>
  C23. The snapshots a driver knows after it started are exactly the files with the snapshot
  extension in the data directory: each under its name without the extension, ready to use,
  and with the path of that file.
\<close>

theorem discovered_snapshots:
  assumes "fst (readDir E dataRoot (world s)) = Inr fs" and "flexBlockVolumeSnapshots s = []"
  shows "\<exists>s'. discoverExistingSnapshots E s = Some (Done (), s') \<and>
    (\<forall>i. mget (flexBlockVolumeSnapshots s') i =
       (if i @ snapshotExt \<in> set fs then Some (foundSnapshot i) else None))"
  using assms by (simp add: discoverExistingSnapshots_def go_simps foldl_addSnapshotFile_get gm.get_empty)

theorem discovered_snapshots_witness:
  "\<exists>s'. discoverExistingSnapshots simHost
      (simState\<lparr>world := simWorld\<lparr>simDirs := [(dataRoot, [''a.snap'', ''a'', ''b.tar.snap''])]\<rparr>\<rparr>) = Some (Done (), s') \<and>
    mget (flexBlockVolumeSnapshots s') ''b.tar'' = Some (foundSnapshot ''b.tar'') \<and>
    mget (flexBlockVolumeSnapshots s') ''c'' = None"
proof -
  let ?s = "simState\<lparr>world := simWorld\<lparr>simDirs := [(dataRoot, [''a.snap'', ''a'', ''b.tar.snap''])]\<rparr>\<rparr>"
  have "fst (readDir simHost dataRoot (world ?s)) = Inr [''a.snap'', ''a'', ''b.tar.snap'']"
    by (simp add: simHost_def)
  from discovered_snapshots [OF this] show ?thesis
    by (auto simp: simState_def initVars_def snapshotExt_def)
qed

section \<open>Paths\<close>







end
