(* ===== verification/Create_Props.thy ===== *)
theory Create_Props
  imports Volumes_Props
begin

text \<open>
  Properties of \<open>CreateVolume\<close>: which requests are refused, what a success promises, what a failure
  leaves behind, which retries are idempotent, and what names do to identifiers.
\<close>

section \<open>The shape of CreateVolume\<close>

definition accessOf :: "createVolumeRequest \<Rightarrow> accessType" where
  "accessOf req = (if (case cvCapabilities req of Some cs \<Rightarrow> list_ex getBlock cs | None \<Rightarrow> False)
     then blockAccess else mountAccess)"

abbreviation wanted :: "createVolumeRequest \<Rightarrow> int" where
  "wanted req \<equiv> getRequiredBytes (cvCapacityRange req)"

lemma readTopologies_returns: "\<exists>tops w. readTopologies E n s = Some (Done tops, s\<lparr>world := w\<rparr>)"
  by (auto simp: readTopologies_def go_simps split: sum.split)

lemma getVolumeByName_returns:
  obtains r w where "getVolumeByName E n s = Some (r, s\<lparr>world := w\<rparr>)"
    "(\<exists>k v. r = Done v \<and> mget (flexBlockVolumes s) k = Some v \<and> VolName v = n)
     \<or> (\<exists>e. r = Fail e) \<and> (\<forall>k v. mget (flexBlockVolumes s) k = Some v \<longrightarrow> VolName v \<noteq> n)"
proof -
  let ?m = "flexBlockVolumes s"
  let ?ks = "permOf (fst (rangeOrder E (mkeys ?m) (world s))) (mkeys ?m)"
  let ?w = "snd (rangeOrder E (mkeys ?m) (world s))"
  have ks: "set ?ks = set (mkeys ?m)" by simp
  show ?thesis
  proof (cases "firstMatch (mget ?m) (\<lambda>v. VolName v = n) ?ks")
    case None
    then have "getVolumeByName E n s = Some (Fail (Plain (''volume name '' @ n
        @ '' does not exist in the volumes list'')), s\<lparr>world := ?w\<rparr>)"
      by (simp add: getVolumeByName_def rangeKeys_def go_simps)
    moreover have "\<forall>k v. mget ?m k = Some v \<longrightarrow> VolName v \<noteq> n"
      using None by (simp only: gm.firstMatch_all_None [OF ks])
    ultimately show ?thesis using that by blast
  next
    case (Some v)
    then have "getVolumeByName E n s = Some (Done v, s\<lparr>world := ?w\<rparr>)"
      by (simp add: getVolumeByName_def rangeKeys_def go_simps)
    with gm.firstMatch_Some [OF Some] that show ?thesis by blast
  qed
qed

text \<open>
  The part of \<open>CreateVolume\<close> behind the checks of the arguments, which depend on nothing but the
  server and the request.
\<close>

definition createBody :: "'w env \<Rightarrow> controllerServer \<Rightarrow> createVolumeRequest \<Rightarrow> ('w, csiVolume) drvM" where
  "createBody E cs req = bnd (readTopologies E (csNodeID cs)) (\<lambda>tops.
     bnd (attempt (getVolumeByName E (cvName req))) (\<lambda>x. case x of
       Inr exVol \<Rightarrow> existingVolume req (wanted req) tops exVol
     | Inl _ \<Rightarrow> createNewVolume E req (wanted req) (accessOf req) tops))"

text \<open>The first check of the arguments that fails, in the order of the code.\<close>

definition createRefusal :: "controllerServer \<Rightarrow> createVolumeRequest \<Rightarrow> goerr option" where
  "createRefusal cs req =
     (if RPC_CREATE_DELETE_VOLUME \<notin> set (caps cs)
        then Some (Status InvalidArgument ''unsupported capability CREATE_DELETE_VOLUME'')
      else if cvName req = [] then Some (Status InvalidArgument ''Name missing in request'')
      else case cvCapabilities req of
        None \<Rightarrow> Some (Status InvalidArgument ''Volume Capabilities missing in request'')
      | Some vcaps \<Rightarrow>
          if list_ex getBlock vcaps \<and> list_ex getMount vcaps
            then Some (Status InvalidArgument ''cannot have both block and mount access type'')
          else if maxStorageCapacity \<le> wanted req
            then Some (Status OutOfRange (''Requested capacity '' @ itoa (wanted req) @ '' exceeds maximum allowed ''
                   @ itoa maxStorageCapacity))
          else None)"

lemma validate_eq:
  "validateControllerServiceRequest cs c = (if c = RPC_UNKNOWN \<or> c \<in> set (caps cs) then ret ()
     else throw (Status InvalidArgument (''unsupported capability '' @ rpcName c)))"
  by (auto simp: validateControllerServiceRequest_def list_ex_iff)

lemma CreateVolume_args:
  "CreateVolume E cs req = (case createRefusal cs req of Some e \<Rightarrow> throw e | None \<Rightarrow> createBody E cs req)"
proof (cases "RPC_CREATE_DELETE_VOLUME \<in> set (caps cs) \<and> cvName req \<noteq> []")
  case False
  then show ?thesis by (auto simp: CreateVolume_def createRefusal_def validate_eq)
next
  case True
  then show ?thesis
    by (cases "cvCapabilities req")
       (simp_all add: CreateVolume_def createRefusal_def createBody_def accessOf_def validate_eq Let_def failIf_def)
qed

lemma createRefusal_None: "createRefusal cs req = None \<Longrightarrow> wanted req < maxStorageCapacity"
  by (auto simp: createRefusal_def split: if_splits option.splits)

text \<open>
  Every run of \<open>CreateVolume\<close> is a refusal of the arguments, an answer for an existing volume of
  the name, or a creation when there is none.
\<close>

lemma CreateVolume_cases [consumes 1, case_names refused existing new]:
  assumes "CreateVolume E cs req s = Some (r, s')"
  obtains e where "r = Fail e" "s' = s"
    | tops t k v where "registry t = registry s" "mget (flexBlockVolumes s) k = Some v" "VolName v = cvName req"
        "existingVolume req (wanted req) tops v t = Some (r, s')" "wanted req < maxStorageCapacity"
    | tops t where "registry t = registry s"
        "\<And>k v. mget (flexBlockVolumes s) k = Some v \<Longrightarrow> VolName v \<noteq> cvName req"
        "createNewVolume E req (wanted req) (accessOf req) tops t = Some (r, s')" "wanted req < maxStorageCapacity"
proof -
  from assms have "(\<exists>e. r = Fail e \<and> s' = s) \<or>
      createBody E cs req s = Some (r, s') \<and> wanted req < maxStorageCapacity"
    by (cases "createRefusal cs req") (auto simp: CreateVolume_args throw_apply dest: createRefusal_None)
  then show ?thesis
  proof (elim disjE conjE)
    assume body: "createBody E cs req s = Some (r, s')" and cap: "wanted req < maxStorageCapacity"
    from readTopologies_returns [of E "csNodeID cs" s] obtain tops w where
      w: "readTopologies E (csNodeID cs) s = Some (Done tops, s\<lparr>world := w\<rparr>)" by (elim exE)
    obtain x v where
      "getVolumeByName E (cvName req) (s\<lparr>world := w\<rparr>) = Some (x, s\<lparr>world := w, world := v\<rparr>)"
      "(\<exists>k v. x = Done v \<and> mget (flexBlockVolumes (s\<lparr>world := w\<rparr>)) k = Some v \<and> VolName v = cvName req)
        \<or> (\<exists>e. x = Fail e) \<and> (\<forall>k v. mget (flexBlockVolumes (s\<lparr>world := w\<rparr>)) k = Some v \<longrightarrow> VolName v \<noteq> cvName req)"
      by (rule getVolumeByName_returns)
    then have v: "getVolumeByName E (cvName req) (s\<lparr>world := w\<rparr>) = Some (x, s\<lparr>world := v\<rparr>)"
      and x: "(\<exists>k v. x = Done v \<and> mget (flexBlockVolumes s) k = Some v \<and> VolName v = cvName req)
        \<or> (\<exists>e. x = Fail e) \<and> (\<forall>k v. mget (flexBlockVolumes s) k = Some v \<longrightarrow> VolName v \<noteq> cvName req)"
      by simp_all
    from body have "(case x of Done v \<Rightarrow> existingVolume req (wanted req) tops v
        | _ \<Rightarrow> createNewVolume E req (wanted req) (accessOf req) tops) (s\<lparr>world := v\<rparr>) = Some (r, s')"
      using x by (auto simp: createBody_def bnd_apply attempt_apply w v)
    with x cap that(2,3) [of "s\<lparr>world := v\<rparr>"] show ?thesis by auto
  qed (use that(1) in auto)
qed

lemma attempt_eq_SomeE:
  assumes "bnd (attempt m) f s = Some (r, s')"
  obtains (Done) a u where "m s = Some (Done a, u)" "f (Inr a) u = Some (r, s')"
    | (Fail) e u where "m s = Some (Fail e, u)" "f (Inl e) u = Some (r, s')"
    | (Crash) p where "m s = Some (Crash p, s')" "r = Crash p"
  using assms by (auto simp: bnd_apply attempt_apply split: option.splits outcome.splits)

text \<open>
  A creation panics on a short name, fails and leaves the tables alone, succeeds with exactly
  one new entry, or fails while filling the volume, which is then deleted if that succeeds.
\<close>

lemma createNewVolume_cases [consumes 1, case_names short failed created undone]:
  assumes "createNewVolume E req c a tops t = Some (r, s')"
  obtains "length (cvName req) < 4" "r = Crash ''slice bounds out of range''" "s' = t"
    | "\<not> isDone r" "registry s' = registry t"
    | p where "4 \<le> length (cvName req)" "cvSource req \<noteq> Some SrcUnset"
        "r = Done \<lparr>VolumeId = drop 4 (cvName req), CapacityBytes = wanted req, VolumeContext = cvParameters req,
           ContentSource = cvSource req, AccessibleTopology = tops\<rparr>"
        "registry s' = (mput (drop 4 (cvName req)) (newVolume (drop 4 (cvName req)) (cvName req) c p a False)
           (flexBlockVolumes t), flexBlockVolumeSnapshots t)"
        "a = mountAccess \<and> p = getVolumePath (drop 4 (cvName req)) \<or> a = blockAccess"
    | v where "cvSource req \<noteq> None" "\<not> isDone r" "flexBlockVolumeSnapshots s' = flexBlockVolumeSnapshots t"
        "flexBlockVolumes s' = mput (drop 4 (cvName req)) v (flexBlockVolumes t)
         \<or> flexBlockVolumes s' = mdel (drop 4 (cvName req)) (mput (drop 4 (cvName req)) v (flexBlockVolumes t))"
proof (cases "4 \<le> length (cvName req)")
  case False
  with assms that(1) show ?thesis
    by (simp add: createNewVolume_def sliceM_def slice_def panic_apply)
next
  case True
  let ?i = "drop 4 (cvName req)"
  let ?fill = "case cvSource req of
            None \<Rightarrow> ret ()
          | Some src \<Rightarrow>
              bnd (attempt (populateVolume E c (getVolumePath ?i) a src)) (\<lambda>r. case r of
                Inl err \<Rightarrow> bnd (attempt (deleteFlexblockVolume E ?i)) (\<lambda>_. throw err)
              | Inr _ \<Rightarrow> ret ())"
  let ?ok = "ret \<lparr>VolumeId = ?i, CapacityBytes = wanted req, VolumeContext = cvParameters req,
          ContentSource = cvSource req, AccessibleTopology = tops\<rparr>"
  have "slice (cvName req) 4 (int (length (cvName req))) = Some ?i" using True by (simp add: slice_from4)
  then have sl: "(sliceM (cvName req) 4 (int (length (cvName req))) :: ('a, string) drvM) = ret ?i"
    by (simp add: sliceM_def)
  from assms have "bnd (attempt (createFlexblockVolume E ?i (cvName req) c a False)) (\<lambda>r. case r of
       Inl err \<Rightarrow> throw (Status Internal (''failed to create volume '' @ ?i @ '': '' @ errText err))
     | Inr vol \<Rightarrow> bnd ?fill (\<lambda>_. ?ok)) t = Some (r, s')"
    unfolding createNewVolume_def sl bnd_ret_left .
  then show ?thesis
  proof (cases rule: attempt_eq_SomeE)
    case (Done v u)
    from create_contract [OF Done(1)] obtain p where
      v: "v = newVolume ?i (cvName req) c p a False" "a = mountAccess \<and> p = getVolumePath ?i \<or> a = blockAccess"
      and u: "registry u = (mput ?i v (flexBlockVolumes t), flexBlockVolumeSnapshots t)" by auto
    from Done(2) have rest: "bnd ?fill (\<lambda>_. ?ok) u = Some (r, s')" by simp
    show ?thesis
    proof (cases "cvSource req")
      case None
      with rest u v True that(3) show ?thesis by (simp add: ret_apply)
    next
      case (Some src)
      with rest have "bnd (attempt (populateVolume E c (getVolumePath ?i) a src)) (\<lambda>r. case r of
          Inl err \<Rightarrow> bnd (attempt (deleteFlexblockVolume E ?i)) (\<lambda>_. throw err)
        | Inr _ \<Rightarrow> ?ok) u = Some (r, s')"
        by (auto simp: bnd_apply attempt_apply throw_apply ret_apply split: option.splits outcome.splits)
      then show ?thesis
      proof (cases rule: attempt_eq_SomeE)
        case (Done x w)
        then have "src \<noteq> SrcUnset" by (auto simp: populateVolume_def throw_apply)
        with Done u v True Some that(3) frameD [OF idle_populateVolume Done(1)] show ?thesis
          by (simp add: ret_apply)
      next
        case (Fail e w)
        from Fail(2) have "bnd (attempt (deleteFlexblockVolume E ?i)) (\<lambda>_. throw e) w = Some (r, s')" by simp
        then obtain x where "deleteFlexblockVolume E ?i w = Some (x, s')" and r: "\<not> isDone r"
          by (auto simp: bnd_apply attempt_apply throw_apply split: option.splits outcome.splits)
        from fb.delete_registry [OF this(1)] frameD [OF idle_populateVolume Fail(1)] u Some r that(4) [of v]
        show ?thesis by auto
      next
        case (Crash p)
        with frameD [OF idle_populateVolume Crash(1)] u Some that(4) [of v] show ?thesis by simp
      qed
    qed
  next
    case (Fail e u)
    with create_contract [OF Fail(1)] that(2) show ?thesis by (auto simp: go_simps)
  next
    case (Crash p)
    with create_contract [OF Crash(1)] that(2) show ?thesis by auto
  qed
qed

section \<open>CreateVolume\<close>

lemma existingVolume_Done:
  assumes "existingVolume req c tops ex t = Some (Done v, s')"
  shows "s' = t \<and> c \<le> VolSize ex \<and> cvSource req \<noteq> Some SrcUnset \<and> v = \<lparr>VolumeId = VolID ex, CapacityBytes = VolSize ex,
    VolumeContext = cvParameters req, ContentSource = cvSource req, AccessibleTopology = tops\<rparr>"
  using assms unfolding existingVolume_def
  by (auto simp: bnd_apply failIf_apply ret_apply throw_apply
      split: if_splits option.splits contentSource.splits)

lemma CreateVolume_Done:
  assumes run: "CreateVolume E cs req s = Some (Done v, s')" and ok: "volsOK (flexBlockVolumes s)"
  shows "\<exists>vol. mget (flexBlockVolumes s') (VolumeId v) = Some vol \<and> VolName vol = cvName req
    \<and> VolID vol = VolumeId v \<and> wanted req \<le> VolSize vol \<and> VolSize vol \<le> maxStorageCapacity
    \<and> CapacityBytes v = VolSize vol \<and> VolumeContext v = cvParameters req \<and> ContentSource v = cvSource req
    \<and> (\<forall>j. j \<noteq> VolumeId v \<longrightarrow> mget (flexBlockVolumes s') j = mget (flexBlockVolumes s) j)
    \<and> flexBlockVolumeSnapshots s' = flexBlockVolumeSnapshots s"
  using run
proof (cases rule: CreateVolume_cases)
  case (existing tops t k ex)
  from volsOK_get [OF ok existing(2)] have k: "VolID ex = k" "VolSize ex \<le> maxStorageCapacity"
    by (auto simp: volOK_def split: if_splits)
  from existingVolume_Done [OF existing(4)] existing(1,2,3) k show ?thesis by auto
next
  case (new tops t)
  from new(3) show ?thesis
  proof (cases rule: createNewVolume_cases)
    case (created p)
    with new(1,4) show ?thesis by (auto simp: gm.get_put newVolume_def)
  qed auto
qed simp

text \<open>
  C4. What a successful \<open>CreateVolume\<close> promises: the table holds, under the identifier that was
  returned, a volume of the requested name, of at least the requested size and not over the
  limit; the response tells that size and passes on the parameters and the source; every other
  volume and every snapshot is as before.
\<close>

theorem CreateVolume_success:
  assumes run: "CreateVolume E cs req s = Some (Done v, s')" and ok: "volsOK (flexBlockVolumes s)"
  shows "\<exists>vol. mget (flexBlockVolumes s') (VolumeId v) = Some vol \<and> VolName vol = cvName req
    \<and> VolID vol = VolumeId v \<and> wanted req \<le> VolSize vol \<and> VolSize vol \<le> maxStorageCapacity
    \<and> CapacityBytes v = VolSize vol \<and> VolumeContext v = cvParameters req \<and> ContentSource v = cvSource req
    \<and> (\<forall>j. j \<noteq> VolumeId v \<longrightarrow> mget (flexBlockVolumes s') j = mget (flexBlockVolumes s) j)
    \<and> flexBlockVolumeSnapshots s' = flexBlockVolumeSnapshots s"
  using CreateVolume_Done [OF assms] .

lemma simCreate_returned: "returned (CreateVolume simHost (svCs simServers) (simReq ''pvc-a1'') simState)"
  by code_simp

lemma simState_ok: "volsOK (flexBlockVolumes simState)"
  by (simp add: simState_def initVars_def volsOK_empty)

theorem CreateVolume_success_witness:
  "\<exists>v s' vol. CreateVolume simHost (svCs simServers) (simReq ''pvc-a1'') simState = Some (Done v, s')
     \<and> mget (flexBlockVolumes s') (VolumeId v) = Some vol \<and> VolName vol = ''pvc-a1''
     \<and> VolSize vol \<ge> 1073741824"
proof -
  from simCreate_returned obtain v s' where
    run: "CreateVolume simHost (svCs simServers) (simReq ''pvc-a1'') simState = Some (Done v, s')"
    by (rule returnedE)
  have "cvName (simReq ''pvc-a1'') = ''pvc-a1''" "wanted (simReq ''pvc-a1'') = 1073741824" by code_simp+
  with CreateVolume_success [OF run simState_ok] run show ?thesis by auto
qed

text \<open>
  C8. A \<open>CreateVolume\<close> that fails or panics changes no other volume and no snapshot. Without a
  content source it changes nothing in the tables at all; with one, the only possible trace is
  at the identifier of the new volume, which is either gone or, when its deletion failed too,
  still there.
\<close>

theorem CreateVolume_failure:
  assumes run: "CreateVolume E cs req s = Some (r, s')" and r: "\<not> isDone r" and ok: "volsOK (flexBlockVolumes s)"
  shows "flexBlockVolumeSnapshots s' = flexBlockVolumeSnapshots s
    \<and> (\<forall>j. j \<noteq> drop 4 (cvName req) \<longrightarrow> mget (flexBlockVolumes s') j = mget (flexBlockVolumes s) j)
    \<and> (cvSource req = None \<longrightarrow> registry s' = registry s)"
  using run
proof (cases rule: CreateVolume_cases)
  case (existing tops t k ex)
  from frameD [OF idle_existingVolume existing(4)] existing(1) show ?thesis by simp
next
  case (new tops t)
  from new(3) show ?thesis
  proof (cases rule: createNewVolume_cases)
    case (undone v)
    with new(1) ok show ?thesis by (auto simp: gm.get_put gm.get_del gm.wf_put volsOK_iff)
  qed (use r new(1) in auto)
qed simp

theorem CreateVolume_failure_witness:
  "\<exists>s'. CreateVolume simHost (svCs simServers) (simReq ''pvc'') simState = Some (Crash ''slice bounds out of range'', s')
     \<and> registry s' = registry simState"
proof -
  have "map_option fst (CreateVolume simHost (svCs simServers) (simReq ''pvc'') simState)
      = Some (Crash ''slice bounds out of range'')" by code_simp
  then obtain s' where run: "CreateVolume simHost (svCs simServers) (simReq ''pvc'') simState
      = Some (Crash ''slice bounds out of range'', s')" by auto
  have "cvSource (simReq ''pvc'') = None" by code_simp
  with CreateVolume_failure [OF run _ simState_ok] run show ?thesis by simp
qed

section \<open>Retries of CreateVolume\<close>

text \<open>A request whose volume is in the table already is answered from the table.\<close>

lemma CreateVolume_again:
  assumes "createRefusal cs req = None" and "volsOK (flexBlockVolumes s)"
    and "\<not> hasPrefix (cvName req) ''ephemeral-''"
    and "mget (flexBlockVolumes s) (drop 4 (cvName req)) = Some vol" and "VolName vol = cvName req"
  shows "\<exists>tops w. CreateVolume E cs req s = existingVolume req (wanted req) tops vol (s\<lparr>world := w\<rparr>)"
proof -
  from readTopologies_returns [of E "csNodeID cs" s] obtain tops w where
    w: "readTopologies E (csNodeID cs) s = Some (Done tops, s\<lparr>world := w\<rparr>)" by (elim exE)
  have "\<exists>v. getVolumeByName E (cvName req) (s\<lparr>world := w\<rparr>) = Some (Done vol, s\<lparr>world := v\<rparr>)"
    using assms getVolumeByName_eq [of "s\<lparr>world := w\<rparr>" "cvName req" E] by auto
  then obtain v where v: "getVolumeByName E (cvName req) (s\<lparr>world := w\<rparr>) = Some (Done vol, s\<lparr>world := v\<rparr>)" ..
  show ?thesis
    by (intro exI [of _ tops] exI [of _ v])
       (simp add: CreateVolume_args assms(1) createBody_def bnd_apply attempt_apply w v)
qed

text \<open>What a success leaves for the next request of the same kind.\<close>

lemma CreateVolume_leaves:
  assumes run: "CreateVolume E cs req s = Some (Done v, s')" and ok: "regOK s"
    and name: "\<not> hasPrefix (cvName req) ''ephemeral-''"
  obtains vol where "createRefusal cs req = None" "volsOK (flexBlockVolumes s')"
    "VolumeId v = drop 4 (cvName req)" "mget (flexBlockVolumes s') (drop 4 (cvName req)) = Some vol"
    "VolName vol = cvName req" "wanted req \<le> VolSize vol" "CapacityBytes v = VolSize vol"
    "ParentVolID vol = []" "ParentSnapID vol = []" "VolID vol = VolumeId v" "cvSource req \<noteq> Some SrcUnset"
proof -
  have no: "createRefusal cs req = None"
    using run by (cases "createRefusal cs req") (auto simp: CreateVolume_args throw_apply)
  have ok': "volsOK (flexBlockVolumes s')"
    using keepsD [OF regOK_CreateVolume run ok] by (simp add: regOK_def)
  have "\<exists>vol. mget (flexBlockVolumes s') (VolumeId v) = Some vol \<and> VolName vol = cvName req
      \<and> wanted req \<le> VolSize vol \<and> CapacityBytes v = VolSize vol \<and> cvSource req \<noteq> Some SrcUnset"
    using run
  proof (cases rule: CreateVolume_cases)
    case (existing tops t k ex)
    from volsOK_get [OF _ existing(2)] ok have "VolID ex = k" by (simp add: regOK_def volOK_def)
    with existingVolume_Done [OF existing(4)] existing(1,2,3) show ?thesis by auto
  next
    case (new tops t)
    from new(3) show ?thesis
      by (cases rule: createNewVolume_cases) (auto simp: gm.get_put newVolume_def)
  qed simp
  then obtain vol where vol: "mget (flexBlockVolumes s') (VolumeId v) = Some vol" "VolName vol = cvName req"
      "wanted req \<le> VolSize vol" "CapacityBytes v = VolSize vol" "cvSource req \<noteq> Some SrcUnset" by blast
  from volsOK_get [OF ok' vol(1)] have k: "volOK (VolumeId v) vol" .
  with volOK_name [OF k] vol(2) name have "VolumeId v = drop 4 (cvName req)" by simp
  with k vol no ok' that [of vol] show ?thesis by (auto simp: volOK_def)
qed

text \<open>
  C5. For a request without a source volume whose name does not start with \<open>ephemeral-\<close>,
  \<open>CreateVolume\<close> is idempotent: after a success on well-formed tables the same request succeeds
  again, in whatever state the host has come to be, returns the same identifier and size, and
  leaves both tables as they are. (It does not hold with a source volume, see
  \<open>CreateVolume_clone_retry_fails\<close>, and need not when an ephemeral volume bears the name.)
\<close>

theorem CreateVolume_idempotent:
  assumes run: "CreateVolume E cs req s = Some (Done v, s')" and ok: "regOK s"
    and name: "\<not> hasPrefix (cvName req) ''ephemeral-''"
    and src: "\<nexists>i. cvSource req = Some (SrcVolume (Some i))"
  shows "\<exists>v' s''. CreateVolume E cs req (s'\<lparr>world := w\<rparr>) = Some (Done v', s'')
    \<and> VolumeId v' = VolumeId v \<and> CapacityBytes v' = CapacityBytes v \<and> registry s'' = registry s'"
proof -
  from run ok name obtain vol where no: "createRefusal cs req = None"
    and ok': "volsOK (flexBlockVolumes s')" and i: "VolumeId v = drop 4 (cvName req)"
    and vol: "mget (flexBlockVolumes s') (drop 4 (cvName req)) = Some vol" "VolName vol = cvName req"
      "wanted req \<le> VolSize vol" "CapacityBytes v = VolSize vol" "ParentSnapID vol = []" "VolID vol = VolumeId v"
      "cvSource req \<noteq> Some SrcUnset"
    by (rule CreateVolume_leaves)
  from CreateVolume_again [of cs req "s'\<lparr>world := w\<rparr>" vol E] no ok' name vol obtain tops x where
    "CreateVolume E cs req (s'\<lparr>world := w\<rparr>) = existingVolume req (wanted req) tops vol (s'\<lparr>world := x\<rparr>)"
    by auto
  then show ?thesis
    using vol i src
    by (auto simp: existingVolume_def bnd_apply failIf_apply ret_apply throw_apply split: option.split contentSource.split)
qed

theorem CreateVolume_idempotent_witness:
  "\<exists>v s' v' s''. CreateVolume simHost (svCs simServers) (simReq ''pvc-a1'') simState = Some (Done v, s')
     \<and> CreateVolume simHost (svCs simServers) (simReq ''pvc-a1'') (s'\<lparr>world := simWorld\<rparr>) = Some (Done v', s'')
     \<and> VolumeId v' = VolumeId v \<and> registry s'' = registry s'"
proof -
  from simCreate_returned obtain v s' where
    run: "CreateVolume simHost (svCs simServers) (simReq ''pvc-a1'') simState = Some (Done v, s')"
    by (rule returnedE)
  have "regOK simState" "\<not> hasPrefix (cvName (simReq ''pvc-a1'')) ''ephemeral-''" by code_simp+
  moreover have "\<nexists>i. cvSource (simReq ''pvc-a1'') = Some (SrcVolume (Some i))" by (simp add: simReq_def)
  ultimately show ?thesis using CreateVolume_idempotent [OF run, of simWorld] run by blast
qed

text \<open>
  C25. A clone is not idempotent: after a success of a request with a source volume, the same
  request always fails with \<open>AlreadyExists\<close>, because the table never learns the parent's
  identifier (the handler sets \<open>ParentVolID\<close> in a copy that it then drops).
\<close>

theorem CreateVolume_clone_retry_fails:
  assumes run: "CreateVolume E cs req s = Some (Done v, s')" and ok: "regOK s"
    and name: "\<not> hasPrefix (cvName req) ''ephemeral-''"
    and src: "cvSource req = Some (SrcVolume (Some i))" "i \<noteq> []"
  shows "\<exists>s''. CreateVolume E cs req (s'\<lparr>world := w\<rparr>) =
      Some (Fail (Status AlreadyExists ''existing volume source volume id not matching''), s'')
    \<and> registry s'' = registry s'"
proof -
  from run ok name obtain vol where no: "createRefusal cs req = None"
    and ok': "volsOK (flexBlockVolumes s')"
    and vol: "mget (flexBlockVolumes s') (drop 4 (cvName req)) = Some vol" "VolName vol = cvName req"
      "wanted req \<le> VolSize vol" "ParentVolID vol = []"
    by (rule CreateVolume_leaves)
  from CreateVolume_again [of cs req "s'\<lparr>world := w\<rparr>" vol E] no ok' name vol obtain tops x where
    "CreateVolume E cs req (s'\<lparr>world := w\<rparr>) = existingVolume req (wanted req) tops vol (s'\<lparr>world := x\<rparr>)"
    by auto
  then show ?thesis
    using vol src by (simp add: existingVolume_def bnd_apply failIf_apply throw_apply)
qed

definition simClone :: createVolumeRequest where
  "simClone = (simReq ''pvc-c1'')\<lparr>cvSource := Some (SrcVolume (Some ''a1''))\<rparr>"

lemma simBase_ok: "regOK simBase"
  by code_simp

theorem CreateVolume_clone_retry_fails_witness:
  "\<exists>v s' s''. CreateVolume simHost (svCs simServers) simClone simBase = Some (Done v, s')
     \<and> CreateVolume simHost (svCs simServers) simClone (s'\<lparr>world := simWorld\<rparr>) =
         Some (Fail (Status AlreadyExists ''existing volume source volume id not matching''), s'')"
proof -
  have "returned (CreateVolume simHost (svCs simServers) simClone simBase)" by code_simp
  then obtain v s' where run: "CreateVolume simHost (svCs simServers) simClone simBase = Some (Done v, s')"
    by (rule returnedE)
  have "\<not> hasPrefix (cvName simClone) ''ephemeral-''" by code_simp
  from CreateVolume_clone_retry_fails [OF run simBase_ok this, of "''a1''" simWorld] run
  show ?thesis by (auto simp: simClone_def)
qed

section \<open>Names and identifiers\<close>

text \<open>
  C26. The identifier is the name without its first four bytes, so two names that differ there
  only share it: a successful \<open>CreateVolume\<close> for the second name replaces the first volume in the
  table, and no volume bears the first name any more.
\<close>

theorem CreateVolume_collision:
  assumes run: "CreateVolume E cs req s = Some (Done v, s')" and ok: "regOK s"
    and name: "\<not> hasPrefix (cvName req) ''ephemeral-''"
    and old: "mget (flexBlockVolumes s) (drop 4 (cvName req)) = Some ex" "VolName ex \<noteq> cvName req" "\<not> Ephemeral ex"
  shows "\<exists>vol. mget (flexBlockVolumes s') (drop 4 (cvName req)) = Some vol \<and> VolName vol = cvName req
    \<and> (\<forall>k u. mget (flexBlockVolumes s') k = Some u \<longrightarrow> \<not> Ephemeral u \<longrightarrow> VolName u \<noteq> VolName ex)"
proof -
  from run ok name obtain vol where ok': "volsOK (flexBlockVolumes s')"
    and vol: "mget (flexBlockVolumes s') (drop 4 (cvName req)) = Some vol" "VolName vol = cvName req"
    by (rule CreateVolume_leaves)
  have ex: "drop 4 (VolName ex) = drop 4 (cvName req)"
    using volsOK_get [OF _ old(1)] ok old(3) by (auto simp: regOK_def volOK_def)
  have "VolName u \<noteq> VolName ex" if "mget (flexBlockVolumes s') k = Some u" "\<not> Ephemeral u" for k u
  proof
    assume "VolName u = VolName ex"
    with volsOK_get [OF ok' that(1)] that(2) ex have "k = drop 4 (cvName req)" by (simp add: volOK_def)
    with that(1) vol \<open>VolName u = VolName ex\<close> old(2) show False by simp
  qed
  with vol show ?thesis by blast
qed

theorem CreateVolume_collision_witness:
  "\<exists>v s' vol. CreateVolume simHost (svCs simServers) (simReq ''xyz-a1'') simBase = Some (Done v, s')
     \<and> mget (flexBlockVolumes s') ''a1'' = Some vol \<and> VolName vol = ''xyz-a1''"
proof -
  have "returned (CreateVolume simHost (svCs simServers) (simReq ''xyz-a1'') simBase)" by code_simp
  then obtain v s' where run: "CreateVolume simHost (svCs simServers) (simReq ''xyz-a1'') simBase = Some (Done v, s')"
    by (rule returnedE)
  have n: "cvName (simReq ''xyz-a1'') = ''xyz-a1''" by (simp add: simReq_def)
  have "regOK simBase" "\<not> hasPrefix ''xyz-a1'' ''ephemeral-''" by code_simp+
  moreover have "map_option VolName (mget (flexBlockVolumes simBase) (drop 4 ''xyz-a1'')) = Some ''pvc-a1''"
    "map_option Ephemeral (mget (flexBlockVolumes simBase) (drop 4 ''xyz-a1'')) = Some False"
    by code_simp+
  then obtain ex where "mget (flexBlockVolumes simBase) (drop 4 ''xyz-a1'') = Some ex"
    "VolName ex = ''pvc-a1''" "\<not> Ephemeral ex" by auto
  ultimately show ?thesis
    using CreateVolume_collision [OF run, of ex] run unfolding n by auto
qed

text \<open>
  C27. A name of fewer than four bytes that passes the checks and is not in the table makes the
  handler panic (\<open>pvcName[4:len(pvcName)]\<close>), and the panic happens before any volume is made.
\<close>

theorem CreateVolume_short_name_panics:
  assumes "createRefusal cs req = None" and "length (cvName req) < 4"
    and "\<And>k v. mget (flexBlockVolumes s) k = Some v \<Longrightarrow> VolName v \<noteq> cvName req"
  shows "\<exists>s'. CreateVolume E cs req s = Some (Crash ''slice bounds out of range'', s') \<and> registry s' = registry s"
proof -
  from readTopologies_returns [of E "csNodeID cs" s] obtain tops w where
    w: "readTopologies E (csNodeID cs) s = Some (Done tops, s\<lparr>world := w\<rparr>)" by (elim exE)
  obtain r v where v: "getVolumeByName E (cvName req) (s\<lparr>world := w\<rparr>) = Some (r, s\<lparr>world := w, world := v\<rparr>)"
    and r: "(\<exists>k v. r = Done v \<and> mget (flexBlockVolumes (s\<lparr>world := w\<rparr>)) k = Some v \<and> VolName v = cvName req)
      \<or> (\<exists>e. r = Fail e) \<and> (\<forall>k v. mget (flexBlockVolumes (s\<lparr>world := w\<rparr>)) k = Some v \<longrightarrow> VolName v \<noteq> cvName req)"
    by (rule getVolumeByName_returns)
  from r assms(3) obtain e where "r = Fail e" by auto
  with v assms(1,2) show ?thesis
    by (simp add: CreateVolume_args createBody_def bnd_apply attempt_apply w createNewVolume_def sliceM_def
        slice_def panic_apply)
qed

theorem CreateVolume_short_name_panics_witness:
  "\<exists>s'. CreateVolume simHost (svCs simServers) (simReq ''db'') simState = Some (Crash ''slice bounds out of range'', s')"
proof -
  have "createRefusal (svCs simServers) (simReq ''db'') = None" "length (cvName (simReq ''db'')) < 4" by code_simp+
  moreover have "mget (flexBlockVolumes simState) k = None" for k
    by (simp add: simState_def initVars_def gm.get_empty)
  ultimately show ?thesis
    using CreateVolume_short_name_panics [of "svCs simServers" "simReq ''db''" simState simHost] by auto
qed

end
