(* ===== verification/Controller_Props.thy ===== *)
theory Controller_Props
  imports Create_Props
begin

text \<open>
  Properties of the other controller calls: deletion and growth of volumes, and the checks of
  capabilities.
\<close>

section \<open>DeleteVolume\<close>

lemma DeleteVolume_run:
  assumes "DeleteVolume E cs i s = Some (r, s')" and "\<forall>p. r \<noteq> Crash p"
  shows "(\<exists>e. r = Fail e \<and> registry s' = registry s)
    \<or> r = Done () \<and> i \<noteq> [] \<and> RPC_CREATE_DELETE_VOLUME \<in> set (caps cs)
      \<and> deleteFlexblockVolume E i s = Some (Done (), s')"
  using assms fb.delete_registry [of E i s]
  by (auto simp: DeleteVolume_def validate_eq go_simps split: if_splits option.splits outcome.splits sum.splits)

text \<open>
  C10. A successful \<open>DeleteVolume\<close> removes the volume and nothing else, and is idempotent: the
  same call in any later state of the host succeeds at once and does not touch the host.
\<close>

theorem DeleteVolume_success:
  assumes run: "DeleteVolume E cs i s = Some (Done (), s')" and ok: "volsOK (flexBlockVolumes s)"
  shows "mget (flexBlockVolumes s') i = None
    \<and> (\<forall>j. j \<noteq> i \<longrightarrow> mget (flexBlockVolumes s') j = mget (flexBlockVolumes s) j)
    \<and> flexBlockVolumeSnapshots s' = flexBlockVolumeSnapshots s
    \<and> DeleteVolume E cs i (s'\<lparr>world := w\<rparr>) = Some (Done (), s'\<lparr>world := w\<rparr>)"
proof -
  from DeleteVolume_run [OF run] have i: "i \<noteq> []" "RPC_CREATE_DELETE_VOLUME \<in> set (caps cs)"
    and del: "deleteFlexblockVolume E i s = Some (Done (), s')" by auto
  from fb.delete_gone [OF del ok] have gone: "mget (flexBlockVolumes s') i = None" .
  then have "deleteFlexblockVolume E i (s'\<lparr>world := w\<rparr>) = Some (Done (), s'\<lparr>world := w\<rparr>)"
    by (intro delete_missing) simp
  with i have "DeleteVolume E cs i (s'\<lparr>world := w\<rparr>) = Some (Done (), s'\<lparr>world := w\<rparr>)"
    by (simp add: DeleteVolume_def validate_eq bnd_apply attempt_apply ret_apply)
  with gone fb.delete_other [OF del ok] fb.delete_keeps_snapshots [OF del] show ?thesis by blast
qed

definition simTargetsA1 :: simw where
  "simTargetsA1 = simWorld\<lparr>simTargets := ''Target 1: iqn.2017-10-30.kx.flexcsi-a1''\<rparr>"

theorem DeleteVolume_success_witness:
  "\<exists>s'. DeleteVolume simHost (svCs simServers) ''a1'' (simBase\<lparr>world := simTargetsA1\<rparr>) = Some (Done (), s')
     \<and> mget (flexBlockVolumes simBase) ''a1'' \<noteq> None \<and> mget (flexBlockVolumes s') ''a1'' = None"
proof -
  have "returned (DeleteVolume simHost (svCs simServers) ''a1'' (simBase\<lparr>world := simTargetsA1\<rparr>))" by code_simp
  then obtain s' where run: "DeleteVolume simHost (svCs simServers) ''a1'' (simBase\<lparr>world := simTargetsA1\<rparr>) = Some (Done (), s')"
    by (auto elim: returnedE)
  have "volsOK (flexBlockVolumes (simBase\<lparr>world := simTargetsA1\<rparr>))" using simBase_ok by (simp add: regOK_def)
  with DeleteVolume_success [OF run] have "mget (flexBlockVolumes s') ''a1'' = None" by simp
  moreover have "mget (flexBlockVolumes simBase) ''a1'' \<noteq> None" by code_simp
  ultimately show ?thesis using run by blast
qed

text \<open>
  C21. A \<open>DeleteVolume\<close> that fails keeps the volume: both tables are as before, so that the call
  can be repeated.
\<close>

theorem DeleteVolume_failure:
  assumes "DeleteVolume E cs i s = Some (Fail e, s')"
  shows "registry s' = registry s \<and> (\<exists>c m. e = Status c m \<and> c \<in> {InvalidArgument, Internal})"
  using assms fb.delete_registry [of E i s]
  by (auto simp: DeleteVolume_def validate_eq go_simps split: if_splits option.splits outcome.splits sum.splits)

theorem DeleteVolume_failure_witness:
  "\<exists>e s'. DeleteVolume simHost (svCs simServers) ''a1'' (simBase\<lparr>world := simWorld\<lparr>simBroken := [''iscsiadm'']\<rparr>\<rparr>)
      = Some (Fail e, s') \<and> flexBlockVolumes s' = flexBlockVolumes simBase"
proof -
  have "failed (DeleteVolume simHost (svCs simServers) ''a1'' (simBase\<lparr>world := simWorld\<lparr>simBroken := [''iscsiadm'']\<rparr>\<rparr>))"
    by code_simp
  then obtain e s' where run: "DeleteVolume simHost (svCs simServers) ''a1''
      (simBase\<lparr>world := simWorld\<lparr>simBroken := [''iscsiadm'']\<rparr>\<rparr>) = Some (Fail e, s')"
    by (rule failedE)
  from DeleteVolume_failure [OF run] run show ?thesis by simp
qed

section \<open>ControllerExpandVolume\<close>

lemma ControllerExpandVolume_Done:
  assumes run: "ControllerExpandVolume E i cr s = Some (Done resp, s')"
  shows "\<exists>old c. mget (flexBlockVolumes s) i = Some old \<and> cr = Some c \<and> RequiredBytes c < maxStorageCapacity
    \<and> mget (flexBlockVolumes s') i = Some (old\<lparr>VolSize := max (VolSize old) (RequiredBytes c)\<rparr>)
    \<and> exCapacityBytes resp = max (VolSize old) (RequiredBytes c)
    \<and> (\<forall>j. j \<noteq> i \<longrightarrow> mget (flexBlockVolumes s') j = mget (flexBlockVolumes s) j)
    \<and> flexBlockVolumeSnapshots s' = flexBlockVolumeSnapshots s"
proof -
  from run obtain c old where c: "cr = Some c" "RequiredBytes c < maxStorageCapacity"
    and old: "mget (flexBlockVolumes s) i = Some old"
    and rest: "if VolSize old < RequiredBytes c
      then updateFlexblockVolume E i (old\<lparr>VolSize := RequiredBytes c\<rparr>) s = Some (Done (), s')
        \<and> exCapacityBytes resp = RequiredBytes c
      else s' = s \<and> exCapacityBytes resp = VolSize old"
    by (auto simp: ControllerExpandVolume_def go_simps Let_def split: if_splits option.splits outcome.splits sum.splits)
  show ?thesis
  proof (cases "VolSize old < RequiredBytes c")
    case True
    with rest update_contract [OF _ old] have
      "registry s' = (mput i (old\<lparr>VolSize := RequiredBytes c\<rparr>) (flexBlockVolumes s), flexBlockVolumeSnapshots s)"
      by fastforce
    with True rest c old show ?thesis by (simp add: gm.get_put max_def)
  next
    case False
    with rest c old show ?thesis by (simp add: max_def)
  qed
qed

text \<open>
  C13. A successful \<open>ControllerExpandVolume\<close> never shrinks a volume: it has then the larger of its
  old and the requested size, which is below the limit when it grew; all its other fields, all
  other volumes and the snapshots are as before; the response tells the new size.
\<close>

theorem ControllerExpandVolume_success:
  assumes run: "ControllerExpandVolume E i cr s = Some (Done resp, s')"
  shows "\<exists>old c. mget (flexBlockVolumes s) i = Some old \<and> cr = Some c \<and> RequiredBytes c < maxStorageCapacity
    \<and> mget (flexBlockVolumes s') i = Some (old\<lparr>VolSize := max (VolSize old) (RequiredBytes c)\<rparr>)
    \<and> exCapacityBytes resp = max (VolSize old) (RequiredBytes c)
    \<and> (\<forall>j. j \<noteq> i \<longrightarrow> mget (flexBlockVolumes s') j = mget (flexBlockVolumes s) j)
    \<and> flexBlockVolumeSnapshots s' = flexBlockVolumeSnapshots s"
  using ControllerExpandVolume_Done [OF assms] .

theorem ControllerExpandVolume_success_witness:
  "\<exists>resp s'. ControllerExpandVolume simHost ''a1'' (Some \<lparr>RequiredBytes = 2147483648, LimitBytes = 0\<rparr>) simBase
       = Some (Done resp, s') \<and> exCapacityBytes resp \<ge> 2147483648"
proof -
  have "returned (ControllerExpandVolume simHost ''a1'' (Some \<lparr>RequiredBytes = 2147483648, LimitBytes = 0\<rparr>) simBase)"
    by code_simp
  then obtain resp s' where run: "ControllerExpandVolume simHost ''a1''
      (Some \<lparr>RequiredBytes = 2147483648, LimitBytes = 0\<rparr>) simBase = Some (Done resp, s')"
    by (rule returnedE)
  from ControllerExpandVolume_success [OF run] run show ?thesis by auto
qed

section \<open>Capabilities\<close>

text \<open>
  A controller server in ephemeral mode advertises nothing and does nothing: every call that
  needs a capability is refused with \<open>InvalidArgument\<close>, before the tables or the host are touched.
\<close>

lemma ephemeral_server_refuses:
  assumes "cs = NewControllerServer True nodeID" and "i \<noteq> []"
  shows "ControllerGetCapabilities cs s = Some (Done [], s)
    \<and> CreateVolume E cs req s = Some (Fail (Status InvalidArgument ''unsupported capability CREATE_DELETE_VOLUME''), s)
    \<and> DeleteVolume E cs i s = Some (Fail (Status InvalidArgument ''unsupported capability CREATE_DELETE_VOLUME''), s)
    \<and> CreateSnapshot cs s = Some (Fail (Status InvalidArgument ''unsupported capability CREATE_DELETE_SNAPSHOT''), s)
    \<and> DeleteSnapshot E cs i s = Some (Fail (Status InvalidArgument ''unsupported capability CREATE_DELETE_SNAPSHOT''), s)
    \<and> ListSnapshots E cs l s = Some (Fail (Status InvalidArgument ''unsupported capability LIST_SNAPSHOTS''), s)"
  using assms
  by (simp add: NewControllerServer_def ControllerGetCapabilities_def CreateVolume_def DeleteVolume_def
      CreateSnapshot_def DeleteSnapshot_def ListSnapshots_def validate_eq ret_apply throw_apply)

lemma ephemeral_server_refuses_witness:
  "DeleteVolume simHost (NewControllerServer True ''node1'') ''a1'' simState =
     Some (Fail (Status InvalidArgument ''unsupported capability CREATE_DELETE_VOLUME''), simState)"
  using ephemeral_server_refuses [of "NewControllerServer True ''node1''" "''node1''" "''a1''" simState simHost]
  by simp

text \<open>
  C30. \<open>ValidateVolumeCapabilities\<close> in full: identifier and capabilities must be there, the volume
  must exist, and every capability must say block or mount; then exactly what was asked is
  confirmed. Whether the volume is a block or a mount volume plays no part. Nothing changes.
\<close>

theorem ValidateVolumeCapabilities_spec:
  "ValidateVolumeCapabilities req s = Some
     (if vvVolumeId req = [] then Fail (Status InvalidArgument ''Volume ID cannot be empty'')
      else if vvCapabilities req = [] then Fail (Status InvalidArgument (vvVolumeId req))
      else if mget (flexBlockVolumes s) (vvVolumeId req) = None then Fail (Status NotFound (vvVolumeId req))
      else if CapUnset \<in> set (vvCapabilities req)
        then Fail (Status InvalidArgument ''cannot have both mount and block access type be undefined'')
      else Done \<lparr>cfContext = vvContext req, cfCapabilities = vvCapabilities req, cfParameters = vvParameters req\<rparr>, s)"
proof -
  let ?e = "Status InvalidArgument ''cannot have both mount and block access type be undefined''"
  have "forEach cs (\<lambda>cap. failIf (\<not> getMount cap \<and> \<not> getBlock cap) ?e) s =
      Some (if CapUnset \<in> set cs then Fail ?e else Done (), s)" for cs
    by (induction cs) (auto simp: bnd_apply failIf_apply ret_apply getMount_def getBlock_def split: volumeCapability.splits)
  then show ?thesis
    by (auto simp: ValidateVolumeCapabilities_def bnd_apply failIf_apply attempt_apply getVolumeByID_apply
        throw_apply ret_apply split: option.splits)
qed

end
