(* ===== verification/Snapshot_Props.thy ===== *)
theory Snapshot_Props
  imports Create_Props
begin

text \<open>
  Properties of the snapshot calls: the pages of \<open>ListSnapshots\<close> with their 32-bit arithmetic,
  the inputs on which that arithmetic panics, and what \<open>DeleteSnapshot\<close> removes.
\<close>

section \<open>One page\<close>

lemma sint_small: "0 \<le> k \<Longrightarrow> k < 2 ^ 31 \<Longrightarrow> sint (word_of_int k :: 32 word) = k"
  by transfer (simp add: signed_take_bit_int_eq_self)

lemma parseUint32_itoa: "0 \<le> k \<Longrightarrow> k < 2 ^ 32 \<Longrightarrow> parseUint32 (itoa k) = Some k"
  using digits_ok [of k] by (simp add: parseUint32_def itoa_def)

lemma parseUint32_Nil: "parseUint32 [] = None"
  by (simp add: parseUint32_def)

lemma parseUint32_less: "parseUint32 t = Some k \<Longrightarrow> k < 2 ^ 32"
  by (auto simp: parseUint32_def split: if_splits)

lemma digitVal_nonneg: "isDigit c \<Longrightarrow> 0 \<le> digitVal c"
proof -
  have "(of_char c :: int) = int (of_char c)" by (rule of_nat_of_char [symmetric])
  then show "isDigit c \<Longrightarrow> 0 \<le> digitVal c" unfolding isDigit_def digitVal_def by linarith
qed

lemma digitsVal_nonneg: "list_all isDigit s \<Longrightarrow> 0 \<le> digitsVal s"
  by (induction s rule: rev_induct) (simp_all add: digitsVal_def digitVal_nonneg)

lemma parseUint32_nonneg: "parseUint32 t = Some k \<Longrightarrow> 0 \<le> k"
  by (auto simp: parseUint32_def digitsVal_nonneg split: if_splits)

lemma fillEntries_eq:
  "0 \<le> k \<Longrightarrow> nat k + c \<le> length snaps \<Longrightarrow> length snaps < 2 ^ 31 \<Longrightarrow>
   fillEntries snaps (word_of_int k) c s =
     Some (Done (take c (drop (nat k) snaps), word_of_int (k + int c)), s)"
proof (induction c arbitrary: k)
  case 0
  then show ?case by (simp add: ret_apply)
next
  case (Suc c)
  then have "sint (word_of_int k :: 32 word) = k" by (intro sint_small) simp_all
  moreover have "word_of_int k + 1 = (word_of_int (k + 1) :: 32 word)" by simp
  moreover have "drop (nat k) snaps = snaps ! nat k # drop (nat (k + 1)) snaps"
    using Suc.prems by (simp add: nat_add_distrib Cons_nth_drop_Suc)
  moreover have "fillEntries snaps (word_of_int (k + 1)) c s =
      Some (Done (take c (drop (nat (k + 1)) snaps), word_of_int (k + 1 + int c)), s)"
    using Suc.prems by (intro Suc.IH) (simp_all add: nat_add_distrib)
  moreover have "k < int (length snaps)" "k + 1 + int c = k + int (Suc c)" using Suc.prems by simp_all
  ultimately show ?case using Suc.prems
    by (simp add: bnd_apply ret_apply del: of_int_add of_nat_Suc)
qed

text \<open>How many entries the page from \<open>k\<close> on has.\<close>

definition pageLen :: "nat \<Rightarrow> nat \<Rightarrow> nat \<Rightarrow> nat" where
  "pageLen n k m = (if m = 0 \<or> n - k < m then n - k else m)"

definition tokenOf :: "nat \<Rightarrow> string" where
  "tokenOf k = (if k = 0 then [] else itoa (int k))"

lemma parse_tokenOf: "k < 2 ^ 31 \<Longrightarrow> parseUint32 (tokenOf k) = Some (int k) \<or> tokenOf k = [] \<and> k = 0"
  by (simp add: tokenOf_def parseUint32_itoa)

lemma pageSnapshots_eq:
  assumes n: "length snaps < 2 ^ 31" and k: "k \<le> length snaps" and m: "m < 2 ^ 31"
    and t: "parseUint32 t = Some (int k) \<or> t = [] \<and> k = 0"
  shows "pageSnapshots snaps t (word_of_int (int m)) s =
    Some (Done \<lparr>Entries = take (pageLen (length snaps) k m) (drop k snaps),
      NextToken = tokenOf (if k + pageLen (length snaps) k m < length snaps then k + pageLen (length snaps) k m else 0)\<rparr>, s)"
proof -
  let ?n = "length snaps" let ?c = "pageLen ?n k m"
  have un: "(of_nat ?n :: 32 word) = word_of_int (int ?n)" by simp
  have sn: "sint (word_of_int (int ?n) :: 32 word) = int ?n" using n by (intro sint_small) simp_all
  have sk: "sint (word_of_int (int k) :: 32 word) = int k" using n k by (intro sint_small) simp_all
  have sm: "sint (word_of_int (int m) :: 32 word) = int m" using m by (intro sint_small) simp_all
  have m0: "(word_of_int (int m) :: 32 word) = 0 \<longleftrightarrow> m = 0"
    using sm by (metis of_nat_0 of_int_0 of_nat_eq_0_iff signed_0)
  have rem: "(word_of_int (int ?n) - word_of_int (int k) :: 32 word) = word_of_int (int (?n - k))"
    using k by (simp add: of_nat_diff)
  have sr: "sint (word_of_int (int (?n - k)) :: 32 word) = int (?n - k)" using n by (intro sint_small) simp_all
  have c: "?c \<le> ?n - k" by (simp add: pageLen_def)
  have count: "(if (word_of_int (int m) :: 32 word) = 0 \<or> word_of_int (int (?n - k)) <s (word_of_int (int m) :: 32 word)
      then word_of_int (int (?n - k)) else word_of_int (int m)) = word_of_int (int ?c)"
    using k by (simp add: m0 word_sless_alt sm sr pageLen_def del: of_int_of_nat_eq of_nat_diff of_int_diff)
  have pos: "k + ?c < ?n \<Longrightarrow> 0 < ?c" by (auto simp: pageLen_def split: if_splits)
  have sc: "sint (word_of_int (int ?c) :: 32 word) = int ?c" using n c by (intro sint_small) simp_all
  have sj: "sint (word_of_int (int k + int ?c) :: 32 word) = int k + int ?c"
    using n c k by (intro sint_small) simp_all
  have tok: "(if t = [] then ret 0 else case parseUint32 t of
        None \<Rightarrow> throw (Status Aborted ''startingToken=0 !< int32=4294967295'')
      | Some i \<Rightarrow> ret (word_of_int i)) = (ret (word_of_int (int k)) :: ('a, 32 word) drvM)"
    using t by (auto simp: parseUint32_Nil)
  have fill: "fillEntries snaps (word_of_int (int k)) ?c s =
      Some (Done (take ?c (drop k snaps), word_of_int (int k + int ?c)), s)"
    using fillEntries_eq [of "int k" ?c snaps s] n c k by simp
  show ?thesis
    unfolding pageSnapshots_def Let_def tok un rem count bnd_ret_left
    using k c pos
    by (cases "k + ?c < ?n") (simp_all add: word_sless_alt sn sk sc sj fill bnd_apply ret_apply tokenOf_def del: of_int_of_nat_eq of_int_add)
qed

lemma ListSnapshots_all:
  assumes "RPC_LIST_SNAPSHOTS \<in> set (caps cs)" and "lsSnapshotId req = []" and "lsSourceVolumeId req = []"
  shows "ListSnapshots E cs req s =
    pageSnapshots (allSnapshots (flexBlockVolumeSnapshots s)) (lsStartingToken req) (lsMaxEntries req) s"
  using assms by (simp add: ListSnapshots_def validate_eq bnd_apply gets_apply ret_apply)

lemma length_allSnapshots [simp]: "length (allSnapshots m) = length m"
  by (simp add: allSnapshots_def mkeys_def)

text \<open>
  C12. A page of \<open>ListSnapshots\<close>: with a token the call gave out itself (or none) and an entry limit
  that is not negative, the response holds the entries of the sorted list from the token on, at
  most as many as the limit (0: no limit), and a next token exactly when entries are left.
\<close>

theorem ListSnapshots_page:
  assumes "RPC_LIST_SNAPSHOTS \<in> set (caps cs)" and "length (flexBlockVolumeSnapshots s) < 2 ^ 31"
    and "k \<le> length (flexBlockVolumeSnapshots s)" and "m < 2 ^ 31"
  shows "ListSnapshots E cs \<lparr>lsMaxEntries = word_of_int (int m), lsStartingToken = tokenOf k,
      lsSourceVolumeId = [], lsSnapshotId = []\<rparr> s =
    (let all = allSnapshots (flexBlockVolumeSnapshots s); c = pageLen (length all) k m
     in Some (Done \<lparr>Entries = take c (drop k all),
          NextToken = tokenOf (if k + c < length all then k + c else 0)\<rparr>, s))"
  using assms pageSnapshots_eq [of "allSnapshots (flexBlockVolumeSnapshots s)" k m "tokenOf k" s] parse_tokenOf [of k]
  by (simp add: ListSnapshots_all Let_def)

definition simSnaps :: "simw drv" where
  "simSnaps = simState\<lparr>flexBlockVolumeSnapshots := map (\<lambda>i. (i, foundSnapshot i)) [''c'', ''a'', ''b'']\<rparr>"

theorem ListSnapshots_page_witness:
  "ListSnapshots simHost (svCs simServers) \<lparr>lsMaxEntries = word_of_int (int 1), lsStartingToken = tokenOf 1,
      lsSourceVolumeId = [], lsSnapshotId = []\<rparr> simSnaps =
    Some (Done \<lparr>Entries = [toCsi (foundSnapshot ''b'')], NextToken = ''2''\<rparr>, simSnaps)"
proof -
  have "RPC_LIST_SNAPSHOTS \<in> set (caps (svCs simServers))" by code_simp
  moreover have len: "length (flexBlockVolumeSnapshots simSnaps) = 3" by (simp add: simSnaps_def)
  moreover have "allSnapshots (flexBlockVolumeSnapshots simSnaps) =
      map (toCsi \<circ> foundSnapshot) [''a'', ''b'', ''c'']" by code_simp
  moreover have "tokenOf 2 = ''2''" "tokenOf (Suc (Suc 0)) = ''2''" by code_simp+
  ultimately show ?thesis
    using ListSnapshots_page [of "svCs simServers" simSnaps 1 1 simHost] by (simp add: pageLen_def Let_def)
qed

section \<open>All pages\<close>

text \<open>A client that asks for pages of \<open>m\<close> entries until there is no next token, \<open>f\<close> times at most.\<close>

fun walkPages :: "'w env \<Rightarrow> controllerServer \<Rightarrow> 32 word \<Rightarrow> nat \<Rightarrow> string \<Rightarrow> 'w drv \<Rightarrow> csiSnapshot list option" where
  "walkPages E cs m 0 token s = None"
| "walkPages E cs m (Suc f) token s =
     (case ListSnapshots E cs \<lparr>lsMaxEntries = m, lsStartingToken = token, lsSourceVolumeId = [], lsSnapshotId = []\<rparr> s of
        Some (Done resp, s') \<Rightarrow>
          if NextToken resp = [] then Some (Entries resp)
          else map_option ((@) (Entries resp)) (walkPages E cs m f (NextToken resp) s')
      | _ \<Rightarrow> None)"

lemma tokenOf_eq_Nil: "tokenOf k = [] \<longleftrightarrow> k = 0"
  using digits_ok [of "int k"] by (simp add: tokenOf_def itoa_def)

lemma walkPages_from:
  assumes cap: "RPC_LIST_SNAPSHOTS \<in> set (caps cs)" and n: "length (flexBlockVolumeSnapshots s) < 2 ^ 31" and m: "m < 2 ^ 31"
  shows "k \<le> length (flexBlockVolumeSnapshots s) \<Longrightarrow> length (flexBlockVolumeSnapshots s) - k < f \<Longrightarrow>
    walkPages E cs (word_of_int (int m)) f (tokenOf k) s = Some (drop k (allSnapshots (flexBlockVolumeSnapshots s)))"
proof (induction f arbitrary: k)
  case (Suc f)
  let ?all = "allSnapshots (flexBlockVolumeSnapshots s)"
  let ?c = "pageLen (length ?all) k m"
  have page: "ListSnapshots E cs \<lparr>lsMaxEntries = word_of_int (int m), lsStartingToken = tokenOf k,
      lsSourceVolumeId = [], lsSnapshotId = []\<rparr> s =
    Some (Done \<lparr>Entries = take ?c (drop k ?all), NextToken = tokenOf (if k + ?c < length ?all then k + ?c else 0)\<rparr>, s)"
    using cap n m Suc.prems pageSnapshots_eq [of ?all k m "tokenOf k" s] parse_tokenOf [of k]
    by (simp add: ListSnapshots_all)
  show ?case
  proof (cases "k + ?c < length ?all")
    case True
    then have "0 < ?c" by (auto simp: pageLen_def split: if_splits)
    with True Suc have "walkPages E cs (word_of_int (int m)) f (tokenOf (k + ?c)) s = Some (drop (k + ?c) ?all)"
      by (intro Suc.IH) simp_all
    with True \<open>0 < ?c\<close> show ?thesis
      by (simp add: page tokenOf_eq_Nil add.commute [of k] drop_drop [symmetric] del: drop_drop of_int_of_nat_eq)
  next
    case False
    with Suc.prems show ?thesis
      by (simp add: page tokenOf_eq_Nil pageLen_def del: of_int_of_nat_eq split: if_splits)
  qed
qed simp

text \<open>
  C7. A client that follows the next tokens of \<open>ListSnapshots\<close>, with any page size, sees every
  snapshot exactly once and in the order of the identifiers, and is through after at most one
  request more than there are snapshots.
\<close>

theorem ListSnapshots_walk:
  assumes "RPC_LIST_SNAPSHOTS \<in> set (caps cs)" and "length (flexBlockVolumeSnapshots s) < 2 ^ 31" and "m < 2 ^ 31"
  shows "walkPages E cs (word_of_int (int m)) (Suc (length (flexBlockVolumeSnapshots s))) [] s =
    Some (allSnapshots (flexBlockVolumeSnapshots s))"
  using walkPages_from [OF assms, of 0 "Suc (length (flexBlockVolumeSnapshots s))" E]
  by (simp add: tokenOf_def del: walkPages.simps)

theorem ListSnapshots_walk_witness:
  "walkPages simHost (svCs simServers) 2 4 [] simSnaps = Some (map (toCsi \<circ> foundSnapshot) [''a'', ''b'', ''c''])"
proof -
  have "RPC_LIST_SNAPSHOTS \<in> set (caps (svCs simServers))" by code_simp
  moreover have len: "length (flexBlockVolumeSnapshots simSnaps) = 3" by (simp add: simSnaps_def)
  moreover have "allSnapshots (flexBlockVolumeSnapshots simSnaps) =
      map (toCsi \<circ> foundSnapshot) [''a'', ''b'', ''c'']" by code_simp
  ultimately show ?thesis
    using ListSnapshots_walk [of "svCs simServers" simSnaps 2 simHost] by (simp del: walkPages.simps)
qed

section \<open>Panics\<close>

lemma sint_wrapped:
  assumes "2 ^ 31 \<le> t" and "t < 2 ^ 32"
  shows "sint (word_of_int t :: 32 word) < 0"
proof -
  have "(word_of_int t :: 32 word) = word_of_int (t - 2 ^ 32)" by transfer (simp add: take_bit_eq_mod)
  moreover have "sint (word_of_int (t - 2 ^ 32) :: 32 word) = t - 2 ^ 32"
    using assms by transfer (simp add: signed_take_bit_int_eq_self)
  ultimately have "sint (word_of_int t :: 32 word) = t - 2 ^ 32" by (simp only:)
  with assms(2) show ?thesis by simp
qed

lemma sint_eq_0: "sint (w :: 32 word) = 0 \<Longrightarrow> w = 0"
  by (metis signed_word_eqI signed_0)

text \<open>A token that turns negative in the conversion to 32 bits.\<close>

lemma pageSnapshots_wrapped:
  assumes n: "length snaps < 2 ^ 31" and tok: "parseUint32 token = Some t" and t: "2 ^ 31 \<le> t"
  shows "\<exists>p. pageSnapshots snaps token m s = Some (Crash p, s)"
proof -
  let ?n = "word_of_nat (length snaps) :: 32 word" let ?j = "word_of_int t :: 32 word"
  define c where "c = (if m = 0 \<or> ?n - ?j <s m then ?n - ?j else m)"
  have sn: "sint ?n = int (length snaps)" using n sint_small [of "int (length snaps)"] by simp
  have j: "sint ?j < 0" using t parseUint32_less [OF tok] by (rule sint_wrapped)
  have "?n - ?j \<noteq> 0" using sn j by auto
  then have "c \<noteq> 0" by (auto simp: c_def)
  then have "sint c \<noteq> 0" using sint_eq_0 by blast
  have fill: "fillEntries snaps ?j (Suc k) s = Some (Crash ''index out of range'', s)" for k
    using j by (simp add: panic_apply)
  have "token \<noteq> []" using tok parseUint32_Nil by auto
  moreover have "\<not> ?n <s ?j" using sn j by (simp add: word_sless_alt)
  ultimately have run: "pageSnapshots snaps token m s = (if sint c < 0 then panic ''makeslice: len out of range''
      else bnd (fillEntries snaps ?j (nat (sint c))) (\<lambda>(entries, j). ret \<lparr>Entries = entries,
        NextToken = (if j <s ?n then itoa (sint j) else [])\<rparr>)) s"
    by (simp add: pageSnapshots_def Let_def tok c_def)
  show ?thesis
  proof (cases "sint c < 0")
    case True
    then show ?thesis by (simp add: run panic_apply)
  next
    case False
    with \<open>sint c \<noteq> 0\<close> obtain k where "nat (sint c) = Suc k" by (cases "nat (sint c)") auto
    with False fill [of k] show ?thesis by (simp add: run bnd_apply del: fillEntries.simps)
  qed
qed

text \<open>A token in the list, or beyond its end, with a negative entry limit.\<close>

lemma pageSnapshots_negative:
  assumes n: "length snaps < 2 ^ 31" and tok: "parseUint32 token = Some k \<or> token = [] \<and> k = 0"
    and k: "0 \<le> k" "k \<le> int (length snaps)" and m: "sint m < 0"
  shows "pageSnapshots snaps token m s = Some (Crash ''makeslice: len out of range'', s)"
proof -
  let ?n = "word_of_nat (length snaps) :: 32 word"
  have sn: "sint ?n = int (length snaps)" and sk: "sint (word_of_int k :: 32 word) = k"
    using n k sint_small [of "int (length snaps)"] sint_small [of k] by simp_all
  have "sint (?n - word_of_int k) = int (length snaps) - k"
    using n k sint_small [of "int (length snaps) - k"] by simp
  with m k have "m \<noteq> 0" "\<not> ?n - word_of_int k <s m" by (auto simp: word_sless_alt)
  with tok m sn sk k show ?thesis
    by (auto simp: pageSnapshots_def Let_def word_sless_alt panic_apply parseUint32_Nil)
qed

lemma pageSnapshots_beyond:
  assumes "length snaps < 2 ^ 31" and "parseUint32 token = Some k" and "int (length snaps) < k" "k < 2 ^ 31"
  shows "\<exists>e. pageSnapshots snaps token m s = Some (Fail e, s)"
proof -
  have "sint (word_of_int k :: 32 word) = k" "sint (word_of_nat (length snaps) :: 32 word) = int (length snaps)"
    using assms sint_small [of k] sint_small [of "int (length snaps)"] by simp_all
  with assms show ?thesis
    by (auto simp: pageSnapshots_def Let_def word_sless_alt throw_apply ret_apply bnd_apply parseUint32_Nil)
qed

text \<open>
  C31. Which requests without a filter panic in \<open>ListSnapshots\<close>, with fewer than \<open>2^31\<close> snapshots:
  exactly those with a token that parses as an unsigned 32-bit number of at least \<open>2^31\<close>, which
  turns negative in the conversion to \<open>int32\<close>, and those with a negative entry limit and a token
  (or none) not beyond the end of the list, for which the slice of the entries cannot be made. A
  token of \<open>2^32\<close> or more, like one that is no number, is refused instead.
\<close>

theorem ListSnapshots_panics:
  assumes cap: "RPC_LIST_SNAPSHOTS \<in> set (caps cs)" and req: "lsSnapshotId req = []" "lsSourceVolumeId req = []"
    and n: "length (flexBlockVolumeSnapshots s) < 2 ^ 31"
  shows "(\<exists>p. ListSnapshots E cs req s = Some (Crash p, s)) \<longleftrightarrow>
    (\<exists>k. (parseUint32 (lsStartingToken req) = Some k \<or> lsStartingToken req = [] \<and> k = 0)
      \<and> (2 ^ 31 \<le> k \<or> k \<le> int (length (flexBlockVolumeSnapshots s)) \<and> sint (lsMaxEntries req) < 0))"
    (is "?panics \<longleftrightarrow> (\<exists>k. ?start k \<and> ?bad k)")
proof (cases "\<exists>k. ?start k")
  case False
  then have "lsStartingToken req \<noteq> []" "parseUint32 (lsStartingToken req) = None"
    by (auto, cases "parseUint32 (lsStartingToken req)") auto
  with False show ?thesis by (simp add: ListSnapshots_all [OF cap req] pageSnapshots_def Let_def throw_apply bnd_apply)
next
  case True
  then obtain k where k: "?start k" by blast
  let ?all = "allSnapshots (flexBlockVolumeSnapshots s)"
  have one: "?start k' \<Longrightarrow> k' = k" for k' using k by (auto simp: parseUint32_Nil)
  have "0 \<le> k" using k by (auto simp: parseUint32_nonneg)
  have len: "length ?all < 2 ^ 31" using n by simp
  consider "2 ^ 31 \<le> k" | "int (length ?all) < k" "k < 2 ^ 31"
    | "k \<le> int (length ?all)" "sint (lsMaxEntries req) < 0" | "k \<le> int (length ?all)" "0 \<le> sint (lsMaxEntries req)"
    by linarith
  then show ?thesis
  proof cases
    case 1
    with k have "parseUint32 (lsStartingToken req) = Some k" by auto
    from pageSnapshots_wrapped [OF len this 1] have ?panics by (simp add: ListSnapshots_all [OF cap req])
    with k 1 show ?thesis by blast
  next
    case 2
    with k have "parseUint32 (lsStartingToken req) = Some k" by auto
    from pageSnapshots_beyond [OF len this 2, of "lsMaxEntries req" s] have "\<not> ?panics"
      by (auto simp: ListSnapshots_all [OF cap req])
    moreover have "\<not> ?bad k" using 2 by simp
    ultimately show ?thesis using one by blast
  next
    case 3
    from pageSnapshots_negative [OF len k \<open>0 \<le> k\<close> 3, of s] have ?panics by (simp add: ListSnapshots_all [OF cap req])
    with k 3 show ?thesis by auto
  next
    case 4
    define m where "m = nat (sint (lsMaxEntries req))"
    have m: "lsMaxEntries req = word_of_int (int m)" "m < 2 ^ 31"
      using 4 sint_lt [of "lsMaxEntries req"] by (simp_all add: m_def)
    have "pageSnapshots ?all (lsStartingToken req) (lsMaxEntries req) s \<noteq> Some (Crash p, s)" for p
      unfolding m(1) using pageSnapshots_eq [OF len _ m(2), of "nat k" "lsStartingToken req" s] 4 k \<open>0 \<le> k\<close> by simp
    then have "\<not> ?panics" by (simp add: ListSnapshots_all [OF cap req])
    moreover have "\<not> ?bad k" using 4 n by simp
    ultimately show ?thesis using one by blast
  qed
qed

theorem ListSnapshots_panics_witness:
  "\<exists>p q. ListSnapshots simHost (svCs simServers) \<lparr>lsMaxEntries = - 1, lsStartingToken = [],
       lsSourceVolumeId = [], lsSnapshotId = []\<rparr> simSnaps = Some (Crash p, simSnaps)
   \<and> ListSnapshots simHost (svCs simServers) \<lparr>lsMaxEntries = 0, lsStartingToken = itoa 4294967295,
       lsSourceVolumeId = [], lsSnapshotId = []\<rparr> simSnaps = Some (Crash q, simSnaps)
   \<and> \<not> (\<exists>p. ListSnapshots simHost (svCs simServers) \<lparr>lsMaxEntries = 0, lsStartingToken = itoa 4294967296,
       lsSourceVolumeId = [], lsSnapshotId = []\<rparr> simSnaps = Some (Crash p, simSnaps))"
proof -
  have cap: "RPC_LIST_SNAPSHOTS \<in> set (caps (svCs simServers))" by code_simp
  have n: "length (flexBlockVolumeSnapshots simSnaps) < 2 ^ 31" by (simp add: simSnaps_def)
  have "parseUint32 (itoa 4294967295) = Some 4294967295" by (rule parseUint32_itoa) simp_all
  moreover have "parseUint32 (itoa 4294967296) = None" "itoa 4294967296 \<noteq> []"
    using digits_ok [of 4294967296] by (simp_all add: parseUint32_def itoa_def)
  ultimately show ?thesis
    using ListSnapshots_panics [OF cap _ _ n, of "\<lparr>lsMaxEntries = - 1, lsStartingToken = [],
       lsSourceVolumeId = [], lsSnapshotId = []\<rparr>" simHost]
      ListSnapshots_panics [OF cap _ _ n, of "\<lparr>lsMaxEntries = 0, lsStartingToken = itoa 4294967295,
       lsSourceVolumeId = [], lsSnapshotId = []\<rparr>" simHost]
      ListSnapshots_panics [OF cap _ _ n, of "\<lparr>lsMaxEntries = 0, lsStartingToken = itoa 4294967296,
       lsSourceVolumeId = [], lsSnapshotId = []\<rparr>" simHost]
    by auto
qed

section \<open>Filters\<close>

text \<open>
  C32. The filters of \<open>ListSnapshots\<close>: a known snapshot identifier gives exactly that snapshot. With
  an unknown one, or with a source volume (no snapshot the driver can know has one), the answer
  is not empty but the page of all snapshots, as if no filter had been given.
\<close>

theorem ListSnapshots_filters:
  assumes "RPC_LIST_SNAPSHOTS \<in> set (caps cs)" and "snapsOK (flexBlockVolumeSnapshots s)"
  shows "(mget (flexBlockVolumeSnapshots s) (lsSnapshotId req) = Some sn \<and> lsSnapshotId req \<noteq> [] \<longrightarrow>
      ListSnapshots E cs req s = Some (Done \<lparr>Entries = [toCsi sn], NextToken = []\<rparr>, s))
    \<and> (mget (flexBlockVolumeSnapshots s) (lsSnapshotId req) = None \<or> lsSnapshotId req = [] \<longrightarrow>
      (\<exists>w. ListSnapshots E cs req s = pageSnapshots (allSnapshots (flexBlockVolumeSnapshots s))
         (lsStartingToken req) (lsMaxEntries req) (s\<lparr>world := w\<rparr>)))"
proof -
  have "SnapVolID v = []" if "mget (flexBlockVolumeSnapshots s) k = Some v" for k v
  proof -
    from that assms(2) have "v = foundSnapshot k" by (simp add: snapsOK_iff)
    then show ?thesis by (simp add: foundSnapshot_def)
  qed
  then have "firstMatch (mget (flexBlockVolumeSnapshots s)) (\<lambda>sn. SnapVolID sn = lsSourceVolumeId req)
      (permOf p (mkeys (flexBlockVolumeSnapshots s))) = None" if "lsSourceVolumeId req \<noteq> []" for p
    using that by (subst gm.firstMatch_all_None) force+
  moreover have "\<exists>w. m s = m (s\<lparr>world := w\<rparr>)" for m :: "('a, listSnapshotsResponse) drvM"
    by (rule exI [of _ "world s"]) simp
  ultimately show ?thesis using assms(1)
    by (auto simp: ListSnapshots_def validate_eq rangeKeys_def go_simps convertSnapshot_def)
qed

theorem ListSnapshots_filters_witness:
  "\<exists>w. ListSnapshots simHost (svCs simServers) \<lparr>lsMaxEntries = 0, lsStartingToken = [],
       lsSourceVolumeId = ''a1'', lsSnapshotId = ''nosuch''\<rparr> simSnaps =
     pageSnapshots (allSnapshots (flexBlockVolumeSnapshots simSnaps)) [] 0 (simSnaps\<lparr>world := w\<rparr>)"
proof -
  have "RPC_LIST_SNAPSHOTS \<in> set (caps (svCs simServers))" "snapsOK (flexBlockVolumeSnapshots simSnaps)"
    "mget (flexBlockVolumeSnapshots simSnaps) ''nosuch'' = None" by code_simp+
  with ListSnapshots_filters [of "svCs simServers" simSnaps "\<lparr>lsMaxEntries = 0, lsStartingToken = [],
       lsSourceVolumeId = ''a1'', lsSnapshotId = ''nosuch''\<rparr>" undefined simHost]
  show ?thesis by simp
qed

section \<open>DeleteSnapshot\<close>

text \<open>
  C33. \<open>DeleteSnapshot\<close> always succeeds for a non-empty identifier: the file is removed (whatever
  the outcome of that), the entry is gone and no other entry is touched, so that the call can be
  repeated. It does not ask whether the snapshot exists, and the path it removes is built from
  the identifier as it came, so that one with dot-dot elements leaves the data directory.
\<close>

theorem DeleteSnapshot_effect:
  assumes "RPC_CREATE_DELETE_SNAPSHOT \<in> set (caps cs)" and "i \<noteq> []" and "mwf (flexBlockVolumeSnapshots s)"
  shows "\<exists>s'. DeleteSnapshot E cs i s = Some (Done (), s')
    \<and> world s' = snd (removeAll E (getSnapshotPath i) (world s))
    \<and> flexBlockVolumes s' = flexBlockVolumes s
    \<and> mget (flexBlockVolumeSnapshots s') = (mget (flexBlockVolumeSnapshots s))(i := None)
    \<and> (i = ''../etc/x'' \<longrightarrow> world s' = snd (removeAll E ''/etc/x.snap'' (world s)))"
proof -
  have "getSnapshotPath ''../etc/x'' = ''/etc/x.snap''" by code_simp
  then show ?thesis using assms
    by (auto simp: DeleteSnapshot_def validate_eq go_simps gm.get_del fun_eq_iff)
qed

theorem DeleteSnapshot_effect_witness:
  "\<exists>s'. DeleteSnapshot simHost (svCs simServers) ''../etc/x'' simSnaps = Some (Done (), s')
     \<and> world s' = snd (removeAll simHost ''/etc/x.snap'' (world simSnaps))"
proof -
  have "RPC_CREATE_DELETE_SNAPSHOT \<in> set (caps (svCs simServers))" "mwf (flexBlockVolumeSnapshots simSnaps)"
    by code_simp+
  with DeleteSnapshot_effect [of "svCs simServers" "''../etc/x''" simSnaps simHost] show ?thesis by auto
qed

end
