(* ===== verification/Node_Props.thy ===== *)
theory Node_Props
  imports Create_Props
begin

text \<open>
  Properties of the node service: publishing is idempotent and respects the access type, the
  tables are touched for ephemeral volumes only, an ephemeral volume lives from publish to
  unpublish, growth never shrinks.
\<close>

section \<open>Errors that are not "does not exist"\<close>

text \<open>\<open>firm m\<close>: when \<open>m\<close> fails, \<open>os.IsNotExist\<close> does not hold of its error.\<close>

abbreviation firm :: "('w, 'a) drvM \<Rightarrow> bool" where
  "firm m \<equiv> ends (\<lambda>r. \<forall>e. r = Fail e \<longrightarrow> \<not> isNotExist e) m"

named_theorems firm_rules \<open>introduction rules for firm\<close>

lemma isNotExist_Status [simp]: "\<not> isNotExist (Status c m)"
  and isNotExist_Plain [simp]: "\<not> isNotExist (Plain m)"
  and isNotExist_internal2 [simp]: "\<not> isNotExist (internal2 m e out)"
  by (simp_all add: isNotExist_def internal2_def)

lemma firm_noFail: "noFail m \<Longrightarrow> firm m"
  by (erule ends_mono) simp

lemma firm_ret [firm_rules]: "firm (ret a)"
  and firm_panic [firm_rules]: "firm (panic p)"
  and firm_throw [firm_rules]: "\<not> isNotExist e \<Longrightarrow> firm (throw e)"
  and firm_failIf [firm_rules]: "(c \<Longrightarrow> \<not> isNotExist e) \<Longrightarrow> firm (failIf c e)"
  and firm_io [firm_rules]: "firm (io f)"
  and firm_modify [firm_rules]: "firm (modify g)"
  and firm_conf [firm_rules]: "firm (conf k)"
  and firm_attempt [firm_rules]: "firm (attempt m)"
  by (auto simp: ends_def go_simps split: if_splits option.splits outcome.splits)

lemma firm_mustRun [firm_rules]: "(\<And>e out. \<not> isNotExist (mk e out)) \<Longrightarrow> firm (mustRun E cmd mk)"
  by (auto simp: ends_def go_simps split: option.splits)

lemma firm_bnd [firm_rules]: "firm m \<Longrightarrow> (\<And>a. firm (g a)) \<Longrightarrow> firm (bnd m g)"
  by (rule endsI) (auto elim!: bnd_eq_SomeE dest: endsD)

lemma firm_forEach [firm_rules]: "(\<And>x. firm (g x)) \<Longrightarrow> firm (forEach xs g)"
  by (induction xs) (auto intro: firm_rules)

lemma ends_list [ends_rules]:
  "ends P a \<Longrightarrow> (\<And>y ys. ends P (b y ys)) \<Longrightarrow> ends P (case xs of [] \<Rightarrow> a | y # ys \<Rightarrow> b y ys)"
  by (cases xs) auto

lemmas firm_cases = ends_if ends_option ends_sum ends_prod ends_Let ends_list

lemma firm_targetTid [firm_rules]: "firm (targetTid E iqn out)"
  unfolding targetTid_def findTarget_def sliceM_def by (intro firm_rules firm_cases)

lemma firm_resolveDisk [firm_rules]: "firm (resolveDisk E iqn ip d)"
  unfolding resolveDisk_def by (intro firm_rules firm_cases)

lemma firm_deleteLocal: "firm (deleteLocal E i)"
  unfolding deleteLocal_def by (intro firm_rules firm_cases; simp)

lemma firm_deleteRemote: "firm (deleteRemote E i ids)"
  unfolding deleteRemote_def dropMapper_def
  by (intro firm_rules firm_cases firm_noFail [OF noFail_deleteVol])

lemma firm_deleteFlexblockVolume: "firm (deleteFlexblockVolume E i)"
  unfolding deleteFlexblockVolume_def
  by (intro firm_rules firm_cases firm_deleteLocal firm_deleteRemote firm_noFail [OF noFail_getClusterID]
      firm_noFail [OF noFail_saveExistingVol]; simp)

section \<open>What publishing does to the tables\<close>

lemma NodePublishVolume_tables:
  assumes "NodePublishVolume E ns req s = Some (r, s')"
  shows "registry s' = registry s
    \<or> wantsEphemeral ns req \<and> (\<exists>p. registry s' = (mput (npVolumeId req)
        (newVolume (npVolumeId req) (''ephemeral-'' @ npVolumeId req) maxStorageCapacity p mountAccess True)
        (flexBlockVolumes s), flexBlockVolumeSnapshots s))"
proof -
  let ?i = "npVolumeId req"
  let ?rest = "\<lambda>cap. bnd (attempt (getVolumeByID ?i)) (\<lambda>r. case r of
       Inl err \<Rightarrow> throw (Status NotFound (errText err))
     | Inr vol \<Rightarrow> if getBlock cap then publishBlock E (npTargetPath req) vol
         else if getMount cap then publishMount E req vol else ret ())"
  have rest: "idle (?rest cap)" for cap by (intro frame_rules)
  have eph: "registry t = registry s \<or> (\<exists>p. registry t = (mput ?i
        (newVolume ?i (''ephemeral-'' @ ?i) maxStorageCapacity p mountAccess True)
        (flexBlockVolumes s), flexBlockVolumeSnapshots s))"
    if "publishEphemeral E ?i s = Some (x, t)" for x t
    using that create_contract [of E ?i "''ephemeral-'' @ ?i" maxStorageCapacity mountAccess True s]
    unfolding publishEphemeral_def
    by (auto elim!: attempt_eq_SomeE simp: throw_apply panic_apply ret_apply split: if_splits)
  show ?thesis
  proof (cases "npCapability req")
    case None
    with assms show ?thesis by (simp add: NodePublishVolume_def throw_apply)
  next
    case (Some cap)
    with assms have "registry s' = registry s \<or>
        bnd (if wantsEphemeral ns req then publishEphemeral E ?i else ret ()) (\<lambda>_. ?rest cap) s = Some (r, s')"
      by (auto simp: NodePublishVolume_def bnd_apply [of "failIf _ _"] failIf_apply split: if_splits)
    then show ?thesis
    proof (elim disjE)
      assume "bnd (if wantsEphemeral ns req then publishEphemeral E ?i else ret ()) (\<lambda>_. ?rest cap) s = Some (r, s')"
      then show ?thesis
      proof (cases rule: bnd_eq_SomeE)
        case (Done a t)
        from frameD [OF rest Done(2)] eph [of _ t] Done(1) show ?thesis
          by (cases "wantsEphemeral ns req") (auto simp: ret_apply)
      next
        case (Fail e)
        with eph [of _ s'] show ?thesis by (cases "wantsEphemeral ns req") (auto simp: ret_apply)
      next
        case (Crash p)
        with eph [of _ s'] show ?thesis by (cases "wantsEphemeral ns req") (auto simp: ret_apply)
      qed
    qed simp
  qed
qed

text \<open>
  C16. \<open>NodePublishVolume\<close> leaves both tables alone unless the volume is ephemeral; then the only
  change it can make, however it ends, is the entry of that volume, which has the name
  \<open>ephemeral-\<close> and the identifier, the maximal size and the ephemeral flag.
\<close>

theorem NodePublishVolume_tables_safe:
  assumes "NodePublishVolume E ns req s = Some (r, s')"
  shows "flexBlockVolumeSnapshots s' = flexBlockVolumeSnapshots s
    \<and> (\<forall>j. j \<noteq> npVolumeId req \<longrightarrow> mget (flexBlockVolumes s') j = mget (flexBlockVolumes s) j)
    \<and> (\<not> wantsEphemeral ns req \<longrightarrow> flexBlockVolumes s' = flexBlockVolumes s)
    \<and> (mget (flexBlockVolumes s') (npVolumeId req) = mget (flexBlockVolumes s) (npVolumeId req)
       \<or> (\<exists>v. mget (flexBlockVolumes s') (npVolumeId req) = Some v \<and> Ephemeral v
            \<and> VolName v = ''ephemeral-'' @ npVolumeId req \<and> VolSize v = maxStorageCapacity))"
  using NodePublishVolume_tables [OF assms] by (auto simp: gm.get_put newVolume_def)

definition simPublish :: "string \<Rightarrow> bool \<Rightarrow> publishRequest" where
  "simPublish i eph = \<lparr>npVolumeId = i, npTargetPath = ''/pods/1/vol'', npCapability = Some (CapMount ''ext4'' []),
     npReadonly = False, npVolumeContext = (if eph then [(ephemeralKey, ''true'')] else [])\<rparr>"

lemma simPublish_eph_returned: "returned (NodePublishVolume simHost (svNs simServers) (simPublish ''e1'' True) simBase)"
  by code_simp

theorem NodePublishVolume_tables_safe_witness:
  "\<exists>s'. NodePublishVolume simHost (svNs simServers) (simPublish ''e1'' True) simBase = Some (Done (), s')
     \<and> mget (flexBlockVolumes s') ''a1'' = mget (flexBlockVolumes simBase) ''a1''"
proof -
  from simPublish_eph_returned obtain s' where
    run: "NodePublishVolume simHost (svNs simServers) (simPublish ''e1'' True) simBase = Some (Done (), s')"
    by (auto elim: returnedE)
  from NodePublishVolume_tables_safe [OF run] run show ?thesis by (simp add: simPublish_def)
qed

section \<open>The life of an ephemeral volume\<close>

lemma passed_failIf:
  "bnd (failIf c e) f s = Some (Done b, s') \<Longrightarrow> f () s = Some (Done b, s')"
  by (cases c) (simp_all add: throw_apply)

lemma found_volume:
  assumes "bnd (attempt (getVolumeByID i)) (\<lambda>r. case r of Inl e \<Rightarrow> throw (g e) | Inr vol \<Rightarrow> f vol) s = Some (Done b, s')"
  obtains vol where "mget (flexBlockVolumes s) i = Some vol" "f vol s = Some (Done b, s')"
  using assms
  by (auto simp: bnd_apply attempt_apply getVolumeByID_apply throw_apply split: option.splits)

lemma NodeUnpublishVolume_Done:
  assumes "NodeUnpublishVolume E i p s = Some (Done (), s')"
  obtains vol where "mget (flexBlockVolumes s) i = Some vol"
    "if Ephemeral vol then registry s' = (mdel i (flexBlockVolumes s), flexBlockVolumeSnapshots s)
     else registry s' = registry s"
proof -
  let ?umount = "\<lambda>notMnt err. case err of
            Some e \<Rightarrow> failIf (\<not> isNotExist e) (Status Internal (errText e))
          | None \<Rightarrow>
              if \<not> notMnt then
                bnd (io (unmount E p)) (\<lambda>u. case u of
                  Some e \<Rightarrow> throw (Status Internal (errText e)) | None \<Rightarrow> ret ())
              else ret ()"
  let ?removed = "\<lambda>rm. case rm of Some e \<Rightarrow> throw (Status Internal (errText e)) | None \<Rightarrow> ret ()"
  let ?del = "\<lambda>vol. if Ephemeral vol then
       bnd (attempt (deleteFlexblockVolume E i)) (\<lambda>d. case d of
         Inl e \<Rightarrow> failIf (\<not> isNotExist e) (Status Internal (''failed to delete volume: '' @ errText e))
       | Inr _ \<Rightarrow> ret ())
     else ret ()"
  let ?body = "\<lambda>vol. bnd (io (isNotMountPoint E p)) (\<lambda>(notMnt, err).
     bnd (?umount notMnt err) (\<lambda>_.
     bnd (io (removeAll E p)) (\<lambda>rm. bnd (?removed rm) (\<lambda>_. ?del vol))))"
  from passed_failIf [OF passed_failIf [OF assms [unfolded NodeUnpublishVolume_def]]]
  obtain vol where vol: "mget (flexBlockVolumes s) i = Some vol" and "?body vol s = Some (Done (), s')"
    by (rule found_volume)
  from this(2) obtain x t1 where 1: "io (isNotMountPoint E p) s = Some (Done x, t1)"
    "(case x of (notMnt, err) \<Rightarrow> bnd (?umount notMnt err) (\<lambda>_.
       bnd (io (removeAll E p)) (\<lambda>rm. bnd (?removed rm) (\<lambda>_. ?del vol)))) t1 = Some (Done (), s')"
    by (rule bnd_eq_DoneE)
  obtain notMnt err where x: "x = (notMnt, err)" by force
  from 1(2) [unfolded x prod.case] obtain y t2 where 2: "?umount notMnt err t1 = Some (Done y, t2)"
    "bnd (io (removeAll E p)) (\<lambda>rm. bnd (?removed rm) (\<lambda>_. ?del vol)) t2 = Some (Done (), s')"
    by (rule bnd_eq_DoneE)
  from 2(2) obtain rm t3 where 3: "io (removeAll E p) t2 = Some (Done rm, t3)"
    "bnd (?removed rm) (\<lambda>_. ?del vol) t3 = Some (Done (), s')"
    by (rule bnd_eq_DoneE)
  from 3(2) obtain z t where 4: "?removed rm t3 = Some (Done z, t)" and del: "?del vol t = Some (Done (), s')"
    by (rule bnd_eq_DoneE)
  have idle: "idle (?umount notMnt err)" "idle (?removed rm)" by (intro frame_rules)+
  have reg: "registry t = registry s"
    using frameD [OF idle_io 1(1)] frameD [OF idle(1) 2(1)] frameD [OF idle_io 3(1)] frameD [OF idle(2) 4] by simp
  show ?thesis
  proof (cases "Ephemeral vol")
    case False
    with del reg vol that show ?thesis by (auto simp: ret_apply)
  next
    case True
    with del have "bnd (attempt (deleteFlexblockVolume E i)) (\<lambda>d. case d of
         Inl e \<Rightarrow> failIf (\<not> isNotExist e) (Status Internal (''failed to delete volume: '' @ errText e))
       | Inr _ \<Rightarrow> ret ()) t = Some (Done (), s')" by (simp only: if_True)
    then have "deleteFlexblockVolume E i t = Some (Done (), s')"
      by (rule attempt_eq_SomeE)
         (auto simp: ret_apply failIf_apply dest: endsD [OF firm_deleteFlexblockVolume] split: if_splits)
    with delete_contract [OF this, of vol] reg vol True that show ?thesis by auto
  qed
qed

text \<open>
  Operations that can only remove the volume \<open>i\<close>: from tables \<open>R\<close> they stay in the two states with
  and without it.
\<close>

definition dropped :: "flexBlockVolume gomap \<times> flexBlockSnapshot gomap \<Rightarrow> string \<Rightarrow> 'w drv \<Rightarrow> bool" where
  "dropped R i s \<longleftrightarrow> registry s = R \<or> registry s = (mdel i (fst R), snd R)"

lemma dropped_frame: "idle m \<Longrightarrow> keeps (dropped R i) m"
  by (erule keeps_frame) (simp add: dropped_def)

lemma dropped_io [keeps_rules]: "keeps (dropped R i) (io f)"
  by (intro dropped_frame frame_rules)

lemma dropped_delete [keeps_rules]: "keeps (dropped R i) (deleteFlexblockVolume E i)"
proof (rule keepsI)
  fix s r s'
  assume d: "dropped R i s" and "deleteFlexblockVolume E i s = Some (r, s')"
  from fb.delete_registry [OF this(2)] d show "dropped R i s'"
    by (cases R) (auto simp: dropped_def mdel_def delete_idem)
qed

lemma NodeUnpublishVolume_tables:
  assumes "NodeUnpublishVolume E i p s = Some (r, s')"
  shows "registry s' = registry s
    \<or> (\<exists>v. mget (flexBlockVolumes s) i = Some v \<and> Ephemeral v
        \<and> registry s' = (mdel i (flexBlockVolumes s), flexBlockVolumeSnapshots s))"
proof (cases "\<exists>v. mget (flexBlockVolumes s) i = Some v \<and> Ephemeral v")
  case True
  have "keeps (dropped (registry s) i) (NodeUnpublishVolume E i p)"
    unfolding NodeUnpublishVolume_def
    by (intro keeps_seq keeps_rules dropped_frame [OF idle_getVolumeByID])
  from keepsD [OF this assms] have "dropped (registry s) i s'" by (simp add: dropped_def)
  with True show ?thesis by (auto simp: dropped_def)
next
  case False
  then show ?thesis using assms
    by (auto simp: NodeUnpublishVolume_def go_simps split: if_splits option.splits prod.splits sum.splits)
qed

lemma NodePublishVolume_Done:
  assumes "NodePublishVolume E ns req s = Some (Done (), s')"
  shows "mget (flexBlockVolumes s') (npVolumeId req) \<noteq> None"
proof -
  let ?rest = "\<lambda>cap. bnd (attempt (getVolumeByID (npVolumeId req))) (\<lambda>r. case r of
       Inl err \<Rightarrow> throw (Status NotFound (errText err))
     | Inr vol \<Rightarrow> if getBlock cap then publishBlock E (npTargetPath req) vol
         else if getMount cap then publishMount E req vol else ret ())"
  from assms obtain cap where "bnd (if wantsEphemeral ns req then publishEphemeral E (npVolumeId req) else ret ())
      (\<lambda>_. ?rest cap) s = Some (Done (), s')"
    by (cases "npCapability req") (auto simp: NodePublishVolume_def throw_apply dest!: passed_failIf)
  then obtain a t where rest: "?rest cap t = Some (Done (), s')"
    by (rule bnd_eq_DoneE)
  have "idle (?rest cap)" by (intro frame_rules)
  from frameD [OF this rest] have "flexBlockVolumes s' = flexBlockVolumes t" by simp
  moreover from rest obtain vol where "mget (flexBlockVolumes t) (npVolumeId req) = Some vol"
    by (rule found_volume)
  ultimately show ?thesis by simp
qed

text \<open>
  C11. An ephemeral volume lives from publish to unpublish: when a volume that was not in the
  table is published as ephemeral and, in whatever state the host is by then, unpublished, both
  successfully, the table of volumes is what it was before.
\<close>

theorem ephemeral_volume_life:
  assumes pub: "NodePublishVolume E ns req s = Some (Done (), t)" and eph: "wantsEphemeral ns req"
    and unpub: "NodeUnpublishVolume E (npVolumeId req) p (t\<lparr>world := w\<rparr>) = Some (Done (), u)"
    and new: "mget (flexBlockVolumes s) (npVolumeId req) = None" and ok: "volsOK (flexBlockVolumes s)"
  shows "mget (flexBlockVolumes u) = mget (flexBlockVolumes s)
    \<and> flexBlockVolumeSnapshots u = flexBlockVolumeSnapshots s"
proof -
  from unpub obtain vol where vol: "mget (flexBlockVolumes t) (npVolumeId req) = Some vol"
    and u: "if Ephemeral vol then registry u = (mdel (npVolumeId req) (flexBlockVolumes t), flexBlockVolumeSnapshots t)
      else registry u = registry t"
    by (auto elim: NodeUnpublishVolume_Done)
  from NodePublishVolume_tables [OF pub] vol new obtain q where
    t: "registry t = (mput (npVolumeId req) (newVolume (npVolumeId req) (''ephemeral-'' @ npVolumeId req)
      maxStorageCapacity q mountAccess True) (flexBlockVolumes s), flexBlockVolumeSnapshots s)" by auto
  with vol have "Ephemeral vol" by (auto simp: gm.get_put newVolume_def)
  with u t new ok show ?thesis by (auto simp: gm.put_del_get volsOK_iff)
qed

definition simPublished :: "simw drv" where
  "simPublished = after (NodePublishVolume simHost (svNs simServers) (simPublish ''e1'' True) simBase)"

theorem ephemeral_volume_life_witness:
  "\<exists>u. NodeUnpublishVolume simHost ''e1'' ''/pods/1/vol'' (simPublished\<lparr>world :=
        simWorld\<lparr>simTargets := ''Target 2: iqn.2017-10-30.kx.flexcsi-e1''\<rparr>\<rparr>) = Some (Done (), u)
     \<and> mget (flexBlockVolumes simPublished) ''e1'' \<noteq> None
     \<and> mget (flexBlockVolumes u) = mget (flexBlockVolumes simBase)"
proof -
  let ?w = "simWorld\<lparr>simTargets := ''Target 2: iqn.2017-10-30.kx.flexcsi-e1''\<rparr>"
  from simPublish_eph_returned have run: "NodePublishVolume simHost (svNs simServers) (simPublish ''e1'' True) simBase
      = Some (Done (), simPublished)" by (auto elim: returnedE simp: simPublished_def)
  have "returned (NodeUnpublishVolume simHost ''e1'' ''/pods/1/vol'' (simPublished\<lparr>world := ?w\<rparr>))" by code_simp
  then obtain u where un: "NodeUnpublishVolume simHost ''e1'' ''/pods/1/vol'' (simPublished\<lparr>world := ?w\<rparr>) = Some (Done (), u)"
    by (auto elim: returnedE)
  have "wantsEphemeral (svNs simServers) (simPublish ''e1'' True)" "mget (flexBlockVolumes simBase) ''e1'' = None"
    "volsOK (flexBlockVolumes simBase)" "mget (flexBlockVolumes simPublished) ''e1'' \<noteq> None" by code_simp+
  moreover have "npVolumeId (simPublish ''e1'' True) = ''e1''" by (simp add: simPublish_def)
  ultimately show ?thesis using ephemeral_volume_life [OF run, of "''/pods/1/vol''" ?w u] un by simp
qed

section \<open>Publishing at a target path\<close>

lemma NodePublishVolume_plain:
  assumes "npCapability req = Some cap" and "npVolumeId req \<noteq> []" and "npTargetPath req \<noteq> []"
    and "\<not> wantsEphemeral ns req" and "mget (flexBlockVolumes s) (npVolumeId req) = Some vol"
  shows "NodePublishVolume E ns req s =
    (if getBlock cap then publishBlock E (npTargetPath req) vol
     else if getMount cap then publishMount E req vol else ret ()) s"
proof -
  have "\<not> (getBlock cap \<and> getMount cap)" by (cases cap) (simp_all add: getBlock_def getMount_def)
  with assms show ?thesis
    by (simp add: NodePublishVolume_def bnd_apply [of "attempt _"] attempt_apply getVolumeByID_apply failIf_def)
qed

text \<open>
  C34. A volume is published only as what it is: a block request for a volume with a file system
  and a mount request for a block volume are refused with \<open>InvalidArgument\<close>, and neither the
  tables nor the host are touched.
\<close>

theorem NodePublishVolume_access_mismatch:
  assumes "npCapability req = Some cap" and "npVolumeId req \<noteq> []" and "npTargetPath req \<noteq> []"
    and "\<not> wantsEphemeral ns req" and "mget (flexBlockVolumes s) (npVolumeId req) = Some vol"
    and "getBlock cap \<and> VolAccessType vol \<noteq> blockAccess \<or> getMount cap \<and> VolAccessType vol \<noteq> mountAccess"
  shows "NodePublishVolume E ns req s = Some (Fail (Status InvalidArgument
    (if getBlock cap then ''cannot publish a non-block volume as block volume''
     else ''cannot publish a non-mount volume as mount volume'')), s)"
  using assms(6) unfolding NodePublishVolume_plain [OF assms(1-5)]
  by (auto simp: publishBlock_def publishMount_def throw_apply getBlock_def getMount_def)

theorem NodePublishVolume_access_mismatch_witness:
  "NodePublishVolume simHost (svNs simServers) ((simPublish ''a1'' False)\<lparr>npCapability := Some CapBlock\<rparr>) simBase =
     Some (Fail (Status InvalidArgument ''cannot publish a non-block volume as block volume''), simBase)"
proof -
  let ?req = "(simPublish ''a1'' False)\<lparr>npCapability := Some CapBlock\<rparr>"
  have "npCapability ?req = Some CapBlock" "npVolumeId ?req \<noteq> []" "npTargetPath ?req \<noteq> []" "getBlock CapBlock"
    by (simp_all add: simPublish_def getBlock_def)
  moreover have "\<not> wantsEphemeral (svNs simServers) ?req" by code_simp
  moreover have "mget (flexBlockVolumes simBase) (npVolumeId ?req) = Some (newVolume ''a1'' ''pvc-a1'' 1073741824
      ''/csi-flexblock-data-dir/a1'' mountAccess False)" by code_simp
  ultimately show ?thesis
    using NodePublishVolume_access_mismatch [of ?req CapBlock "svNs simServers" simBase _ simHost]
    by (simp add: newVolume_def mountAccess_def blockAccess_def)
qed

text \<open>
  Publishing a mount volume again at a target path that is a mount point already succeeds and
  does nothing: the only thing the host sees is the question whether the path is one.
\<close>

lemma NodePublishVolume_already_mounted:
  assumes "npCapability req = Some cap" and "getMount cap" and "npVolumeId req \<noteq> []" and "npTargetPath req \<noteq> []"
    and "\<not> wantsEphemeral ns req" and "mget (flexBlockVolumes s) (npVolumeId req) = Some vol"
    and "VolAccessType vol = mountAccess"
    and "isNotMountPoint E (npTargetPath req) (world s) = ((False, None), w)"
  shows "NodePublishVolume E ns req s = Some (Done (), s\<lparr>world := w\<rparr>)"
proof -
  have "\<not> getBlock cap" using assms(2) by (cases cap) (simp_all add: getBlock_def getMount_def)
  with assms show ?thesis
    by (simp add: NodePublishVolume_plain publishMount_def go_simps Let_def)
qed

lemma simA1_request:
  "npCapability (simPublish ''a1'' False) = Some (CapMount ''ext4'' [])" "getMount (CapMount ''ext4'' [])"
  "npVolumeId (simPublish ''a1'' False) \<noteq> []" "npTargetPath (simPublish ''a1'' False) \<noteq> []"
  "\<not> wantsEphemeral (svNs simServers) (simPublish ''a1'' False)"
  by code_simp+

definition simA1 :: flexBlockVolume where
  "simA1 = newVolume ''a1'' ''pvc-a1'' 1073741824 ''/csi-flexblock-data-dir/a1'' mountAccess False"

lemma simA1_volume:
  "mget (flexBlockVolumes (simBase\<lparr>world := w\<rparr>)) (npVolumeId (simPublish ''a1'' False)) = Some simA1"
  "VolAccessType simA1 = mountAccess"
  by (simp_all add: simBase_def simPublish_def simA1_def newVolume_def mget_def)

lemma NodePublishVolume_already_mounted_witness:
  "let w = simWorld\<lparr>simMounts := [''/pods/1/vol'']\<rparr>
   in NodePublishVolume simHost (svNs simServers) (simPublish ''a1'' False) (simBase\<lparr>world := w\<rparr>) =
        Some (Done (), simBase\<lparr>world := w\<rparr>)"
proof -
  let ?w = "simWorld\<lparr>simMounts := [''/pods/1/vol'']\<rparr>"
  have "isNotMountPoint simHost (npTargetPath (simPublish ''a1'' False)) (world (simBase\<lparr>world := ?w\<rparr>)) =
      ((False, None), ?w)"
    by (simp add: simHost_def simPublish_def)
  from NodePublishVolume_already_mounted [OF simA1_request simA1_volume this] show ?thesis by (simp add: Let_def)
qed

text \<open>
  C35. Publishing a mount volume that is mounted under the data directory binds exactly that
  directory to the target path, read-only when the request says so, and succeeds if the mount
  does. Nothing else happens on the host but the two questions about mount points.
\<close>

theorem NodePublishVolume_binds:
  assumes "npCapability req = Some cap" and "getMount cap" and "npVolumeId req \<noteq> []" and "npTargetPath req \<noteq> []"
    and "\<not> wantsEphemeral ns req" and "mget (flexBlockVolumes s) (npVolumeId req) = Some vol"
    and "VolAccessType vol = mountAccess"
    and "isNotMountPoint E (npTargetPath req) (world s) = ((True, None), w1)"
    and "isNotMountPoint E (getVolumePath (npVolumeId req)) w1 = ((False, None), w2)"
    and "mount E (getVolumePath (npVolumeId req)) (npTargetPath req) []
      (if npReadonly req then [''bind'', ''ro''] else [''bind'']) w2 = (None, w3)"
  shows "NodePublishVolume E ns req s = Some (Done (), s\<lparr>world := w3\<rparr>)"
proof -
  have "\<not> getBlock cap" using assms(2) by (cases cap) (simp_all add: getBlock_def getMount_def)
  with assms show ?thesis
    by (cases "npReadonly req")
       (simp_all add: NodePublishVolume_plain publishMount_def publishBind_def go_simps Let_def)
qed

theorem NodePublishVolume_binds_witness:
  "let w = simWorld\<lparr>simMounts := [''/csi-flexblock-data-dir/a1'']\<rparr>
   in NodePublishVolume simHost (svNs simServers) (simPublish ''a1'' False) (simBase\<lparr>world := w\<rparr>) =
        Some (Done (), simBase\<lparr>world := w\<lparr>simMounts := [''/pods/1/vol'', ''/csi-flexblock-data-dir/a1'']\<rparr>\<rparr>)"
proof -
  let ?w = "simWorld\<lparr>simMounts := [''/csi-flexblock-data-dir/a1'']\<rparr>"
  have p: "getVolumePath (npVolumeId (simPublish ''a1'' False)) = ''/csi-flexblock-data-dir/a1''" by code_simp
  have "isNotMountPoint simHost (npTargetPath (simPublish ''a1'' False)) (world (simBase\<lparr>world := ?w\<rparr>)) =
      ((True, None), ?w)"
    by (simp add: simHost_def simPublish_def)
  moreover have "isNotMountPoint simHost (getVolumePath (npVolumeId (simPublish ''a1'' False))) ?w = ((False, None), ?w)"
    unfolding p by (simp add: simHost_def)
  moreover have "mount simHost (getVolumePath (npVolumeId (simPublish ''a1'' False))) (npTargetPath (simPublish ''a1'' False)) []
      (if npReadonly (simPublish ''a1'' False) then [''bind'', ''ro''] else [''bind'']) ?w =
      (None, ?w\<lparr>simMounts := [''/pods/1/vol'', ''/csi-flexblock-data-dir/a1'']\<rparr>)"
    unfolding p by (simp add: simHost_def simPublish_def)
  ultimately show ?thesis
    using NodePublishVolume_binds [OF simA1_request simA1_volume] by (simp add: Let_def)
qed

section \<open>NodeExpandVolume\<close>

lemma NodeExpandVolume_Done:
  assumes run: "NodeExpandVolume E i p cr s = Some (Done (), s')"
  shows "\<exists>old c. mget (flexBlockVolumes s) i = Some old \<and> cr = Some c \<and> RequiredBytes c < maxStorageCapacity
    \<and> mget (flexBlockVolumes s') i = Some (old\<lparr>VolSize := max (VolSize old) (RequiredBytes c)\<rparr>)
    \<and> (\<forall>j. j \<noteq> i \<longrightarrow> mget (flexBlockVolumes s') j = mget (flexBlockVolumes s) j)
    \<and> flexBlockVolumeSnapshots s' = flexBlockVolumeSnapshots s"
proof -
  from run obtain c old w where c: "cr = Some c" "RequiredBytes c < maxStorageCapacity"
    and old: "mget (flexBlockVolumes s) i = Some old"
    and rest: "if VolSize old < RequiredBytes c
      then updateFlexblockVolume E i (old\<lparr>VolSize := RequiredBytes c\<rparr>) (s\<lparr>world := w\<rparr>) = Some (Done (), s')
      else s' = s\<lparr>world := w\<rparr>"
    by (auto simp: NodeExpandVolume_def go_simps Let_def split: if_splits option.splits outcome.splits sum.splits
        fileMode.splits)
  show ?thesis
  proof (cases "VolSize old < RequiredBytes c")
    case True
    with rest have "updateFlexblockVolume E i (old\<lparr>VolSize := RequiredBytes c\<rparr>) (s\<lparr>world := w\<rparr>) = Some (Done (), s')"
      by simp
    from update_contract [OF this, of old] old have
      "registry s' = (mput i (old\<lparr>VolSize := RequiredBytes c\<rparr>) (flexBlockVolumes s), flexBlockVolumeSnapshots s)"
      by simp
    with True c old show ?thesis by (simp add: gm.get_put max_def)
  next
    case False
    with rest c old show ?thesis by (simp add: max_def)
  qed
qed

text \<open>
  C36. A successful \<open>NodeExpandVolume\<close> never shrinks a volume either: the entry has then the larger
  of its old and the requested size and its other fields as before, and nothing else in the
  tables has changed.
\<close>

theorem NodeExpandVolume_success:
  assumes run: "NodeExpandVolume E i p cr s = Some (Done (), s')"
  shows "\<exists>old c. mget (flexBlockVolumes s) i = Some old \<and> cr = Some c \<and> RequiredBytes c < maxStorageCapacity
    \<and> mget (flexBlockVolumes s') i = Some (old\<lparr>VolSize := max (VolSize old) (RequiredBytes c)\<rparr>)
    \<and> (\<forall>j. j \<noteq> i \<longrightarrow> mget (flexBlockVolumes s') j = mget (flexBlockVolumes s) j)
    \<and> flexBlockVolumeSnapshots s' = flexBlockVolumeSnapshots s"
  using NodeExpandVolume_Done [OF assms] .

theorem NodeExpandVolume_success_witness:
  "\<exists>s' v. NodeExpandVolume simHost ''a1'' ''/pods/1/vol'' (Some \<lparr>RequiredBytes = 2147483648, LimitBytes = 0\<rparr>) simBase
       = Some (Done (), s') \<and> mget (flexBlockVolumes s') ''a1'' = Some v \<and> VolSize v \<ge> 2147483648"
proof -
  have "returned (NodeExpandVolume simHost ''a1'' ''/pods/1/vol'' (Some \<lparr>RequiredBytes = 2147483648, LimitBytes = 0\<rparr>) simBase)"
    by code_simp
  then obtain s' where run: "NodeExpandVolume simHost ''a1'' ''/pods/1/vol''
      (Some \<lparr>RequiredBytes = 2147483648, LimitBytes = 0\<rparr>) simBase = Some (Done (), s')"
    by (auto elim: returnedE)
  from NodeExpandVolume_success [OF run] run show ?thesis by auto
qed

end
