(* ===== verification/Registry_Spec.thy ===== *)
theory Registry_Spec
  imports Controller_Props Snapshot_Props Node_Props
begin

text \<open>
  What the driver's tables are for, as an abstract machine: a finite record of volumes with name,
  size, access type and the ephemeral flag, and a set of snapshots. Its steps are labelled with
  the request that may cause them. Every request the driver answers, whatever the host does
  meanwhile, is one such step, and a request that succeeds has committed its effect.
\<close>

section \<open>The abstract machine\<close>

record absVolume =
  avName :: string
  avSize :: int
  avAccess :: accessType
  avEphemeral :: bool

type_synonym absState = "(string \<rightharpoonup> absVolume) \<times> string set"

text \<open>A volume that may be entered under identifier \<open>i\<close>.\<close>

definition legal :: "string \<Rightarrow> absVolume \<Rightarrow> bool" where
  "legal i v \<longleftrightarrow> avAccess v \<in> {mountAccess, blockAccess} \<and>
     (if avEphemeral v then avName v = ''ephemeral-'' @ i \<and> avSize v = maxStorageCapacity
      else drop 4 (avName v) = i \<and> avSize v < maxStorageCapacity)"

text \<open>
  The steps: a request may leave the tables alone (it failed, it only reads, or its effect was
  there already); \<open>CreateVolume\<close> may enter a volume under the name's identifier, and a request
  with a content source may lose what was there; publishing may enter an ephemeral volume and
  unpublishing remove one; expansion only grows.
\<close>

inductive astep :: "request \<Rightarrow> absState \<Rightarrow> absState \<Rightarrow> bool" where
  skip: "astep q a a"
| enter: "legal (drop 4 (cvName q)) v \<Longrightarrow>
    astep (ReqCreateVolume q) (V, S) (V(drop 4 (cvName q) \<mapsto> v), S)"
| undo: "cvSource q \<noteq> None \<Longrightarrow>
    astep (ReqCreateVolume q) (V, S) (V(drop 4 (cvName q) := None), S)"
| publish: "legal (npVolumeId q) v \<Longrightarrow> avEphemeral v \<Longrightarrow>
    astep (ReqNodePublishVolume q) (V, S) (V(npVolumeId q \<mapsto> v), S)"
| unpublish: "V i = Some v \<Longrightarrow> avEphemeral v \<Longrightarrow>
    astep (ReqNodeUnpublishVolume i p) (V, S) (V(i := None), S)"
| remove: "astep (ReqDeleteVolume i) (V, S) (V(i := None), S)"
| grow: "q = ReqControllerExpandVolume i (Some c) \<or> q = ReqNodeExpandVolume i p (Some c) \<Longrightarrow>
    V i = Some v \<Longrightarrow> avSize v < RequiredBytes c \<Longrightarrow> RequiredBytes c < maxStorageCapacity \<Longrightarrow>
    astep q (V, S) (V(i \<mapsto> v\<lparr>avSize := RequiredBytes c\<rparr>), S)"
| dropSnapshot: "astep (ReqDeleteSnapshot i) (V, S) (V, S - {i})"

text \<open>What holds after a success.\<close>

fun committed :: "request \<Rightarrow> absState \<Rightarrow> bool" where
  "committed (ReqCreateVolume q) (V, S) = (\<exists>i v. V i = Some v \<and> avName v = cvName q \<and> wanted q \<le> avSize v)"
| "committed (ReqDeleteVolume i) (V, S) = (V i = None)"
| "committed (ReqDeleteSnapshot i) (V, S) = (i \<notin> S)"
| "committed (ReqControllerExpandVolume i c) (V, S) = (\<exists>v. V i = Some v \<and> RequiredBytes (the c) \<le> avSize v)"
| "committed (ReqNodeExpandVolume i p c) (V, S) = (\<exists>v. V i = Some v \<and> RequiredBytes (the c) \<le> avSize v)"
| "committed (ReqNodePublishVolume q) (V, S) = (V (npVolumeId q) \<noteq> None)"
| "committed (ReqNodeUnpublishVolume i p) (V, S) = (\<forall>v. V i = Some v \<longrightarrow> \<not> avEphemeral v)"
| "committed q a = True"

definition absVol :: "flexBlockVolume \<Rightarrow> absVolume" where
  "absVol v = \<lparr>avName = VolName v, avSize = VolSize v, avAccess = VolAccessType v, avEphemeral = Ephemeral v\<rparr>"

definition absReg :: "flexBlockVolume gomap \<times> flexBlockSnapshot gomap \<Rightarrow> absState" where
  "absReg R = ((\<lambda>i. map_option absVol (mget (fst R) i)), {i. mget (snd R) i \<noteq> None})"

abbreviation abstract :: "'w drv \<Rightarrow> absState" where
  "abstract s \<equiv> absReg (registry s)"

lemma absReg_put: "absReg (mput i v m, n) = ((fst (absReg (m, n)))(i \<mapsto> absVol v), snd (absReg (m, n)))"
  by (auto simp: absReg_def gm.get_put fun_eq_iff)

lemma absReg_del: "mwf m \<Longrightarrow> absReg (mdel i m, n) = ((fst (absReg (m, n)))(i := None), snd (absReg (m, n)))"
  by (auto simp: absReg_def gm.get_del fun_eq_iff)

lemma absReg_delSnapshot: "mwf n \<Longrightarrow> absReg (m, mdel i n) = (fst (absReg (m, n)), snd (absReg (m, n)) - {i})"
  by (auto simp: absReg_def gm.get_del)

section \<open>Simulation\<close>

text \<open>
  \<open>simulated q m\<close>: from well-formed tables, every run of \<open>m\<close> is a step of the abstract machine
  under \<open>q\<close>, and commits when it succeeds.
\<close>

definition simulated :: "request \<Rightarrow> ('w, 'a) drvM \<Rightarrow> bool" where
  "simulated q m \<longleftrightarrow> (\<forall>s r s'. regOK s \<longrightarrow> m s = Some (r, s') \<longrightarrow>
     astep q (abstract s) (abstract s') \<and> (isDone r \<longrightarrow> committed q (abstract s')))"

lemma simulatedI:
  assumes "\<And>s r s'. regOK s \<Longrightarrow> m s = Some (r, s') \<Longrightarrow> astep q (abstract s) (abstract s')"
    and "\<And>s a s'. regOK s \<Longrightarrow> m s = Some (Done a, s') \<Longrightarrow> committed q (abstract s')"
  shows "simulated q m"
  unfolding simulated_def
proof (intro allI impI conjI)
  fix s r s'
  assume ok: "regOK s" and run: "m s = Some (r, s')"
  show "astep q (abstract s) (abstract s')" using ok run by (rule assms(1))
  assume "isDone r"
  then obtain a where "r = Done a" by (cases r) auto
  with assms(2) [OF ok] run show "committed q (abstract s')" by simp
qed

lemma astep_same: "registry s' = registry s \<Longrightarrow> astep q (abstract s) (abstract s')"
  by (simp only: skip)

lemma simulated_idle:
  assumes "idle m" and "\<And>a. committed q a"
  shows "simulated q m"
proof (rule simulatedI)
  fix s r s'
  assume "m s = Some (r, s')"
  from frameD [OF assms(1) this] show "astep q (abstract s) (abstract s')" by (rule astep_same)
qed (rule assms(2))

lemma volOK_legal: "volOK i v \<Longrightarrow> legal i (absVol v)"
  by (auto simp: legal_def absVol_def volOK_def split: if_splits)

lemma regOK_volOK_put:
  "regOK s \<Longrightarrow> flexBlockVolumes s = mput i v m \<Longrightarrow> volOK i v"
  by (auto simp: regOK_def dest!: volsOK_get [of _ i v] simp: gm.get_put)

lemma astep_enter:
  assumes "regOK s'" and "registry s' = (mput (drop 4 (cvName q)) v (flexBlockVolumes s), flexBlockVolumeSnapshots s)"
  shows "astep (ReqCreateVolume q) (abstract s) (abstract s')"
proof -
  from assms regOK_volOK_put [OF assms(1)] have "legal (drop 4 (cvName q)) (absVol v)" by (simp add: volOK_legal)
  from enter [OF this, of "fst (abstract s)" "snd (abstract s)"] assms(2) show ?thesis by (simp add: absReg_put)
qed

lemma astep_undo:
  assumes "mwf (flexBlockVolumes s)" and "cvSource q \<noteq> None"
    and "registry s' = (mdel (drop 4 (cvName q)) (mput (drop 4 (cvName q)) v (flexBlockVolumes s)), flexBlockVolumeSnapshots s)"
  shows "astep (ReqCreateVolume q) (abstract s) (abstract s')"
  using undo [OF assms(2), of "fst (abstract s)" "snd (abstract s)"] assms(1,3)
  by (simp add: absReg_del absReg_put gm.wf_put)

lemma regOK_mwf: "regOK s \<Longrightarrow> mwf (flexBlockVolumes s) \<and> mwf (flexBlockVolumeSnapshots s)"
  by (simp add: regOK_def volsOK_iff snapsOK_iff)

lemma astep_CreateVolume:
  assumes ok: "regOK s" and run: "CreateVolume E cs q s = Some (r, s')"
  shows "astep (ReqCreateVolume q) (abstract s) (abstract s')"
proof -
  have ok': "regOK s'" using keepsD [OF regOK_CreateVolume run ok] .
  from run show ?thesis
  proof (cases rule: CreateVolume_cases)
    case (existing tops t k v)
    from frameD [OF idle_existingVolume existing(4)] existing(1) show ?thesis by (intro astep_same) simp
  next
    case (new tops t)
    from new(3) show ?thesis
    proof (cases rule: createNewVolume_cases)
      case (created p)
      with new(1) show ?thesis by (intro astep_enter [OF ok']) simp
    next
      case (undone v)
      from undone(4) show ?thesis
      proof
        assume "flexBlockVolumes s' = mput (drop 4 (cvName q)) v (flexBlockVolumes t)"
        with undone(3) new(1) show ?thesis by (intro astep_enter [OF ok']) simp
      next
        assume "flexBlockVolumes s' = mdel (drop 4 (cvName q)) (mput (drop 4 (cvName q)) v (flexBlockVolumes t))"
        with undone(3) new(1) show ?thesis by (intro astep_undo [OF _ undone(1)]) (simp_all add: regOK_mwf ok)
      qed
    qed (use new(1) in \<open>auto intro: astep_same\<close>)
  qed (auto intro: skip)
qed

lemma simulated_CreateVolume: "simulated (ReqCreateVolume q) (CreateVolume E cs q)"
proof (rule simulatedI)
  fix s v s'
  assume ok: "regOK s" and run: "CreateVolume E cs q s = Some (Done v, s')"
  from CreateVolume_Done [OF run] ok obtain vol where
    "mget (flexBlockVolumes s') (VolumeId v) = Some vol" "VolName vol = cvName q" "wanted q \<le> VolSize vol"
    by (auto simp: regOK_def)
  then show "committed (ReqCreateVolume q) (abstract s')"
    by (auto simp: absReg_def absVol_def intro!: exI [of _ "VolumeId v"])
qed (rule astep_CreateVolume)

lemma simulated_DeleteVolume: "simulated (ReqDeleteVolume i) (DeleteVolume E cs i)"
proof (rule simulatedI)
  fix s r s'
  assume ok: "regOK s" and run: "DeleteVolume E cs i s = Some (r, s')"
  then have "registry s' = registry s \<or> registry s' = (mdel i (flexBlockVolumes s), flexBlockVolumeSnapshots s)"
    using fb.delete_registry [of E i s]
    by (auto simp: DeleteVolume_def validate_eq go_simps split: if_splits option.splits outcome.splits sum.splits)
  then show "astep (ReqDeleteVolume i) (abstract s) (abstract s')"
    using remove [of i "fst (abstract s)" "snd (abstract s)"] regOK_mwf [OF ok]
    by (auto simp: absReg_del intro: skip)
next
  fix s a s'
  assume "regOK s" and "DeleteVolume E cs i s = Some (Done a, s')"
  then have "mget (flexBlockVolumes s') i = None"
    by (auto simp: regOK_def dest!: DeleteVolume_run intro: fb.delete_gone)
  then show "committed (ReqDeleteVolume i) (abstract s')" by (simp add: absReg_def)
qed

lemma simulated_DeleteSnapshot: "simulated (ReqDeleteSnapshot i) (DeleteSnapshot E cs i)"
proof (rule simulatedI)
  fix s r s'
  assume ok: "regOK s" and "DeleteSnapshot E cs i s = Some (r, s')"
  then have "registry s' = registry s \<or> registry s' = (flexBlockVolumes s, mdel i (flexBlockVolumeSnapshots s))"
    by (auto simp: DeleteSnapshot_def validate_eq go_simps split: if_splits)
  then show "astep (ReqDeleteSnapshot i) (abstract s) (abstract s')"
    using dropSnapshot [of i "fst (abstract s)" "snd (abstract s)"] regOK_mwf [OF ok]
    by (auto simp: absReg_delSnapshot intro: skip)
next
  fix s a s'
  assume ok: "regOK s" and "DeleteSnapshot E cs i s = Some (Done a, s')"
  then have "flexBlockVolumeSnapshots s' = mdel i (flexBlockVolumeSnapshots s)"
    by (auto simp: DeleteSnapshot_def validate_eq go_simps split: if_splits)
  with regOK_mwf [OF ok] show "committed (ReqDeleteSnapshot i) (abstract s')" by (simp add: absReg_def gm.get_del)
qed

lemma astep_update:
  assumes "updateFlexblockVolume E i (v\<lparr>VolSize := RequiredBytes c\<rparr>) (s\<lparr>world := w\<rparr>) = Some (r, s')"
    and "mget (flexBlockVolumes s) i = Some v" "VolSize v < RequiredBytes c" "\<not> maxStorageCapacity \<le> RequiredBytes c"
    and q: "q = ReqControllerExpandVolume i (Some c) \<or> q = ReqNodeExpandVolume i p (Some c)"
  shows "astep q (abstract s) (abstract s')"
proof -
  from update_contract [OF assms(1), of v] assms(2)
  have "registry s' = registry s
      \<or> registry s' = (mput i (v\<lparr>VolSize := RequiredBytes c\<rparr>) (flexBlockVolumes s), flexBlockVolumeSnapshots s)"
    by auto
  moreover have "absVol (v\<lparr>VolSize := RequiredBytes c\<rparr>) = (absVol v)\<lparr>avSize := RequiredBytes c\<rparr>"
    by (simp add: absVol_def)
  moreover have "fst (abstract s) i = Some (absVol v)" "avSize (absVol v) = VolSize v"
    using assms(2) by (simp_all add: absReg_def absVol_def)
  ultimately show ?thesis
    using grow [OF q, of "fst (abstract s)" "absVol v" "snd (abstract s)"] assms(3,4) astep_same [of s' s q]
    by (auto simp: absReg_put)
qed

lemma simulated_ControllerExpandVolume:
  "simulated (ReqControllerExpandVolume i cr) (ControllerExpandVolume E i cr)"
proof (rule simulatedI)
  fix s r s'
  assume "ControllerExpandVolume E i cr s = Some (r, s')"
  then show "astep (ReqControllerExpandVolume i cr) (abstract s) (abstract s')"
    by (auto simp: ControllerExpandVolume_def go_simps Let_def skip split: expand_splits)
       (metis astep_update [where s = s and w = "world s", simplified])+
next
  fix s a s'
  assume "ControllerExpandVolume E i cr s = Some (Done a, s')"
  from ControllerExpandVolume_Done [OF this]
  show "committed (ReqControllerExpandVolume i cr) (abstract s')" by (auto simp: absReg_def absVol_def)
qed

lemma simulated_NodeExpandVolume: "simulated (ReqNodeExpandVolume i p cr) (NodeExpandVolume E i p cr)"
proof (rule simulatedI)
  fix s r s'
  assume "NodeExpandVolume E i p cr s = Some (r, s')"
  then show "astep (ReqNodeExpandVolume i p cr) (abstract s) (abstract s')"
    by (auto simp: NodeExpandVolume_def go_simps Let_def skip split: expand_splits)
       (metis astep_update)+
next
  fix s a s'
  assume "NodeExpandVolume E i p cr s = Some (Done a, s')"
  from NodeExpandVolume_Done [OF this [simplified]]
  show "committed (ReqNodeExpandVolume i p cr) (abstract s')" by (auto simp: absReg_def absVol_def)
qed

lemma simulated_NodePublishVolume: "simulated (ReqNodePublishVolume q) (NodePublishVolume E ns q)"
proof (rule simulatedI)
  fix s r s'
  assume ok: "regOK s" and run: "NodePublishVolume E ns q s = Some (r, s')"
  have ok': "regOK s'" using keepsD [OF regOK_NodePublishVolume run ok] .
  from NodePublishVolume_tables [OF run]
  consider "registry s' = registry s"
    | v where "registry s' = (mput (npVolumeId q) v (flexBlockVolumes s), flexBlockVolumeSnapshots s)" "Ephemeral v"
    by (auto simp: newVolume_def)
  then show "astep (ReqNodePublishVolume q) (abstract s) (abstract s')"
  proof cases
    case 1
    then show ?thesis by (rule astep_same)
  next
    case (2 v)
    then have "legal (npVolumeId q) (absVol v)" by (intro volOK_legal regOK_volOK_put [OF ok']) simp
    from publish [OF this, of "fst (abstract s)" "snd (abstract s)"] 2 show ?thesis
      by (simp add: absReg_put) (simp add: absVol_def)
  qed
next
  fix s a s'
  assume "NodePublishVolume E ns q s = Some (Done a, s')"
  from NodePublishVolume_Done [OF this [simplified]]
  show "committed (ReqNodePublishVolume q) (abstract s')" by (auto simp: absReg_def)
qed

lemma simulated_NodeUnpublishVolume: "simulated (ReqNodeUnpublishVolume i p) (NodeUnpublishVolume E i p)"
proof (rule simulatedI)
  fix s r s'
  assume ok: "regOK s" and run: "NodeUnpublishVolume E i p s = Some (r, s')"
  from NodeUnpublishVolume_tables [OF run]
  consider "registry s' = registry s"
    | v where "mget (flexBlockVolumes s) i = Some v" "Ephemeral v"
      "registry s' = (mdel i (flexBlockVolumes s), flexBlockVolumeSnapshots s)" by auto
  then show "astep (ReqNodeUnpublishVolume i p) (abstract s) (abstract s')"
  proof cases
    case 1
    then show ?thesis by (rule astep_same)
  next
    case (2 v)
    then have "fst (abstract s) i = Some (absVol v)" "avEphemeral (absVol v)" by (simp_all add: absReg_def absVol_def)
    from unpublish [where V = "fst (abstract s)" and p = p and S = "snd (abstract s)", OF this] 2(3) regOK_mwf [OF ok] show ?thesis by (simp add: absReg_del)
  qed
next
  fix s a s'
  assume ok: "regOK s" and "NodeUnpublishVolume E i p s = Some (Done a, s')"
  then have "NodeUnpublishVolume E i p s = Some (Done (), s')" by simp
  then show "committed (ReqNodeUnpublishVolume i p) (abstract s')"
    by (rule NodeUnpublishVolume_Done)
       (use regOK_mwf [OF ok] in \<open>auto simp: absReg_def absVol_def gm.get_del split: if_splits\<close>)
qed

lemma simulated_answer: "simulated q m \<Longrightarrow> simulated q (answer f m)"
  unfolding simulated_def answer_def
  by (auto elim!: bnd_eq_SomeE simp: ret_apply)

lemmas passive_defs = ControllerGetCapabilities_def ValidateVolumeCapabilities_def CreateSnapshot_def
    NodeStageVolume_def NodeUnstageVolume_def NodeGetInfo_def GetPluginInfo_def ControllerPublishVolume_def ControllerUnpublishVolume_def GetCapacity_def ListVolumes_def ControllerGetVolume_def
    NodeGetCapabilities_def NodeGetVolumeStats_def Probe_def GetPluginCapabilities_def

lemma idle_passive:
  shows "idle (ControllerGetCapabilities cs)"
    and "idle (ValidateVolumeCapabilities q)"
    and "idle (CreateSnapshot cs)"
    and "idle (NodeStageVolume i p c)"
    and "idle (NodeUnstageVolume i p)"
    and "idle (NodeGetInfo ns)"
    and "idle (GetPluginInfo ids)"
    and "idle ControllerPublishVolume"
    and "idle ControllerUnpublishVolume"
    and "idle GetCapacity"
    and "idle ListVolumes"
    and "idle ControllerGetVolume"
    and "idle NodeGetCapabilities"
    and "idle NodeGetVolumeStats"
    and "idle Probe"
    and "idle GetPluginCapabilities"
  unfolding passive_defs by (intro frame_rules)+

lemma simulated_dispatch: "simulated q (dispatch E sv q)"
  by (cases q)
     (simp_all add: simulated_answer simulated_idle idle_passive idle_ListSnapshots simulated_CreateVolume
        simulated_DeleteVolume simulated_DeleteSnapshot simulated_ControllerExpandVolume
        simulated_NodePublishVolume simulated_NodeUnpublishVolume simulated_NodeExpandVolume)

section \<open>What a step leaves alone\<close>

text \<open>The volumes a request is about, and those it may enter or remove rather than grow.\<close>

fun replaces :: "request \<Rightarrow> string set" where
  "replaces (ReqCreateVolume q) = {drop 4 (cvName q)}"
| "replaces (ReqDeleteVolume i) = {i}"
| "replaces (ReqNodePublishVolume q) = {npVolumeId q}"
| "replaces (ReqNodeUnpublishVolume i p) = {i}"
| "replaces q = {}"

fun subject :: "request \<Rightarrow> string set" where
  "subject (ReqControllerExpandVolume i c) = {i}"
| "subject (ReqNodeExpandVolume i p c) = {i}"
| "subject q = replaces q"

inductive_cases astepE: "astep q a a'"

lemma astep_isolated: "astep q a a' \<Longrightarrow> j \<notin> subject q \<Longrightarrow> fst a' j = fst a j"
  by (erule astepE) (auto split: if_splits)

lemma astep_grows:
  assumes "astep q a a'" and "j \<notin> replaces q" and "fst a j = Some v"
  shows "\<exists>c \<ge> avSize v. fst a' j = Some (v\<lparr>avSize := c\<rparr>)"
proof -
  have same: "\<exists>c \<ge> avSize v. Some v = Some (v\<lparr>avSize := c\<rparr>)" by (intro exI [of _ "avSize v"]) simp
  from assms(1) show ?thesis
  proof (cases rule: astep.cases)
    case (grow i c p V u S)
    then show ?thesis using assms(3) same
      by (cases "i = j") (auto intro!: exI [of _ "RequiredBytes c"])
  qed (use assms(2,3) same in auto)
qed

lemma astep_snapshots: "astep q a a' \<Longrightarrow> snd a' \<subseteq> snd a"
  by (erule astepE) auto

end
