(* ===== verification/Config_Props.thy ===== *)
theory Config_Props
  imports Sim_Host
begin

text \<open>
  Properties of the configuration files: what \<open>init\<close> reads from a written plugin file, and what
  \<open>CreateVolume\<close> reads from a written list of nodes.
\<close>

section \<open>Lines\<close>

lemma splitAt_line: "c \<notin> set w \<Longrightarrow> splitAt c (w @ c # t) = w # splitAt c t"
  by (induction w) auto

lemma splitAt_lines:
  assumes "\<forall>w \<in> set ws. c \<notin> set w"
  shows "splitAt c (concat (map (\<lambda>w. w @ [c]) ws) @ t) = ws @ splitAt c t"
  using assms by (induction ws) (auto simp: splitAt_line)

section \<open>The plugin's file\<close>

text \<open>A setting as it may be written on a line: the line is cut at the first equals sign, and has no blanks at its ends.\<close>

definition writable :: "string \<times> string \<Rightarrow> bool" where
  "writable kv \<longleftrightarrow> fst kv \<noteq> [] \<and> CHR ''='' \<notin> set (fst kv) \<and> NL \<notin> set (fst kv) \<and> NL \<notin> set (snd kv)
     \<and> trimSpace (fst kv @ CHR ''='' # snd kv) = fst kv @ CHR ''='' # snd kv"

definition confText :: "(string \<times> string) list \<Rightarrow> string" where
  "confText kvs = concat (map (\<lambda>(k, v). k @ CHR ''='' # v @ [NL]) kvs)"

lemma indexFrom_char: "c \<notin> set a \<Longrightarrow> indexFrom i (a @ c # b) [c] = Some (i + length a)"
  by (induction a arbitrary: i) (auto simp: hasPrefix_def)

lemma confLine_writable: "writable (k, v) \<Longrightarrow> confLine m (k @ CHR ''='' # v) = mput k v m"
  by (simp add: confLine_def writable_def index_def indexFrom_char)

lemma mget_settings:
  "\<forall>kv \<in> set kvs. writable kv \<Longrightarrow>
   mget (foldl confLine m (map (\<lambda>(k, v). k @ CHR ''='' # v) kvs)) = mget m ++ map_of (rev kvs)"
proof (induction kvs arbitrary: m)
  case (Cons kv kvs)
  then show ?case
    by (cases kv) (auto simp: confLine_writable gm.get_put fun_eq_iff map_add_def split: option.splits)
qed (simp add: map_add_def)

lemma parseConf_confText:
  assumes "\<forall>kv \<in> set kvs. writable kv" and "NL \<notin> set junk"
  shows "mget (parseConf m (confText kvs @ junk)) = mget m ++ map_of (rev kvs)"
proof -
  let ?lines = "map (\<lambda>(k, v). k @ CHR ''='' # v) kvs"
  have "confText kvs = concat (map (\<lambda>w. w @ [NL]) ?lines)"
    unfolding confText_def by (induction kvs) auto
  moreover have "\<forall>w \<in> set ?lines. NL \<notin> set w" using assms(1) by (auto simp: writable_def)
  ultimately have "splitAt NL (confText kvs @ junk) = ?lines @ [junk]"
    using assms(2) by (simp only: splitAt_lines splitAt_none not_False_eq_True)
  then show ?thesis using mget_settings [OF assms(1)] by (simp add: parseConf_def)
qed

text \<open>
  C20. The plugin's configuration is read back as it was written: after \<open>init\<close> every key has the
  value of its last line, keys that are not in the file are unset, and a last line that has no
  newline is ignored, whatever it says. The tables of volumes and snapshots are not touched.
\<close>

theorem init_reads_settings:
  assumes "fst (readFile E conffile (world s)) = Inr (confText kvs @ junk)" and "confinfo s = []"
    and "\<forall>kv \<in> set kvs. writable kv" and "NL \<notin> set junk"
  shows "\<exists>s'. init E s = Some (Done (), s') \<and> mget (confinfo s') = map_of (rev kvs)
    \<and> registry s' = registry s"
proof -
  have "mget (parseConf [] (confText kvs @ junk)) = map_of (rev kvs)"
    using parseConf_confText [OF assms(3,4), of "[]"] by (simp add: fun_eq_iff map_add_def gm.get_empty split: option.splits)
  with assms(1,2) show ?thesis by (simp add: init_def go_simps)
qed

definition simConf :: "simw drv" where
  "simConf = initVars (simWorld\<lparr>simFiles :=
     [(conffile, confText [(''csimod'', ''local''), (''csimod'', ''remote'')] @ ''csimod=none'')]\<rparr>)"

theorem init_reads_settings_witness:
  "\<exists>s'. init simHost simConf = Some (Done (), s') \<and> mget (confinfo s') ''csimod'' = Some ''remote''"
proof -
  let ?kvs = "[(''csimod'', ''local''), (''csimod'', ''remote'')]"
  have "fst (readFile simHost conffile (world simConf)) = Inr (confText ?kvs @ ''csimod=none'')"
    by (simp add: simHost_def simRead_def simConf_def initVars_def simWorld_def mget_def)
  moreover have "confinfo simConf = []" by (simp add: simConf_def initVars_def)
  moreover have "\<forall>kv \<in> set ?kvs. writable kv" by code_simp
  ultimately have "\<exists>s'. init simHost simConf = Some (Done (), s') \<and> mget (confinfo s') = map_of (rev ?kvs)
      \<and> registry s' = registry simConf"
    by (rule init_reads_settings) simp
  then show ?thesis by auto
qed

section \<open>The list of nodes\<close>

definition nodeName :: "string \<Rightarrow> bool" where
  "nodeName n \<longleftrightarrow> n \<noteq> [] \<and> NL \<notin> set n \<and> trimSpace n = n"

lemma trimSpace_empty: "trimSpace [] = []"
  by code_simp

lemma parseNodeList_lines:
  assumes "\<forall>n \<in> set ns. nodeName n" and "NL \<notin> set t"
  shows "parseNodeList (concat (map (\<lambda>n. n @ [NL]) ns) @ t) =
    map nodeTopology (ns @ (if trimSpace t = [] then [] else [trimSpace t]))"
proof -
  have "splitAt NL (concat (map (\<lambda>n. n @ [NL]) ns) @ t) = ns @ [t]"
    using assms by (subst splitAt_lines) (auto simp: nodeName_def splitAt_none)
  moreover have "filter (\<lambda>l. length l \<noteq> 0) (map trimSpace ns) = ns"
    using assms(1) by (induction ns) (auto simp: nodeName_def)
  ultimately show ?thesis by (simp add: parseNodeList_def)
qed

text \<open>
  C37. The topologies of a new volume are the nodes of the list, one each and in order, whether or
  not the last line ends with a newline; without a readable list it is the driver's own node.
\<close>

theorem readTopologies_nodes:
  assumes "\<forall>n \<in> set ns. nodeName n" and "nodeName l"
  shows "(fst (readFile E nodelistfile (world s)) = Inr (concat (map (\<lambda>n. n @ [NL]) ns)) \<longrightarrow>
      (\<exists>w. readTopologies E nodeID s = Some (Done (map nodeTopology ns), s\<lparr>world := w\<rparr>)))
    \<and> (fst (readFile E nodelistfile (world s)) = Inr (concat (map (\<lambda>n. n @ [NL]) ns) @ l) \<longrightarrow>
      (\<exists>w. readTopologies E nodeID s = Some (Done (map nodeTopology (ns @ [l])), s\<lparr>world := w\<rparr>)))
    \<and> (fst (readFile E nodelistfile (world s)) = Inl e \<longrightarrow>
      (\<exists>w. readTopologies E nodeID s = Some (Done [nodeTopology nodeID], s\<lparr>world := w\<rparr>)))"
  using parseNodeList_lines [OF assms(1), of "[]"] parseNodeList_lines [OF assms(1), of l] assms(2)
  by (auto simp: readTopologies_def go_simps trimSpace_empty nodeName_def)

theorem readTopologies_nodes_witness:
  "\<exists>w. readTopologies simHost ''node1''
      (initVars (simWorld\<lparr>simFiles := [(nodelistfile, ''n1'' @ [NL] @ ''n2'')]\<rparr>)) =
    Some (Done [nodeTopology ''n1'', nodeTopology ''n2''],
      (initVars (simWorld\<lparr>simFiles := [(nodelistfile, ''n1'' @ [NL] @ ''n2'')]\<rparr>))\<lparr>world := w\<rparr>)"
proof -
  let ?s = "initVars (simWorld\<lparr>simFiles := [(nodelistfile, ''n1'' @ [NL] @ ''n2'')]\<rparr>)"
  have "\<forall>n \<in> set [''n1'']. nodeName n" "nodeName ''n2''" by code_simp+
  moreover have "fst (readFile simHost nodelistfile (world ?s)) =
      Inr (concat (map (\<lambda>n. n @ [NL]) [''n1'']) @ ''n2'')"
    by (simp add: simHost_def simRead_def initVars_def simWorld_def mget_def)
  ultimately show ?thesis
    using readTopologies_nodes [of "[''n1'']" "''n2''" simHost ?s "''node1''"] by simp
qed

end
