(* ===== verification/Mgmt_Props.thy ===== *)
theory Mgmt_Props
  imports Json_Roundtrip Create_Props
begin

text \<open>
  Properties of the client of the management server: the bodies it sends, how long it waits for
  a target, and what happens when the server does not answer.
\<close>

section \<open>Waiting for the LUN\<close>

definition bindVolReq :: "string \<Rightarrow> string \<Rightarrow> int \<Rightarrow> httpReq" where
  "bindVolReq ep tok tid = \<lparr>reqMethod = ''GET'', reqUrl = ep @ ''/mng/serTarget/'' @ itoa tid @ ''/bindVol'',
     reqHeaders = jsonHdr tok, reqBody = []\<rparr>"

text \<open>The host after \<open>k\<close> rounds of sleeping and asking, and the answer of the next round.\<close>

fun afterPolls :: "'w env \<Rightarrow> httpReq \<Rightarrow> nat \<Rightarrow> 'w \<Rightarrow> 'w" where
  "afterPolls E q 0 w = w"
| "afterPolls E q (Suc k) w = snd (doHTTP E q (sleep E 10 (afterPolls E q k w)))"

definition pollAnswer :: "'w env \<Rightarrow> httpReq \<Rightarrow> nat \<Rightarrow> 'w \<Rightarrow> httpResp option" where
  "pollAnswer E q k w = fst (doHTTP E q (sleep E 10 (afterPolls E q k w)))"

text \<open>What an answer means: go on, give up, or the LUN.\<close>

definition verdict :: "string \<Rightarrow> httpResp option \<Rightarrow> int option option" where
  "verdict volumename a = (case a of
     None \<Rightarrow> Some None
   | Some resp \<Rightarrow> if statusCode resp \<noteq> 200 then Some None
       else let lun = findLun volumename (params luninfoOf (respBody resp))
            in if lun \<noteq> 0 then Some (Some lun) else None)"

definition pollVerdict :: "'w env \<Rightarrow> string \<Rightarrow> string \<Rightarrow> int \<Rightarrow> string \<Rightarrow> 'w drv \<Rightarrow> nat \<Rightarrow> int option option" where
  "pollVerdict E ep tok tid v s k = verdict v (pollAnswer E (bindVolReq ep tok tid) k (world s))"

lemma pollLun_round:
  assumes "newRequestOk E ''GET'' (ep @ ''/mng/serTarget/'' @ itoa tid @ ''/bindVol'')"
  shows "pollLun E ep tok tid v s = Some (Done (verdict v (pollAnswer E (bindVolReq ep tok tid) 0 (world s))),
    s\<lparr>world := afterPolls E (bindVolReq ep tok tid) 1 (world s)\<rparr>)"
  using assms
  by (auto simp: pollLun_def httpGet200_def httpCall_def go_simps verdict_def pollAnswer_def bindVolReq_def Let_def
      split: option.splits)

lemma afterPolls_Suc: "afterPolls E q k (afterPolls E q 1 w) = afterPolls E q (Suc k) w"
  by (induction k) simp_all

lemma pollAnswer_Suc: "pollAnswer E q k (afterPolls E q 1 w) = pollAnswer E q (Suc k) w"
  unfolding pollAnswer_def by (simp only: afterPolls_Suc)

lemma iterG_pollLun:
  assumes ok: "newRequestOk E ''GET'' (ep @ ''/mng/serTarget/'' @ itoa tid @ ''/bindVol'')"
    and open_ended: "\<forall>j < k. verdict v (pollAnswer E (bindVolReq ep tok tid) j (world s)) = None"
  shows "iterG (pollLun E ep tok tid v) k s = Some (s\<lparr>world := afterPolls E (bindVolReq ep tok tid) k (world s)\<rparr>)"
  using open_ended
proof (induction k arbitrary: s)
  case (Suc k)
  let ?q = "bindVolReq ep tok tid"
  let ?t = "s\<lparr>world := afterPolls E ?q 1 (world s)\<rparr>"
  have "goesOn (pollLun E ep tok tid v) s = Some ?t"
    using Suc.prems [rule_format, of 0] by (simp add: goesOn_eq_Some pollLun_round [OF ok])
  moreover have "\<forall>j < k. verdict v (pollAnswer E ?q j (world ?t)) = None"
    using Suc.prems by (auto simp del: afterPolls.simps simp: pollAnswer_Suc [simplified])
  ultimately show ?case using Suc.IH [of ?t] afterPolls_Suc [of E ?q k "world s"] by simp
qed simp

text \<open>
  C14. The wait for the LUN ends exactly when some answer is conclusive. If the answers before
  round \<open>k\<close> have status 200 and do not show the LUN, and the answer of round \<open>k\<close> shows it, fails or has
  another status, the loop returns in that round with the LUN or with the sign to give up. If
  no answer ever is conclusive, it never returns: there is no time limit.
\<close>

theorem waitForLun:
  assumes ok: "newRequestOk E ''GET'' (ep @ ''/mng/serTarget/'' @ itoa tid @ ''/bindVol'')"
  shows "(\<forall>k x. (\<forall>j < k. pollVerdict E ep tok tid v s j = None) \<and> pollVerdict E ep tok tid v s k = Some x \<longrightarrow>
      loopG (pollLun E ep tok tid v) s = Some (Done x, s\<lparr>world := afterPolls E (bindVolReq ep tok tid) (Suc k) (world s)\<rparr>))
    \<and> ((\<forall>k. pollVerdict E ep tok tid v s k = None) \<longrightarrow> loopG (pollLun E ep tok tid v) s = None)"
proof (intro conjI allI impI)
  fix k x
  let ?q = "bindVolReq ep tok tid"
  let ?t = "s\<lparr>world := afterPolls E ?q k (world s)\<rparr>"
  assume k: "(\<forall>j < k. pollVerdict E ep tok tid v s j = None) \<and> pollVerdict E ep tok tid v s k = Some x"
  then have "iterG (pollLun E ep tok tid v) k s = Some ?t" by (intro iterG_pollLun [OF ok]) (simp add: pollVerdict_def)
  moreover have "verdict v (pollAnswer E ?q 0 (world ?t)) = Some x" using k by (simp add: pollVerdict_def pollAnswer_def)
  then have "pollLun E ep tok tid v ?t = Some (Done (Some x), s\<lparr>world := afterPolls E ?q (Suc k) (world s)\<rparr>)"
    by (simp add: pollLun_round [OF ok])
  ultimately show "loopG (pollLun E ep tok tid v) s = Some (Done x, s\<lparr>world := afterPolls E ?q (Suc k) (world s)\<rparr>)"
    by (rule loopG_returns) (rule leaves.simps)
next
  assume "\<forall>k. pollVerdict E ep tok tid v s k = None"
  then show "loopG (pollLun E ep tok tid v) s = None"
    by (intro loopG_diverges) (auto simp: pollVerdict_def intro: iterG_pollLun [OF ok])
qed

definition simLunBody :: string where
  \<open>simLunBody = ''{"params":[{"volumeId":7,"volumeName":"a1","operatingStatus":"TargetNewOK"}]}''\<close>

definition simPolled :: "simw drv" where
  "simPolled = initVars (simWorld\<lparr>simAnswers := [Some \<lparr>statusCode = 200, respToken = [], respBody = ''{}''\<rparr>,
     Some \<lparr>statusCode = 200, respToken = [], respBody = simLunBody\<rparr>]\<rparr>)"

theorem waitForLun_witness:
  "\<exists>s'. loopG (pollLun simHost ''http://h'' ''t'' 3 ''a1'') simPolled = Some (Done (Some 7), s')"
proof -
  have "newRequestOk simHost ''GET'' (''http://h'' @ ''/mng/serTarget/'' @ itoa 3 @ ''/bindVol'')"
    by (simp add: simHost_def)
  moreover have "pollVerdict simHost ''http://h'' ''t'' 3 ''a1'' simPolled 0 = None"
    "pollVerdict simHost ''http://h'' ''t'' 3 ''a1'' simPolled 1 = Some (Some 7)" by code_simp+
  ultimately show ?thesis
    using waitForLun [of simHost "''http://h''" 3 "''t''" "''a1''" simPolled] by (metis One_nat_def less_Suc0)
qed

section \<open>Bodies of requests\<close>

lemma unmarshal_render:
  assumes "plain v"
  shows "unmarshal (render v) = Some v"
proof -
  have "length (render v) \<le> 2 * length (render v) + 2" "numEnd []" by (simp_all add: numEnd_def)
  from read_render(1) [OF assms this(2), of "2 * length (render v) + 2"] this(1) show ?thesis
    by (simp add: unmarshal_def)
qed

text \<open>
  C38. The bodies that create a volume and a target on the server say what they should: for a name
  that is valid UTF-8 and needs no escape, the whole body, with nothing before or after, is one
  JSON document; that of the volume holds cluster, pool, name and size and asks for two copies,
  that of the target names the volume twice and holds the two clusters. (The name is pasted in
  without escapes.)
\<close>

theorem createJson_describes:
  assumes "escStr v = v" and "validUtf8 v"
  shows "unmarshal (createVolJson c p v z) = Some (JObj [(''clusterId'', JNum (itoa c)), (''poolId'', JNum (itoa p)),
      (''volumeName'', JStr v), (''blockThin'', JNum ''1''), (''capacityTotal'', JNum (itoa z)),
      (''redMode'', JStr ''duplication''), (''duplicationNum'', JNum ''2'')])
    \<and> unmarshal (createTargetJson v se c) = Some (JObj [(''serviceName'', JStr v), (''description'', JStr []),
      (''accessFlag'', JStr v), (''serClusterIdList'', JArr [JNum (itoa se)]), (''clusterId'', JNum (itoa c))])"
    (is "_ = Some ?vol \<and> _ = Some ?target")
proof
  have "list_all (\<lambda>k. escStr k = k \<and> validUtf8 k) [''clusterId'', ''poolId'', ''volumeName'', ''blockThin'',
      ''capacityTotal'', ''redMode'', ''duplicationNum'', ''duplication'', ''serviceName'', ''description'',
      ''accessFlag'', ''serClusterIdList'', []]" by code_simp
  note keys = this [simplified]
  have ints: "isInt ''1''" "isInt ''2''" by code_simp+
  have "createVolJson c p v z = render ?vol"
    by (simp add: createVolJson_def encStr_def keys assms(1))
  moreover have "plain ?vol" using assms(2) ints by (simp add: keys isInt_itoa)
  ultimately show "unmarshal (createVolJson c p v z) = Some ?vol" by (simp only: unmarshal_render)
  have "createTargetJson v se c = render ?target"
    by (simp add: createTargetJson_def encStr_def keys assms(1))
  moreover have "plain ?target" using assms(2) by (simp add: keys isInt_itoa)
  ultimately show "unmarshal (createTargetJson v se c) = Some ?target" by (simp only: unmarshal_render)
qed

theorem createJson_describes_witness:
  "unmarshal (createVolJson 1 2 ''a1'' 1073741824) = Some (JObj [(''clusterId'', JNum (itoa 1)), (''poolId'', JNum (itoa 2)),
      (''volumeName'', JStr ''a1''), (''blockThin'', JNum ''1''), (''capacityTotal'', JNum (itoa 1073741824)),
      (''redMode'', JStr ''duplication''), (''duplicationNum'', JNum ''2'')])"
proof -
  have "escStr ''a1'' = ''a1''" "validUtf8 ''a1''" by code_simp+
  from createJson_describes [OF this, of 1 2 1073741824 3] show ?thesis by (rule conjunct1)
qed

section \<open>A server that does not answer\<close>

text \<open>Functions that return normally from every state.\<close>

definition smooth :: "('w, 'a) drvM \<Rightarrow> bool" where
  "smooth m \<longleftrightarrow> (\<forall>s. \<exists>a s'. m s = Some (Done a, s'))"

named_theorems smooth_rules \<open>introduction rules for smooth\<close>

lemma smooth_bnd [smooth_rules]: "smooth m \<Longrightarrow> (\<And>a. smooth (f a)) \<Longrightarrow> smooth (bnd m f)"
  unfolding smooth_def
proof
  fix s
  assume "\<forall>s. \<exists>a s'. m s = Some (Done a, s')" and f: "\<And>a. \<forall>s. \<exists>b s'. f a s = Some (Done b, s')"
  then obtain a t where "m s = Some (Done a, t)" by blast
  with f [of a] show "\<exists>b s'. bnd m f s = Some (Done b, s')" by (simp add: bnd_apply)
qed

lemma smooth_io [smooth_rules]: "smooth (io f)"
  and smooth_ret [smooth_rules]: "smooth (ret a)"
  and smooth_conf [smooth_rules]: "smooth (conf k)"
  and smooth_gets [smooth_rules]: "smooth (gets g)"
  and smooth_modify [smooth_rules]: "smooth (modify h)"
  by (auto simp: smooth_def go_simps)

lemma smooth_if [smooth_rules]: "smooth a \<Longrightarrow> smooth b \<Longrightarrow> smooth (if c then a else b)"
  by simp

lemma smooth_option [smooth_rules]:
  "smooth a \<Longrightarrow> (\<And>x. smooth (b x)) \<Longrightarrow> smooth (case r of None \<Rightarrow> a | Some x \<Rightarrow> b x)"
  by (cases r) auto

lemma smooth_sum [smooth_rules]:
  "(\<And>x. smooth (a x)) \<Longrightarrow> (\<And>x. smooth (b x)) \<Longrightarrow> smooth (case r of Inl x \<Rightarrow> a x | Inr x \<Rightarrow> b x)"
  by (cases r) auto

lemma smooth_list [smooth_rules]:
  "smooth a \<Longrightarrow> (\<And>x xs. smooth (b x xs)) \<Longrightarrow> smooth (case r of [] \<Rightarrow> a | x # xs \<Rightarrow> b x xs)"
  by (cases r) auto

lemma smooth_prod [smooth_rules]: "(\<And>x y. smooth (f x y)) \<Longrightarrow> smooth (case p of (x, y) \<Rightarrow> f x y)"
  by (cases p) auto

lemma smooth_Let [smooth_rules]: "(\<And>x. smooth (f x)) \<Longrightarrow> smooth (Let t f)"
  by simp

lemma smooth_forEach [smooth_rules]: "(\<And>x. smooth (f x)) \<Longrightarrow> smooth (forEach xs f)"
  by (induction xs) (auto intro: smooth_rules)

lemma smooth_httpCall [smooth_rules]: "smooth (httpCall E m u h b)"
  unfolding httpCall_def by (intro smooth_rules)

lemma smooth_deleteVol [smooth_rules]: "smooth (deleteVol E c p v)"
  unfolding deleteVol_def getAndesVol_def endpoint_def httpGet200_def by (intro smooth_rules)

lemma smooth_deleteRemote [smooth_rules]: "smooth (deleteRemote E i ids)"
  unfolding deleteRemote_def resolveDisk_def dropMapper_def by (intro smooth_rules)

lemma smooth_saveExistingVol [smooth_rules]: "smooth (saveExistingVol E)"
  unfolding saveExistingVol_def by (intro smooth_rules)

lemma getClusterID_silent:
  assumes "\<forall>q w. fst (doHTTP E q w) = None" and "mstr (confinfo s) ''csimod'' \<notin> {[], ''local''}"
  shows "\<exists>w. getClusterID E s = Some (Done (-1, -1, -1), s\<lparr>world := w\<rparr>)"
  using assms by (auto simp: getClusterID_def endpoint_def httpCall_def go_simps intro: exI [of _ "world s"])

lemma smooth_bnd_io: "(\<And>w. smooth (g (fst (f w)))) \<Longrightarrow> smooth (bnd (io f) g)"
  by (simp add: smooth_def bnd_apply io_apply)

text \<open>
  C22. A management server that does not answer is not noticed when a volume is deleted: the call
  for a block volume succeeds, and the volume is gone from the table, although no request
  reached the server and the volume still exists there. (Every function of the client returns
  a nil error, and the results -1 and 0 are not tested.)
\<close>

theorem delete_without_server:
  assumes silent: "\<forall>q w. fst (doHTTP E q w) = None" and remote: "mstr (confinfo s) ''csimod'' \<notin> {[], ''local''}"
    and vol: "mget (flexBlockVolumes s) i = Some v" "VolAccessType v = blockAccess" and i: "i \<noteq> []"
    and cap: "RPC_CREATE_DELETE_VOLUME \<in> set (caps cs)" and rm: "\<forall>p w. fst (removeAll E p w) = None"
    and ok: "volsOK (flexBlockVolumes s)"
  shows "\<exists>s'. DeleteVolume E cs i s = Some (Done (), s') \<and> mget (flexBlockVolumes s') i = None"
proof -
  let ?rest = "bnd (io (removeAll E (getVolumePath i))) (\<lambda>err.
     bnd (case err of Some e \<Rightarrow> failIf (\<not> isNotExist e) e | None \<Rightarrow> ret ()) (\<lambda>_.
     bnd (modify (\<lambda>s. s\<lparr>flexBlockVolumes := mdel i (flexBlockVolumes s)\<rparr>)) (\<lambda>_. saveExistingVol E)))"
  obtain w where w: "getClusterID E s = Some (Done (-1, -1, -1), s\<lparr>world := w\<rparr>)"
    using getClusterID_silent [OF silent remote] by blast
  have "smooth ?rest" by (intro smooth_bnd_io) (simp add: rm smooth_rules)
  then have "smooth (bnd (deleteRemote E i (-1, -1, -1)) (\<lambda>_. ?rest))"
    by (rule smooth_bnd [OF smooth_deleteRemote])
  then obtain a s' where "bnd (deleteRemote E i (-1, -1, -1)) (\<lambda>_. ?rest) (s\<lparr>world := w\<rparr>) = Some (Done a, s')"
    unfolding smooth_def by blast
  with vol w have del: "deleteFlexblockVolume E i s = Some (Done (), s')"
    by (simp add: deleteFlexblockVolume_def bnd_apply [of "attempt _"] attempt_apply getVolumeByID_apply
        bnd_apply [of "getClusterID E"] mountAccess_def blockAccess_def)
  with i cap have "DeleteVolume E cs i s = Some (Done (), s')"
    by (simp add: DeleteVolume_def validate_eq bnd_apply attempt_apply ret_apply)
  with fb.delete_gone [OF del ok] show ?thesis by blast
qed

definition simRemote :: "simw drv" where
  "simRemote = simState\<lparr>confinfo := [(''csimod'', ''remote'')], flexBlockVolumes := [(''b1'',
     newVolume ''b1'' ''pvc-b1'' 1073741824 ''/dev/sdb'' blockAccess False)]\<rparr>"

definition mute :: "simw env" where
  "mute = simHost\<lparr>doHTTP := (\<lambda>q w. (None, w))\<rparr>"

theorem delete_without_server_witness:
  "\<exists>s'. DeleteVolume mute (svCs simServers) ''b1'' simRemote = Some (Done (), s')
     \<and> mget (flexBlockVolumes s') ''b1'' = None"
proof (rule delete_without_server)
  show "\<forall>q w. fst (doHTTP mute q w) = None" by (simp add: mute_def)
  show "\<forall>p w. fst (removeAll mute p w) = None" by (simp add: mute_def simHost_def)
  show "mget (flexBlockVolumes simRemote) ''b1'' =
      Some (newVolume ''b1'' ''pvc-b1'' 1073741824 ''/dev/sdb'' blockAccess False)"
    by (simp add: simRemote_def mget_def)
  show "mstr (confinfo simRemote) ''csimod'' \<notin> {[], ''local''}"
    "RPC_CREATE_DELETE_VOLUME \<in> set (caps (svCs simServers))"
    "volsOK (flexBlockVolumes simRemote)" by code_simp+
qed (simp_all add: newVolume_def)

end
