(* ===== verification/Match_Props.thy ===== *)
theory Match_Props
  imports Json_Roundtrip Config
begin

text \<open>
  Strings as sequences of code points, and the patterns of the driver on them: matching the bytes of a
  valid UTF-8 name atom by atom is matching its code points (lemma \<open>matchAtoms_name\<close>).
\<close>

section \<open>Well-formed sequences\<close>

lemma inRange_mono: "inRange lo hi c \<Longrightarrow> lo' \<le> lo \<Longrightarrow> hi \<le> hi' \<Longrightarrow> inRange lo' hi' c"
  by (simp add: inRange_def)

lemma utf8_follow:
  "inRange 0xA0 0xBF x \<Longrightarrow> inRange 0x80 0xBF x" "inRange 0x80 0x9F x \<Longrightarrow> inRange 0x80 0xBF x"
  "inRange 0x90 0xBF x \<Longrightarrow> inRange 0x80 0xBF x" "inRange 0x80 0x8F x \<Longrightarrow> inRange 0x80 0xBF x"
  by (auto elim!: inRange_mono)

lemma utf8_lead:
  "inRange 0xC2 0xDF x \<Longrightarrow> inRange 0x80 0xFF x" "inRange 0xE0 0xE0 x \<Longrightarrow> inRange 0x80 0xFF x"
  "inRange 0xE1 0xEC x \<Longrightarrow> inRange 0x80 0xFF x" "inRange 0xED 0xED x \<Longrightarrow> inRange 0x80 0xFF x"
  "inRange 0xEE 0xEF x \<Longrightarrow> inRange 0x80 0xFF x" "inRange 0xF0 0xF0 x \<Longrightarrow> inRange 0x80 0xFF x"
  "inRange 0xF1 0xF3 x \<Longrightarrow> inRange 0x80 0xFF x" "inRange 0xF4 0xF4 x \<Longrightarrow> inRange 0x80 0xFF x"
  by (auto elim!: inRange_mono)

lemma utf8Len_cont:
  assumes "utf8Len s \<noteq> 0"
  shows "utf8Len s \<le> length s \<and> inRange 0x80 0xFF (hd s) \<and> list_all (inRange 0x80 0xBF) (tl (take (utf8Len s) s))"
proof (cases s rule: utf8Len.cases)
  case (1 a b t)
  show ?thesis
  proof (cases t)
    case Nil
    with assms 1 show ?thesis by (auto split: if_splits dest: utf8_lead)
  next
    case (Cons c u)
    show ?thesis
    proof (cases u)
      case Nil
      with assms 1 Cons show ?thesis by (auto split: if_splits dest: utf8_lead utf8_follow)
    next
      case (Cons d v)
      with assms 1 \<open>t = c # u\<close> show ?thesis by (auto split: if_splits dest: utf8_lead utf8_follow)
    qed
  qed
qed (use assms in simp_all)

lemma validUtf8_ascii: "list_all (\<lambda>c. (of_char c :: nat) < 128) s \<Longrightarrow> validUtf8 s"
  by (induction s) (simp_all add: validUtf8.simps)

lemma utf8Len_line: "s \<noteq> [] \<Longrightarrow> utf8Len (s @ NL # r) = utf8Len s"
proof -
  have nl: "\<not> inRange 0x80 0xBF NL" "\<not> inRange 0xA0 0xBF NL" "\<not> inRange 0x80 0x9F NL" "\<not> inRange 0x90 0xBF NL"
    "\<not> inRange 0x80 0x8F NL" by code_simp+
  assume "s \<noteq> []"
  then consider (one) a where "s = [a]" | (more) a b t where "s = a # b # t"
    by (metis list.exhaust)
  then show "utf8Len (s @ NL # r) = utf8Len s"
  proof cases
    case one
    then show ?thesis by (cases r) (auto simp: nl split: list.splits)
  next
    case more
    then show ?thesis by (cases t; cases "tl t") (auto simp: nl split: list.splits)
  qed
qed

lemma hasPrefix_iff: "hasPrefix s p \<longleftrightarrow> (\<exists>t. s = p @ t)"
  unfolding hasPrefix_def by (metis append_eq_conv_conj append_take_drop_id)

lemma hasPrefix_before_line: "NL \<notin> set p \<Longrightarrow> hasPrefix (s @ NL # r) p \<longleftrightarrow> hasPrefix s p"
proof (induction s arbitrary: p)
  case Nil
  then show ?case by (cases p) (auto simp: hasPrefix_def)
next
  case (Cons c s)
  then show ?case by (cases p) (auto simp: hasPrefix_def)
qed

section \<open>Code points\<close>

lemma runeLen_pos: "0 < runeLen s"
  by (simp add: runeLen_def)

lemma runeLen_le: "s \<noteq> [] \<Longrightarrow> runeLen s \<le> length s"
  using utf8Len_cont [of s] by (cases "utf8Len s") (auto simp: runeLen_def Suc_le_eq)

lemma runeLen_ascii: "(of_char c :: nat) < 128 \<Longrightarrow> runeLen (c # s) = 1"
  using utf8Len_cont [of "c # s"] by (cases "utf8Len (c # s)") (auto simp: runeLen_def inRange_def)

lemma runeLen_line: "s \<noteq> [] \<Longrightarrow> runeLen (s @ NL # r) = runeLen s"
  by (simp add: runeLen_def utf8Len_line)

lemma runes_Nil [simp]: "runes [] = []"
  by (simp add: runes.simps)

lemma runes_step: "s \<noteq> [] \<Longrightarrow> runes s = take (runeLen s) s # runes (drop (runeLen s) s)"
  by (simp add: runes.simps [of s])

lemma concat_runes: "concat (runes s) = s"
  by (induction s rule: runes.induct) (subst runes.simps, simp)

section \<open>Matching names\<close>

text \<open>
  A code point of a pattern and one of a text: a dot takes any, U+FFFD also a byte that starts no
  well-formed sequence.
\<close>

definition runeMatches :: "string \<Rightarrow> string \<Rightarrow> bool" where
  "runeMatches p x \<longleftrightarrow> p = ''.'' \<or> p = x \<or> p = replacementChar \<and> badByte x"

text \<open>A name matches when its first code points match those of the pattern, one by one.\<close>

definition nameMatches :: "string \<Rightarrow> string \<Rightarrow> bool" where
  "nameMatches iqn nm \<longleftrightarrow> list_all2 runeMatches (runes iqn) (take (length (runes iqn)) (runes nm))"

text \<open>The part of the name that is matched.\<close>

definition matchedPart :: "string \<Rightarrow> string \<Rightarrow> string" where
  "matchedPart iqn nm = concat (take (length (runes iqn)) (runes nm))"

lemma matchAtoms_lits:
  "matchAtoms (map Lit p @ as) s =
    (if hasPrefix s p then map_option ((@) p) (matchAtoms as (drop (length p) s)) else None)"
proof (induction p arbitrary: s)
  case (Cons c p)
  then show ?case by (cases s) (auto simp: hasPrefix_def option.map_comp comp_def)
qed (simp add: hasPrefix_def option.map_id0 [unfolded id_def] map_option_idI)

lemma reAtoms_follow:
  "list_all (inRange 0x80 0xBF) p \<Longrightarrow> reAtoms (p @ s) = map Lit p @ reAtoms s"
proof (induction p)
  case (Cons c p)
  then have "c \<noteq> CHR ''.''" "c \<noteq> CHR 0xEF" by (auto simp: inRange_def)
  with Cons show ?case by (auto simp: replacementChar_def hasPrefix_def)
qed simp

lemma utf8Len_replacement: "utf8Len (replacementChar @ s) = 3"
proof -
  have "inRange 0xEE 0xEF (CHR 0xEF)" "inRange 0x80 0xBF (CHR 0xBF)" "inRange 0x80 0xBF (CHR 0xBD)"
    "\<not> inRange 0xC2 0xDF (CHR 0xEF)" by code_simp+
  then show ?thesis by (simp add: replacementChar_def)
qed

text \<open>The first code point of a string, as a prefix.\<close>

lemma first_rune:
  assumes "utf8Len p = length p" "p \<noteq> []"
  shows "hasPrefix s p \<longleftrightarrow> s \<noteq> [] \<and> take (runeLen s) s = p"
proof
  assume "hasPrefix s p"
  then obtain t where s: "s = p @ t" by (auto simp: hasPrefix_iff)
  have "utf8Len p \<noteq> 0" using assms by simp
  from utf8Len_take [OF this, of t] assms s show "s \<noteq> [] \<and> take (runeLen s) s = p"
    by (cases p) (auto simp: runeLen_def)
next
  assume "s \<noteq> [] \<and> take (runeLen s) s = p"
  then show "hasPrefix s p" using runeLen_le [of s] by (auto simp: hasPrefix_def)
qed

lemma nameMatches_step:
  "iqn \<noteq> [] \<Longrightarrow> nameMatches iqn nm \<longleftrightarrow> nm \<noteq> []
    \<and> runeMatches (take (runeLen iqn) iqn) (take (runeLen nm) nm)
    \<and> nameMatches (drop (runeLen iqn) iqn) (drop (runeLen nm) nm)"
  by (cases "nm = []") (simp_all add: nameMatches_def runes_step)

lemma matchedPart_step:
  "iqn \<noteq> [] \<Longrightarrow> nm \<noteq> [] \<Longrightarrow> matchedPart iqn nm =
    take (runeLen nm) nm @ matchedPart (drop (runeLen iqn) iqn) (drop (runeLen nm) nm)"
  by (simp add: matchedPart_def runes_step)

lemma badByte_line: "s \<noteq> [] \<Longrightarrow> badByte (s @ NL # r) \<longleftrightarrow> badByte s"
  by (simp add: badByte_def utf8Len_line)

lemma badByte_first: "s \<noteq> [] \<Longrightarrow> badByte (take (runeLen s) s) \<longleftrightarrow> badByte s"
proof (cases "utf8Len s = 0")
  case False
  then have "utf8Len (take (runeLen s) s) = utf8Len s"
    using utf8Len_take [OF False, of "[]"] by (simp add: runeLen_def)
  with False show ?thesis by (simp add: badByte_def)
next
  case True
  moreover assume "s \<noteq> []"
  ultimately show ?thesis by (cases s) (simp_all add: badByte_def runeLen_def)
qed

text \<open>One code point of a pattern against the next one of a text.\<close>

definition stepMatch :: "string \<Rightarrow> string \<Rightarrow> string option" where
  "stepMatch iqn s = (let x = take (runeLen s) s; p = take (runeLen iqn) iqn in
     if runeMatches p x \<and> (p = ''.'' \<longrightarrow> hd s \<noteq> NL)
     then map_option ((@) x) (matchAtoms (reAtoms (drop (runeLen iqn) iqn)) (drop (runeLen s) s)) else None)"

lemma match_ascii:
  assumes "(of_char c :: nat) < 128" and "s \<noteq> []"
  shows "matchAtoms (reAtoms (c # t)) s = stepMatch (c # t) s"
proof -
  obtain x u where s: "s = x # u" using assms(2) by (cases s) auto
  have c: "runeLen (c # t) = 1" "c \<noteq> CHR 0xEF" using assms(1) by (auto simp: runeLen_ascii)
  then have atoms: "reAtoms (c # t) = (if c = CHR ''.'' then AnyChar else Lit c) # reAtoms t"
    by (simp add: hasPrefix_def replacementChar_def)
  have rep: "[c] \<noteq> replacementChar" by (simp add: replacementChar_def)
  have one: "(@) [y] = (#) y" for y :: char by (rule ext) simp
  note step = atoms stepMatch_def Let_def c(1) take_Suc_Cons take_0 drop_Suc_Cons drop_0 One_nat_def
  show ?thesis
  proof (cases "c = CHR ''.''")
    case True
    then show ?thesis unfolding step by (simp add: s runeMatches_def)
  next
    case False
    show ?thesis
    proof (cases "x = c")
      case True
      then have "runeLen s = 1" using assms(1) s by (simp add: runeLen_ascii)
      with False True show ?thesis unfolding step by (simp add: s runeMatches_def one)
    next
      case other: False
      have "[c] \<noteq> take (runeLen s) s" using other s by (cases "runeLen s") auto
      with False other rep show ?thesis unfolding step by (simp add: s runeMatches_def)
    qed
  qed
qed

lemma match_replacement:
  assumes "s \<noteq> []"
  shows "matchAtoms (reAtoms (replacementChar @ t)) s = stepMatch (replacementChar @ t) s"
proof -
  have n: "runeLen (replacementChar @ t) = 3" by (simp add: runeLen_def utf8Len_replacement)
  have rep: "length replacementChar = 3" "replacementChar \<noteq> ''.''" "replacementChar \<noteq> []" "utf8Len replacementChar = 3"
    using utf8Len_replacement [of "[]"] by (simp_all add: replacementChar_def)
  have "reAtoms (replacementChar @ t) = BadRune # reAtoms t"
    by (simp add: replacementChar_def hasPrefix_def)
  moreover have "runeMatches replacementChar (take (runeLen s) s) \<longleftrightarrow> hasPrefix s replacementChar \<or> badByte s"
    using first_rune [of replacementChar s] badByte_first [OF assms] assms rep by (auto simp: runeMatches_def)
  ultimately show ?thesis using n rep by (simp add: stepMatch_def)
qed

lemma match_literal:
  assumes u: "utf8Len iqn \<noteq> 0" and no: "\<not> hasPrefix iqn replacementChar" and "s \<noteq> []"
  shows "matchAtoms (reAtoms iqn) s = stepMatch iqn s"
proof -
  define p q where "p = take (runeLen iqn) iqn" and "q = drop (runeLen iqn) iqn"
  have iqn: "iqn = p @ q" by (simp add: p_def q_def)
  have n: "runeLen iqn = utf8Len iqn" using u by (simp add: runeLen_def)
  have p: "utf8Len p = length p" "length p = runeLen iqn"
    using utf8Len_take [OF u, of "[]"] n by (simp_all add: p_def)
  then obtain c cs where c: "p = c # cs" using u n by (cases p) auto
  have cont: "inRange 0x80 0xFF c" "list_all (inRange 0x80 0xBF) cs"
    using utf8Len_cont [OF u] n c iqn p_def by (metis append_Cons list.sel(1), metis list.sel(3))
  then have "c \<noteq> CHR ''.''" by (auto simp: inRange_def)
  then have dot: "p \<noteq> ''.''" using c by simp
  have "reAtoms iqn = Lit c # reAtoms (cs @ q)"
    using no \<open>c \<noteq> CHR ''.''\<close> by (simp add: iqn c)
  then have atoms: "reAtoms iqn = map Lit p @ reAtoms q"
    by (simp add: reAtoms_follow [OF cont(2)] c)
  have "p \<noteq> replacementChar" using no iqn by (auto simp: hasPrefix_iff)
  then have pick: "runeMatches p x \<longleftrightarrow> p = x" for x using dot by (simp add: runeMatches_def)
  have first: "hasPrefix s p \<longleftrightarrow> take (runeLen s) s = p"
    using first_rune [OF p(1), of s] c \<open>s \<noteq> []\<close> by simp
  show ?thesis
  proof (cases "hasPrefix s p")
    case True
    with first have eq: "take (runeLen s) s = p" by simp
    then have "length p = runeLen s" using runeLen_le [OF \<open>s \<noteq> []\<close>] by (metis length_take min.absorb2)
    with True eq dot show ?thesis
      unfolding atoms matchAtoms_lits stepMatch_def p_def [symmetric] q_def [symmetric] by (simp add: pick Let_def)
  next
    case False
    with first show ?thesis
      unfolding atoms matchAtoms_lits stepMatch_def p_def [symmetric] q_def [symmetric] by (auto simp: pick Let_def)
  qed
qed

lemma match_step:
  assumes "validUtf8 iqn" and "iqn \<noteq> []" and "s \<noteq> []"
  shows "matchAtoms (reAtoms iqn) s = stepMatch iqn s" and "validUtf8 (drop (runeLen iqn) iqn)"
proof -
  obtain c t where iqn: "iqn = c # t" using assms(2) by (cases iqn) auto
  have "validUtf8 (drop (runeLen iqn) iqn) \<and> ((of_char c :: nat) < 128 \<or> utf8Len iqn \<noteq> 0)"
  proof (cases "(of_char c :: nat) < 128")
    case True
    then show ?thesis using assms(1) unfolding iqn validUtf8.simps [of "c # t"] by (simp add: runeLen_ascii)
  next
    case False
    then show ?thesis using assms(1) unfolding iqn validUtf8.simps [of "c # t"]
      by (auto simp: runeLen_def split: if_splits)
  qed
  then show "validUtf8 (drop (runeLen iqn) iqn)" and "matchAtoms (reAtoms iqn) s = stepMatch iqn s"
    using match_ascii [of c s t] match_replacement [of s] match_literal [of iqn s] assms(3) iqn
    by (blast, metis hasPrefix_iff)
qed

lemma matchAtoms_name:
  assumes "validUtf8 iqn" and "NL \<notin> set iqn" and "NL \<notin> set nm"
  shows "matchAtoms (reAtoms iqn) (nm @ NL # r) =
    (if nameMatches iqn nm then Some (matchedPart iqn nm) else None)"
  using assms
proof (induction iqn arbitrary: nm rule: runes.induct)
  case (1 iqn)
  show ?case
  proof (cases "iqn = []")
    case True
    then show ?thesis by (simp add: nameMatches_def matchedPart_def)
  next
    case False
    define p q where "p = take (runeLen iqn) iqn" and "q = drop (runeLen iqn) iqn"
    have valid: "validUtf8 q" using match_step(2) [OF "1.prems"(1) False, of "''x''"] by (simp add: q_def)
    have nl: "NL \<notin> set q" "p \<noteq> [NL]"
      using "1.prems"(2) unfolding p_def q_def by (auto dest: in_set_dropD) (metis in_set_takeD list.set_intros(1))
    note step = match_step(1) [OF "1.prems"(1) False, of "nm @ NL # r", simplified stepMatch_def Let_def, folded p_def q_def]
    show ?thesis
    proof (cases "nm = []")
      case True
      have "runeLen (NL # r) = 1" by (simp add: runeLen_ascii)
      moreover have "\<not> badByte [NL]" by (simp add: badByte_def)
      ultimately show ?thesis using step True nl(2) nameMatches_step [OF False, of nm] by (simp add: runeMatches_def)
    next
      case ne: False
      note le = runeLen_le [OF ne] and line = runeLen_line [OF ne, of r]
      have "hd nm \<noteq> NL" using ne "1.prems"(3) by (cases nm) auto
      moreover have "NL \<notin> set (drop (runeLen nm) nm)" using "1.prems"(3) by (auto dest: in_set_dropD)
      note "1.IH" [OF False valid [unfolded q_def] nl(1) [unfolded q_def] this, folded q_def]
      ultimately show ?thesis
        using step le line ne nameMatches_step [OF False, of nm, folded p_def q_def]
          matchedPart_step [OF False ne, folded q_def] by simp
    qed
  qed
qed

end
