(* ===== verification/Target_Props.thy ===== *)
theory Target_Props
  imports Match_Props Create_Props
begin

text \<open>
  How the local back end reads the listing of \<open>tgtadm --op show\<close>: the number for a new target, and
  the number of the target it deletes.
\<close>

section \<open>Listings\<close>

text \<open>
  A target as it is listed: its number, its name, and the lines of detail below. Numbers fit an
  integer, and neither name nor details hold the word that opens an entry.
\<close>

type_synonym target = "int \<times> string \<times> string"

definition keyword :: string where "keyword = ''Target ''"

fun showTarget :: "target \<Rightarrow> string" where
  "showTarget (n, nm, d) = keyword @ itoa n @ '': '' @ nm @ NL # d"

definition showTargets :: "target list \<Rightarrow> string" where
  "showTargets ts = concat (map showTarget ts)"

fun listed :: "target \<Rightarrow> bool" where
  "listed (n, nm, d) \<longleftrightarrow> 0 \<le> n \<and> n < 2 ^ 63 - 1 \<and> NL \<notin> set nm \<and> \<not> contains (nm @ NL # d) keyword
     \<and> (d = [] \<or> last d = NL)"

section \<open>Searching a listing\<close>

lemma lastIndexFrom_None: "lastIndexFrom i s sub = None \<longleftrightarrow> indexFrom i s sub = None"
proof (induction s arbitrary: i)
  case (Cons c s)
  show ?case using Cons.IH [of "Suc i"] by (cases "lastIndexFrom (Suc i) s sub") auto
qed simp

lemma indexFrom_None: "indexFrom i s sub = None \<longleftrightarrow> indexFrom j s sub = None"
  by (induction s arbitrary: i j) auto

lemma lastIndexFrom_append:
  "lastIndexFrom (i + length a) s sub = Some j \<Longrightarrow> lastIndexFrom i (a @ s) sub = Some j"
proof (induction a arbitrary: i)
  case (Cons c a)
  from Cons.IH [of "Suc i"] Cons.prems show ?case by simp
qed simp

lemma hasPrefix_hd: "hasPrefix (c # s) (d # p) \<Longrightarrow> c = d"
  by (simp add: hasPrefix_def)

lemma lastIndexFrom_without:
  "\<lbrakk>c \<notin> set x; \<And>i. lastIndexFrom i y (c # p) = None\<rbrakk> \<Longrightarrow> lastIndexFrom i (x @ y) (c # p) = None"
  by (induction x arbitrary: i) (auto dest: hasPrefix_hd)

lemma digits_no_T: "0 \<le> n \<Longrightarrow> CHR ''T'' \<notin> set (itoa n) \<and> itoa n = digits n"
proof -
  assume "0 \<le> n"
  then have "list_all isDigit (digits n)" using digits_ok by blast
  then have "CHR ''T'' \<notin> set (digits n)" by (auto simp: list_all_iff isDigit_def)
  with \<open>0 \<le> n\<close> show ?thesis by (simp add: itoa_def)
qed

lemma entry_head_no_T: "0 \<le> n \<Longrightarrow> CHR ''T'' \<notin> set (''arget '' @ itoa n @ '': '')"
  using digits_no_T [of n] by auto

lemma lastIndex_entry:
  assumes "listed (n, nm, d)"
  shows "lastIndex (a @ showTarget (n, nm, d)) keyword = Some (length a)"
proof -
  have "lastIndexFrom i (nm @ NL # d) (CHR ''T'' # ''arget '') = None" for i
    using assms by (simp add: lastIndexFrom_None contains_def index_def keyword_def indexFrom_None [of i _ _ 0])
  from lastIndexFrom_without [OF entry_head_no_T this] assms
  have "lastIndexFrom i ((''arget '' @ itoa n @ '': '') @ (nm @ NL # d)) keyword = None" for i
    by (simp add: keyword_def)
  then have "lastIndexFrom (length a) (showTarget (n, nm, d)) keyword = Some (length a)"
    by (simp add: keyword_def hasPrefix_def)
  with lastIndexFrom_append [of 0 a] show ?thesis by (simp add: lastIndex_def)
qed

lemma matchAtoms_number:
  assumes "0 \<le> n"
  shows "matchAtoms (reTarget @ as) (keyword @ itoa n @ CHR '':'' # s) =
    map_option (\<lambda>m. keyword @ itoa n @ CHR '':'' # m) (matchAtoms as s)"
proof -
  have d: "list_all isDigit (itoa n)" "itoa n \<noteq> []" using digits_ok [OF assms] assms by (auto simp: itoa_def)
  have "\<not> isDigit (CHR '':'')" by code_simp
  with d have "takeWhile isDigit (itoa n @ CHR '':'' # s) = itoa n" "dropWhile isDigit (itoa n @ CHR '':'' # s) = CHR '':'' # s"
    by (auto simp: list_all_iff takeWhile_append2 dropWhile_append2)
  with d(2) show ?thesis
    unfolding reTarget_def keyword_def append_assoc matchAtoms_lits
    by (simp add: hasPrefix_def Let_def option.map_comp comp_def)
qed

lemma findString_match: "matchAtoms as s = Some m \<Longrightarrow> findString as s = m"
  by (cases s) simp_all

lemma number_of_entry:
  assumes "0 \<le> n" "n < 2 ^ 63 - 1"
  shows "findString reTarget (keyword @ itoa n @ CHR '':'' # s) = keyword @ itoa n @ '':''"
    and "slice (keyword @ itoa n @ '':'') 7 (int (length (keyword @ itoa n @ '':'')) - 1) = Some (itoa n)"
    and "atoi (itoa n) = n"
proof -
  show "findString reTarget (keyword @ itoa n @ CHR '':'' # s) = keyword @ itoa n @ '':''"
    using matchAtoms_number [OF assms(1), of "[]" s] by (intro findString_match) simp
  show "slice (keyword @ itoa n @ '':'') 7 (int (length (keyword @ itoa n @ '':'')) - 1) = Some (itoa n)"
    by (simp add: slice_def keyword_def)
  have d: "list_all isDigit (digits n)" "digits n \<noteq> []" "digitsVal (digits n) = n" using digits_ok [OF assms(1)] by auto
  then obtain c cs where c: "digits n = c # cs" by (cases "digits n") auto
  with d(1) have "c \<noteq> CHR ''-''" "c \<noteq> CHR ''+''" by (auto simp: isDigit_def)
  with d assms c show "atoi (itoa n) = n" by (simp add: atoi_def itoa_def)
qed

lemma wrap64_small: "0 \<le> k \<Longrightarrow> k < 2 ^ 63 \<Longrightarrow> wrap64 k = k"
  unfolding wrap64_def by transfer (simp add: signed_take_bit_int_eq_self)

text \<open>
  C17. The number for a new target is free: when the targets are listed in ascending order, the
  number the driver takes as the last one in use is the highest, 0 without targets, and the
  next one, which \<open>createFlexblockVolume\<close> uses, belongs to no target.
\<close>

theorem lastTid_free:
  assumes "\<forall>t \<in> set ts. listed t" and "sorted (map fst ts)"
  shows "\<exists>n. lastTid (showTargets ts) s = Some (Done n, s) \<and> n = (if ts = [] then 0 else fst (last ts))
    \<and> (\<forall>t \<in> set ts. fst t \<le> n) \<and> (\<forall>t \<in> set ts. fst t \<noteq> wrap64 (n + 1))"
proof (cases ts rule: rev_cases)
  case Nil
  then show ?thesis by (simp add: showTargets_def lastTid_def lastIndex_def ret_apply)
next
  case (snoc us t)
  obtain n nm d where t: "t = (n, nm, d)" by (cases t)
  with assms(1) snoc have ok: "listed (n, nm, d)" by simp
  then have n: "0 \<le> n" "n < 2 ^ 63 - 1" by auto
  have "lastIndex (showTargets ts) ''Target '' = Some (length (showTargets us))"
    using lastIndex_entry [OF ok, of "showTargets us"] by (simp add: snoc t showTargets_def keyword_def)
  moreover have "drop (length (showTargets us)) (showTargets ts) = keyword @ itoa n @ CHR '':'' # CHR '' '' # nm @ NL # d"
    by (simp add: snoc t showTargets_def)
  ultimately have "lastTid (showTargets ts) s = Some (Done n, s)"
    using number_of_entry [OF n] by (simp add: lastTid_def sliceM_def Let_def ret_apply bnd_apply del: append_assoc)
  moreover have "\<forall>t \<in> set ts. fst t \<le> n" using assms(2) by (auto simp: snoc t sorted_append)
  moreover have "wrap64 (n + 1) = n + 1"
    using n by (intro wrap64_small) auto
  ultimately show ?thesis by (fastforce simp: snoc t)
qed

theorem lastTid_free_witness:
  "\<exists>n. lastTid (showTargets [(1, ''iqn.a'', []), (4, ''iqn.b'', ''    LUN: 0'' @ [NL])]) simState = Some (Done n, simState)
     \<and> n = 4"
proof -
  have "\<forall>t \<in> set [(1, ''iqn.a'', []), (4, ''iqn.b'', ''    LUN: 0'' @ [NL])]. listed t" by code_simp
  from lastTid_free [OF this, of simState] show ?thesis by auto
qed

section \<open>The target of a volume\<close>

text \<open>No entry starts inside the text \<open>x\<close> when \<open>y\<close> follows.\<close>

fun noStart :: "string \<Rightarrow> string \<Rightarrow> bool" where
  "noStart [] y = True"
| "noStart (c # x) y \<longleftrightarrow> \<not> hasPrefix (c # x @ y) keyword \<and> noStart x y"

lemma noStart_without: "CHR ''T'' \<notin> set x \<Longrightarrow> noStart z y \<Longrightarrow> noStart (x @ z) y"
  by (induction x) (auto simp: keyword_def dest: hasPrefix_hd)

lemma hasPrefix_line:
  assumes "hasPrefix (z @ y) keyword" and "z \<noteq> []" and "last z = NL"
  shows "hasPrefix z keyword"
proof (cases "length keyword \<le> length z")
  case True
  with assms(1) show ?thesis by (simp add: hasPrefix_def)
next
  case False
  with assms(1) have "z @ take (length keyword - length z) y = keyword" by (simp add: hasPrefix_def)
  then have "set z \<subseteq> set keyword" by (metis Un_upper1 set_append)
  with assms(2,3) last_in_set [of z] have "NL \<in> set keyword" by auto
  then show ?thesis by (simp add: keyword_def)
qed

lemma noStart_quiet: "indexFrom i z keyword = None \<Longrightarrow> z = [] \<or> last z = NL \<Longrightarrow> noStart z y"
proof (induction z arbitrary: i)
  case (Cons c z)
  then have "\<not> hasPrefix (c # z) keyword" "noStart z y" by (auto split: if_splits)
  with hasPrefix_line [of "c # z" y] Cons.prems(2) show ?case by auto
qed simp

lemma noStart_tail:
  assumes "listed (n, nm, d)"
  shows "noStart (tl (showTarget (n, nm, d))) y"
proof -
  have "noStart (nm @ NL # d) y"
    using assms by (intro noStart_quiet [of 0]) (auto simp: contains_def index_def)
  from noStart_without [OF entry_head_no_T this] assms show ?thesis by (simp add: keyword_def)
qed

lemma matchAtoms_keyword: "\<not> hasPrefix s keyword \<Longrightarrow> matchAtoms (reTarget @ as) s = None"
proof -
  have "\<not> hasPrefix s p \<Longrightarrow> matchAtoms (map Lit p @ as') s = None" for p as'
  proof (induction p arbitrary: s)
    case (Cons c p)
    then show ?case by (cases s) (auto simp: hasPrefix_def split: if_splits)
  qed (simp add: hasPrefix_def)
  from this [of keyword "[Digits, Lit (CHR '':'')] @ as"] show "\<not> hasPrefix s keyword \<Longrightarrow> matchAtoms (reTarget @ as) s = None"
    by (auto simp: reTarget_def keyword_def)
qed

lemma findString_noStart: "noStart x y \<Longrightarrow> findString (reTarget @ as) (x @ y) = findString (reTarget @ as) y"
proof (induction x)
  case (Cons c x)
  then have "matchAtoms (reTarget @ as) (c # x @ y) = None"
    by (intro matchAtoms_keyword) simp
  with Cons show ?case by simp
qed simp

lemma findString_listing:
  assumes "\<forall>t \<in> set ts. listed t" and "validUtf8 iqn" and "NL \<notin> set iqn"
    and "find (\<lambda>(n, nm, d). nameMatches iqn nm) ts = Some (n, nm, d)"
  shows "findString (reTarget @ Lit (CHR '' '') # reAtoms iqn) (showTargets ts) =
    keyword @ itoa n @ '': '' @ matchedPart iqn nm"
  using assms(1,4)
proof (induction ts)
  case (Cons t ts)
  obtain n' nm' d' where t: "t = (n', nm', d')" by (cases t)
  with Cons.prems(1) have ok: "listed (n', nm', d')" by simp
  let ?as = "Lit (CHR '' '') # reAtoms iqn"
  have "matchAtoms (reTarget @ ?as) (showTargets (t # ts)) =
      (if nameMatches iqn nm' then Some (keyword @ itoa n' @ '': '' @ matchedPart iqn nm') else None)"
    using ok assms(2,3) matchAtoms_number [of n' ?as "CHR '' '' # nm' @ NL # d' @ showTargets ts"]
    by (simp add: t showTargets_def matchAtoms_name)
  moreover have split: "showTargets (t # ts) = CHR ''T'' # tl (showTarget t) @ showTargets ts"
    by (simp add: t showTargets_def keyword_def)
  ultimately have "findString (reTarget @ ?as) (showTargets (t # ts)) =
      (if nameMatches iqn nm' then keyword @ itoa n' @ '': '' @ matchedPart iqn nm'
       else findString (reTarget @ ?as) (showTargets ts))"
    using findString_noStart [OF noStart_tail [OF ok]] by (simp add: t)
  with Cons show ?case by (auto simp: t split: if_splits)
qed simp

lemma indexFrom_longer: "indexFrom i s p = None \<Longrightarrow> indexFrom i s (p @ q) = None"
  by (induction s arbitrary: i) (auto simp: hasPrefix_iff split: if_splits)

lemma indexFrom_front: "indexFrom i (a @ b) p = None \<Longrightarrow> p \<noteq> [] \<Longrightarrow> indexFrom i a p = None"
proof (induction a arbitrary: i)
  case (Cons c a)
  moreover have "hasPrefix ((c # a) @ b) p" if "hasPrefix (c # a) p" using that unfolding hasPrefix_iff by (metis append_assoc)
  ultimately show ?case by (auto split: if_splits)
qed simp

lemma lastIndex_number:
  assumes "listed (n, nm, d)" and "nm = w @ x"
  shows "lastIndex (keyword @ itoa n @ '': '' @ w) (keyword @ itoa n @ '':'') = Some 0"
proof -
  have "indexFrom i (w @ x @ NL # d) keyword = None" for i
    using assms by (simp add: contains_def index_def indexFrom_None [of i _ _ 0])
  then have "indexFrom i w keyword = None" for i
    by (rule indexFrom_front) (simp add: keyword_def)
  then have "indexFrom i w (keyword @ itoa n @ '':'') = None" for i
    by (rule indexFrom_longer)
  then have "lastIndexFrom i w (CHR ''T'' # ''arget '' @ itoa n @ '':'') = None" for i
    by (simp add: lastIndexFrom_None keyword_def)
  from lastIndexFrom_without [OF entry_head_no_T this] assms
  have "lastIndexFrom i ((''arget '' @ itoa n @ '': '') @ w) (CHR ''T'' # ''arget '' @ itoa n @ '':'') = None" for i
    by simp
  moreover have "hasPrefix (keyword @ itoa n @ '': '' @ w) (keyword @ itoa n @ '':'')"
    by (simp add: hasPrefix_def)
  ultimately show ?thesis by (simp add: lastIndex_def keyword_def)
qed

lemma matched_prefix: "nm = matchedPart iqn nm @ concat (drop (length (runes iqn)) (runes nm))"
  by (simp add: matchedPart_def concat_runes flip: concat_append)

text \<open>
  C18. Which target a deletion hits, for a target name in valid UTF-8 without operators of regular
  expressions other than the dot: the first one of the listing whose name starts with the name of
  the volume's target, code point by code point, a dot taken for any. So it is the volume's own when
  no earlier name extends it; but with volumes \<open>a10\<close> and \<open>a1\<close>, in this order, the deletion of \<open>a1\<close>
  takes the target of \<open>a10\<close> (see the witness).
\<close>

theorem targetTid_first:
  assumes "\<forall>t \<in> set ts. listed t" and "validUtf8 iqn" and "NL \<notin> set iqn"
    and "\<not> list_ex (\<lambda>c. c \<in> set reMeta) iqn" and "find (\<lambda>(n, nm, d). nameMatches iqn nm) ts = Some (n, nm, d)"
  shows "targetTid E iqn (showTargets ts) s = Some (Done n, s)"
proof -
  let ?ME = "keyword @ itoa n @ '': '' @ matchedPart iqn nm"
  let ?ME1 = "keyword @ itoa n @ '':''"
  from assms(5) have "(n, nm, d) \<in> set ts" by (metis find_Some_iff nth_mem)
  with assms(1) have ok: "listed (n, nm, d)" by blast
  then have n: "0 \<le> n" "n < 2 ^ 63 - 1" by auto
  have "findString reTarget ?ME = ?ME1"
    using number_of_entry(1) [OF n, of "CHR '' '' # matchedPart iqn nm"] by simp
  moreover have "lastIndex ?ME ?ME1 = Some 0" by (rule lastIndex_number [OF ok matched_prefix])
  ultimately show ?thesis
    using number_of_entry(2,3) [OF n] findString_listing [OF assms(1,2,3,5)] assms(2,4)
    by (simp add: targetTid_def findTarget_def sliceM_def Let_def ret_apply bnd_apply del: append_assoc)
qed

theorem targetTid_first_witness:
  "targetTid simHost (localIqn ''a1'') (showTargets [(1, localIqn ''a10'', []), (2, localIqn ''a1'', [])]) simState =
     Some (Done 1, simState)"
proof (rule targetTid_first)
  show "\<forall>t \<in> set [(1, localIqn ''a10'', []), (2, localIqn ''a1'', [])]. listed t" by code_simp
  show "validUtf8 (localIqn ''a1'')" by (rule validUtf8_ascii) code_simp
  show "NL \<notin> set (localIqn ''a1'')" "\<not> list_ex (\<lambda>c. c \<in> set reMeta) (localIqn ''a1'')" by code_simp+
  show "find (\<lambda>(n, nm, d). nameMatches (localIqn ''a1'') nm) [(1 :: int, localIqn ''a10'', [] :: string), (2, localIqn ''a1'', [])] =
      Some (1, localIqn ''a10'', [])" by code_simp
qed

section \<open>A name that is cut inside a code point\<close>

lemma validUtf8_localIqn: "validUtf8 (localIqn i) \<longleftrightarrow> validUtf8 i"
proof -
  have "list_all (\<lambda>c. (of_char c :: nat) < 128) p \<Longrightarrow> validUtf8 (p @ i) \<longleftrightarrow> validUtf8 i" for p
    by (induction p) (simp_all add: validUtf8.simps [of "_ # _"])
  moreover have "list_all (\<lambda>c. (of_char c :: nat) < 128) ''iqn.2017-10-30.kx.flexcsi-''" by code_simp
  ultimately show ?thesis unfolding localIqn_def by blast
qed

lemma deleteLocal_invalid: "\<not> validUtf8 i \<Longrightarrow> deleteLocal E i s \<noteq> Some (Done (), s')"
  by (auto simp: deleteLocal_def targetTid_def findTarget_def validUtf8_localIqn Let_def go_simps
      split: if_splits option.splits outcome.splits)

lemma umount_confinfo: "frame confinfo (mustRun E c f)"
  by (rule frameI) (auto simp: mustRun_def go_simps split: option.splits prod.splits)

text \<open>
  C28. In local mode a volume whose identifier is not valid UTF-8 is never deleted: the deletion does
  not get past the search for its target, whose pattern does not compile, and both tables stay as
  they are. \<open>CreateVolume\<close> makes such volumes: it takes the name from its fifth byte on for the
  identifier, which may cut a code point (see the witness, with a name of valid UTF-8).
\<close>

theorem delete_split_identifier:
  assumes vol: "mget (flexBlockVolumes s) i = Some v" and bad: "\<not> validUtf8 i"
    and loc: "mstr (confinfo s) ''csimod'' \<in> {[], ''local''}"
    and run: "deleteFlexblockVolume E i s = Some (r, s')"
  shows "\<not> isDone r \<and> registry s' = registry s"
proof -
  have "\<not> isDone r"
  proof
    assume "isDone r"
    then obtain x where r: "r = Done x" by (cases r) auto
    let ?umount = "if VolAccessType v = mountAccess
        then bnd (mustRun E [''umount'', getVolumePath i] (\<lambda>errumount out.
               Status Internal (''failed deleteflexblockvol for umount target error '' @ errTextOpt None @ '': '' @ out)))
               (\<lambda>_. ret ())
        else ret ()"
    have umount: "frame confinfo ?umount" by (intro frame_rules umount_confinfo)
    from run obtain k where "bnd ?umount (\<lambda>_. bnd (getClusterID E) (\<lambda>ids.
        bnd (if fst ids = 0 then deleteLocal E i else deleteRemote E i ids) k)) s = Some (Done x, s')"
      using vol by (auto simp: r deleteFlexblockVolume_def bnd_apply [of "attempt (getVolumeByID i)"] attempt_apply
          getVolumeByID_apply Let_def)
    then obtain t where t: "?umount s = Some (Done (), t)"
      and rest: "bnd (getClusterID E) (\<lambda>ids. bnd (if fst ids = 0 then deleteLocal E i else deleteRemote E i ids) k) t
        = Some (Done x, s')"
      by (rule bnd_eq_DoneE) simp
    have "confinfo t = confinfo s" using umount t by (rule frameD)
    with loc have "getClusterID E t = Some (Done (0, 0, 0), t)" by (auto simp: getClusterID_def go_simps)
    with rest have "bnd (deleteLocal E i) k t = Some (Done x, s')" by (simp add: bnd_apply)
    then show False by (rule bnd_eq_DoneE) (use deleteLocal_invalid [OF bad, of E t] in auto)
  qed
  with delete_contract [OF run vol] show ?thesis by auto
qed

definition splitName :: string where
  "splitName = ''pvc'' @ [CHR 0xC3, CHR 0xA9] @ ''1''"

definition splitHost :: simw where
  "splitHost = simWorld\<lparr>simTargets := ''Target 1: '' @ localIqn [CHR 0xA9, CHR ''1'']\<rparr>"

definition crashed :: "(('e, 'a) outcome \<times> 's) option \<Rightarrow> bool" where
  "crashed x = (case x of Some (Crash _, _) \<Rightarrow> True | _ \<Rightarrow> False)"

lemma split_history:
  "case CreateVolume simHost (svCs simServers) (simReq splitName) simState of
     Some (Done v, s') \<Rightarrow> VolumeId v = [CHR 0xA9, CHR ''1''] \<and> mget (flexBlockVolumes s') (VolumeId v) \<noteq> None
       \<and> confinfo s' = []
       \<and> crashed (deleteFlexblockVolume simHost (VolumeId v) (s'\<lparr>world := splitHost\<rparr>))
   | _ \<Rightarrow> False"
  by code_simp

theorem delete_split_identifier_witness:
  "\<exists>v s' p s''. validUtf8 splitName
     \<and> CreateVolume simHost (svCs simServers) (simReq splitName) simState = Some (Done v, s')
     \<and> deleteFlexblockVolume simHost (VolumeId v) (s'\<lparr>world := splitHost\<rparr>) = Some (Crash p, s'')
     \<and> flexBlockVolumes s'' = flexBlockVolumes s' \<and> mget (flexBlockVolumes s'') (VolumeId v) \<noteq> None"
proof -
  have utf8: "validUtf8 splitName" "\<not> validUtf8 [CHR 0xA9, CHR ''1'']" by code_simp+
  have "returned (CreateVolume simHost (svCs simServers) (simReq splitName) simState)" by code_simp
  then obtain v s' where
    run: "CreateVolume simHost (svCs simServers) (simReq splitName) simState = Some (Done v, s')"
    by (rule returnedE)
  from split_history [unfolded run option.case prod.case outcome.case]
  have v: "VolumeId v = [CHR 0xA9, CHR ''1'']" "mget (flexBlockVolumes s') (VolumeId v) \<noteq> None"
      "confinfo s' = []"
    and "crashed (deleteFlexblockVolume simHost (VolumeId v) (s'\<lparr>world := splitHost\<rparr>))" by blast+
  then obtain p s'' where del: "deleteFlexblockVolume simHost (VolumeId v) (s'\<lparr>world := splitHost\<rparr>) = Some (Crash p, s'')"
    by (auto simp: crashed_def split: option.splits prod.splits outcome.splits)
  from v(2) obtain vol where "mget (flexBlockVolumes (s'\<lparr>world := splitHost\<rparr>)) (VolumeId v) = Some vol" by auto
  moreover have "mstr (confinfo (s'\<lparr>world := splitHost\<rparr>)) ''csimod'' = []" using v(3) by (simp add: mstr_def gm.get_empty)
  ultimately have "registry s'' = registry (s'\<lparr>world := splitHost\<rparr>)"
    using delete_split_identifier [OF _ _ _ del] utf8(2) v(1) by simp
  with run del utf8(1) v(2) show ?thesis by simp
qed

end
