(* ===== verification/Server_Props.thy ===== *)
theory Server_Props
  imports Sim_Host
begin

text \<open>Properties of the start of the process: the endpoint and the flags.\<close>

section \<open>The endpoint\<close>

lemma parseEndpoint_eqs:
  assumes "p \<noteq> []"
  shows "parseEndpoint (''unix://'' @ p) = Inr (''unix'', p)"
    and "parseEndpoint (''tcp://'' @ p) = Inr (''tcp'', p)"
    and "parseEndpoint (''UNIX://'' @ p) = Inr (''UNIX'', p)"
proof -
  have low: "map lowerChar ''unix://UNIXtcp'' = ''unix://unixtcp''" by code_simp
  show "parseEndpoint (''unix://'' @ p) = Inr (''unix'', p)" "parseEndpoint (''tcp://'' @ p) = Inr (''tcp'', p)"
    "parseEndpoint (''UNIX://'' @ p) = Inr (''UNIX'', p)"
    using assms low by (simp_all add: parseEndpoint_def hasPrefix_def splitN2_def index_def)
qed

text \<open>
  C39. Where the server listens. For \<open>unix://p\<close> it removes what is at the rooted path, where a
  file that is not there is no error and any other error ends the process, and listens on that
  path; for \<open>tcp://p\<close> it listens on \<open>p\<close> and removes nothing. The scheme is accepted in any letter
  case, but only the lower-case one is treated as a socket path: for \<open>UNIX://p\<close> nothing is removed
  and \<open>net.Listen\<close> is asked for the network "UNIX" at the relative path \<open>p\<close>. (It knows no such
  network, so the process ends there, as on the host of the witness.)
\<close>

theorem serve_listens:
  assumes "p \<noteq> []"
  shows "(case fst (remove E (CHR ''/'' # p) (world s)) of
       Some e \<Rightarrow> \<not> isNotExist e \<longrightarrow> (\<exists>msg w. serve E (''unix://'' @ p) s = Some (Crash msg, s\<lparr>world := w\<rparr>))
     | None \<Rightarrow> True)
    \<and> ((\<forall>e. fst (remove E (CHR ''/'' # p) (world s)) = Some e \<longrightarrow> isNotExist e) \<longrightarrow>
       (let (err, w) = listen E ''unix'' (CHR ''/'' # p) (snd (remove E (CHR ''/'' # p) (world s))) in
        serve E (''unix://'' @ p) s = Some (case err of None \<Rightarrow> Done (''unix'', CHR ''/'' # p)
           | Some e \<Rightarrow> Crash (''Failed to listen: '' @ errText e), s\<lparr>world := w\<rparr>)))
    \<and> (\<forall>scheme \<in> {''tcp'', ''UNIX''}. let (err, w) = listen E scheme p (world s) in
        serve E (scheme @ ''://'' @ p) s = Some (case err of None \<Rightarrow> Done (scheme, p)
           | Some e \<Rightarrow> Crash (''Failed to listen: '' @ errText e), s\<lparr>world := w\<rparr>))"
proof (intro conjI)
  show "case fst (remove E (CHR ''/'' # p) (world s)) of
       Some e \<Rightarrow> \<not> isNotExist e \<longrightarrow> (\<exists>msg w. serve E (''unix://'' @ p) s = Some (Crash msg, s\<lparr>world := w\<rparr>))
     | None \<Rightarrow> True"
    unfolding serve_def parseEndpoint_eqs(1) [OF assms]
    by (auto simp: go_simps Let_def split: option.splits)
  show "(\<forall>e. fst (remove E (CHR ''/'' # p) (world s)) = Some e \<longrightarrow> isNotExist e) \<longrightarrow>
       (let (err, w) = listen E ''unix'' (CHR ''/'' # p) (snd (remove E (CHR ''/'' # p) (world s))) in
        serve E (''unix://'' @ p) s = Some (case err of None \<Rightarrow> Done (''unix'', CHR ''/'' # p)
           | Some e \<Rightarrow> Crash (''Failed to listen: '' @ errText e), s\<lparr>world := w\<rparr>))"
    unfolding serve_def parseEndpoint_eqs(1) [OF assms]
    by (auto simp: go_simps Let_def split: option.splits prod.splits)
  have "serve E (''tcp://'' @ p) s = Some (case fst (listen E ''tcp'' p (world s)) of None \<Rightarrow> Done (''tcp'', p)
           | Some e \<Rightarrow> Crash (''Failed to listen: '' @ errText e), s\<lparr>world := snd (listen E ''tcp'' p (world s))\<rparr>)"
    unfolding serve_def parseEndpoint_eqs(2) [OF assms] by (auto simp: go_simps Let_def split: option.splits)
  moreover have "serve E (''UNIX://'' @ p) s = Some (case fst (listen E ''UNIX'' p (world s)) of None \<Rightarrow> Done (''UNIX'', p)
           | Some e \<Rightarrow> Crash (''Failed to listen: '' @ errText e), s\<lparr>world := snd (listen E ''UNIX'' p (world s))\<rparr>)"
    unfolding serve_def parseEndpoint_eqs(3) [OF assms] by (auto simp: go_simps Let_def split: option.splits)
  ultimately show "\<forall>scheme \<in> {''tcp'', ''UNIX''}. let (err, w) = listen E scheme p (world s) in
        serve E (scheme @ ''://'' @ p) s = Some (case err of None \<Rightarrow> Done (scheme, p)
           | Some e \<Rightarrow> Crash (''Failed to listen: '' @ errText e), s\<lparr>world := w\<rparr>)"
    by (simp add: split_beta Let_def)
qed

theorem serve_listens_witness:
  "\<exists>w. serve simHost ''unix://tmp/csi.sock'' simState = Some (Done (''unix'', ''/tmp/csi.sock''), simState\<lparr>world := w\<rparr>)
     \<and> serve simHost ''UNIX://tmp/csi.sock'' simState = Some (Crash ''Failed to listen: unknown network'', simState)"
proof -
  have "listen simHost ''unix'' addr w = (None, w)" "listen simHost ''tcp'' addr w = (None, w)"
    "listen simHost ''UNIX'' addr w = (Some (Plain ''unknown network''), w)" "fst (remove simHost addr w) = None" for addr w
    by (simp_all add: simHost_def)
  then show ?thesis using serve_listens [of "''tmp/csi.sock''" simHost simState] by auto
qed

section \<open>The flags\<close>

text \<open>
  The node id has no default that would do: the program started without the flag writes its
  process id and exits with code 1 before it serves. With a version request it returns first.
\<close>

lemma main_needs_node:
  assumes "flNodeID fl = []" "flDriverName fl \<noteq> []" "\<not> flShowVersion fl"
    and "\<And>w. fst (mkdirAll E ''/var/run'' w) = None" "\<And>w. fst (openTrunc E pidfile w) = None"
      "\<And>t w. fst (writeFile E pidfile t w) = None" "\<And>w. fst (closeFile E pidfile w) = None"
  shows "\<exists>s'. mainG E fl version s = Some (Done (ExitCode 1), s') \<and> registry s' = registry s"
  using assms by (auto simp: mainG_def handle_def NewFlexBlockDriver_def go_simps Let_def)

end
