(* ===== verification/GRPC_Server.thy ===== *)
theory GRPC_Server
  imports Sim_Host
begin

text \<open>
  The non-blocking server object of \<open>server.go\<close> as a state machine: \<open>Run\<close> calls \<open>Start\<close>, which adds one
  to the wait group and starts the goroutine \<open>serve\<close>, and then \<open>Wait\<close>. The two threads
  interleave freely; the goroutine prepares the listener, makes the gRPC server and accepts
  requests, and its \<open>server.Serve\<close> may return at any time after that (on \<open>Stop\<close>, or when accepting fails).
\<close>

section \<open>The object\<close>

record nonBlockingGRPCServer =
  wg :: nat
  grpcServer :: "servers option"

definition NewNonBlockingGRPCServer :: nonBlockingGRPCServer where
  "NewNonBlockingGRPCServer = \<lparr>wg = 0, grpcServer = None\<rparr>"

definition StartG :: "nonBlockingGRPCServer \<Rightarrow> nonBlockingGRPCServer" where
  "StartG s = s\<lparr>wg := wg s + 1\<rparr>"

text \<open>\<open>Wait\<close> returns when the counter of the wait group is 0.\<close>

definition WaitG :: "nonBlockingGRPCServer \<Rightarrow> bool" where
  "WaitG s \<longleftrightarrow> wg s = 0"

text \<open>
  \<open>Stop\<close> and \<open>ForceStop\<close> call a method of the gRPC server; while that is nil, both panic on its
  fields. The result is the method that is called; what that does is the package's matter (the
  goroutine's \<open>Serve\<close> returns some time after, see below).
\<close>

datatype stopCall = GracefulStop servers | Stop servers

definition StopG :: "nonBlockingGRPCServer \<Rightarrow> (goerr, stopCall) outcome" where
  "StopG s = (case grpcServer s of
     None \<Rightarrow> Crash ''invalid memory address or nil pointer dereference'' | Some g \<Rightarrow> Done (GracefulStop g))"

definition ForceStop :: "nonBlockingGRPCServer \<Rightarrow> (goerr, stopCall) outcome" where
  "ForceStop s = (case grpcServer s of
     None \<Rightarrow> Crash ''invalid memory address or nil pointer dereference'' | Some g \<Rightarrow> Done (Stop g))"

section \<open>The process\<close>

datatype goroutine = NotStarted | Preparing | Accepting | Ended

datatype mainThread = BeforeStart | InWait | AfterWait

record 'w process =
  pMain :: mainThread
  pGo :: goroutine
  pServer :: nonBlockingGRPCServer
  pDrv :: "'w drv"
  pDead :: bool

definition newProcess :: "'w drv \<Rightarrow> 'w process" where
  "newProcess s = \<lparr>pMain = BeforeStart, pGo = NotStarted, pServer = NewNonBlockingGRPCServer, pDrv = s, pDead = False\<rparr>"

text \<open>
  The steps of a living process: the main thread starts the goroutine and gets past \<open>Wait\<close> if that
  returns; the goroutine prepares the listener, which may end the process, accepts, answers
  requests, and may end.
\<close>

inductive pstep :: "'w env \<Rightarrow> flexBlock \<Rightarrow> 'w process \<Rightarrow> 'w process \<Rightarrow> bool" for E hp where
  start: "pMain p = BeforeStart \<Longrightarrow> \<not> pDead p \<Longrightarrow>
    pstep E hp p (p\<lparr>pMain := InWait, pGo := Preparing, pServer := StartG (pServer p)\<rparr>)"
| waited: "pMain p = InWait \<Longrightarrow> \<not> pDead p \<Longrightarrow> WaitG (pServer p) \<Longrightarrow> pstep E hp p (p\<lparr>pMain := AfterWait\<rparr>)"
| listening: "pGo p = Preparing \<Longrightarrow> \<not> pDead p \<Longrightarrow> serve E (fbEndpoint hp) (pDrv p) = Some (Done at, s) \<Longrightarrow>
    pstep E hp p (p\<lparr>pGo := Accepting, pServer := (pServer p)\<lparr>grpcServer := Some (newServers hp)\<rparr>, pDrv := s\<rparr>)"
| fatal: "pGo p = Preparing \<Longrightarrow> \<not> pDead p \<Longrightarrow> serve E (fbEndpoint hp) (pDrv p) = Some (Crash m, s) \<Longrightarrow>
    pstep E hp p (p\<lparr>pDead := True, pDrv := s\<rparr>)"
| answered: "pGo p = Accepting \<Longrightarrow> \<not> pDead p \<Longrightarrow>
    logGRPC meth (dispatch E (newServers hp) q) (pDrv p) = Some (r, s) \<Longrightarrow>
    pstep E hp p (p\<lparr>pDead := (\<exists>m. r = Crash m), pDrv := s\<rparr>)"
| served: "pGo p = Accepting \<Longrightarrow> \<not> pDead p \<Longrightarrow> pstep E hp p (p\<lparr>pGo := Ended\<rparr>)"

abbreviation psteps :: "'w env \<Rightarrow> flexBlock \<Rightarrow> 'w process \<Rightarrow> 'w process \<Rightarrow> bool" where
  "psteps E hp \<equiv> (pstep E hp)\<^sup>*\<^sup>*"

section \<open>Invariant\<close>

text \<open>
  The counter counts the goroutine from its start on, whether it runs or not, and the gRPC
  server is there exactly from the moment the listener is.
\<close>

definition procOK :: "'w process \<Rightarrow> bool" where
  "procOK p \<longleftrightarrow> pMain p \<noteq> AfterWait
     \<and> (pMain p = BeforeStart \<longleftrightarrow> pGo p = NotStarted)
     \<and> wg (pServer p) = (if pGo p = NotStarted then 0 else 1)
     \<and> (grpcServer (pServer p) \<noteq> None \<longleftrightarrow> pGo p \<in> {Accepting, Ended})"

lemma procOK_new: "procOK (newProcess s)"
  by (simp add: procOK_def newProcess_def NewNonBlockingGRPCServer_def)

lemma procOK_step:
  assumes "pstep E hp p p'" and "procOK p"
  shows "procOK p'"
  using assms(1)
proof (cases rule: pstep.cases)
  case waited
  with assms(2) show ?thesis by (auto simp: procOK_def WaitG_def split: if_splits)
qed (use assms(2) in \<open>auto simp: procOK_def StartG_def split: if_splits\<close>)

lemma procOK_steps: "psteps E hp p p' \<Longrightarrow> procOK p \<Longrightarrow> procOK p'"
  by (induction rule: rtranclp_induct) (auto intro: procOK_step)

text \<open>
  C15. The main thread never gets past \<open>Wait\<close>: in every interleaving, also after the server has
  stopped serving, the wait group counts the goroutine, because nothing calls \<open>Done\<close>. And \<open>Stop\<close>
  and \<open>ForceStop\<close> panic exactly as long as the goroutine has not set up the listener.
\<close>

theorem Wait_never_returns:
  assumes "psteps E hp (newProcess s) p"
  shows "pMain p \<noteq> AfterWait \<and> (pMain p = InWait \<longrightarrow> \<not> WaitG (pServer p))
    \<and> ((\<exists>m. StopG (pServer p) = Crash m) \<longleftrightarrow> pGo p \<in> {NotStarted, Preparing})
    \<and> ((\<exists>m. ForceStop (pServer p) = Crash m) \<longleftrightarrow> pGo p \<in> {NotStarted, Preparing})"
  using procOK_steps [OF assms procOK_new]
  by (cases "pGo p") (auto simp: procOK_def WaitG_def StopG_def ForceStop_def split: option.splits)

definition simServed :: "simw process" where
  "simServed = \<lparr>pMain = InWait, pGo = Ended, pServer = \<lparr>wg = 1, grpcServer = Some simServers\<rparr>,
     pDrv = simState\<lparr>world := simWorld\<rparr>, pDead = False\<rparr>"

definition simDriver :: flexBlock where
  "simDriver = \<lparr>fbName = ''flexblock.csi.k8s.io'', fbNodeID = ''node1'', fbVersion = ''dev'',
     fbEndpoint = ''tcp://h:1'', fbEphemeral = False, fbMaxVolumesPerNode = 0\<rparr>"

theorem Wait_never_returns_witness:
  "pGo simServed = Ended \<and> pMain simServed = InWait \<and> \<not> WaitG (pServer simServed)"
proof -
  let ?p0 = "newProcess simState"
  let ?p1 = "?p0\<lparr>pMain := InWait, pGo := Preparing, pServer := StartG (pServer ?p0)\<rparr>"
  let ?p2 = "?p1\<lparr>pGo := Accepting, pServer := (pServer ?p1)\<lparr>grpcServer := Some (newServers simDriver)\<rparr>, pDrv := simState\<rparr>"
  have "pstep simHost simDriver ?p0 ?p1" by (rule start) (simp_all add: newProcess_def)
  moreover have "serve simHost (fbEndpoint simDriver) simState = Some (Done (''tcp'', ''h:1''), simState)" by code_simp
  then have "pstep simHost simDriver ?p1 ?p2" by (intro listening) (simp_all add: newProcess_def)
  moreover have "pstep simHost simDriver ?p2 (?p2\<lparr>pGo := Ended\<rparr>)" by (rule served) (simp_all add: newProcess_def)
  ultimately have "psteps simHost simDriver ?p0 (?p2\<lparr>pGo := Ended\<rparr>)"
    by (meson rtranclp.rtrancl_into_rtrancl rtranclp.rtrancl_refl)
  moreover have "?p2\<lparr>pGo := Ended\<rparr> = simServed"
    by (simp add: simServed_def newProcess_def StartG_def NewNonBlockingGRPCServer_def simServers_def simDriver_def
        newServers_def simState_def initVars_def)
  ultimately have "psteps simHost simDriver (newProcess simState) simServed" by simp
  from Wait_never_returns [OF this] show ?thesis by (simp add: simServed_def)
qed

end
