(* ===== verification/Spec2Isabelle.thy ===== *)
theory Spec2Isabelle
  imports Registry_Spec Config_Props Mgmt_Props Target_Props Server_Props GRPC_Server
begin

text \<open>
  A verification of the CSI driver for FlexBlock storage (Go; \<open>src/cmd/flexblockplugin\<close> and
  \<open>src/pkg/flexblock\<close>).

  \<^bold>\<open>The program.\<close> \<open>main.go\<close> writes a PID file, makes the driver object and runs it. \<open>Run\<close> reads the
  table of volumes back from a JSON file, finds the snapshots in the data directory and starts a
  gRPC server (\<open>server.go\<close>) with three services: identity (\<open>identityserver.go\<close>), controller
  (\<open>controllerserver.go\<close>: create, delete, grow, snapshots) and node (\<open>nodeserver.go\<close>: publish,
  unpublish, grow). The services share two global maps, volumes and snapshots, and call the
  volume operations of \<open>flexblock.go\<close>, which work on the local host (xioadm, tgtadm, iscsiadm) or
  through the HTTP interface of a storage management server, as the configuration says. After
  every change the table of volumes is written to its file.

  \<^bold>\<open>How Go is modelled.\<close> A function that can fail, panic, block or touch the host is a value of the
  state monad of \<open>Prelude\<close>: from a state it gives \<open>None\<close> (it never returns) or an outcome \<open>Done\<close>,
  \<open>Fail\<close> (an error result) or \<open>Crash\<close> (a panic or \<open>glog.Fatal\<close>) with the next state. The state
  (\<open>Driver_State.drv\<close>) has the package variables and a \<open>world\<close>, the host. What the driver calls of
  the operating system, of third-party packages and over the network is a record of functions on
  the world (\<open>Driver_State.env\<close>), a parameter of every definition about which nothing is assumed
  except where a theorem says so: commands, files, mounts, HTTP, MD5, listening, the order in
  which \<open>range\<close> visits a map, and patterns with operators that the driver does not write itself.
  Between two requests the world changes arbitrarily. Byte strings are \<open>string\<close>, \<open>int64\<close> is
  \<open>int\<close> with \<open>wrap64\<close> where it can overflow, \<open>int32\<close> is \<open>32 word\<close>, a Go map an association list without
  duplicate keys; that the map of volumes is nil, as a volumes file with \<open>null\<close> makes it, is kept
  beside it, and a store into the nil map panics. The pattern with the name of a target is matched
  by code points, as package regexp does, and panics when the name is not valid UTF-8.

  \<^bold>\<open>Theories and sources.\<close>
  \<^item> \<open>Prelude\<close>, \<open>GoMap\<close>, \<open>GoStrings\<close>, \<open>Json\<close>: the monad with its rules (\<open>keeps\<close>, \<open>frame\<close>, \<open>ends\<close>, the loop that
    may run for ever), maps as a locale and its interpretation, the parts of strings, strconv,
    utf8, filepath, regexp, hex, url and encoding/json that the driver computes with.
  \<^item> \<open>Driver_State\<close>, \<open>Config\<close>, \<open>Mgmt_Client\<close>, \<open>Volumes\<close>, \<open>Lifecycle\<close>, \<open>Populate\<close>: \<open>flexblock.go\<close>, in its order
    (package variables, \<open>init\<close>, \<open>createTarget\<close> to \<open>getClusterID\<close>, look-ups and the volumes file,
    create, update and delete, filling a new volume). \<open>Backend\<close> states the contract of the three
    volume operations as a locale, which the handlers' proofs use, and interprets it.
  \<^item> \<open>Controller\<close>, \<open>Node\<close>, \<open>Identity\<close>: one definition per RPC handler of the three servers.
  \<^item> \<open>Server\<close>, \<open>GRPC_Server\<close>: \<open>server.go\<close>, \<open>NewFlexBlockDriver\<close>, \<open>Run\<close> and \<open>main.go\<close>; the server object
    with its wait group and the serving goroutine as a step relation.
  \<^item> \<open>Handlers\<close>: requests and their dispatch, and that every handler keeps the tables well-formed.
  \<^item> \<open>Sim_Host\<close>: a small concrete host, on which the hypotheses of the theorems are shown to hold.

  \<^bold>\<open>What is shown.\<close>
  \<^item> This theory: in every state a serving driver can reach the tables are well-formed (C1), and
    every request is a step of an abstract registry (\<open>Registry_Spec\<close>) that the request allows and
    commits when it succeeds; over sequences of requests it follows that they do not interfere.
  \<^item> \<open>Create_Props\<close>, \<open>Controller_Props\<close>, \<open>Snapshot_Props\<close>, \<open>Node_Props\<close>: what each handler promises on
    success, what it leaves alone on failure, idempotence, paging of snapshots and the requests on
    which it panics, the life of ephemeral volumes; and where the code breaks its promises.
  \<^item> \<open>Volumes_Props\<close> with \<open>Json_Roundtrip\<close>: the volumes file is read back as written, look-ups of names
    that do not start with \<open>ephemeral-\<close> do not depend on the order of the map, paths stay in the data directory.
  \<^item> \<open>Config_Props\<close>, \<open>Mgmt_Props\<close>, \<open>Target_Props\<close> (with \<open>Match_Props\<close>: code points and patterns),
    \<open>Server_Props\<close>, \<open>GRPC_Server\<close>: the configuration files, the wait for a LUN, bodies of requests, a
    server that does not answer, target numbers in listings of tgtadm and the target a deletion
    hits, the endpoint, the wait group.

  \<^bold>\<open>Loops and fuel.\<close> The wait for the LUN is a \<open>partial_function\<close>; \<open>Mgmt_Props.waitForLun\<close> says exactly
  when it returns. The JSON reader has fuel twice the length of the text and 2, and
  \<open>Json_Roundtrip.readValue_fuel\<close> shows that more fuel never changes its result. All other loops
  are structural or have a measure.

  \<^bold>\<open>Not modelled.\<close> Logging; vendored packages and the generated code of the CSI protocol; parsing of
  the command line; the statements of \<open>CreateSnapshot\<close> after its unconditional return; two
  handlers that run at the same time (the maps have no lock, so that is a data race, and the
  model answers one request after the other); what \<open>GracefulStop\<close> and \<open>Stop\<close> of a gRPC server do
  once they are called, in particular that the first blocks until the running calls have ended.
\<close>

section \<open>The running driver\<close>

text \<open>
  What \<open>Run\<close> finds in the volumes file is acceptable: there is no readable file, or its content
  decodes to a well-formed table.
\<close>

definition savedOK :: "'w env \<Rightarrow> 'w \<Rightarrow> bool" where
  "savedOK E w = (case fst (readFile E csijsonfile (snd (lstat E csijsonfile w))) of
     Inl e \<Rightarrow> True | Inr text \<Rightarrow> volsOK (decodeVolumes [] text))"

text \<open>
  The states of a serving process. It starts with empty tables and \<open>Run\<close>; then requests are
  answered one after the other, in any order, and between two of them the host may change in
  any way. A handler that panics takes the process down, so its state is not reached.
\<close>

inductive reachable :: "'w env \<Rightarrow> flexBlock \<Rightarrow> 'w drv \<Rightarrow> bool" for E hp where
  start: "flexBlockVolumes s0 = [] \<Longrightarrow> flexBlockVolumeSnapshots s0 = [] \<Longrightarrow> savedOK E (world s0) \<Longrightarrow>
    Run E hp s0 = Some (Done at, s) \<Longrightarrow> reachable E hp s"
| rpc: "reachable E hp s \<Longrightarrow> logGRPC m (dispatch E (newServers hp) q) s = Some (r, s') \<Longrightarrow>
    (\<forall>p. r \<noteq> Crash p) \<Longrightarrow> reachable E hp s'"
| host: "reachable E hp s \<Longrightarrow> reachable E hp (s\<lparr>world := w\<rparr>)"

lemma snapsOK_empty: "snapsOK []"
  by (simp add: snapsOK_def mwf_def)

lemma snapsOK_found: "snapsOK m \<Longrightarrow> snapsOK (addSnapshotFile m file)"
  by (auto simp: addSnapshotFile_def snapsOK_iff gm.wf_put gm.get_put split: prod.splits if_splits)

lemma snapsOK_foldl: "snapsOK m \<Longrightarrow> snapsOK (foldl addSnapshotFile m files)"
  by (induction files arbitrary: m) (auto intro: snapsOK_found)

lemma regOK_serve: "keeps regOK (serve E ep)"
  unfolding serve_def by (intro regOK_frame frame_rules)

lemma discoverExistingVol_OK:
  assumes "discoverExistingVol E s = Some (r, s')" and "flexBlockVolumes s = []" and "savedOK E (world s)"
  shows "volsOK (flexBlockVolumes s') \<and> flexBlockVolumeSnapshots s' = flexBlockVolumeSnapshots s"
  using assms by (auto simp: discoverExistingVol_def go_simps savedOK_def volsOK_empty
    split: if_splits sum.splits)

lemma discoverExistingSnapshots_OK:
  assumes "discoverExistingSnapshots E s = Some (r, s')" and "snapsOK (flexBlockVolumeSnapshots s)"
  shows "snapsOK (flexBlockVolumeSnapshots s') \<and> flexBlockVolumes s' = flexBlockVolumes s"
  using assms by (auto simp: discoverExistingSnapshots_def go_simps intro: snapsOK_foldl)

lemma regOK_Run:
  assumes "Run E hp s = Some (Done at, s')" and "flexBlockVolumes s = []"
    and "flexBlockVolumeSnapshots s = []" and "savedOK E (world s)"
  shows "regOK s'"
proof -
  let ?rest = "bnd (serve E (fbEndpoint hp)) (\<lambda>at. ret (newServers hp, at))"
  from assms(1) [unfolded Run_def] obtain a t where t: "discoverExistingVol E s = Some (Done a, t)"
    and "bnd (discoverExistingSnapshots E) (\<lambda>_. ?rest) t = Some (Done at, s')"
    by (rule bnd_eq_DoneE)
  from this(2) obtain b u where u: "discoverExistingSnapshots E t = Some (Done b, u)"
    and rest: "?rest u = Some (Done at, s')"
    by (rule bnd_eq_DoneE)
  from discoverExistingVol_OK [OF t assms(2,4)] assms(3)
  have "volsOK (flexBlockVolumes t)" "snapsOK (flexBlockVolumeSnapshots t)"
    by (simp_all add: snapsOK_empty)
  with discoverExistingSnapshots_OK [OF u] have "regOK u" by (simp add: regOK_def)
  have "keeps regOK ?rest"
    by (intro keeps_bnd regOK_serve keeps_rules)
  from keepsD [OF this rest \<open>regOK u\<close>] show ?thesis .
qed

lemma regOK_logGRPC: "keeps regOK m \<Longrightarrow> keeps regOK (logGRPC meth m)"
  unfolding logGRPC_def by (intro keeps_seq keeps_rules)

lemma reachable_invariant: "reachable E hp s \<Longrightarrow> regOK s"
proof (induction rule: reachable.induct)
  case (start s0 at s)
  then show ?case using regOK_Run [of E hp s0 at s] by simp
next
  case (rpc s m q r s')
  from keepsD [OF regOK_logGRPC [OF regOK_dispatch] rpc(2)] rpc(4) show ?case by simp
qed (simp add: regOK_def)

text \<open>
  C1. In every state a serving driver can reach, over all requests, all their outcomes and all
  changes of the host, both tables are well-formed: keys are unique, a volume is stored under
  its own identifier, that identifier is its name without the first four bytes, its size is
  below the limit (an ephemeral one has exactly the limit), a file system is mounted under the
  data directory, and every snapshot is one that was found on disk.
\<close>

theorem reachable_regOK:
  assumes "reachable E hp s"
  shows "volsOK (flexBlockVolumes s) \<and> snapsOK (flexBlockVolumeSnapshots s)"
  using reachable_invariant [OF assms] by (simp add: regOK_def)

definition simHp :: flexBlock where
  "simHp = \<lparr>fbName = ''flexblock.csi.k8s.io'', fbNodeID = ''node1'', fbVersion = ''dev'',
     fbEndpoint = ''unix://tmp/csi.sock'', fbEphemeral = False, fbMaxVolumesPerNode = 0\<rparr>"

lemma simRun_returned: "returned (Run simHost simHp simState)"
  by code_simp

lemma simRun_reachable: "reachable simHost simHp (after (Run simHost simHp simState))"
proof -
  have "savedOK simHost (world simState)" by code_simp
  moreover from simRun_returned obtain at s where run: "Run simHost simHp simState = Some (Done at, s)"
    by (rule returnedE)
  moreover have "flexBlockVolumes simState = []" "flexBlockVolumeSnapshots simState = []"
    by (simp_all add: simState_def initVars_def)
  ultimately have "reachable simHost simHp s" by (intro start)
  with run show ?thesis by simp
qed

definition simCreated :: "simw drv" where
  "simCreated = after (logGRPC ''CreateVolume'' (dispatch simHost (newServers simHp)
     (ReqCreateVolume (simReq ''pvc-a1''))) (after (Run simHost simHp simState)))"

lemma simCreated_volumes: "map fst (flexBlockVolumes simCreated) = [''a1'']"
  by code_simp

lemma simCreate_run: "returned (logGRPC ''CreateVolume'' (dispatch simHost (newServers simHp)
     (ReqCreateVolume (simReq ''pvc-a1''))) (after (Run simHost simHp simState)))"
  by code_simp

lemma simCreated_reachable: "reachable simHost simHp simCreated"
proof -
  from simCreate_run obtain a s where run: "logGRPC ''CreateVolume'' (dispatch simHost (newServers simHp)
     (ReqCreateVolume (simReq ''pvc-a1''))) (after (Run simHost simHp simState)) = Some (Done a, s)"
    by (rule returnedE)
  from rpc [OF simRun_reachable run] have "reachable simHost simHp s" by simp
  with run show ?thesis unfolding simCreated_def by (simp only: after_Some)
qed

theorem reachable_regOK_witness:
  "map fst (flexBlockVolumes simCreated) = [''a1'']
   \<and> volsOK (flexBlockVolumes simCreated) \<and> snapsOK (flexBlockVolumeSnapshots simCreated)"
  using reachable_regOK [OF simCreated_reachable] simCreated_volumes by simp

section \<open>The abstract registry\<close>

lemma logGRPC_run:
  "logGRPC meth m s = Some (r, s') \<Longrightarrow> m s = Some (r, s')"
  by (auto simp: logGRPC_def go_simps split: if_splits option.splits outcome.splits sum.splits)

text \<open>
  C2. The driver implements the abstract registry: from every reachable state, whatever request
  is served and however it ends, the change of the tables is a step of the abstract machine
  that the request allows, and when the request succeeds the abstract state has what the
  request asked for.
\<close>

theorem registry_refinement:
  assumes "reachable E hp s" and "logGRPC m (dispatch E (newServers hp) q) s = Some (r, s')"
  shows "astep q (abstract s) (abstract s') \<and> (isDone r \<longrightarrow> committed q (abstract s'))"
  using simulated_dispatch [unfolded simulated_def, rule_format, OF reachable_invariant [OF assms(1)]
      logGRPC_run [OF assms(2)]] .

theorem registry_refinement_witness:
  "\<exists>a s'. logGRPC ''CreateVolume'' (dispatch simHost (newServers simHp) (ReqCreateVolume (simReq ''pvc-a1'')))
       (after (Run simHost simHp simState)) = Some (Done a, s')
     \<and> astep (ReqCreateVolume (simReq ''pvc-a1'')) (abstract (after (Run simHost simHp simState))) (abstract s')
     \<and> committed (ReqCreateVolume (simReq ''pvc-a1'')) (abstract s')"
proof -
  from simCreate_run obtain a s' where run: "logGRPC ''CreateVolume'' (dispatch simHost (newServers simHp)
     (ReqCreateVolume (simReq ''pvc-a1''))) (after (Run simHost simHp simState)) = Some (Done a, s')"
    by (rule returnedE)
  from registry_refinement [OF simRun_reachable run] run show ?thesis by auto
qed

section \<open>Runs\<close>

text \<open>The requests that are served, in order, on the way from one state to another; the host may change in between.\<close>

inductive served :: "'w env \<Rightarrow> flexBlock \<Rightarrow> 'w drv \<Rightarrow> request list \<Rightarrow> 'w drv \<Rightarrow> bool" for E hp s where
  nothing: "served E hp s [] s"
| change: "served E hp s qs t \<Longrightarrow> served E hp s qs (t\<lparr>world := w\<rparr>)"
| request: "served E hp s qs t \<Longrightarrow> logGRPC m (dispatch E (newServers hp) q) t = Some (r, u) \<Longrightarrow>
    (\<forall>p. r \<noteq> Crash p) \<Longrightarrow> served E hp s (qs @ [q]) u"

lemma served_reachable: "served E hp s qs t \<Longrightarrow> reachable E hp s \<Longrightarrow> reachable E hp t"
  by (induction rule: served.induct) (auto intro: rpc host)

lemma served_step:
  assumes "reachable E hp t" and "logGRPC m (dispatch E (newServers hp) q) t = Some (r, u)"
  shows "astep q (abstract t) (abstract u)"
  using simulated_dispatch [unfolded simulated_def, rule_format, OF reachable_invariant [OF assms(1)]
      logGRPC_run [OF assms(2)]] by (rule conjunct1)

lemma served_isolated:
  assumes "served E hp s qs t" and "reachable E hp s" and "\<forall>q \<in> set qs. j \<notin> subject q"
  shows "fst (abstract t) j = fst (abstract s) j"
  using assms
proof (induction rule: served.induct)
  case (request qs t m q r u)
  have "astep q (abstract t) (abstract u)"
    by (rule served_step [OF served_reachable [OF request(1,5)] request(2)])
  with request show ?case using astep_isolated [of q "abstract t" "abstract u" j] by simp
qed simp_all

lemma served_grows:
  assumes "served E hp s qs t" and "reachable E hp s" and "\<forall>q \<in> set qs. j \<notin> replaces q"
    and "fst (abstract s) j = Some v"
  shows "\<exists>c \<ge> avSize v. fst (abstract t) j = Some (v\<lparr>avSize := c\<rparr>)"
  using assms
proof (induction rule: served.induct)
  case nothing
  then show ?case by (intro exI [of _ "avSize v"]) simp
next
  case (request qs t m q r u)
  have step: "astep q (abstract t) (abstract u)"
    by (rule served_step [OF served_reachable [OF request(1,5)] request(2)])
  from request obtain c where c: "avSize v \<le> c" "fst (abstract t) j = Some (v\<lparr>avSize := c\<rparr>)" by auto
  from astep_grows [OF step _ c(2)] request(6) obtain d where
    "c \<le> d" "fst (abstract u) j = Some (v\<lparr>avSize := d\<rparr>)" by auto
  with c(1) show ?case by (intro exI [of _ d]) simp
qed simp

lemma served_snapshots:
  assumes "served E hp s qs t" and "reachable E hp s"
  shows "snd (abstract t) \<subseteq> snd (abstract s)"
  using assms
proof (induction rule: served.induct)
  case (request qs t m q r u)
  have "astep q (abstract t) (abstract u)"
    by (rule served_step [OF served_reachable [OF request(1,5)] request(2)])
  from astep_snapshots [OF this] request show ?case by blast
qed simp_all

text \<open>
  C3. Requests do not interfere. Over any sequence of requests, successful or not, a volume that
  none of them names keeps its name, size, access type and kind (or its absence); a volume that
  the requests at most expand stays and never shrinks; and no request brings a snapshot.
\<close>

theorem request_isolation:
  assumes "reachable E hp s" and "served E hp s qs t"
  shows "((\<forall>q \<in> set qs. j \<notin> subject q) \<longrightarrow> fst (abstract t) j = fst (abstract s) j)
    \<and> ((\<forall>q \<in> set qs. j \<notin> replaces q) \<and> fst (abstract s) j = Some v \<longrightarrow>
        (\<exists>c \<ge> avSize v. fst (abstract t) j = Some (v\<lparr>avSize := c\<rparr>)))
    \<and> snd (abstract t) \<subseteq> snd (abstract s)"
  using served_isolated [OF assms(2,1)] served_grows [OF assms(2,1)] served_snapshots [OF assms(2,1)] by blast

definition simVol :: absVolume where
  "simVol = \<lparr>avName = ''pvc-a1'', avSize = 1073741824, avAccess = mountAccess, avEphemeral = False\<rparr>"

abbreviation simGrow :: request where
  "simGrow \<equiv> ReqControllerExpandVolume ''a1'' (Some \<lparr>RequiredBytes = 2147483648, LimitBytes = 0\<rparr>)"

theorem request_isolation_witness:
  "\<exists>t. served simHost simHp simCreated [simGrow] t \<and> fst (abstract simCreated) ''a1'' = Some simVol
     \<and> (\<exists>c \<ge> 1073741824. fst (abstract t) ''a1'' = Some (simVol\<lparr>avSize := c\<rparr>))"
proof -
  have "returned (logGRPC ''Expand'' (dispatch simHost (newServers simHp) simGrow) simCreated)" by code_simp
  then obtain a t where expand: "logGRPC ''Expand'' (dispatch simHost (newServers simHp) simGrow) simCreated = Some (Done a, t)"
    by (rule returnedE)
  have "served simHost simHp simCreated ([] @ [simGrow]) t"
    by (rule served.request [OF served.nothing expand]) simp
  then have run: "served simHost simHp simCreated [simGrow] t" by simp
  have "map_option absVol (mget (flexBlockVolumes simCreated) ''a1'') = Some simVol" by code_simp
  then have "fst (abstract simCreated) ''a1'' = Some simVol" by (simp add: absReg_def)
  with request_isolation [OF simCreated_reachable run, of "''a1''" simVol] run show ?thesis by (auto simp: simVol_def)
qed

end
